(* ===== verification/Prelude.thy ===== *)
theory Prelude
  imports Main
begin

text \<open>
  Shared vocabulary of the development.

  A script of the repository is TypeScript: it throws, it mutates objects and it
  talks to a node.  Pure fallible code is a value of \<open>'a result\<close>; effectful
  code is a value of \<open>('w, 'a) eff\<close>, a function from the world to a result
  and the world afterwards.  An exception keeps every mutation made before it, as in
  JavaScript, so the world is returned on the error branch too.

  The second half gives the two tools the component theories share: the
  rewriting rules of the combinators (collection \<open>eff_simps\<close>) and the
  compositional reasoning about what an effect keeps of the world (locale
  \<open>world_order\<close>, collection \<open>keeps_intros\<close>).
\<close>

named_theorems eff_simps "computation rules of the effect combinators"
named_theorems keeps_intros "compositional rules for what an effect keeps"

section \<open>Errors and results\<close>

datatype jserror = Error string | TypeError string | ChainError string

type_synonym 'a result = "jserror + 'a"

definition bindR :: "'e + 'a \<Rightarrow> ('a \<Rightarrow> 'e + 'b) \<Rightarrow> 'e + 'b" where
  "bindR r f = (case r of Inl e \<Rightarrow> Inl e | Inr a \<Rightarrow> f a)"

definition throwIf :: "bool \<Rightarrow> string \<Rightarrow> unit result" where
  "throwIf c msg = (if c then Inl (Error msg) else Inr ())"

fun mapR :: "('a \<Rightarrow> 'e + 'b) \<Rightarrow> 'a list \<Rightarrow> 'e + 'b list" where
  "mapR f [] = Inr []"
| "mapR f (x # xs) = bindR (f x) (\<lambda>y. bindR (mapR f xs) (\<lambda>ys. Inr (y # ys)))"

text \<open>A loop over a list that threads a state through fallible steps.\<close>

fun foldR :: "('a \<Rightarrow> 's \<Rightarrow> 'e + 's) \<Rightarrow> 'a list \<Rightarrow> 's \<Rightarrow> 'e + 's" where
  "foldR f [] s = Inr s"
| "foldR f (x # xs) s = bindR (f x s) (foldR f xs)"

definition isOk :: "'e + 'a \<Rightarrow> bool" where
  "isOk r = (case r of Inl _ \<Rightarrow> False | Inr _ \<Rightarrow> True)"

section \<open>Effects\<close>

type_synonym ('w, 'a) eff = "'w \<Rightarrow> 'a result \<times> 'w"

definition returnE :: "'a \<Rightarrow> ('w, 'a) eff" where
  "returnE a = (\<lambda>w. (Inr a, w))"

definition throwE :: "jserror \<Rightarrow> ('w, 'a) eff" where
  "throwE e = (\<lambda>w. (Inl e, w))"

definition bindE :: "('w, 'a) eff \<Rightarrow> ('a \<Rightarrow> ('w, 'b) eff) \<Rightarrow> ('w, 'b) eff" where
  "bindE m f = (\<lambda>w. case m w of (Inl e, w') \<Rightarrow> (Inl e, w') | (Inr a, w') \<Rightarrow> f a w')"

definition thenE :: "('w, 'a) eff \<Rightarrow> ('w, 'b) eff \<Rightarrow> ('w, 'b) eff" where
  "thenE m k = bindE m (\<lambda>_. k)"

definition readE :: "('w \<Rightarrow> 'a) \<Rightarrow> ('w, 'a) eff" where
  "readE f = (\<lambda>w. (Inr (f w), w))"

definition modifyE :: "('w \<Rightarrow> 'w) \<Rightarrow> ('w, unit) eff" where
  "modifyE f = (\<lambda>w. (Inr (), f w))"

definition liftR :: "'a result \<Rightarrow> ('w, 'a) eff" where
  "liftR r = (\<lambda>w. (r, w))"

definition whenE :: "bool \<Rightarrow> ('w, unit) eff \<Rightarrow> ('w, unit) eff" where
  "whenE c m = (if c then m else returnE ())"

definition tryCatch :: "('w, 'a) eff \<Rightarrow> (jserror \<Rightarrow> ('w, 'a) eff) \<Rightarrow> ('w, 'a) eff" where
  "tryCatch m h = (\<lambda>w. case m w of (Inl e, w') \<Rightarrow> h e w' | (Inr a, w') \<Rightarrow> (Inr a, w'))"

fun forE :: "'x list \<Rightarrow> ('x \<Rightarrow> ('w, unit) eff) \<Rightarrow> ('w, unit) eff" where
  "forE [] f = returnE ()"
| "forE (x # xs) f = thenE (f x) (forE xs f)"

fun mapE :: "('x \<Rightarrow> ('w, 'a) eff) \<Rightarrow> 'x list \<Rightarrow> ('w, 'a list) eff" where
  "mapE f [] = returnE []"
| "mapE f (x # xs) = bindE (f x) (\<lambda>y. bindE (mapE f xs) (\<lambda>ys. returnE (y # ys)))"

definition seqE :: "('w, unit) eff list \<Rightarrow> ('w, unit) eff" where
  "seqE ms = forE ms (\<lambda>m. m)"

section \<open>Rewriting rules\<close>

lemma bindR_simps [simp]:
  "bindR (Inl e) f = Inl e"
  "bindR (Inr a) f = f a"
  by (simp_all add: bindR_def)

lemma bindR_Inr_iff: "bindR r f = Inr b \<longleftrightarrow> (\<exists>a. r = Inr a \<and> f a = Inr b)"
  by (cases r) simp_all

lemma throwIf_simps [simp]:
  "throwIf True msg = Inl (Error msg)"
  "throwIf False msg = Inr ()"
  by (simp_all add: throwIf_def)

lemma isOk_simps [simp]: "isOk (Inl e) = False" "isOk (Inr a) = True"
  by (simp_all add: isOk_def)

lemma foldR_append: "foldR f (xs @ ys) s = bindR (foldR f xs s) (foldR f ys)"
proof (induction xs arbitrary: s)
  case (Cons x xs)
  show ?case by (cases "f x s") (simp_all add: Cons)
qed simp

lemma foldR_keeps:
  assumes "\<And>x s s'. x \<in> set xs \<Longrightarrow> P s \<Longrightarrow> f x s = Inr s' \<Longrightarrow> P s'"
  shows "P s \<Longrightarrow> foldR f xs s = Inr s' \<Longrightarrow> P s'"
  using assms
proof (induction xs arbitrary: s)
  case (Cons x xs)
  from Cons.prems(2) obtain t where "f x s = Inr t" and "foldR f xs t = Inr s'"
    by (auto simp: bindR_Inr_iff)
  with Cons show ?case by (metis list.set_intros(1,2))
qed simp

lemma mapR_total: "(\<And>x. x \<in> set xs \<Longrightarrow> f x = Inr (g x)) \<Longrightarrow> mapR f xs = Inr (map g xs)"
  by (induction xs) simp_all

lemma eff_apply [eff_simps]:
  "returnE a w = (Inr a, w)"
  "throwE e w = (Inl e, w)"
  "readE g w = (Inr (g w), w)"
  "modifyE h w = (Inr (), h w)"
  "liftR r w = (r, w)"
  by (simp_all add: returnE_def throwE_def readE_def modifyE_def liftR_def)

lemma bindE_apply: "bindE m f w = (case m w of (Inl e, w') \<Rightarrow> (Inl e, w') | (Inr a, w') \<Rightarrow> f a w')"
  by (simp add: bindE_def)

lemma bindE_Inl: "m w = (Inl e, w') \<Longrightarrow> bindE m f w = (Inl e, w')"
  by (simp add: bindE_def)

lemma bindE_Inr: "m w = (Inr a, w') \<Longrightarrow> bindE m f w = f a w'"
  by (simp add: bindE_def)

lemma thenE_Inl: "m w = (Inl e, w') \<Longrightarrow> thenE m k w = (Inl e, w')"
  by (simp add: thenE_def bindE_def)

lemma thenE_Inr: "m w = (Inr a, w') \<Longrightarrow> thenE m k w = k w'"
  by (simp add: thenE_def bindE_def)

lemma bindE_returnE [simp]: "bindE (returnE a) f = f a"
  by (simp add: bindE_def returnE_def)

lemma bindE_throwE [simp]: "bindE (throwE e) f = throwE e"
  by (simp add: bindE_def throwE_def)

lemma bindE_assoc: "bindE (bindE m f) g = bindE m (\<lambda>a. bindE (f a) g)"
  by (auto simp: bindE_def fun_eq_iff split: prod.splits sum.splits)

lemma thenE_returnE [simp]: "thenE (returnE a) k = k"
  by (simp add: thenE_def)

lemma thenE_throwE [simp]: "thenE (throwE e) k = throwE e"
  by (simp add: thenE_def)

lemma thenE_assoc: "thenE (thenE m k) l = thenE m (thenE k l)"
  by (simp add: thenE_def bindE_assoc)

lemma bindE_readE [eff_simps]: "bindE (readE g) f w = f (g w) w"
  by (simp add: bindE_def readE_def)

lemma thenE_modifyE [eff_simps]: "thenE (modifyE h) k w = k (h w)"
  by (simp add: thenE_def bindE_def modifyE_def)

lemma bindE_liftR [eff_simps]:
  "bindE (liftR (Inl e)) f w = (Inl e, w)"
  "bindE (liftR (Inr a)) f w = f a w"
  by (simp_all add: bindE_def liftR_def)

lemma whenE_simps [simp]: "whenE True m = m" "whenE False m = returnE ()"
  by (simp_all add: whenE_def)

lemma bindE_success:
  assumes "bindE m f w = (Inr b, w'')"
  obtains a w' where "m w = (Inr a, w')" and "f a w' = (Inr b, w'')"
  using assms by (auto simp: bindE_def split: prod.splits sum.splits)

lemma bindE_Inr_iff: "bindE m f w = (Inr b, w'') \<longleftrightarrow> (\<exists>a w'. m w = (Inr a, w') \<and> f a w' = (Inr b, w''))"
  by (auto simp: bindE_def split: prod.splits sum.splits)

lemma thenE_Inr_iff: "thenE m k w = (Inr b, w'') \<longleftrightarrow> (\<exists>a w'. m w = (Inr a, w') \<and> k w' = (Inr b, w''))"
  by (simp add: thenE_def bindE_Inr_iff)

lemma thenE_success:
  assumes "thenE m k w = (Inr b, w'')"
  obtains a w' where "m w = (Inr a, w')" and "k w' = (Inr b, w'')"
  using assms by (auto simp: thenE_def elim: bindE_success)

lemma forE_append: "forE (xs @ ys) f = thenE (forE xs f) (forE ys f)"
  by (induction xs) (simp_all add: thenE_assoc)

lemma seqE_Cons [simp]: "seqE (m # ms) = thenE m (seqE ms)"
  by (simp add: seqE_def)

lemma seqE_Nil [simp]: "seqE [] = returnE ()"
  by (simp add: seqE_def)

section \<open>What an effect keeps of the world\<close>

text \<open>\<open>keeps R m\<close>: whatever \<open>m\<close> does, successfully or not, it moves the world
  along \<open>R\<close>.  For a reflexive and transitive \<open>R\<close> the combinators compose.\<close>

definition keeps :: "('w \<Rightarrow> 'w \<Rightarrow> bool) \<Rightarrow> ('w, 'a) eff \<Rightarrow> bool" where
  "keeps R m \<longleftrightarrow> (\<forall>w. R w (snd (m w)))"

lemma keepsD: "keeps R m \<Longrightarrow> m w = (r, w') \<Longrightarrow> R w w'"
  by (metis keeps_def snd_conv)

lemma keepsI: "(\<And>w r w'. m w = (r, w') \<Longrightarrow> R w w') \<Longrightarrow> keeps R m"
  by (metis keeps_def prod.collapse)

locale world_order =
  fixes R :: "'w \<Rightarrow> 'w \<Rightarrow> bool"
  assumes R_refl: "R w w"
    and R_trans: "R u v \<Longrightarrow> R v w \<Longrightarrow> R u w"
begin

lemma keeps_return [keeps_intros]: "keeps R (returnE a)"
  by (simp add: keeps_def returnE_def R_refl)

lemma keeps_throw [keeps_intros]: "keeps R (throwE e)"
  by (simp add: keeps_def throwE_def R_refl)

lemma keeps_read [keeps_intros]: "keeps R (readE f)"
  by (simp add: keeps_def readE_def R_refl)

lemma keeps_liftR [keeps_intros]: "keeps R (liftR r)"
  by (simp add: keeps_def liftR_def R_refl)

lemma keeps_modify: "(\<And>w. R w (h w)) \<Longrightarrow> keeps R (modifyE h)"
  by (simp add: keeps_def modifyE_def)

lemma keeps_bind [keeps_intros]:
  assumes "keeps R m" and "\<And>a. keeps R (f a)"
  shows "keeps R (bindE m f)"
proof (rule keepsI)
  fix w r w' assume run: "bindE m f w = (r, w')"
  obtain r1 w1 where m: "m w = (r1, w1)" by fastforce
  hence "R w w1" using assms(1) by (rule keepsD [rotated])
  moreover have "R w1 w'"
  proof (cases r1)
    case (Inl e)
    thus ?thesis using run m by (simp add: bindE_Inl R_refl)
  next
    case (Inr a)
    thus ?thesis using run m assms(2) by (simp add: bindE_Inr) (rule keepsD)
  qed
  ultimately show "R w w'" by (rule R_trans)
qed

lemma keeps_then [keeps_intros]: "keeps R m \<Longrightarrow> keeps R k \<Longrightarrow> keeps R (thenE m k)"
  by (simp add: thenE_def keeps_bind)

lemma keeps_when [keeps_intros]: "(c \<Longrightarrow> keeps R m) \<Longrightarrow> keeps R (whenE c m)"
  by (cases c) (simp_all add: keeps_return)

lemma keeps_if [keeps_intros]:
  "(c \<Longrightarrow> keeps R m) \<Longrightarrow> (\<not> c \<Longrightarrow> keeps R n) \<Longrightarrow> keeps R (if c then m else n)"
  by simp

lemma keeps_for [keeps_intros]: "(\<And>x. keeps R (f x)) \<Longrightarrow> keeps R (forE xs f)"
  by (induction xs) (auto intro: keeps_return keeps_then)

lemma keeps_mapE [keeps_intros]: "(\<And>x. keeps R (f x)) \<Longrightarrow> keeps R (mapE f xs)"
  by (induction xs) (auto intro!: keeps_return keeps_bind)

lemma keeps_tryCatch [keeps_intros]:
  assumes "keeps R m" and "\<And>e. keeps R (h e)"
  shows "keeps R (tryCatch m h)"
proof (rule keepsI)
  fix w r w' assume run: "tryCatch m h w = (r, w')"
  obtain r1 w1 where m: "m w = (r1, w1)" by fastforce
  hence 1: "R w w1" using assms(1) by (rule keepsD [rotated])
  show "R w w'"
  proof (cases r1)
    case (Inl e)
    hence "h e w1 = (r, w')" using run m by (simp add: tryCatch_def)
    with assms(2) have "R w1 w'" by (rule keepsD)
    with 1 show ?thesis by (rule R_trans)
  next
    case (Inr a)
    thus ?thesis using run m 1 by (simp add: tryCatch_def)
  qed
qed

end

section \<open>Refinement of loops\<close>

text \<open>A loop whose body, on states that satisfy an invariant, keeps the invariant and acts on an
  abstraction of the state as \<open>spec\<close> does: then so does the whole loop.\<close>

locale loop_refinement =
  fixes step :: "'a \<Rightarrow> 's \<Rightarrow> 'e + 's"
    and pre :: "'a \<Rightarrow> bool"
    and inv :: "'s \<Rightarrow> bool"
    and abs :: "'s \<Rightarrow> 'm"
    and spec :: "'a \<Rightarrow> 'm \<Rightarrow> 'm"
  assumes step_refines: "pre x \<Longrightarrow> inv s \<Longrightarrow> step x s = Inr s' \<Longrightarrow> inv s' \<and> abs s' = spec x (abs s)"
begin

lemma loop_refines:
  assumes "\<And>x. x \<in> set xs \<Longrightarrow> pre x" and "inv s" and "foldR step xs s = Inr s'"
  shows "inv s' \<and> abs s' = fold spec xs (abs s)"
  using assms
proof (induction xs arbitrary: s)
  case (Cons x xs)
  from Cons.prems(3) obtain t where "step x s = Inr t" "foldR step xs t = Inr s'"
    by (auto simp: bindR_Inr_iff)
  with Cons.prems step_refines [of x s t] Cons.IH [of t] show ?case by simp
qed simp

end

end
