(* ===== verification/JsValues.thy ===== *)
theory JsValues
  imports Prelude "HOL-Library.Word" "HOL-Library.Log_Nat"
begin

text \<open>
  The part of the JavaScript language and of its standard library that the scripts
  use: values, integer-valued Numbers with the 53 bit significand of a double,
  the string methods, \<open>parseInt\<close>, and the character classes of the regular
  expressions.  Strings are lists of characters; the scripts only handle
  single-byte text (addresses, environment variables, Solidity sources).
\<close>

section \<open>Values\<close>

type_synonym byte = "8 word"

datatype val =
    VStr string
  | VNum int
  | VBool bool
  | VBytes "byte list"
  | VList "val list"
  | VObj "(string \<times> val) list"
  | VNull
  | VUndef

definition optVal :: "string option \<Rightarrow> val" where
  "optVal s = (case s of None \<Rightarrow> VUndef | Some x \<Rightarrow> VStr x)"

text \<open>A property is truthy when it is defined and not the empty string.\<close>

definition truthyStr :: "string option \<Rightarrow> bool" where
  "truthyStr s = (case s of None \<Rightarrow> False | Some x \<Rightarrow> x \<noteq> [])"

definition toStr :: "string option \<Rightarrow> string" where
  "toStr s = (case s of None \<Rightarrow> ''undefined'' | Some x \<Rightarrow> x)"

text \<open>Objects keep their keys in insertion order; writing an existing key keeps its place.\<close>

fun objSet :: "string \<Rightarrow> 'v \<Rightarrow> (string \<times> 'v) list \<Rightarrow> (string \<times> 'v) list" where
  "objSet k v [] = [(k, v)]"
| "objSet k v ((k', v') # o') = (if k = k' then (k, v) # o' else (k', v') # objSet k v o')"

definition getProp :: "val \<Rightarrow> string \<Rightarrow> val result" where
  "getProp x k = (case x of
       VObj o' \<Rightarrow> Inr (case map_of o' k of None \<Rightarrow> VUndef | Some v \<Rightarrow> v)
     | VNull \<Rightarrow> Inl (TypeError (''Cannot read properties of null (reading '' @ k @ '')''))
     | VUndef \<Rightarrow> Inl (TypeError (''Cannot read properties of undefined (reading '' @ k @ '')''))
     | _ \<Rightarrow> Inr VUndef)"

lemma map_of_objSet [simp]: "map_of (objSet k v o') = (map_of o')(k \<mapsto> v)"
  by (induction k v o' rule: objSet.induct) auto

section \<open>Numbers\<close>

datatype jsnum = NaN | Num int

text \<open>Rounding of an integer to the nearest double, ties to even.\<close>

definition dbl_nat :: "nat \<Rightarrow> nat" where
  "dbl_nat n = (if n < 2 ^ 53 then n else
     let k = floorlog 2 n - 53; u = 2 ^ k; q = n div u; r = n mod u in
     (if 2 * r < u \<or> (2 * r = u \<and> even q) then q * u else (q + 1) * u))"

definition dbl :: "int \<Rightarrow> int" where
  "dbl n = sgn n * int (dbl_nat (nat \<bar>n\<bar>))"

fun addN :: "jsnum \<Rightarrow> jsnum \<Rightarrow> jsnum" where
  "addN (Num a) (Num b) = Num (dbl (a + b))"
| "addN _ _ = NaN"

fun mulN :: "jsnum \<Rightarrow> jsnum \<Rightarrow> jsnum" where
  "mulN (Num a) (Num b) = Num (dbl (a * b))"
| "mulN _ _ = NaN"

text \<open>The remainder of JavaScript has the sign of the dividend.\<close>

fun remN :: "jsnum \<Rightarrow> int \<Rightarrow> jsnum" where
  "remN (Num a) b = (if b = 0 then NaN else Num (sgn a * (\<bar>a\<bar> mod \<bar>b\<bar>)))"
| "remN NaN b = NaN"

text \<open>\<open>Math.floor(a / b)\<close> for a power of two \<open>b\<close>, where the quotient is exact.\<close>

fun floorDivN :: "jsnum \<Rightarrow> int \<Rightarrow> jsnum" where
  "floorDivN (Num a) b = (if b = 0 then NaN else Num (a div b))"
| "floorDivN NaN b = NaN"

lemma dbl_exact [simp]: "\<bar>n\<bar> < 2 ^ 53 \<Longrightarrow> dbl n = n"
proof -
  assume "\<bar>n\<bar> < 2 ^ 53"
  hence "nat \<bar>n\<bar> < 2 ^ 53" by (simp add: nat_less_iff)
  thus ?thesis by (simp add: dbl_def dbl_nat_def sgn_mult_abs)
qed

section \<open>Characters and strings\<close>

definition digitVal :: "char \<Rightarrow> nat option" where
  "digitVal c = (let n = of_char c in
     if 48 \<le> n \<and> n \<le> 57 then Some (n - 48)
     else if 97 \<le> n \<and> n \<le> 102 then Some (n - 87)
     else if 65 \<le> n \<and> n \<le> 70 then Some (n - 55) else None)"

definition isDigit :: "char \<Rightarrow> bool" where
  "isDigit c = (let n = (of_char c :: nat) in 48 \<le> n \<and> n \<le> 57)"

definition isHexDigit :: "char \<Rightarrow> bool" where
  "isHexDigit c = (digitVal c \<noteq> None)"

text \<open>The regular expressions \<open>/^0x[a-fA-F0-9]{n}$/\<close> and \<open>/^([1-9]\d*|0)$/\<close>.\<close>

definition matchesHex :: "nat \<Rightarrow> string \<Rightarrow> bool" where
  "matchesHex n s = (take 2 s = ''0x'' \<and> length s = n + 2 \<and> list_all isHexDigit (drop 2 s))"

definition matchesNumber :: "string \<Rightarrow> bool" where
  "matchesNumber s = (case s of [] \<Rightarrow> False
     | c # cs \<Rightarrow> (if c = CHR ''0'' then cs = [] else isDigit c \<and> list_all isDigit cs))"

definition digitChar :: "nat \<Rightarrow> char" where
  "digitChar d = char_of (if d < 10 then 48 + d else 87 + d)"

fun showBase :: "nat \<Rightarrow> nat \<Rightarrow> string" where
  "showBase b n = (if b < 2 \<or> n < b then [digitChar n]
     else showBase b (n div b) @ [digitChar (n mod b)])"

declare showBase.simps [simp del]

abbreviation showNat :: "nat \<Rightarrow> string" where
  "showNat \<equiv> showBase 10"

definition showInt :: "int \<Rightarrow> string" where
  "showInt i = (if i < 0 then CHR ''-'' # showNat (nat (- i)) else showNat (nat i))"

text \<open>Value of a digit string, most significant digit first.\<close>

fun digitsVal :: "nat \<Rightarrow> nat \<Rightarrow> string \<Rightarrow> nat" where
  "digitsVal b acc [] = acc"
| "digitsVal b acc (c # cs) =
     digitsVal b (acc * b + (case digitVal c of None \<Rightarrow> 0 | Some d \<Rightarrow> d)) cs"

definition isSpace :: "char \<Rightarrow> bool" where
  "isSpace c = (let n = (of_char c :: nat) in n = 32 \<or> (9 \<le> n \<and> n \<le> 13))"

definition digitBelow :: "nat \<Rightarrow> char \<Rightarrow> bool" where
  "digitBelow b c = (case digitVal c of None \<Rightarrow> False | Some d \<Rightarrow> d < b)"

text \<open>\<open>parseInt(s)\<close> without a radix: leading white space, a sign, an optional \<open>0x\<close>,
  then the longest prefix of digits.\<close>

definition parseInt :: "string \<Rightarrow> jsnum" where
  "parseInt s = (let s1 = dropWhile isSpace s;
      neg = (s1 \<noteq> [] \<and> hd s1 = CHR ''-'');
      s2 = (if s1 \<noteq> [] \<and> (hd s1 = CHR ''-'' \<or> hd s1 = CHR ''+'') then tl s1 else s1);
      hex = (take 2 s2 = ''0x'' \<or> take 2 s2 = ''0X'');
      b = (if hex then 16 else 10);
      ds = takeWhile (digitBelow b) (if hex then drop 2 s2 else s2) in
    if ds = [] then NaN
    else Num (dbl ((if neg then -1 else 1) * int (digitsVal b 0 ds))))"

fun splitOn :: "char \<Rightarrow> string \<Rightarrow> string list" where
  "splitOn c [] = [[]]"
| "splitOn c (x # xs) = (if x = c then [] # splitOn c xs
     else (case splitOn c xs of [] \<Rightarrow> [[x]] | p # ps \<Rightarrow> (x # p) # ps))"

fun joinWith :: "string \<Rightarrow> string list \<Rightarrow> string" where
  "joinWith sep [] = []"
| "joinWith sep [x] = x"
| "joinWith sep (x # y # ys) = x @ sep @ joinWith sep (y # ys)"

text \<open>\<open>toLowerCase\<close> of a single-byte character.\<close>

definition lowerChar :: "char \<Rightarrow> char" where
  "lowerChar c = (let n = (of_char c :: nat) in if 65 \<le> n \<and> n \<le> 90 then char_of (n + 32) else c)"

text \<open>\<open>toLowerCase\<close> of a value that should be a string, and the truth value of a value.\<close>

definition toLowerCase :: "val \<Rightarrow> string result" where
  "toLowerCase v = (case v of VStr s \<Rightarrow> Inr (map lowerChar s) | _ \<Rightarrow> Inl (TypeError ''toLowerCase is not a function''))"

definition truthyVal :: "val \<Rightarrow> bool" where
  "truthyVal v = (case v of VStr s \<Rightarrow> s \<noteq> [] | VNum n \<Rightarrow> n \<noteq> 0 | VBool b \<Rightarrow> b | VNull \<Rightarrow> False | VUndef \<Rightarrow> False | _ \<Rightarrow> True)"

section \<open>Laws of the string functions\<close>

lemma splitOn_not_Nil [simp]: "splitOn c s \<noteq> []"
  by (induction s) (auto split: list.splits)

lemma splitOn_no_sep [simp]: "c \<notin> set s \<Longrightarrow> splitOn c s = [s]"
  by (induction s) auto

lemma splitOn_append_sep [simp]: "c \<notin> set p \<Longrightarrow> splitOn c (p @ c # s) = p # splitOn c s"
  by (induction p) auto

lemma join_split: "joinWith [c] (splitOn c s) = s"
proof (induction s)
  case (Cons x xs)
  obtain p ps where "splitOn c xs = p # ps" by (metis splitOn_not_Nil neq_Nil_conv)
  with Cons show ?case by (cases ps) auto
qed simp

lemma digitVal_digitChar [simp]: "d < 16 \<Longrightarrow> digitVal (digitChar d) = Some d"
  by (simp add: digitVal_def digitChar_def Let_def)

lemma digitBelow_digitChar [simp]: "d < b \<Longrightarrow> b \<le> 16 \<Longrightarrow> digitBelow b (digitChar d)"
  by (simp add: digitBelow_def)

lemma digitsVal_append:
  "digitsVal b acc (xs @ ys) = digitsVal b (digitsVal b acc xs) ys"
  by (induction xs arbitrary: acc) simp_all

lemma digitsVal_showBase: "2 \<le> b \<Longrightarrow> b \<le> 16 \<Longrightarrow> digitsVal b 0 (showBase b n) = n"
proof (induction b n rule: showBase.induct)
  case (1 b n)
  show ?case
  proof (cases "n < b")
    case True
    with 1(3) show ?thesis by (subst showBase.simps) simp
  next
    case False
    with 1 have "digitsVal b 0 (showBase b (n div b)) = n div b" by simp
    moreover have "n mod b < 16" using 1(2,3) by (meson less_le_trans mod_less_divisor order_less_le_trans pos2)
    ultimately show ?thesis using False 1(2)
      by (subst showBase.simps) (simp add: digitsVal_append)
  qed
qed

lemma showBase_not_Nil [simp]: "showBase b n \<noteq> []"
  by (subst showBase.simps) simp

lemma showBase_digits: "2 \<le> b \<Longrightarrow> b \<le> 16 \<Longrightarrow> list_all (digitBelow b) (showBase b n)"
proof (induction b n rule: showBase.induct)
  case (1 b n)
  show ?case
  proof (cases "n < b")
    case True
    with 1(3) show ?thesis by (subst showBase.simps) simp
  next
    case False
    with 1 have "list_all (digitBelow b) (showBase b (n div b))" by simp
    moreover have "n mod b < b" using 1(2) by simp
    ultimately show ?thesis using False 1(2,3)
      by (subst showBase.simps) (simp add: digitBelow_digitChar)
  qed
qed

lemma digitBelow10_isDigit: "digitBelow 10 c \<longleftrightarrow> isDigit c"
  by (auto simp: digitBelow_def isDigit_def digitVal_def Let_def)

lemma showNat_isDigit: "c \<in> set (showNat n) \<Longrightarrow> isDigit c"
  using showBase_digits [of 10 n] by (simp add: list_all_iff digitBelow10_isDigit)

lemma isDigit_distinct:
  "isDigit c \<Longrightarrow> \<not> isSpace c \<and> c \<noteq> CHR ''-'' \<and> c \<noteq> CHR ''+'' \<and> c \<noteq> CHR ''x'' \<and> c \<noteq> CHR ''X'' \<and> c \<noteq> CHR ''.''"
  by (auto simp: isDigit_def isSpace_def Let_def)

lemma take2_digits:
  assumes "\<forall>c\<in>set s. isDigit c"
  shows "take 2 s \<noteq> ''0x'' \<and> take 2 s \<noteq> ''0X''"
proof -
  have "CHR ''x'' \<notin> set (take 2 s)" and "CHR ''X'' \<notin> set (take 2 s)"
    using assms by (auto dest!: in_set_takeD simp: isDigit_def Let_def)
  thus ?thesis by auto
qed

lemma parseInt_digits:
  assumes "s \<noteq> []" and "\<forall>c\<in>set s. isDigit c" and "int (digitsVal 10 0 s) < 2 ^ 53"
  shows "parseInt s = Num (int (digitsVal 10 0 s))"
proof -
  have hd: "isDigit (hd s)" using assms(1,2) by simp
  hence dw: "dropWhile isSpace s = s" using assms(1) by (cases s) (auto dest: isDigit_distinct)
  have tw: "takeWhile (digitBelow 10) s = s"
    using assms(2) by (simp add: takeWhile_eq_all_conv digitBelow10_isDigit)
  show ?thesis
    using assms isDigit_distinct [OF hd] take2_digits [OF assms(2)]
    by (simp add: parseInt_def Let_def dw tw)
qed

lemma parseInt_showNat: "n < 2 ^ 53 \<Longrightarrow> parseInt (showNat n) = Num (int n)"
  using parseInt_digits [of "showNat n"] by (simp add: digitsVal_showBase showNat_isDigit)

end
