(* ===== verification/DiamondCuts.thy ===== *)
theory DiamondCuts
  imports JsValues
begin

text \<open>
  \<open>src.ts/diamondCut.ts\<close>: the lists of facet changes the deployment scripts compute
  for a diamond proxy.  The hardhat artifact of a facet and the two views read from
  the chain (\<open>facets()\<close> of the proxy, \<open>getName()\<close> of a facet) are parameters.
\<close>

datatype Action = Add | Replace | Remove

record FacetCut =
  facet :: string
  selectors :: "string list"
  action :: Action
  isFreezable :: bool

record DiamondCut =
  facetCuts :: "FacetCut list"
  initAddress :: "string option"
  initCalldata :: string

text \<open>An ethers \<open>Interface\<close>: the signatures of its functions, in order, and their selectors.\<close>

record Interface =
  ifaceFunctions :: "string list"
  getSighash :: "string \<Rightarrow> string"

definition AddressZero :: string where
  "AddressZero = ''0x0000000000000000000000000000000000000000''"

definition HashZero :: string where
  "HashZero = ''0x0000000000000000000000000000000000000000000000000000000000000000''"

definition getAllSelectors :: "Interface \<Rightarrow> string list" where
  "getAllSelectors contractInterface =
     map (getSighash contractInterface)
       (filter (\<lambda>signature. signature \<noteq> ''getName()'') (ifaceFunctions contractInterface))"

definition facetCut :: "string \<Rightarrow> Interface \<Rightarrow> Action \<Rightarrow> bool \<Rightarrow> FacetCut" where
  "facetCut address contract act freezable =
     \<lparr> facet = address, selectors = getAllSelectors contract, action = act, isFreezable = freezable \<rparr>"

definition diamondCut :: "FacetCut list \<Rightarrow> string option \<Rightarrow> string \<Rightarrow> DiamondCut" where
  "diamondCut cuts addr data = \<lparr> facetCuts = cuts, initAddress = addr, initCalldata = data \<rparr>"

text \<open>\<open>hardhat.ethers.getContractAt(name, address)\<close>: the contract's address and interface.\<close>

type_synonym getContractAt = "string \<Rightarrow> string \<Rightarrow> (string \<times> Interface) result"

text \<open>One \<open>if (address) { ... }\<close> of \<open>getCurrentFacetCutsForAdd\<close>.\<close>

definition addFacetCut ::
  "getContractAt \<Rightarrow> string \<Rightarrow> string option \<Rightarrow> bool \<Rightarrow> (string \<times> FacetCut) list \<Rightarrow> (string \<times> FacetCut) list result"
where
  "addFacetCut gca name address freezable cuts =
     (if truthyStr address
      then bindR (gca name (toStr address)) (\<lambda>(addr, iface).
             Inr (objSet name (facetCut addr iface Add freezable) cuts))
      else Inr cuts)"

definition getCurrentFacetCutsForAdd ::
  "getContractAt \<Rightarrow> string option \<Rightarrow> string option \<Rightarrow> string option \<Rightarrow> string option \<Rightarrow> (string \<times> FacetCut) list result"
where
  "getCurrentFacetCutsForAdd gca adminAddress gettersAddress mailboxAddress executorAddress =
     bindR (addFacetCut gca ''AdminFacet'' adminAddress False []) (\<lambda>c1.
     bindR (addFacetCut gca ''GettersFacet'' gettersAddress False c1) (\<lambda>c2.
     bindR (addFacetCut gca ''MailboxFacet'' mailboxAddress True c2) (\<lambda>c3.
       addFacetCut gca ''ExecutorFacet'' executorAddress True c3)))"

text \<open>The loop body of \<open>getDeployedFacetCutsForRemove\<close>.\<close>

definition removeStep ::
  "(string \<Rightarrow> string result) \<Rightarrow> string list \<Rightarrow> string \<times> string list \<Rightarrow> FacetCut list \<Rightarrow> FacetCut list result"
where
  "removeStep getName names f acc = (case f of (addr, sels) \<Rightarrow>
     bindR (getName addr) (\<lambda>facetName.
       Inr (if facetName \<in> set names
            then acc @ [\<lparr> facet = AddressZero, selectors = sels, action = Remove, isFreezable = False \<rparr>]
            else acc)))"

definition getDeployedFacetCutsForRemove ::
  "(string \<Rightarrow> (string \<times> string list) list result) \<Rightarrow> (string \<Rightarrow> string result) \<Rightarrow> string \<Rightarrow> string list \<Rightarrow> FacetCut list result"
where
  "getDeployedFacetCutsForRemove facetsOf getName zkSyncAddress updatedFaceNames =
     bindR (facetsOf zkSyncAddress) (\<lambda>diamondCutFacets.
       foldR (removeStep getName updatedFaceNames) diamondCutFacets [])"

definition getFacetCutsForUpgrade ::
  "getContractAt \<Rightarrow> (string \<Rightarrow> (string \<times> string list) list result) \<Rightarrow> (string \<Rightarrow> string result) \<Rightarrow>
   string \<Rightarrow> string option \<Rightarrow> string option \<Rightarrow> string option \<Rightarrow> string option \<Rightarrow> string list option \<Rightarrow> FacetCut list result"
where
  "getFacetCutsForUpgrade gca facetsOf getName zkSyncAddress adminAddress gettersAddress mailboxAddress
       executorAddress namesOfFacetsToBeRemoved =
     bindR (getCurrentFacetCutsForAdd gca adminAddress gettersAddress mailboxAddress executorAddress)
       (\<lambda>newFacetCuts.
     bindR (getDeployedFacetCutsForRemove facetsOf getName zkSyncAddress
              (case namesOfFacetsToBeRemoved of None \<Rightarrow> map fst newFacetCuts | Some ns \<Rightarrow> ns))
       (\<lambda>oldFacetCuts. Inr (oldFacetCuts @ map snd newFacetCuts)))"

section \<open>What the computed cuts are\<close>

lemma getAllSelectors_no_getName:
  "s \<in> set (getAllSelectors i) \<longleftrightarrow> (\<exists>f \<in> set (ifaceFunctions i). f \<noteq> ''getName()'' \<and> s = getSighash i f)"
  by (auto simp: getAllSelectors_def)

text \<open>The removal list is the deployed facets whose name is to be removed, in the order
  the chain lists them.\<close>

lemma removeStep_fold:
  assumes "\<And>f. f \<in> set fs \<Longrightarrow> getName (fst f) = Inr (nm (fst f))"
  shows "foldR (removeStep getName names) fs acc =
    Inr (acc @ map (\<lambda>f. \<lparr> facet = AddressZero, selectors = snd f, action = Remove, isFreezable = False \<rparr>)
                 (filter (\<lambda>f. nm (fst f) \<in> set names) fs))"
  using assms
proof (induction fs arbitrary: acc)
  case (Cons f fs)
  have "getName (fst f) = Inr (nm (fst f))" using Cons.prems [of f] by simp
  hence "removeStep getName names f acc =
      Inr (acc @ (if nm (fst f) \<in> set names
        then [\<lparr> facet = AddressZero, selectors = snd f, action = Remove, isFreezable = False \<rparr>] else []))"
    by (simp add: removeStep_def case_prod_beta)
  with Cons show ?case by simp
qed simp

end
