(* ===== verification/DiamondLib.thy ===== *)
theory DiamondLib
  imports DiamondCuts
begin

text \<open>
  \<open>contracts/state-transition/libraries/Diamond.sol\<close>: the storage of a diamond proxy and the
  library that executes a diamond cut on it, with its swap-and-pop arrays and back pointers.
  A transaction that reverts leaves the storage as it was, so every function returns either an
  error or the new storage.  Addresses and selectors are their hexadecimal texts, as the scripts
  handle them; \<open>hasCode\<close> and \<open>delegatecall\<close> stand for the EVM.

  The lemmas show the representation invariant \<open>ds_inv\<close>, and that the library implements updates
  of the finite map \<open>route\<close> from selectors to facet and freezability.
\<close>

record SelectorToFacet =
  facetAddress :: string
  selectorPosition :: nat
  stfFreezable :: bool

record FacetToSelectors =
  ftsSelectors :: "string list"
  facetPosition :: nat

record DiamondStorage =
  selectorToFacet :: "string \<Rightarrow> SelectorToFacet"
  facetToSelectors :: "string \<Rightarrow> FacetToSelectors"
  facets :: "string list"
  isFrozen :: bool

datatype DiamondError =
    NoFunctionsForDiamondCut
  | AddressHasNoCode string
  | FacetExists string string
  | ReplaceFunctionFacetAddressZero
  | RemoveFunctionFacetAddressNotZero string
  | RemoveFunctionFacetAddressZero
  | SelectorsMustAllHaveSameFreezability
  | NonEmptyCalldata
  | DelegateCallFailed "byte list"
  | Bubbled "byte list"
  | SafeCastOverflow
  | Panic nat

definition noFacet :: SelectorToFacet where
  "noFacet = \<lparr> facetAddress = AddressZero, selectorPosition = 0, stfFreezable = False \<rparr>"

definition selsOf :: "DiamondStorage \<Rightarrow> string \<Rightarrow> string list" where
  "selsOf ds f = ftsSelectors (facetToSelectors ds f)"

definition setSels :: "string \<Rightarrow> string list \<Rightarrow> DiamondStorage \<Rightarrow> DiamondStorage" where
  "setSels f xs ds = ds\<lparr> facetToSelectors := (facetToSelectors ds)
     (f := (facetToSelectors ds f)\<lparr> ftsSelectors := xs \<rparr>) \<rparr>"

definition setFacetPos :: "string \<Rightarrow> nat \<Rightarrow> DiamondStorage \<Rightarrow> DiamondStorage" where
  "setFacetPos f p ds = ds\<lparr> facetToSelectors := (facetToSelectors ds)
     (f := (facetToSelectors ds f)\<lparr> facetPosition := p \<rparr>) \<rparr>"

definition setStf :: "string \<Rightarrow> SelectorToFacet \<Rightarrow> DiamondStorage \<Rightarrow> DiamondStorage" where
  "setStf s x ds = ds\<lparr> selectorToFacet := (selectorToFacet ds)(s := x) \<rparr>"

definition toUint16 :: "nat \<Rightarrow> DiamondError + nat" where
  "toUint16 n = (if n < 2 ^ 16 then Inr n else Inl SafeCastOverflow)"

definition saveFacetIfNew :: "string \<Rightarrow> DiamondStorage \<Rightarrow> DiamondError + DiamondStorage" where
  "saveFacetIfNew f ds =
     (if length (selsOf ds f) = 0
      then bindR (toUint16 (length (facets ds))) (\<lambda>p.
             Inr ((setFacetPos f p ds)\<lparr> facets := facets ds @ [f] \<rparr>))
      else Inr ds)"

definition addOneFunction :: "string \<Rightarrow> string \<Rightarrow> bool \<Rightarrow> DiamondStorage \<Rightarrow> DiamondError + DiamondStorage" where
  "addOneFunction f selector freezable ds =
     bindR (toUint16 (length (selsOf ds f))) (\<lambda>p.
       if p \<noteq> 0 \<and> freezable \<noteq> stfFreezable (selectorToFacet ds (selsOf ds f ! 0))
       then Inl SelectorsMustAllHaveSameFreezability
       else Inr (setSels f (selsOf ds f @ [selector])
              (setStf selector \<lparr> facetAddress = f, selectorPosition = p, stfFreezable = freezable \<rparr> ds)))"

definition removeFacet :: "string \<Rightarrow> DiamondStorage \<Rightarrow> DiamondError + DiamondStorage" where
  "removeFacet f ds = (let position = facetPosition (facetToSelectors ds f); n = length (facets ds) in
     if n = 0 then Inl (Panic 17)
     else bindR
       (if position \<noteq> n - 1
        then (let lastFacet = facets ds ! (n - 1) in
              if n \<le> position then Inl (Panic 50)
              else bindR (toUint16 position) (\<lambda>p.
                     Inr ((setFacetPos lastFacet p ds)\<lparr> facets := (facets ds)[position := lastFacet] \<rparr>)))
        else Inr ds)
       (\<lambda>ds1. Inr (ds1\<lparr> facets := butlast (facets ds1) \<rparr>)))"

definition removeOneFunction :: "string \<Rightarrow> string \<Rightarrow> DiamondStorage \<Rightarrow> DiamondError + DiamondStorage" where
  "removeOneFunction f selector ds =
     (let position = selectorPosition (selectorToFacet ds selector); n = length (selsOf ds f) in
     if n = 0 then Inl (Panic 17)
     else bindR
       (if position \<noteq> n - 1
        then (let lastSelector = selsOf ds f ! (n - 1) in
              if n \<le> position then Inl (Panic 50)
              else bindR (toUint16 position) (\<lambda>p.
                     Inr (setStf lastSelector ((selectorToFacet ds lastSelector)\<lparr> selectorPosition := p \<rparr>)
                            (setSels f ((selsOf ds f)[position := lastSelector]) ds))))
        else Inr ds)
       (\<lambda>ds1. let ds2 = setStf selector noFacet (setSels f (butlast (selsOf ds1 f)) ds1) in
              if n - 1 = 0 then removeFacet f ds2 else Inr ds2))"

definition addStep :: "string \<Rightarrow> bool \<Rightarrow> string \<Rightarrow> DiamondStorage \<Rightarrow> DiamondError + DiamondStorage" where
  "addStep f freezable selector ds = (let old = facetAddress (selectorToFacet ds selector) in
     if old \<noteq> AddressZero then Inl (FacetExists selector old)
     else addOneFunction f selector freezable ds)"

definition addFunctions ::
  "(string \<Rightarrow> bool) \<Rightarrow> string \<Rightarrow> string list \<Rightarrow> bool \<Rightarrow> DiamondStorage \<Rightarrow> DiamondError + DiamondStorage"
where
  "addFunctions hasCode f sels freezable ds =
     (if \<not> hasCode f then Inl (AddressHasNoCode f)
      else bindR (saveFacetIfNew f ds) (foldR (addStep f freezable) sels))"

definition replaceStep :: "string \<Rightarrow> bool \<Rightarrow> string \<Rightarrow> DiamondStorage \<Rightarrow> DiamondError + DiamondStorage" where
  "replaceStep f freezable selector ds = (let old = facetAddress (selectorToFacet ds selector) in
     if old = AddressZero then Inl ReplaceFunctionFacetAddressZero
     else bindR (removeOneFunction old selector ds) (\<lambda>ds1.
          bindR (saveFacetIfNew f ds1) (addOneFunction f selector freezable)))"

definition replaceFunctions ::
  "(string \<Rightarrow> bool) \<Rightarrow> string \<Rightarrow> string list \<Rightarrow> bool \<Rightarrow> DiamondStorage \<Rightarrow> DiamondError + DiamondStorage"
where
  "replaceFunctions hasCode f sels freezable ds =
     (if \<not> hasCode f then Inl (AddressHasNoCode f) else foldR (replaceStep f freezable) sels ds)"

definition removeFunctionStep :: "string \<Rightarrow> DiamondStorage \<Rightarrow> DiamondError + DiamondStorage" where
  "removeFunctionStep selector ds = (let old = facetAddress (selectorToFacet ds selector) in
     if old = AddressZero then Inl RemoveFunctionFacetAddressZero
     else removeOneFunction old selector ds)"

definition removeFunctions :: "string \<Rightarrow> string list \<Rightarrow> DiamondStorage \<Rightarrow> DiamondError + DiamondStorage" where
  "removeFunctions f sels ds =
     (if f \<noteq> AddressZero then Inl (RemoveFunctionFacetAddressNotZero f)
      else foldR removeFunctionStep sels ds)"

text \<open>The body of the loop over the facet cuts.\<close>

definition applyFacetCut :: "(string \<Rightarrow> bool) \<Rightarrow> FacetCut \<Rightarrow> DiamondStorage \<Rightarrow> DiamondError + DiamondStorage" where
  "applyFacetCut hasCode c ds =
     (if length (selectors c) = 0 then Inl NoFunctionsForDiamondCut
      else (case action c of
          Add \<Rightarrow> addFunctions hasCode (facet c) (selectors c) (isFreezable c) ds
        | Replace \<Rightarrow> replaceFunctions hasCode (facet c) (selectors c) (isFreezable c) ds
        | Remove \<Rightarrow> removeFunctions (facet c) (selectors c) ds))"

definition DIAMOND_INIT_SUCCESS_RETURN_VALUE :: "byte list" where
  "DIAMOND_INIT_SUCCESS_RETURN_VALUE = [0x33, 0x77, 0x4e, 0x65, 0x93, 0x06, 0xe4, 0x75, 0x09, 0x05, 0x0e,
     0x97, 0xcb, 0x65, 0x1e, 0x73, 0x11, 0x80, 0xa4, 0x2d, 0x45, 0x82, 0x12, 0x29, 0x4d, 0x30, 0x75,
     0x19, 0x25, 0xc5, 0x51, 0xa2]"

type_synonym delegatecall = "string \<Rightarrow> string \<Rightarrow> DiamondStorage \<Rightarrow> bool \<times> byte list \<times> DiamondStorage"

definition initializeDiamondCut ::
  "delegatecall \<Rightarrow> string \<Rightarrow> string \<Rightarrow> DiamondStorage \<Rightarrow> DiamondError + DiamondStorage"
where
  "initializeDiamondCut call init calldata ds =
     (if init = AddressZero
      then (if 2 < length calldata then Inl NonEmptyCalldata else Inr ds)
      else (case call init calldata ds of (success, data, ds') \<Rightarrow>
        if \<not> success
        then (if length data < 4 then Inl (DelegateCallFailed data) else Inl (Bubbled data))
        else if length data \<noteq> 32 then Inl (DelegateCallFailed data)
        else if data \<noteq> DIAMOND_INIT_SUCCESS_RETURN_VALUE then Inl (DelegateCallFailed data)
        else Inr ds'))"

definition executeDiamondCut ::
  "(string \<Rightarrow> bool) \<Rightarrow> delegatecall \<Rightarrow> DiamondCut \<Rightarrow> DiamondStorage \<Rightarrow> DiamondError + DiamondStorage"
where
  "executeDiamondCut hasCode call c ds =
     bindR (foldR (applyFacetCut hasCode) (facetCuts c) ds)
       (initializeDiamondCut call (toStr (initAddress c)) (initCalldata c))"

text \<open>\<open>GettersFacet.facets\<close>, the view the scripts read.\<close>

definition facetsView :: "DiamondStorage \<Rightarrow> (string \<times> string list) list" where
  "facetsView ds = map (\<lambda>f. (f, selsOf ds f)) (facets ds)"

section \<open>Abstraction and representation invariant\<close>

definition route :: "DiamondStorage \<Rightarrow> string \<rightharpoonup> string \<times> bool" where
  "route ds s = (let x = selectorToFacet ds s in
     if facetAddress x = AddressZero then None else Some (facetAddress x, stfFreezable x))"

definition sel_inv :: "DiamondStorage \<Rightarrow> bool" where
  "sel_inv ds \<longleftrightarrow>
     (\<forall>f i. i < length (selsOf ds f) \<longrightarrow>
        facetAddress (selectorToFacet ds (selsOf ds f ! i)) = f \<and>
        selectorPosition (selectorToFacet ds (selsOf ds f ! i)) = i) \<and>
     (\<forall>s. facetAddress (selectorToFacet ds s) \<noteq> AddressZero \<longrightarrow>
        s \<in> set (selsOf ds (facetAddress (selectorToFacet ds s)))) \<and>
     selsOf ds AddressZero = [] \<and>
     (\<forall>f. \<forall>s\<in>set (selsOf ds f). \<forall>t\<in>set (selsOf ds f).
        stfFreezable (selectorToFacet ds s) = stfFreezable (selectorToFacet ds t)) \<and>
     (\<forall>f. length (selsOf ds f) \<le> 2 ^ 16)"

text \<open>\<open>X\<close> is the set of facets listed before their first selector is added.\<close>

definition fac_inv :: "string set \<Rightarrow> DiamondStorage \<Rightarrow> bool" where
  "fac_inv X ds \<longleftrightarrow>
     (\<forall>i < length (facets ds). facetPosition (facetToSelectors ds (facets ds ! i)) = i) \<and>
     (\<forall>f. f \<in> set (facets ds) \<longleftrightarrow> selsOf ds f \<noteq> [] \<or> f \<in> X) \<and>
     length (facets ds) \<le> 2 ^ 16"

definition ds_inv :: "DiamondStorage \<Rightarrow> bool" where
  "ds_inv ds \<longleftrightarrow> sel_inv ds \<and> fac_inv {} ds"

text \<open>The abstract effect of one facet cut on the routing map.\<close>

definition cutRoute :: "FacetCut \<Rightarrow> (string \<rightharpoonup> string \<times> bool) \<Rightarrow> (string \<rightharpoonup> string \<times> bool)" where
  "cutRoute c r = (\<lambda>s. if s \<in> set (selectors c)
     then (if action c = Remove then None else Some (facet c, isFreezable c)) else r s)"

section \<open>Projections of the storage updates\<close>

lemma ds_proj [simp]:
  "selsOf (setSels f xs ds) g = (if g = f then xs else selsOf ds g)"
  "selsOf (setStf s x ds) g = selsOf ds g"
  "selsOf (setFacetPos f p ds) g = selsOf ds g"
  "selsOf (ds\<lparr> facets := fs \<rparr>) g = selsOf ds g"
  "selectorToFacet (setSels f xs ds) = selectorToFacet ds"
  "selectorToFacet (setStf s x ds) = (selectorToFacet ds)(s := x)"
  "selectorToFacet (setFacetPos f p ds) = selectorToFacet ds"
  "facets (setSels f xs ds) = facets ds"
  "facets (setStf s x ds) = facets ds"
  "facets (setFacetPos f p ds) = facets ds"
  "facetPosition (facetToSelectors (setSels f xs ds) g) = facetPosition (facetToSelectors ds g)"
  "facetToSelectors (setStf s x ds) = facetToSelectors ds"
  "facetPosition (facetToSelectors (setFacetPos f p ds) g) =
     (if g = f then p else facetPosition (facetToSelectors ds g))"
  by (simp_all add: selsOf_def setSels_def setStf_def setFacetPos_def)

lemma route_cong: "selectorToFacet ds = selectorToFacet ds' \<Longrightarrow> route ds = route ds'"
  by (simp add: route_def fun_eq_iff)

lemma sel_inv_cong:
  "selectorToFacet ds = selectorToFacet ds' \<Longrightarrow> selsOf ds = selsOf ds' \<Longrightarrow> sel_inv ds = sel_inv ds'"
  by (simp add: sel_inv_def)

lemma sel_inv_mem:
  assumes "sel_inv ds"
  shows "s \<in> set (selsOf ds f) \<longleftrightarrow> facetAddress (selectorToFacet ds s) = f \<and> f \<noteq> AddressZero"
  using assms unfolding sel_inv_def by (metis in_set_conv_nth empty_iff list.set(1))

lemma sel_inv_distinct: "sel_inv ds \<Longrightarrow> distinct (selsOf ds f)"
  unfolding sel_inv_def distinct_conv_nth by metis

lemma route_Some_mem:
  "sel_inv ds \<Longrightarrow> (\<exists>b. route ds s = Some (f, b)) \<longleftrightarrow> s \<in> set (selsOf ds f)"
  by (simp add: sel_inv_mem route_def Let_def) blast

lemma fac_inv_distinct: "fac_inv X ds \<Longrightarrow> distinct (facets ds)"
  unfolding fac_inv_def distinct_conv_nth by metis

section \<open>Adding\<close>

lemma saveFacetIfNew_inv:
  assumes "sel_inv ds" "fac_inv {} ds" "saveFacetIfNew f ds = Inr ds'"
  shows "sel_inv ds' \<and> fac_inv {f} ds' \<and> route ds' = route ds \<and> selsOf ds' = selsOf ds \<and>
    facets ds' = (if selsOf ds f = [] then facets ds @ [f] else facets ds)"
proof (cases "selsOf ds f = []")
  case True
  hence len: "length (facets ds) < 2 ^ 16" and
    ds': "ds' = (setFacetPos f (length (facets ds)) ds)\<lparr> facets := facets ds @ [f] \<rparr>"
    using assms(3) by (auto simp: saveFacetIfNew_def toUint16_def split: if_splits)
  have sels: "selsOf ds' = selsOf ds" by (simp add: ds' fun_eq_iff)
  have f: "f \<notin> set (facets ds)" using assms(2) True by (simp add: fac_inv_def)
  have "facetPosition (facetToSelectors ds' (facets ds' ! i)) = i" if "i < length (facets ds')" for i
  proof (cases "i = length (facets ds)")
    case True
    thus ?thesis by (simp add: ds' setFacetPos_def)
  next
    case False
    with that have i: "i < length (facets ds)" by (simp add: ds')
    hence "facets ds ! i \<noteq> f" using f nth_mem by metis
    with i assms(2) show ?thesis by (simp add: ds' nth_append setFacetPos_def fac_inv_def)
  qed
  moreover have "g \<in> set (facets ds') \<longleftrightarrow> selsOf ds' g \<noteq> [] \<or> g \<in> {f}" for g
    using assms(2) by (auto simp: fac_inv_def ds')
  ultimately have "fac_inv {f} ds'" using len by (simp add: fac_inv_def ds')
  moreover have "sel_inv ds'" using assms(1) sel_inv_cong [OF _ sels] by (simp add: ds')
  moreover have "route ds' = route ds" by (rule route_cong) (simp add: ds')
  ultimately show ?thesis using sels True by (simp add: ds')
next
  case False
  thus ?thesis using assms by (auto simp: saveFacetIfNew_def fac_inv_def)
qed

lemma fac_inv_drop: "fac_inv {f} ds \<Longrightarrow> selsOf ds f \<noteq> [] \<Longrightarrow> fac_inv {} ds"
  by (auto simp: fac_inv_def)

lemma fac_inv_add: "fac_inv {} ds \<Longrightarrow> selsOf ds f \<noteq> [] \<Longrightarrow> fac_inv {f} ds"
  by (auto simp: fac_inv_def)

lemma addOneFunction_inv:
  assumes inv: "sel_inv ds" "fac_inv {f} ds" and f: "f \<noteq> AddressZero" and new: "route ds s = None"
    and run: "addOneFunction f s b ds = Inr ds'"
  shows "sel_inv ds' \<and> fac_inv {} ds' \<and> route ds' = (route ds)(s \<mapsto> (f, b)) \<and>
    facets ds' = facets ds \<and> selsOf ds' = (selsOf ds)(f := selsOf ds f @ [s])"
proof -
  let ?n = "length (selsOf ds f)"
  have fr: "?n \<noteq> 0 \<Longrightarrow> b = stfFreezable (selectorToFacet ds (selsOf ds f ! 0))" and n: "?n < 2 ^ 16"
    and ds': "ds' = setSels f (selsOf ds f @ [s])
      (setStf s \<lparr> facetAddress = f, selectorPosition = ?n, stfFreezable = b \<rparr> ds)"
    using run by (auto simp: addOneFunction_def toUint16_def split: if_splits)
  have zero: "facetAddress (selectorToFacet ds s) = AddressZero"
    using new by (simp add: route_def Let_def split: if_splits)
  hence notin: "s \<notin> set (selsOf ds g)" for g using sel_inv_mem [OF inv(1)] by auto
  have all_fr: "b = stfFreezable (selectorToFacet ds t)" if "t \<in> set (selsOf ds f)" for t
  proof -
    have "?n \<noteq> 0" using that by auto
    hence "?n \<noteq> 0" "selsOf ds f ! 0 \<in> set (selsOf ds f)" by simp_all
    thus ?thesis using fr that inv(1) unfolding sel_inv_def by metis
  qed
  have 1: "facetAddress (selectorToFacet ds' (selsOf ds' g ! i)) = g \<and>
      selectorPosition (selectorToFacet ds' (selsOf ds' g ! i)) = i" if "i < length (selsOf ds' g)" for g i
  proof (cases "g = f \<and> i = ?n")
    case True
    thus ?thesis by (simp add: ds')
  next
    case False
    hence i: "i < length (selsOf ds g)" and nth: "selsOf ds' g ! i = selsOf ds g ! i"
      using that by (auto simp: ds' nth_append split: if_splits)
    have "selsOf ds g ! i \<noteq> s" using notin [of g] i nth_mem by metis
    thus ?thesis using inv(1) i unfolding nth sel_inv_def by (simp add: ds')
  qed
  have 2: "t \<in> set (selsOf ds' (facetAddress (selectorToFacet ds' t)))"
    if "facetAddress (selectorToFacet ds' t) \<noteq> AddressZero" for t
    using that inv(1) unfolding sel_inv_def by (auto simp: ds' split: if_splits)
  have 3: "stfFreezable (selectorToFacet ds' t) = stfFreezable (selectorToFacet ds' u)"
    if "t \<in> set (selsOf ds' g)" "u \<in> set (selsOf ds' g)" for g t u
  proof (cases "g = f")
    case True
    thus ?thesis using that all_fr by (auto simp: ds')
  next
    case False
    hence tu: "t \<in> set (selsOf ds g)" "u \<in> set (selsOf ds g)" using that by (simp_all add: ds')
    hence "stfFreezable (selectorToFacet ds t) = stfFreezable (selectorToFacet ds u)"
      using inv(1) unfolding sel_inv_def by blast
    moreover have "t \<noteq> s" "u \<noteq> s" using tu notin [of g] by auto
    ultimately show ?thesis by (simp add: ds')
  qed
  have "length (selsOf ds g) \<le> 2 ^ 16" for g using inv(1) unfolding sel_inv_def by blast
  hence 4: "length (selsOf ds' g) \<le> 2 ^ 16" for g using n by (simp add: ds')
  have "selsOf ds' AddressZero = []" using inv(1) f by (simp add: sel_inv_def ds')
  with 1 2 3 4 have "sel_inv ds'" unfolding sel_inv_def by blast
  moreover have "fac_inv {} ds'" using inv(2) by (auto simp: fac_inv_def ds')
  moreover have "route ds' = (route ds)(s \<mapsto> (f, b))"
    using f by (auto simp: route_def ds' Let_def fun_eq_iff)
  ultimately show ?thesis by (auto simp: ds' fun_eq_iff)
qed

lemma addOneFunction_ok:
  assumes "length (selsOf ds f) < 2 ^ 16"
    and "\<And>t. t \<in> set (selsOf ds f) \<Longrightarrow> stfFreezable (selectorToFacet ds t) = b"
  shows "\<exists>ds'. addOneFunction f s b ds = Inr ds'"
  using assms by (auto simp: addOneFunction_def toUint16_def)

section \<open>Removing\<close>

lemma swap_pop_snoc:
  assumes "p < length (ys @ [z])"
  shows "butlast ((ys @ [z])[p := z]) = (if p < length ys then ys[p := z] else ys)"
  using assms by (auto simp: list_update_append butlast_append)

lemma set_swap_pop:
  assumes "distinct xs" "p < length xs"
  shows "set (butlast (xs[p := last xs])) = set xs - {xs ! p}"
proof (cases xs rule: rev_cases)
  case (snoc ys z)
  with assms set_update_distinct [of ys p z] swap_pop_snoc [of p ys z] show ?thesis
    by (auto simp: nth_append less_Suc_eq)
qed (use assms in simp)

lemma nth_swap_pop:
  assumes "p < length xs" "i < length xs - 1"
  shows "butlast (xs[p := last xs]) ! i = (if i = p then last xs else xs ! i)"
  using assms by (auto simp: nth_butlast nth_list_update)

lemma removeFacet_inv:
  assumes fi: "fac_inv {f} ds" and e: "selsOf ds f = []" and si: "sel_inv ds"
  shows "\<exists>ds'. removeFacet f ds = Inr ds' \<and> sel_inv ds' \<and> fac_inv {} ds' \<and> route ds' = route ds \<and>
    selsOf ds' = selsOf ds \<and> length (facets ds') \<le> length (facets ds)"
proof -
  let ?fs = "facets ds" and ?p = "facetPosition (facetToSelectors ds f)"
  have mem: "f \<in> set ?fs" using fi by (simp add: fac_inv_def)
  then obtain i where "i < length ?fs" "?fs ! i = f" by (auto simp: in_set_conv_nth)
  hence p: "?p < length ?fs" "?fs ! ?p = f" using fi by (auto simp: fac_inv_def)
  hence ne: "?fs \<noteq> []" by auto
  have p16: "?p < 2 ^ 16" using p(1) fi by (simp add: fac_inv_def)
  define l where "l = last ?fs"
  have l: "l = ?fs ! (length ?fs - 1)" using ne by (simp add: l_def last_conv_nth)
  define ds' where "ds' = (setFacetPos l ?p ds)\<lparr> facets := butlast (?fs[?p := l]) \<rparr>"
  define ds'' where "ds'' = (if ?p = length ?fs - 1 then ds\<lparr> facets := butlast ?fs \<rparr> else ds')"
  have run: "removeFacet f ds = Inr ds''"
    using p ne p16 by (simp add: removeFacet_def Let_def toUint16_def ds''_def ds'_def l setFacetPos_def)
  have fs: "facets ds'' = butlast (?fs[?p := l])"
    using p l by (auto simp: ds''_def ds'_def list_update_same_conv)
  have sels: "selsOf ds'' = selsOf ds" by (simp add: ds''_def ds'_def fun_eq_iff)
  have stf: "selectorToFacet ds'' = selectorToFacet ds" by (simp add: ds''_def ds'_def)
  have d: "distinct ?fs" using fi by (rule fac_inv_distinct)
  have "facetPosition (facetToSelectors ds'' (facets ds'' ! i)) = i" if i: "i < length (facets ds'')" for i
  proof -
    have i': "i < length ?fs - 1" using i by (simp add: fs)
    have nth: "facets ds'' ! i = (if i = ?p then l else ?fs ! i)"
      unfolding fs l_def by (rule nth_swap_pop [OF p(1) i'])
    have "?fs ! i \<noteq> l" using i' d by (simp add: l nth_eq_iff_index_eq)
    thus ?thesis using nth i' fi
      by (auto simp: ds''_def ds'_def setFacetPos_def fac_inv_def)
  qed
  moreover have "g \<in> set (facets ds'') \<longleftrightarrow> selsOf ds'' g \<noteq> []" for g
  proof -
    have "set (facets ds'') = set ?fs - {f}" unfolding fs l_def using set_swap_pop [OF d p(1)] p(2) by simp
    thus ?thesis using fi e by (auto simp: fac_inv_def sels)
  qed
  moreover have "length (facets ds'') \<le> 2 ^ 16"
    using fi unfolding fac_inv_def by (simp add: fs le_diff_conv)
  ultimately have "fac_inv {} ds''" by (simp add: fac_inv_def)
  moreover have "sel_inv ds''" using si sel_inv_cong [OF stf sels] by simp
  moreover have "length (facets ds'') \<le> length ?fs" by (simp add: fs)
  ultimately show ?thesis using run sels route_cong [OF stf] by blast
qed

lemma removeOneFunction_inv:
  assumes inv: "ds_inv ds" and mem: "s \<in> set (selsOf ds f)"
  shows "\<exists>ds'. removeOneFunction f s ds = Inr ds' \<and> ds_inv ds' \<and> route ds' = (route ds)(s := None) \<and>
    (\<forall>g. set (selsOf ds' g) = set (selsOf ds g) - {s}) \<and> length (facets ds') \<le> length (facets ds)"
proof -
  let ?xs = "selsOf ds f" and ?S = "selectorToFacet ds"
  have si: "sel_inv ds" and fi: "fac_inv {} ds" using inv by (simp_all add: ds_inv_def)
  let ?p = "selectorPosition (?S s)"
  obtain i where "i < length ?xs" "?xs ! i = s" using mem by (auto simp: in_set_conv_nth)
  hence p: "?p < length ?xs" "?xs ! ?p = s" using si unfolding sel_inv_def by metis+
  hence ne: "?xs \<noteq> []" by auto
  have p16: "?p < 2 ^ 16" using p(1) si unfolding sel_inv_def by (meson less_le_trans)
  have d: "distinct ?xs" using si by (rule sel_inv_distinct)
  define l where "l = last ?xs"
  have l: "l = ?xs ! (length ?xs - 1)" using ne by (simp add: l_def last_conv_nth)
  define ds2 where "ds2 = setStf s noFacet (setStf l ((?S l)\<lparr> selectorPosition := ?p \<rparr>)
     (setSels f (butlast (?xs[?p := l])) ds))"
  have n1: "length ?xs - 1 = 0 \<longleftrightarrow> length ?xs = 1" using ne by (cases ?xs) auto
  have run: "removeOneFunction f s ds = (if length ?xs = 1 then removeFacet f ds2 else Inr ds2)"
  proof (cases "?p = length ?xs - 1")
    case True
    hence ls: "l = s" and "?xs[?p := l] = ?xs" using p l by (auto simp: list_update_same_conv)
    hence "ds2 = setStf s noFacet (setSels f (butlast ?xs) ds)"
      unfolding ds2_def by (simp only:) (simp add: setStf_def)
    thus ?thesis using True ne n1 by (simp add: removeOneFunction_def Let_def)
  next
    case False
    thus ?thesis using p ne p16 n1
      by (simp add: removeOneFunction_def Let_def toUint16_def ds2_def l setStf_def setSels_def selsOf_def)
  qed
  have sf: "facetAddress (?S s) = f" and fz: "f \<noteq> AddressZero"
    using mem sel_inv_mem [OF si, of s f] by simp_all
  have xs': "selsOf ds2 g = (if g = f then butlast (?xs[?p := l]) else selsOf ds g)" for g
    by (simp add: ds2_def)
  have stf: "selectorToFacet ds2 = (?S(l := (?S l)\<lparr> selectorPosition := ?p \<rparr>))(s := noFacet)"
    by (simp add: ds2_def)
  have sets: "set (selsOf ds2 g) = set (selsOf ds g) - {s}" for g
  proof (cases "g = f")
    case True
    thus ?thesis using set_swap_pop [OF d p(1)] p(2) by (simp add: xs' l_def)
  next
    case False
    hence "s \<notin> set (selsOf ds g)" using sf by (simp add: sel_inv_mem [OF si])
    thus ?thesis using False by (simp add: xs')
  qed
  have lf: "facetAddress (?S l) = f" "l \<in> set ?xs"
    using si ne unfolding l by (simp_all add: sel_inv_def)
  have 1: "facetAddress (selectorToFacet ds2 (selsOf ds2 g ! i)) = g \<and>
      selectorPosition (selectorToFacet ds2 (selsOf ds2 g ! i)) = i" if i: "i < length (selsOf ds2 g)" for g i
  proof -
    have ns: "selsOf ds2 g ! i \<noteq> s" using sets [of g] nth_mem [OF i] by auto
    show ?thesis
    proof (cases "g = f")
      case True
      hence i': "i < length ?xs - 1" using i by (simp add: xs')
      have nth: "selsOf ds2 g ! i = (if i = ?p then l else ?xs ! i)"
        unfolding xs' l_def using True nth_swap_pop [OF p(1) i'] by simp
      have "?xs ! i \<noteq> l" using i' d by (simp add: l nth_eq_iff_index_eq)
      moreover have "facetAddress (?S (?xs ! i)) = f \<and> selectorPosition (?S (?xs ! i)) = i"
        using si i' unfolding sel_inv_def by simp
      ultimately show ?thesis using ns True lf nth by (auto simp: stf)
    next
      case False
      hence g: "i < length (selsOf ds g)" "selsOf ds2 g ! i = selsOf ds g ! i" using i by (simp_all add: xs')
      hence "facetAddress (?S (selsOf ds g ! i)) = g \<and> selectorPosition (?S (selsOf ds g ! i)) = i"
        using si unfolding sel_inv_def by blast
      thus ?thesis using ns False lf g by (auto simp: stf)
    qed
  qed
  have 2: "t \<in> set (selsOf ds2 (facetAddress (selectorToFacet ds2 t)))"
    if "facetAddress (selectorToFacet ds2 t) \<noteq> AddressZero" for t
  proof -
    have "t \<noteq> s" and t: "facetAddress (selectorToFacet ds2 t) = facetAddress (?S t)"
      using that by (auto simp: stf noFacet_def)
    thus ?thesis using that si unfolding sel_inv_def by (simp add: sets)
  qed
  have 3: "stfFreezable (selectorToFacet ds2 t) = stfFreezable (selectorToFacet ds2 u)"
    if "t \<in> set (selsOf ds2 g)" "u \<in> set (selsOf ds2 g)" for g t u
  proof -
    have "t \<noteq> s" "u \<noteq> s" "stfFreezable (?S t) = stfFreezable (?S u)"
      using that si unfolding sel_inv_def sets by blast+
    thus ?thesis by (auto simp: stf)
  qed
  have 4: "length (selsOf ds2 g) \<le> 2 ^ 16" for g
  proof -
    have "length (selsOf ds2 g) \<le> length (selsOf ds g)" by (simp add: xs')
    also have "\<dots> \<le> 2 ^ 16" using si unfolding sel_inv_def by blast
    finally show ?thesis .
  qed
  have "selsOf ds2 AddressZero = []" using si fz by (simp add: sel_inv_def xs')
  with 1 2 3 4 have si2: "sel_inv ds2" unfolding sel_inv_def by blast
  have r2: "route ds2 = (route ds)(s := None)"
    by (auto simp: route_def stf noFacet_def fun_eq_iff Let_def)
  have pos2: "facetPosition (facetToSelectors ds2 g) = facetPosition (facetToSelectors ds g)"
    and fs2: "facets ds2 = facets ds" for g by (simp_all add: ds2_def)
  show ?thesis
  proof (cases "length ?xs = 1")
    case True
    hence e: "selsOf ds2 f = []" using xs' [of f] by (metis One_nat_def length_0_conv length_butlast length_list_update diff_Suc_1)
    have "fac_inv {f} ds2"
      using fi ne e unfolding fac_inv_def by (auto simp: fs2 pos2 xs')
    from removeFacet_inv [OF this e si2] show ?thesis
      using run True sets r2 by (auto simp: ds_inv_def fs2)
  next
    case False
    hence "selsOf ds2 f \<noteq> []" using n1 xs' [of f] by (metis length_butlast length_list_update list.size(3))
    hence "fac_inv {} ds2" using fi ne unfolding fac_inv_def by (auto simp: fs2 pos2 xs')
    thus ?thesis using run False si2 sets r2 by (simp add: ds_inv_def fs2)
  qed
qed

section \<open>Whole cuts\<close>

lemma addStep_Inr:
  "addStep f b x ds = Inr dt \<longleftrightarrow> route ds x = None \<and> addOneFunction f x b ds = Inr dt"
  by (simp add: addStep_def route_def Let_def)

lemma addLoop:
  assumes "sel_inv ds" "fac_inv {f} ds" "f \<noteq> AddressZero" "foldR (addStep f b) xs ds = Inr ds'"
  shows "sel_inv ds' \<and> fac_inv {f} ds' \<and> facets ds' = facets ds \<and>
    selsOf ds' = (selsOf ds)(f := selsOf ds f @ xs) \<and>
    route ds' = (\<lambda>s. if s \<in> set xs then Some (f, b) else route ds s)"
  using assms
proof (induction xs arbitrary: ds)
  case (Cons x xs)
  from Cons.prems(4) obtain dt where new: "route ds x = None"
    and add: "addOneFunction f x b ds = Inr dt" and rest: "foldR (addStep f b) xs dt = Inr ds'"
    by (auto simp: bindR_Inr_iff addStep_Inr)
  from addOneFunction_inv [OF Cons.prems(1,2,3) new add]
  have dt: "sel_inv dt" "fac_inv {} dt" "route dt = (route ds)(x \<mapsto> (f, b))" "facets dt = facets ds"
    "selsOf dt = (selsOf ds)(f := selsOf ds f @ [x])" by simp_all
  hence "fac_inv {f} dt" by (intro fac_inv_add) simp_all
  from Cons.IH [OF dt(1) this Cons.prems(3) rest] show ?case
    by (auto simp: dt fun_eq_iff)
qed simp

lemma addLoop_ok:
  assumes "sel_inv ds" "fac_inv {f} ds" "f \<noteq> AddressZero" "distinct xs"
    and "\<And>x. x \<in> set xs \<Longrightarrow> route ds x = None" and "length (selsOf ds f) + length xs \<le> 2 ^ 16"
    and "\<And>t. t \<in> set (selsOf ds f) \<Longrightarrow> route ds t = Some (f, b)"
  shows "\<exists>ds'. foldR (addStep f b) xs ds = Inr ds'"
  using assms
proof (induction xs arbitrary: ds)
  case (Cons x xs)
  have new: "route ds x = None" using Cons.prems(5) by simp
  have "stfFreezable (selectorToFacet ds t) = b" if "t \<in> set (selsOf ds f)" for t
    using Cons.prems(7) [OF that] by (auto simp: route_def Let_def split: if_splits)
  hence "\<exists>dt. addOneFunction f x b ds = Inr dt"
    using Cons.prems(6) by (intro addOneFunction_ok) simp_all
  then obtain dt where add: "addOneFunction f x b ds = Inr dt" ..
  from addOneFunction_inv [OF Cons.prems(1,2,3) new add]
  have dt: "sel_inv dt" "fac_inv {} dt" "route dt = (route ds)(x \<mapsto> (f, b))"
    "selsOf dt = (selsOf ds)(f := selsOf ds f @ [x])" by simp_all
  moreover from dt have "fac_inv {f} dt" by (intro fac_inv_add) simp_all
  ultimately have "\<exists>ds'. foldR (addStep f b) xs dt = Inr ds'"
    using Cons.prems by (intro Cons.IH) auto
  moreover have "addStep f b x ds = Inr dt" using add new by (simp add: addStep_Inr)
  ultimately show ?case by simp
qed simp

lemma addFunctions_inv:
  assumes "ds_inv ds" "f \<noteq> AddressZero" "xs \<noteq> []" "addFunctions hasCode f xs b ds = Inr ds'"
  shows "ds_inv ds' \<and> route ds' = (\<lambda>s. if s \<in> set xs then Some (f, b) else route ds s) \<and>
    selsOf ds' = (selsOf ds)(f := selsOf ds f @ xs) \<and>
    facets ds' = (if selsOf ds f = [] then facets ds @ [f] else facets ds)"
proof -
  obtain dt where s: "saveFacetIfNew f ds = Inr dt" and l: "foldR (addStep f b) xs dt = Inr ds'"
    using assms(4) by (auto simp: addFunctions_def bindR_Inr_iff split: if_splits)
  from saveFacetIfNew_inv [OF _ _ s] assms(1) have dt: "sel_inv dt" "fac_inv {f} dt" "route dt = route ds"
    "selsOf dt = selsOf ds" "facets dt = (if selsOf ds f = [] then facets ds @ [f] else facets ds)"
    by (simp_all add: ds_inv_def)
  from addLoop [OF dt(1,2) assms(2) l] show ?thesis
    using assms(3) by (auto simp: dt ds_inv_def intro!: fac_inv_drop)
qed

lemma addFunctions_ok:
  assumes "ds_inv ds" "hasCode f" "f \<noteq> AddressZero" "distinct xs" "selsOf ds f = []"
    and "\<And>x. x \<in> set xs \<Longrightarrow> route ds x = None" and "length xs \<le> 2 ^ 16" and "length (facets ds) < 2 ^ 16"
  shows "\<exists>ds'. addFunctions hasCode f xs b ds = Inr ds'"
proof -
  obtain dt where s: "saveFacetIfNew f ds = Inr dt"
    using assms by (auto simp: saveFacetIfNew_def toUint16_def)
  from saveFacetIfNew_inv [OF _ _ s] assms(1) have dt: "sel_inv dt" "fac_inv {f} dt" "route dt = route ds"
    "selsOf dt = selsOf ds" by (simp_all add: ds_inv_def)
  have "\<exists>ds'. foldR (addStep f b) xs dt = Inr ds'"
    using assms by (intro addLoop_ok) (auto simp: dt)
  thus ?thesis using s assms(2) by (simp add: addFunctions_def)
qed

lemma removeFunctionStep_inv:
  assumes "ds_inv ds" "removeFunctionStep s ds = Inr ds'"
  shows "ds_inv ds' \<and> route ds' = (route ds)(s := None)"
proof -
  have nz: "facetAddress (selectorToFacet ds s) \<noteq> AddressZero"
    using assms(2) by (auto simp: removeFunctionStep_def Let_def split: if_splits)
  hence "s \<in> set (selsOf ds (facetAddress (selectorToFacet ds s)))"
    using assms(1) by (simp add: ds_inv_def sel_inv_def)
  from removeOneFunction_inv [OF assms(1) this] assms(2) nz show ?thesis
    by (auto simp: removeFunctionStep_def)
qed

interpretation remove_loop: loop_refinement removeFunctionStep "\<lambda>_. True" ds_inv route "\<lambda>s r. r(s := None)"
  by unfold_locales (simp add: removeFunctionStep_inv)

lemma removeLoop_ok:
  assumes "ds_inv ds" "distinct xs" "\<And>x. x \<in> set xs \<Longrightarrow> route ds x \<noteq> None"
  shows "\<exists>ds'. foldR removeFunctionStep xs ds = Inr ds' \<and> length (facets ds') \<le> length (facets ds) \<and>
    (\<forall>g. set (selsOf ds' g) \<subseteq> set (selsOf ds g))"
  using assms
proof (induction xs arbitrary: ds)
  case (Cons x xs)
  have nz: "facetAddress (selectorToFacet ds x) \<noteq> AddressZero"
    using Cons.prems(3) [of x] by (auto simp: route_def Let_def split: if_splits)
  hence "x \<in> set (selsOf ds (facetAddress (selectorToFacet ds x)))"
    using Cons.prems(1) by (simp add: ds_inv_def sel_inv_def)
  from removeOneFunction_inv [OF Cons.prems(1) this] nz obtain dt where
    dt: "removeFunctionStep x ds = Inr dt" "ds_inv dt" "route dt = (route ds)(x := None)"
      "length (facets dt) \<le> length (facets ds)" "\<And>g. set (selsOf dt g) = set (selsOf ds g) - {x}"
    by (auto simp: removeFunctionStep_def)
  have "\<exists>ds'. foldR removeFunctionStep xs dt = Inr ds' \<and> length (facets ds') \<le> length (facets dt) \<and>
      (\<forall>g. set (selsOf ds' g) \<subseteq> set (selsOf dt g))"
    using Cons.prems dt by (intro Cons.IH) auto
  then obtain ds' where ds': "foldR removeFunctionStep xs dt = Inr ds'"
    "length (facets ds') \<le> length (facets dt)" "\<And>g. set (selsOf ds' g) \<subseteq> set (selsOf dt g)" by blast
  have "set (selsOf ds' g) \<subseteq> set (selsOf ds g)" for g using ds'(3) [of g] dt(5) [of g] by blast
  thus ?case using ds' dt by auto
qed simp

lemma replaceStep_inv:
  assumes "ds_inv ds" "f \<noteq> AddressZero" "replaceStep f b s ds = Inr ds'"
  shows "ds_inv ds' \<and> route ds' = (route ds)(s \<mapsto> (f, b))"
proof -
  let ?old = "facetAddress (selectorToFacet ds s)"
  obtain d1 d2 where nz: "?old \<noteq> AddressZero" and r: "removeOneFunction ?old s ds = Inr d1"
    and s: "saveFacetIfNew f d1 = Inr d2" and a: "addOneFunction f s b d2 = Inr ds'"
    using assms(3) by (auto simp: replaceStep_def Let_def bindR_Inr_iff split: if_splits)
  have "s \<in> set (selsOf ds ?old)" using assms(1) nz by (simp add: ds_inv_def sel_inv_def)
  from removeOneFunction_inv [OF assms(1) this] r
  have d1: "ds_inv d1" "route d1 = (route ds)(s := None)" by auto
  from saveFacetIfNew_inv [OF _ _ s] d1 have d2: "sel_inv d2" "fac_inv {f} d2" "route d2 = (route ds)(s := None)"
    by (simp_all add: ds_inv_def)
  from addOneFunction_inv [OF d2(1,2) assms(2) _ a] show ?thesis by (simp add: d2 ds_inv_def)
qed

interpretation replace_loop: loop_refinement "replaceStep f b" "\<lambda>_. f \<noteq> AddressZero" ds_inv route
  "\<lambda>s r. r(s \<mapsto> (f, b))" for f b
  by unfold_locales (simp add: replaceStep_inv)

lemma fold_upd: "fold (\<lambda>s r. r(s := v)) xs r = (\<lambda>s. if s \<in> set xs then v else r s)"
  by (induction xs arbitrary: r) (auto simp: fun_eq_iff)

lemma applyFacetCut_refines:
  assumes "\<not> hasCode AddressZero" "ds_inv ds" "applyFacetCut hasCode c ds = Inr ds'"
  shows "ds_inv ds' \<and> route ds' = cutRoute c (route ds)"
proof (cases "action c")
  case Add
  hence "addFunctions hasCode (facet c) (selectors c) (isFreezable c) ds = Inr ds'" "selectors c \<noteq> []"
    using assms(3) by (auto simp: applyFacetCut_def split: if_splits)
  moreover from this have "facet c \<noteq> AddressZero"
    using assms(1) by (auto simp: addFunctions_def split: if_splits)
  ultimately show ?thesis using addFunctions_inv [OF assms(2)] Add by (simp add: cutRoute_def)
next
  case Replace
  hence "hasCode (facet c)" and run: "foldR (replaceStep (facet c) (isFreezable c)) (selectors c) ds = Inr ds'"
    using assms(3) by (auto simp: applyFacetCut_def replaceFunctions_def split: if_splits)
  hence "facet c \<noteq> AddressZero" using assms(1) by metis
  from replace_loop.loop_refines [OF this assms(2) run] show ?thesis
    using Replace by (simp add: cutRoute_def fold_upd)
next
  case Remove
  hence "foldR removeFunctionStep (selectors c) ds = Inr ds'"
    using assms(3) by (auto simp: applyFacetCut_def removeFunctions_def split: if_splits)
  with assms remove_loop.loop_refines [of "selectors c" ds ds'] show ?thesis
    using Remove by (simp add: cutRoute_def fold_upd)
qed

interpretation cuts_loop: loop_refinement "applyFacetCut hasCode" "\<lambda>_. \<not> hasCode AddressZero" ds_inv route
  cutRoute for hasCode
  by unfold_locales (rule applyFacetCut_refines)

lemma facetsView_route:
  assumes "ds_inv ds" "(f, sels) \<in> set (facetsView ds)"
  shows "sels \<noteq> [] \<and> distinct sels \<and> (x \<in> set sels \<longleftrightarrow> (\<exists>b. route ds x = Some (f, b)))"
  using assms route_Some_mem [of ds x f] sel_inv_distinct [of ds f]
  by (auto simp: facetsView_def ds_inv_def fac_inv_def)

lemma distinct_sels:
  assumes "sel_inv ds" "distinct fs"
  shows "distinct (concat (map (selsOf ds) fs))"
  using assms(2)
proof (induction fs)
  case (Cons f fs)
  have "set (selsOf ds f) \<inter> set (selsOf ds g) = {}" if "g \<in> set fs" for g
    using that Cons.prems by (auto simp: sel_inv_mem [OF assms(1)])
  thus ?case using Cons sel_inv_distinct [OF assms(1)] by auto
qed simp

lemma removeCuts_ok:
  assumes "ds_inv ds" "\<And>c. c \<in> set cs \<Longrightarrow> action c = Remove \<and> facet c = AddressZero \<and> selectors c \<noteq> []"
    and "distinct (concat (map selectors cs))" "\<And>x. x \<in> set (concat (map selectors cs)) \<Longrightarrow> route ds x \<noteq> None"
  shows "\<exists>ds'. foldR (applyFacetCut hasCode) cs ds = Inr ds' \<and> length (facets ds') \<le> length (facets ds) \<and>
    (\<forall>g. set (selsOf ds' g) \<subseteq> set (selsOf ds g))"
  using assms
proof (induction cs arbitrary: ds)
  case (Cons c cs)
  have c: "action c = Remove" "facet c = AddressZero" "selectors c \<noteq> []" using Cons.prems(2) [of c] by simp_all
  obtain dt where rem: "foldR removeFunctionStep (selectors c) ds = Inr dt"
    and dt: "length (facets dt) \<le> length (facets ds)" "\<And>g. set (selsOf dt g) \<subseteq> set (selsOf ds g)"
    using removeLoop_ok [OF Cons.prems(1), of "selectors c"] Cons.prems(3,4) by auto
  have run: "applyFacetCut hasCode c ds = Inr dt"
    using rem c by (simp add: applyFacetCut_def removeFunctions_def)
  from remove_loop.loop_refines [OF _ Cons.prems(1) rem]
  have inv: "ds_inv dt" "route dt = (\<lambda>s. if s \<in> set (selectors c) then None else route ds s)"
    by (simp_all add: fold_upd)
  have "\<exists>ds'. foldR (applyFacetCut hasCode) cs dt = Inr ds' \<and> length (facets ds') \<le> length (facets dt) \<and>
      (\<forall>g. set (selsOf ds' g) \<subseteq> set (selsOf dt g))"
    using Cons.prems inv by (intro Cons.IH) auto
  thus ?case using dt run by (auto intro: order_trans) (meson order_trans subset_iff)
qed simp

lemma addCuts_ok:
  assumes "ds_inv ds" "\<And>c. c \<in> set cs \<Longrightarrow> action c = Add \<and> hasCode (facet c) \<and> facet c \<noteq> AddressZero \<and>
      selectors c \<noteq> [] \<and> length (selectors c) \<le> 2 ^ 16 \<and> selsOf ds (facet c) = []"
    and "distinct (map facet cs)" "distinct (concat (map selectors cs))"
    and "\<And>x. x \<in> set (concat (map selectors cs)) \<Longrightarrow> route ds x = None"
    and "length (facets ds) + length cs \<le> 2 ^ 16"
  shows "\<exists>ds'. foldR (applyFacetCut hasCode) cs ds = Inr ds'"
  using assms
proof (induction cs arbitrary: ds)
  case (Cons c cs)
  have c: "action c = Add" "hasCode (facet c)" "facet c \<noteq> AddressZero" "selectors c \<noteq> []"
    "length (selectors c) \<le> 2 ^ 16" "selsOf ds (facet c) = []" using Cons.prems(2) [of c] by simp_all
  obtain dt where add: "addFunctions hasCode (facet c) (selectors c) (isFreezable c) ds = Inr dt"
    using addFunctions_ok [of ds hasCode "facet c" "selectors c" "isFreezable c"] Cons.prems c by auto
  hence run: "applyFacetCut hasCode c ds = Inr dt" using c by (simp add: applyFacetCut_def)
  from addFunctions_inv [OF Cons.prems(1) c(3,4) add] c(6)
  have dt: "ds_inv dt" "route dt = (\<lambda>s. if s \<in> set (selectors c) then Some (facet c, isFreezable c) else route ds s)"
    "selsOf dt = (selsOf ds)(facet c := selectors c)" "facets dt = facets ds @ [facet c]" by simp_all
  have "facet d \<noteq> facet c" if "d \<in> set cs" for d using that Cons.prems(3) by (auto simp: image_iff)
  hence "\<exists>ds'. foldR (applyFacetCut hasCode) cs dt = Inr ds'"
    using Cons.prems dt by (intro Cons.IH) auto
  thus ?case using run by simp
qed simp

section \<open>Properties\<close>

text \<open>C1: a diamond cut that does not revert keeps the storage well formed (back pointers, facet list,
  uniform freezability, 16 bit positions) and changes the routing of selectors exactly as the abstract
  map does: added and replaced selectors go to the facet of the cut with its freezability, removed ones
  go nowhere, all others stay.\<close>

theorem executeDiamondCut_refines:
  assumes "ds_inv ds" and "\<not> hasCode AddressZero" and "\<And>a d x. snd (snd (call a d x)) = x"
    and "executeDiamondCut hasCode call c ds = Inr ds'"
  shows "ds_inv ds' \<and> route ds' = fold cutRoute (facetCuts c) (route ds)"
proof -
  obtain dt where cuts: "foldR (applyFacetCut hasCode) (facetCuts c) ds = Inr dt"
    and init: "initializeDiamondCut call (toStr (initAddress c)) (initCalldata c) dt = Inr ds'"
    using assms(4) by (auto simp: executeDiamondCut_def bindR_Inr_iff)
  have "ds' = dt"
    using init assms(3) [of "toStr (initAddress c)" "initCalldata c" dt]
    by (auto simp: initializeDiamondCut_def split: if_splits prod.splits)
  with cuts_loop.loop_refines [OF _ assms(1) cuts] assms(2) show ?thesis by simp
qed

definition emptyDiamond :: DiamondStorage where
  "emptyDiamond = \<lparr> selectorToFacet = (\<lambda>_. noFacet),
     facetToSelectors = (\<lambda>_. \<lparr> ftsSelectors = [], facetPosition = 0 \<rparr>), facets = [], isFrozen = False \<rparr>"

lemma emptyDiamond_inv: "ds_inv emptyDiamond"
  by (simp add: ds_inv_def sel_inv_def fac_inv_def emptyDiamond_def noFacet_def selsOf_def)

lemma emptyDiamond_route: "route emptyDiamond = Map.empty"
  by (simp add: emptyDiamond_def route_def noFacet_def fun_eq_iff)

lemma emptyDiamond_lists [simp]: "selsOf emptyDiamond f = []" "facets emptyDiamond = []"
  by (simp_all add: emptyDiamond_def selsOf_def)

theorem executeDiamondCut_refines_witness:
  "\<exists>ds'. executeDiamondCut (\<lambda>a. a = ''0xfa'') (\<lambda>_ _ x. (True, [], x))
      (diamondCut [\<lparr> facet = ''0xfa'', selectors = [''0x11'', ''0x12''], action = Add, isFreezable = True \<rparr>,
                   \<lparr> facet = AddressZero, selectors = [''0x11''], action = Remove, isFreezable = False \<rparr>]
         (Some AddressZero) ''0x'') emptyDiamond = Inr ds' \<and>
    ds_inv ds' \<and> route ds' = [''0x12'' \<mapsto> (''0xfa'', True)]"
proof -
  let ?h = "\<lambda>a. a = ''0xfa''" and ?call = "\<lambda>_ _ x. (True, [], x)" and
    ?c = "diamondCut [\<lparr> facet = ''0xfa'', selectors = [''0x11'', ''0x12''], action = Add, isFreezable = True \<rparr>,
                   \<lparr> facet = AddressZero, selectors = [''0x11''], action = Remove, isFreezable = False \<rparr>]
         (Some AddressZero) ''0x''"
  have "\<exists>ds'. executeDiamondCut ?h ?call ?c emptyDiamond = Inr ds'"
    by (simp add: executeDiamondCut_def diamondCut_def applyFacetCut_def addFunctions_def saveFacetIfNew_def
        addStep_def addOneFunction_def removeFunctions_def removeFunctionStep_def removeOneFunction_def
        emptyDiamond_def selsOf_def setFacetPos_def setSels_def setStf_def toUint16_def noFacet_def
        initializeDiamondCut_def AddressZero_def toStr_def Let_def)
  then obtain ds' where run: "executeDiamondCut ?h ?call ?c emptyDiamond = Inr ds'" ..
  have "\<not> ?h AddressZero" by (simp add: AddressZero_def)
  from executeDiamondCut_refines [OF emptyDiamond_inv this _ run]
  have "ds_inv ds'" "route ds' = fold cutRoute (facetCuts ?c) (route emptyDiamond)" by simp_all
  moreover have "fold cutRoute (facetCuts ?c) (route emptyDiamond) = [''0x12'' \<mapsto> (''0xfa'', True)]"
    by (simp add: emptyDiamond_route diamondCut_def cutRoute_def fun_eq_iff)
  ultimately show ?thesis using run by auto
qed

text \<open>The four new facets of an upgrade, as the add cuts of the scripts.\<close>

definition newCuts :: "(string \<Rightarrow> Interface) \<Rightarrow> string \<Rightarrow> string \<Rightarrow> string \<Rightarrow> string \<Rightarrow> (string \<times> FacetCut) list" where
  "newCuts iface aA aG aM aE = [
     (''AdminFacet'', facetCut aA (iface ''AdminFacet'') Add False),
     (''GettersFacet'', facetCut aG (iface ''GettersFacet'') Add False),
     (''MailboxFacet'', facetCut aM (iface ''MailboxFacet'') Add True),
     (''ExecutorFacet'', facetCut aE (iface ''ExecutorFacet'') Add True)]"

lemma getCurrentFacetCutsForAdd_all:
  assumes "\<And>name a. gca name a = Inr (a, iface name)" "aA \<noteq> []" "aG \<noteq> []" "aM \<noteq> []" "aE \<noteq> []"
  shows "getCurrentFacetCutsForAdd gca (Some aA) (Some aG) (Some aM) (Some aE) = Inr (newCuts iface aA aG aM aE)"
  using assms by (simp add: getCurrentFacetCutsForAdd_def addFacetCut_def truthyStr_def toStr_def newCuts_def)

lemma fold_cutRoute_Remove:
  "(\<And>c. c \<in> set cs \<Longrightarrow> action c = Remove) \<Longrightarrow>
   fold cutRoute cs r = (\<lambda>x. if x \<in> set (concat (map selectors cs)) then None else r x)"
  by (induction cs arbitrary: r) (auto simp: cutRoute_def fun_eq_iff)

definition removalCuts :: "DiamondStorage \<Rightarrow> (string \<Rightarrow> string) \<Rightarrow> string list \<Rightarrow> FacetCut list" where
  "removalCuts ds nm names =
     map (\<lambda>f. \<lparr> facet = AddressZero, selectors = selsOf ds f, action = Remove, isFreezable = False \<rparr>)
       (filter (\<lambda>f. nm f \<in> set names) (facets ds))"

lemma removalCuts_selectors:
  assumes "ds_inv ds"
  shows "x \<in> set (concat (map selectors (removalCuts ds nm names))) \<longleftrightarrow>
      (\<exists>f b. route ds x = Some (f, b) \<and> nm f \<in> set names)"
proof -
  have si: "sel_inv ds" and "\<And>f. f \<in> set (facets ds) \<longleftrightarrow> selsOf ds f \<noteq> []"
    using assms by (simp_all add: ds_inv_def fac_inv_def)
  hence "x \<in> set (concat (map selectors (removalCuts ds nm names))) \<longleftrightarrow>
      (\<exists>f. nm f \<in> set names \<and> x \<in> set (selsOf ds f))"
    by (auto simp: removalCuts_def) force
  thus ?thesis by (simp add: route_Some_mem [OF si, symmetric]) blast
qed

lemma removalCuts_ok:
  assumes inv: "ds_inv ds" and code: "\<not> hasCode AddressZero"
  shows "\<exists>dt. foldR (applyFacetCut hasCode) (removalCuts ds nm names) ds = Inr dt \<and> ds_inv dt \<and>
    length (facets dt) \<le> length (facets ds) \<and> (\<forall>g. set (selsOf dt g) \<subseteq> set (selsOf ds g)) \<and>
    route dt = (\<lambda>x. case route ds x of None \<Rightarrow> None
       | Some (f, b) \<Rightarrow> if nm f \<in> set names then None else Some (f, b))"
proof -
  let ?old = "removalCuts ds nm names"
  have si: "sel_inv ds" and fi: "fac_inv {} ds" using inv by (simp_all add: ds_inv_def)
  have "concat (map selectors ?old) = concat (map (selsOf ds) (filter (\<lambda>f. nm f \<in> set names) (facets ds)))"
    by (simp add: removalCuts_def o_def)
  hence dist: "distinct (concat (map selectors ?old))"
    using fac_inv_distinct [OF fi] by (simp add: distinct_sels [OF si])
  have "\<exists>dt. foldR (applyFacetCut hasCode) ?old ds = Inr dt \<and> length (facets dt) \<le> length (facets ds) \<and>
      (\<forall>g. set (selsOf dt g) \<subseteq> set (selsOf ds g))"
  proof (rule removeCuts_ok [OF inv _ dist])
    show "action c = Remove \<and> facet c = AddressZero \<and> selectors c \<noteq> []" if "c \<in> set ?old" for c
      using that fi by (auto simp: removalCuts_def fac_inv_def)
    show "route ds x \<noteq> None" if "x \<in> set (concat (map selectors ?old))" for x
      using that unfolding removalCuts_selectors [OF inv] by auto
  qed
  then obtain dt where dt: "foldR (applyFacetCut hasCode) ?old ds = Inr dt" "length (facets dt) \<le> length (facets ds)"
    "\<forall>g. set (selsOf dt g) \<subseteq> set (selsOf ds g)" by blast
  from cuts_loop.loop_refines [OF _ inv dt(1)] code
  have idt: "ds_inv dt" and "route dt = fold cutRoute ?old (route ds)" by simp_all
  moreover have "fold cutRoute ?old (route ds) = (\<lambda>x. if x \<in> set (concat (map selectors ?old)) then None else route ds x)"
    by (rule fold_cutRoute_Remove) (auto simp: removalCuts_def)
  ultimately have "route dt = (\<lambda>x. case route ds x of None \<Rightarrow> None
       | Some (f, b) \<Rightarrow> if nm f \<in> set names then None else Some (f, b))"
    unfolding removalCuts_selectors [OF inv] by (auto simp: fun_eq_iff split: option.splits)
  with dt idt show ?thesis by blast
qed

text \<open>C5: the upgrade the scripts compute is executable and does what it should.  For a well-formed
  diamond whose facets have names, and four new facets that have code, are not in the diamond yet and have
  distinct, disjoint, nonempty selector lists clashing only with facets that are to be removed, the
  list of cuts from \<open>getFacetCutsForUpgrade\<close> does not revert; afterwards every selector of the four new
  facets is routed to them (admin and getters unfreezable, mailbox and executor freezable), a selector of a
  facet whose name was to be removed is routed nowhere else, and every other selector is untouched.\<close>

theorem upgrade_cuts_execute:
  assumes inv: "ds_inv ds" and code: "\<not> hasCode AddressZero"
    and chain: "facetsOf zk = Inr (facetsView ds)" "\<And>f. f \<in> set (facets ds) \<Longrightarrow> getName f = Inr (nm f)"
    and hh: "\<And>name a. gca name a = Inr (a, iface name)" "\<And>a. a \<in> {aA, aG, aM, aE} \<Longrightarrow> a \<noteq> []"
    and new: "\<And>c. c \<in> snd ` set (newCuts iface aA aG aM aE) \<Longrightarrow> hasCode (facet c) \<and> facet c \<notin> set (facets ds) \<and>
        selectors c \<noteq> [] \<and> length (selectors c) \<le> 2 ^ 16"
      "distinct [aA, aG, aM, aE]" "distinct (concat (map (\<lambda>c. selectors (snd c)) (newCuts iface aA aG aM aE)))"
      "length (facets ds) + 4 \<le> 2 ^ 16"
    and names: "names = (case ns of None \<Rightarrow> map fst (newCuts iface aA aG aM aE) | Some n \<Rightarrow> n)"
    and clash: "\<And>x c f b. c \<in> snd ` set (newCuts iface aA aG aM aE) \<Longrightarrow> x \<in> set (selectors c) \<Longrightarrow>
        route ds x = Some (f, b) \<Longrightarrow> nm f \<in> set names"
  shows "\<exists>cuts ds'. getFacetCutsForUpgrade gca facetsOf getName zk (Some aA) (Some aG) (Some aM) (Some aE) ns = Inr cuts \<and>
    foldR (applyFacetCut hasCode) cuts ds = Inr ds' \<and> ds_inv ds' \<and>
    route ds' = fold cutRoute (map snd (newCuts iface aA aG aM aE))
      (\<lambda>x. case route ds x of None \<Rightarrow> None | Some (f, b) \<Rightarrow> if nm f \<in> set names then None else Some (f, b))"
proof -
  let ?new = "map snd (newCuts iface aA aG aM aE)" and ?old = "removalCuts ds nm names"
  have "foldR (removeStep getName names) (facetsView ds) [] = Inr ?old"
    using chain(2) by (subst removeStep_fold [where nm = nm])
      (auto simp: facetsView_def removalCuts_def filter_map o_def)
  hence cuts: "getFacetCutsForUpgrade gca facetsOf getName zk (Some aA) (Some aG) (Some aM) (Some aE) ns = Inr (?old @ ?new)"
    using getCurrentFacetCutsForAdd_all [OF hh(1)] hh(2) chain(1)
    by (simp add: getFacetCutsForUpgrade_def getDeployedFacetCutsForRemove_def names)
  obtain dt where dt: "foldR (applyFacetCut hasCode) ?old ds = Inr dt" "length (facets dt) \<le> length (facets ds)"
    "\<And>g. set (selsOf dt g) \<subseteq> set (selsOf ds g)" and idt: "ds_inv dt" and
    rdt: "route dt = (\<lambda>x. case route ds x of None \<Rightarrow> None
       | Some (f, b) \<Rightarrow> if nm f \<in> set names then None else Some (f, b))"
    using removalCuts_ok [of ds hasCode nm names] inv code by blast
  have mem: "f \<in> set (facets ds) \<longleftrightarrow> selsOf ds f \<noteq> []" for f using inv by (simp add: ds_inv_def fac_inv_def)
  have "\<exists>ds'. foldR (applyFacetCut hasCode) ?new dt = Inr ds'"
  proof (rule addCuts_ok [OF idt])
    fix c assume c: "c \<in> set ?new"
    hence "hasCode (facet c)" "facet c \<notin> set (facets ds)" "selectors c \<noteq> []" "length (selectors c) \<le> 2 ^ 16"
      using new(1) by auto
    moreover from this have "selsOf dt (facet c) = []" using mem dt(3) [of "facet c"] by auto
    moreover have "action c = Add" using c by (auto simp: newCuts_def facetCut_def)
    ultimately show "action c = Add \<and> hasCode (facet c) \<and> facet c \<noteq> AddressZero \<and>
      selectors c \<noteq> [] \<and> length (selectors c) \<le> 2 ^ 16 \<and> selsOf dt (facet c) = []" using code by metis
  next
    show "distinct (map facet ?new)" using new(2) by (simp add: newCuts_def facetCut_def)
    show "distinct (concat (map selectors ?new))" using new(3) by (simp add: o_def)
    show "length (facets dt) + length ?new \<le> 2 ^ 16" using dt(2) new(4) by (simp add: newCuts_def)
    show "route dt x = None" if "x \<in> set (concat (map selectors ?new))" for x
      using that clash by (fastforce simp: rdt split: option.splits)
  qed
  then obtain ds' where ds': "foldR (applyFacetCut hasCode) ?new dt = Inr ds'" ..
  from cuts_loop.loop_refines [OF _ idt ds'] code have "ds_inv ds'" "route ds' = fold cutRoute ?new (route dt)"
    by simp_all
  thus ?thesis using cuts dt(1) ds' rdt by (auto simp: foldR_append)
qed

theorem upgrade_cuts_execute_witness:
  "\<exists>ds cuts ds'. facetsView ds = [(''0x0a'', [''AdminFacet'', ''legacy''])] \<and>
    getFacetCutsForUpgrade (\<lambda>name a. Inr (a, \<lparr> ifaceFunctions = [name], getSighash = \<lambda>f. f \<rparr>))
      (\<lambda>_. Inr (facetsView ds)) (\<lambda>_. Inr ''AdminFacet'') ''0x0d''
      (Some ''0xa1'') (Some ''0xa2'') (Some ''0xa3'') (Some ''0xa4'') None = Inr cuts \<and>
    foldR (applyFacetCut (\<lambda>a. a \<noteq> AddressZero)) cuts ds = Inr ds' \<and>
    route ds' ''AdminFacet'' = Some (''0xa1'', False) \<and> route ds' ''MailboxFacet'' = Some (''0xa3'', True) \<and>
    route ds' ''legacy'' = None"
proof -
  let ?h = "\<lambda>a. a \<noteq> AddressZero" and ?i = "\<lambda>name. \<lparr> ifaceFunctions = [name], getSighash = \<lambda>f. f \<rparr>"
  have z: "''0x0a'' \<noteq> AddressZero" by (simp add: AddressZero_def)
  have "\<exists>ds. addFunctions ?h ''0x0a'' [''AdminFacet'', ''legacy''] False emptyDiamond = Inr ds"
    by (rule addFunctions_ok) (simp_all add: emptyDiamond_inv emptyDiamond_route z)
  then obtain ds where "addFunctions ?h ''0x0a'' [''AdminFacet'', ''legacy''] False emptyDiamond = Inr ds" ..
  from addFunctions_inv [OF emptyDiamond_inv z _ this]
  have ds: "ds_inv ds" "facets ds = [''0x0a'']" "selsOf ds ''0x0a'' = [''AdminFacet'', ''legacy'']"
    "route ds = (\<lambda>s. if s \<in> {''AdminFacet'', ''legacy''} then Some (''0x0a'', False) else None)"
    by (simp_all add: emptyDiamond_route fun_eq_iff)
  have "\<exists>cuts ds'. getFacetCutsForUpgrade (\<lambda>name a. Inr (a, ?i name)) (\<lambda>_. Inr (facetsView ds)) (\<lambda>_. Inr ''AdminFacet'') ''0x0d''
      (Some ''0xa1'') (Some ''0xa2'') (Some ''0xa3'') (Some ''0xa4'') None = Inr cuts \<and>
    foldR (applyFacetCut ?h) cuts ds = Inr ds' \<and> ds_inv ds' \<and>
    route ds' = fold cutRoute (map snd (newCuts ?i ''0xa1'' ''0xa2'' ''0xa3'' ''0xa4''))
      (\<lambda>x. case route ds x of None \<Rightarrow> None | Some (f, b) \<Rightarrow>
         if ''AdminFacet'' \<in> set (map fst (newCuts ?i ''0xa1'' ''0xa2'' ''0xa3'' ''0xa4'')) then None else Some (f, b))"
    by (rule upgrade_cuts_execute [OF ds(1), where nm = "\<lambda>_. ''AdminFacet''" and ns = None])
      (auto simp: newCuts_def ds(2) facetCut_def getAllSelectors_def AddressZero_def)
  moreover have "facetsView ds = [(''0x0a'', [''AdminFacet'', ''legacy''])]" by (simp add: facetsView_def ds)
  ultimately show ?thesis
    by (fastforce simp: newCuts_def facetCut_def getAllSelectors_def cutRoute_def ds(4))
qed

end
