(* ===== verification/Utils.thy ===== *)
theory Utils
  imports DiamondCuts
begin

text \<open>
  \<open>src.ts/utils.ts\<close> and \<open>scripts/utils.ts\<close>: environment getters, the L1-to-L2 address
  alias, the zkEVM bytecode hash and create2 address, packed semantic versions, and the
  initial diamond cut of a new chain.

  The functions of the ethers package are the fields of a record \<open>ethers\<close>, an argument
  of every definition that calls them.  What the code relies on of them is stated by the
  predicates \<open>bn_documented\<close> (BigNumber.from and hexlify), \<open>bytes_documented\<close> (arrayify,
  sha256 and zeroPad); both are satisfied by the executable instance \<open>plainEthers\<close>.
\<close>

section \<open>The ethers package\<close>

record ethers =
  e_bnFrom :: "string \<Rightarrow> int result"
  e_hexlify :: "int \<Rightarrow> string result"
  e_arrayify :: "val \<Rightarrow> byte list result"
  e_sha256 :: "byte list \<Rightarrow> string result"
  e_keccak256 :: "val \<Rightarrow> string result"
  e_zeroPad :: "byte list \<Rightarrow> nat \<Rightarrow> byte list result"
  e_hexZeroPad :: "string \<Rightarrow> nat \<Rightarrow> string result"
  e_hexDataSlice :: "string \<Rightarrow> nat \<Rightarrow> string result"
  e_concat :: "val list \<Rightarrow> val result"
  e_abiEncode :: "string list \<Rightarrow> val list \<Rightarrow> string result"
  e_encodeFunctionData :: "string \<Rightarrow> string \<Rightarrow> val list \<Rightarrow> string result"
  e_deployData :: "string \<Rightarrow> val list \<Rightarrow> string result"
  e_getCreate2Address :: "string \<Rightarrow> string \<Rightarrow> string \<Rightarrow> string result"
  e_solidityKeccak256 :: "string list \<Rightarrow> val list \<Rightarrow> string result"
  e_hexlifyBytes :: "byte list \<Rightarrow> string result"

section \<open>Constants\<close>

definition SYSTEM_UPGRADE_L2_TX_TYPE :: int where
  "SYSTEM_UPGRADE_L2_TX_TYPE = 254"

definition ADDRESS_ONE :: string where
  "ADDRESS_ONE = ''0x0000000000000000000000000000000000000001''"

definition ETH_ADDRESS_IN_CONTRACTS :: string where
  "ETH_ADDRESS_IN_CONTRACTS = ADDRESS_ONE"

definition L1_TO_L2_ALIAS_OFFSET :: string where
  "L1_TO_L2_ALIAS_OFFSET = ''0x1111000000000000000000000000000000001111''"

definition L2_BRIDGEHUB_ADDRESS :: string where
  "L2_BRIDGEHUB_ADDRESS = ''0x0000000000000000000000000000000000010002''"

definition L2_ASSET_ROUTER_ADDRESS :: string where
  "L2_ASSET_ROUTER_ADDRESS = ''0x0000000000000000000000000000000000010003''"

definition L2_NATIVE_TOKEN_VAULT_ADDRESS :: string where
  "L2_NATIVE_TOKEN_VAULT_ADDRESS = ''0x0000000000000000000000000000000000010004''"

definition DEPLOYER_SYSTEM_CONTRACT_ADDRESS :: string where
  "DEPLOYER_SYSTEM_CONTRACT_ADDRESS = ''0x0000000000000000000000000000000000008006''"

definition ADDRESS_MODULO :: int where
  "ADDRESS_MODULO = 2 ^ 160"

definition SEMVER_MINOR_VERSION_MULTIPLIER :: int where
  "SEMVER_MINOR_VERSION_MULTIPLIER = 4294967296"

section \<open>Addresses and hashes\<close>

definition applyL1ToL2Alias :: "ethers \<Rightarrow> string \<Rightarrow> string result" where
  "applyL1ToL2Alias E address =
     bindR (e_bnFrom E address) (\<lambda>a.
     bindR (e_bnFrom E L1_TO_L2_ALIAS_OFFSET) (\<lambda>offset.
       e_hexlify E ((a + offset) mod ADDRESS_MODULO)))"

text \<open>\<open>Uint8Array.prototype.set\<close>.\<close>

definition setBytes :: "byte list \<Rightarrow> byte list \<Rightarrow> nat \<Rightarrow> byte list result" where
  "setBytes dst source off =
     (if off + length source > length dst then Inl (Error ''offset is out of bounds'')
      else Inr (take off dst @ source @ drop (off + length source) dst))"

definition hashL2Bytecode :: "ethers \<Rightarrow> val \<Rightarrow> byte list result" where
  "hashL2Bytecode E bytecode =
     bindR (e_arrayify E bytecode) (\<lambda>bytecodeAsArray.
     bindR (throwIf (length bytecodeAsArray mod 32 \<noteq> 0)
              ''The bytecode length in bytes must be divisible by 32'') (\<lambda>_.
     bindR (e_sha256 E bytecodeAsArray) (\<lambda>hashStr.
     bindR (e_arrayify E (VStr hashStr)) (\<lambda>hash.
     let bytecodeLengthInWords = length bytecodeAsArray div 32 in
     bindR (throwIf (bytecodeLengthInWords mod 2 = 0)
              ''Bytecode length in 32-byte words must be odd'') (\<lambda>_.
     bindR (e_arrayify E (VNum (int bytecodeLengthInWords))) (\<lambda>bytecodeLength.
     bindR (throwIf (length bytecodeLength > 2)
              ''Bytecode length must be less than 2^16 bytes'') (\<lambda>_.
     bindR (e_zeroPad E bytecodeLength 2) (\<lambda>bytecodeLengthPadded.
     bindR (setBytes hash [1, 0] 0) (\<lambda>hash1.
       setBytes hash1 bytecodeLengthPadded 2)))))))))"

definition computeL2Create2Address ::
  "ethers \<Rightarrow> string \<Rightarrow> val \<Rightarrow> val \<Rightarrow> val \<Rightarrow> string result"
where
  "computeL2Create2Address E deployWallet bytecode constructorInput create2Salt =
     bindR (e_hexZeroPad E deployWallet 32) (\<lambda>senderBytes.
     bindR (hashL2Bytecode E bytecode) (\<lambda>bytecodeHash.
     bindR (e_keccak256 E constructorInput) (\<lambda>constructorInputHash.
     bindR (e_solidityKeccak256 E [''string''] [VStr ''zksyncCreate2'']) (\<lambda>prefix.
     bindR (e_concat E [VStr prefix, VStr senderBytes, create2Salt, VBytes bytecodeHash,
              VStr constructorInputHash]) (\<lambda>preimage.
     bindR (e_keccak256 E preimage) (\<lambda>data.
       e_hexDataSlice E data 12))))))"

definition encodeNTVAssetId :: "ethers \<Rightarrow> val \<Rightarrow> string \<Rightarrow> string result" where
  "encodeNTVAssetId E chainId tokenAddress =
     bindR (e_hexZeroPad E tokenAddress 32) (\<lambda>token.
     bindR (e_abiEncode E [''uint256'', ''address'', ''bytes32'']
              [chainId, VStr L2_NATIVE_TOKEN_VAULT_ADDRESS, VStr token]) (\<lambda>enc.
       e_keccak256 E (VStr enc)))"

section \<open>Artifacts\<close>

text \<open>\<open>readJson path\<close> stands for the parsed contents of an artifact file.\<close>

definition readContract :: "(string \<Rightarrow> val result) \<Rightarrow> string \<Rightarrow> string \<Rightarrow> val result" where
  "readContract readJson path fileName =
     readJson (path @ ''/'' @ fileName @ ''.sol/'' @ fileName @ ''.json'')"

definition readBytecode :: "(string \<Rightarrow> val result) \<Rightarrow> string \<Rightarrow> string \<Rightarrow> val result" where
  "readBytecode readJson path fileName =
     bindR (readJson (path @ ''/'' @ fileName @ ''.sol/'' @ fileName @ ''.json''))
       (\<lambda>j. getProp j ''bytecode'')"

section \<open>Environment\<close>

type_synonym env = "string \<Rightarrow> string option"

text \<open>\<open>RegExp.test\<close> converts a missing variable to the text \<open>undefined\<close>.\<close>

definition getAddressFromEnv :: "env \<Rightarrow> string \<Rightarrow> string result" where
  "getAddressFromEnv env envName = (let address = toStr (env envName) in
     if \<not> matchesHex 40 address
     then Inl (Error (''Incorrect address format hash in '' @ envName @ '' env: '' @ address))
     else Inr address)"

definition getHashFromEnv :: "env \<Rightarrow> string \<Rightarrow> string result" where
  "getHashFromEnv env envName = (let hash = toStr (env envName) in
     if \<not> matchesHex 64 hash
     then Inl (Error (''Incorrect hash format hash in '' @ envName @ '' env: '' @ hash))
     else Inr hash)"

definition getNumberFromEnv :: "env \<Rightarrow> string \<Rightarrow> string result" where
  "getNumberFromEnv env envName = (let number = toStr (env envName) in
     if \<not> matchesNumber number
     then Inl (Error (''Incorrect number format number in '' @ envName @ '' env: '' @ number))
     else Inr number)"

definition isZKMode :: "env \<Rightarrow> bool" where
  "isZKMode env = (env ''CONTRACTS_BASE_NETWORK_ZKSYNC'' = Some ''true'')"

definition LOCAL_NETWORKS :: "string list" where
  "LOCAL_NETWORKS = [''localhost'', ''hardhat'', ''localhostL2'']"

definition isCurrentNetworkLocal :: "env \<Rightarrow> bool" where
  "isCurrentNetworkLocal env = (case env ''CHAIN_ETH_NETWORK'' of
     None \<Rightarrow> False | Some network \<Rightarrow> network \<in> set LOCAL_NETWORKS)"

definition web3Url :: "env \<Rightarrow> string result" where
  "web3Url env = (case env ''ETH_CLIENT_WEB3_URL'' of
     None \<Rightarrow> Inl (TypeError ''Cannot read properties of undefined (reading split)'')
   | Some urls \<Rightarrow> Inr (hd (splitOn CHR '','' urls)))"

section \<open>Packed versions\<close>

definition argOf :: "string list \<Rightarrow> nat \<Rightarrow> string" where
  "argOf xs i = (if i < length xs then xs ! i else ''undefined'')"

definition unpackStringSemVer :: "string \<Rightarrow> jsnum \<times> jsnum \<times> jsnum" where
  "unpackStringSemVer semver = (let parts = splitOn CHR ''.'' semver in
     (parseInt (argOf parts 0), parseInt (argOf parts 1), parseInt (argOf parts 2)))"

definition unpackNumberSemVer :: "jsnum \<Rightarrow> jsnum \<times> jsnum \<times> jsnum" where
  "unpackNumberSemVer semver =
     (Num 0, floorDivN semver SEMVER_MINOR_VERSION_MULTIPLIER,
      remN semver SEMVER_MINOR_VERSION_MULTIPLIER)"

definition packSemver :: "jsnum \<Rightarrow> jsnum \<Rightarrow> jsnum \<Rightarrow> jsnum result" where
  "packSemver major minor patch =
     (if major \<noteq> Num 0 then Inl (Error ''Major version must be 0'')
      else Inr (addN (mulN minor (Num SEMVER_MINOR_VERSION_MULTIPLIER)) patch))"

definition addToProtocolVersion :: "jsnum \<Rightarrow> jsnum \<Rightarrow> jsnum \<Rightarrow> jsnum result" where
  "addToProtocolVersion packedProtocolVersion minor patch =
     (case unpackNumberSemVer packedProtocolVersion of (major, minorVersion, patchVersion) \<Rightarrow>
        packSemver major (addN minorVersion minor) (addN patchVersion patch))"

section \<open>System contract bytecode\<close>

definition pathJoin :: "string \<Rightarrow> string \<Rightarrow> string" where
  "pathJoin a b = (if a \<noteq> [] \<and> last a = CHR ''/'' then a @ b else a @ ''/'' @ b)"

definition zksyncHome :: "env \<Rightarrow> string result" where
  "zksyncHome env = (case env ''ZKSYNC_HOME'' of
     None \<Rightarrow> Inl (TypeError ''The path argument must be of type string. Received undefined'')
   | Some h \<Rightarrow> Inr h)"

definition readBatchBootloaderBytecode :: "(string \<Rightarrow> byte list result) \<Rightarrow> env \<Rightarrow> byte list result" where
  "readBatchBootloaderBytecode readFile env =
     bindR (zksyncHome env) (\<lambda>h.
       readFile (pathJoin h ''contracts/system-contracts/bootloader'' @ ''/build/artifacts/proved_batch.yul.zbin''))"

definition readSystemContractsBytecode :: "(string \<Rightarrow> val result) \<Rightarrow> env \<Rightarrow> string \<Rightarrow> val result" where
  "readSystemContractsBytecode readJson env fileName =
     bindR (zksyncHome env) (\<lambda>h.
     bindR (readJson (pathJoin h ''contracts/system-contracts'' @
              ''/artifacts-zk/contracts-preprocessed/'' @ fileName @ ''.sol/'' @ fileName @ ''.json''))
       (\<lambda>j. getProp j ''bytecode''))"

section \<open>The initial diamond cut\<close>

record SystemConfig =
  requiredL2GasPricePerPubdata :: val
  priorityTxMinimalGasPrice :: val
  priorityTxMaxGasPerBatch :: val
  priorityTxPubdataPerBatch :: val
  priorityTxBatchOverheadL1Gas :: val
  priorityTxMaxPubdata :: val

record VerifierParams =
  recursionNodeLevelVkHash :: string
  recursionLeafLevelVkHash :: string
  recursionCircuitsSetVksHash :: string

definition EXPECTED_FACET_CUTS :: nat where
  "EXPECTED_FACET_CUTS = 4"

definition EXPECTED_PRIORITY_TX_MAX_GAS_LIMIT :: int where
  "EXPECTED_PRIORITY_TX_MAX_GAS_LIMIT = 72000000"

definition showNum :: "jsnum \<Rightarrow> string" where
  "showNum n = (case n of NaN \<Rightarrow> ''NaN'' | Num i \<Rightarrow> showInt i)"

definition checkValidInitialCutHashParams ::
  "FacetCut list \<Rightarrow> VerifierParams \<Rightarrow> string \<Rightarrow> string \<Rightarrow> string \<Rightarrow> string option \<Rightarrow> jsnum \<Rightarrow> unit result"
where
  "checkValidInitialCutHashParams cuts verifierParams l2BootloaderBytecodeHash
       l2DefaultAccountBytecodeHash l2EvmEmulatorBytecodeHash verifier priorityTxMaxGasLimit =
     bindR (throwIf (length cuts \<noteq> EXPECTED_FACET_CUTS)
       (''Expected '' @ showNat EXPECTED_FACET_CUTS @ '' facet cuts, got '' @ showNat (length cuts))) (\<lambda>_.
     bindR (throwIf (recursionNodeLevelVkHash verifierParams = HashZero)
       ''Recursion node level vk hash is zero'') (\<lambda>_.
     bindR (throwIf (recursionLeafLevelVkHash verifierParams = HashZero)
       ''Recursion leaf level vk hash is zero'') (\<lambda>_.
     bindR (throwIf (recursionCircuitsSetVksHash verifierParams \<noteq> HashZero)
       ''Recursion circuits set vks hash must be zero'') (\<lambda>_.
     bindR (throwIf (l2BootloaderBytecodeHash = HashZero)
       ''L2 bootloader bytecode hash is zero'') (\<lambda>_.
     bindR (throwIf (l2DefaultAccountBytecodeHash = HashZero)
       ''L2 default account bytecode hash is zero'') (\<lambda>_.
     bindR (throwIf (l2EvmEmulatorBytecodeHash = HashZero)
       ''L2 evm emulator bytecode hash is zero'') (\<lambda>_.
     bindR (throwIf (verifier = Some AddressZero) ''Verifier address is zero'') (\<lambda>_.
       throwIf (priorityTxMaxGasLimit \<noteq> Num EXPECTED_PRIORITY_TX_MAX_GAS_LIMIT)
         (''Expected priority tx max gas limit to be '' @ showInt EXPECTED_PRIORITY_TX_MAX_GAS_LIMIT
           @ '', got '' @ showNum priorityTxMaxGasLimit)))))))))"

definition numVal :: "jsnum \<Rightarrow> val" where
  "numVal n = (case n of NaN \<Rightarrow> VStr ''NaN'' | Num i \<Rightarrow> VNum i)"

definition feeParams :: "SystemConfig \<Rightarrow> val" where
  "feeParams cfg = VObj [
     (''pubdataPricingMode'', VNum 0),
     (''batchOverheadL1Gas'', priorityTxBatchOverheadL1Gas cfg),
     (''maxPubdataPerBatch'', priorityTxPubdataPerBatch cfg),
     (''priorityTxMaxPubdata'', priorityTxMaxPubdata cfg),
     (''maxL2GasPerBatch'', priorityTxMaxGasPerBatch cfg),
     (''minimalL2GasPrice'', priorityTxMinimalGasPrice cfg)]"

text \<open>The eight members that the contract fills in, and the placeholders the script writes there.\<close>

definition mandatoryKeys :: "string list" where
  "mandatoryKeys = [''chainId'', ''bridgehub'', ''chainTypeManager'', ''protocolVersion'', ''admin'',
     ''validatorTimelock'', ''baseTokenAssetId'', ''storedBatchZero'']"

definition placeholders :: "val list" where
  "placeholders = [
     VStr ''0x0000000000000000000000000000000000000000000000000000000000000001'',
     VStr ''0x0000000000000000000000000000000000001234'',
     VStr ''0x0000000000000000000000000000000000002234'',
     VStr ''0x0000000000000000000000000000000000002234'',
     VStr ''0x0000000000000000000000000000000000003234'',
     VStr ''0x0000000000000000000000000000000000004234'',
     VStr ''0x0000000000000000000000000000000000000000000000000000000000004234'',
     VStr ''0x0000000000000000000000000000000000000000000000000000000000005432'']"

definition initRest ::
  "SystemConfig \<Rightarrow> VerifierParams \<Rightarrow> string \<Rightarrow> string \<Rightarrow> string \<Rightarrow> val \<Rightarrow> jsnum \<Rightarrow> (string \<times> val) list"
where
  "initRest cfg verifierParams l2BootloaderBytecodeHash l2DefaultAccountBytecodeHash
       l2EvmEmulatorBytecodeHash verifier priorityTxMaxGasLimit = [
     (''verifier'', verifier),
     (''verifierParams'', VObj [
        (''recursionNodeLevelVkHash'', VStr (recursionNodeLevelVkHash verifierParams)),
        (''recursionLeafLevelVkHash'', VStr (recursionLeafLevelVkHash verifierParams)),
        (''recursionCircuitsSetVksHash'', VStr (recursionCircuitsSetVksHash verifierParams))]),
     (''l2BootloaderBytecodeHash'', VStr l2BootloaderBytecodeHash),
     (''l2DefaultAccountBytecodeHash'', VStr l2DefaultAccountBytecodeHash),
     (''l2EvmEmulatorBytecodeHash'', VStr l2EvmEmulatorBytecodeHash),
     (''priorityTxMaxGasLimit'', numVal priorityTxMaxGasLimit),
     (''feeParams'', feeParams cfg)]"

definition compileInitialCutHash ::
  "ethers \<Rightarrow> SystemConfig \<Rightarrow> FacetCut list \<Rightarrow> VerifierParams \<Rightarrow> string \<Rightarrow> string \<Rightarrow> string \<Rightarrow>
   string option \<Rightarrow> jsnum \<Rightarrow> string option \<Rightarrow> bool \<Rightarrow> DiamondCut result"
where
  "compileInitialCutHash E cfg cuts verifierParams l2BootloaderBytecodeHash
       l2DefaultAccountBytecodeHash l2EvmEmulatorBytecodeHash verifier priorityTxMaxGasLimit
       diamondInit strictMode =
     bindR (if strictMode then checkValidInitialCutHashParams cuts verifierParams
              l2BootloaderBytecodeHash l2DefaultAccountBytecodeHash l2EvmEmulatorBytecodeHash
              verifier priorityTxMaxGasLimit else Inr ()) (\<lambda>_.
     bindR (e_encodeFunctionData E ''DiamondInit'' ''initialize''
              [VObj (zip mandatoryKeys placeholders @
                 initRest cfg verifierParams l2BootloaderBytecodeHash l2DefaultAccountBytecodeHash
                   l2EvmEmulatorBytecodeHash (optVal verifier) priorityTxMaxGasLimit)])
       (\<lambda>diamondInitCalldata.
       Inr (diamondCut cuts diamondInit
              (''0x'' @ drop (2 + (4 + 8 * 32) * 2) diamondInitCalldata))))"

section \<open>What the ethers functions are documented to do\<close>

definition isHexString :: "string \<Rightarrow> bool" where
  "isHexString s = (take 2 s = ''0x'' \<and> 2 < length s \<and> list_all isHexDigit (drop 2 s))"

definition hexVal :: "string \<Rightarrow> int" where
  "hexVal s = int (digitsVal 16 0 (drop 2 s))"

text \<open>\<open>hexlify\<close> of a number gives the least even number of digits.\<close>

definition evenHex :: "nat \<Rightarrow> string" where
  "evenHex n = (let h = showBase 16 n in if even (length h) then h else CHR ''0'' # h)"

definition bn_documented :: "ethers \<Rightarrow> bool" where
  "bn_documented E \<longleftrightarrow>
     (\<forall>s. isHexString s \<longrightarrow> e_bnFrom E s = Inr (hexVal s)) \<and>
     (\<forall>n. e_hexlify E (int n) = Inr (''0x'' @ evenHex n))"

text \<open>The bytes of a number, most significant first, without leading zeros.\<close>

fun beBytes :: "nat \<Rightarrow> byte list" where
  "beBytes n = (if n < 256 then [of_nat n] else beBytes (n div 256) @ [of_nat (n mod 256)])"

declare beBytes.simps [simp del]

definition bytes_documented :: "ethers \<Rightarrow> (byte list \<Rightarrow> byte list) \<Rightarrow> bool" where
  "bytes_documented E digest \<longleftrightarrow>
     (\<forall>bs. length (digest bs) = 32 \<and>
        (\<exists>h. e_sha256 E bs = Inr h \<and> e_arrayify E (VStr h) = Inr (digest bs))) \<and>
     (\<forall>n. e_arrayify E (VNum (int n)) = Inr (beBytes n)) \<and>
     (\<forall>bs n. length bs \<le> n \<longrightarrow> e_zeroPad E bs n = Inr (replicate (n - length bs) 0 @ bs))"

text \<open>The ABI encoding of \<open>DiamondInit.initialize\<close>: its argument is a static tuple, so the call data
  is the selector followed by one word per leading member and the words of the remaining ones.\<close>

definition initialize_abi ::
  "ethers \<Rightarrow> string \<Rightarrow> (string \<Rightarrow> string) \<Rightarrow> ((string \<times> val) list \<Rightarrow> string) \<Rightarrow> bool"
where
  "initialize_abi E sel enc rest \<longleftrightarrow> length sel = 8 \<and> (\<forall>s. length (enc s) = 64) \<and>
     (\<forall>ss kvs. length ss = 8 \<longrightarrow>
        e_encodeFunctionData E ''DiamondInit'' ''initialize''
          [VObj (zip mandatoryKeys (map VStr ss) @ kvs)] =
        Inr (''0x'' @ sel @ concat (map enc ss) @ rest kvs))"

section \<open>Laws\<close>

lemma showBase_length:
  "2 \<le> b \<Longrightarrow> 1 \<le> k \<Longrightarrow> length (showBase b n) \<le> k \<longleftrightarrow> n < b ^ k"
proof (induction b n arbitrary: k rule: showBase.induct)
  case (1 b n)
  show ?case
  proof (cases "n < b")
    case True
    moreover have "b \<le> b ^ k" using 1(2,3) by (simp add: self_le_power)
    ultimately show ?thesis using 1(3) by (subst showBase.simps) simp
  next
    case False
    show ?thesis
    proof (cases "k = 1")
      case True
      have "0 < length (showBase b (n div b))" by simp
      thus ?thesis using False True 1(2) by (subst showBase.simps) (simp del: length_greater_0_conv)
    next
      case k: False
      then obtain k' where k': "k = Suc k'" "1 \<le> k'" using 1(3) by (cases k) auto
      have "length (showBase b (n div b)) \<le> k' \<longleftrightarrow> n div b < b ^ k'"
        using 1 False k' by simp
      also have "\<dots> \<longleftrightarrow> n < b ^ k" using 1(2) by (simp add: k' div_less_iff_less_mult mult.commute)
      finally show ?thesis using False 1(2) by (subst showBase.simps) (simp add: k')
    qed
  qed
qed

lemma isHexDigit_below: "digitBelow 16 c \<Longrightarrow> isHexDigit c"
  by (auto simp: digitBelow_def isHexDigit_def split: option.splits)

lemma evenHex_digits: "list_all isHexDigit (evenHex n)"
  using showBase_digits [of 16 n]
  by (auto simp: evenHex_def Let_def list_all_iff isHexDigit_below) (simp add: isHexDigit_def digitVal_def)

lemma evenHex_value: "digitsVal 16 0 (evenHex n) = n"
  by (simp add: evenHex_def Let_def digitsVal_showBase digitVal_def)

lemma evenHex_not_Nil [simp]: "evenHex n \<noteq> []"
  by (simp add: evenHex_def Let_def)

lemma evenHex_length:
  assumes "1 \<le> k"
  shows "length (evenHex n) \<le> 2 * k \<longleftrightarrow> n < 16 ^ (2 * k)"
proof -
  have "length (showBase 16 n) \<le> 2 * k \<longleftrightarrow> n < 16 ^ (2 * k)" using assms by (intro showBase_length) simp_all
  moreover have "odd (length (showBase 16 n)) \<Longrightarrow>
      length (showBase 16 n) \<le> 2 * k \<longleftrightarrow> Suc (length (showBase 16 n)) \<le> 2 * k"
    by presburger
  ultimately show ?thesis by (simp add: evenHex_def Let_def)
qed

lemma evenHex_even: "even (length (evenHex n))"
  by (simp add: evenHex_def Let_def)

lemma hexVal_evenHex [simp]: "hexVal (''0x'' @ evenHex n) = int n"
  by (simp add: hexVal_def evenHex_value)

lemma isHexString_evenHex [simp]: "isHexString (''0x'' @ evenHex n)"
  by (simp add: isHexString_def evenHex_digits)

lemma matchesHex_isHexString: "matchesHex n s \<Longrightarrow> 0 < n \<Longrightarrow> isHexString s"
  by (simp add: matchesHex_def isHexString_def)

lemma digitsVal_bound:
  "2 \<le> b \<Longrightarrow> list_all (digitBelow b) s \<Longrightarrow> digitsVal b acc s < (acc + 1) * b ^ length s"
proof (induction s arbitrary: acc)
  case (Cons c cs)
  then obtain d where d: "digitVal c = Some d" "d < b"
    by (auto simp: digitBelow_def split: option.splits)
  have "digitsVal b (acc * b + d) cs < (acc * b + d + 1) * b ^ length cs" using Cons by simp
  also have "\<dots> \<le> ((acc + 1) * b) * b ^ length cs"
    using d(2) by (intro mult_right_mono) (simp_all add: algebra_simps)
  finally show ?case by (simp add: d(1) algebra_simps)
qed simp

lemma digitVal_less16: "digitVal c = Some d \<Longrightarrow> d < 16"
  by (auto simp: digitVal_def Let_def split: if_splits)

lemma isHexDigit_iff: "isHexDigit c \<longleftrightarrow> digitBelow 16 c"
  by (auto simp: digitBelow_def isHexDigit_def digitVal_less16 split: option.splits)

lemma hexVal_bound: "matchesHex n s \<Longrightarrow> 0 \<le> hexVal s \<and> hexVal s < 16 ^ n"
proof -
  assume "matchesHex n s"
  hence "digitsVal 16 0 (drop 2 s) < 16 ^ n"
    using digitsVal_bound [of 16 "drop 2 s" 0] by (simp add: matchesHex_def isHexDigit_iff list_all_iff)
  hence "int (digitsVal 16 0 (drop 2 s)) < int (16 ^ n)" by (simp only: of_nat_less_iff)
  thus ?thesis by (simp add: hexVal_def)
qed

lemma matchesHex_evenHex:
  assumes "n < 2 ^ 160"
  shows "matchesHex 40 (''0x'' @ evenHex n) \<longleftrightarrow> 2 ^ 152 \<le> n"
proof -
  have p: "(2::nat) ^ 160 = 16 ^ 40" "(2::nat) ^ 152 = 16 ^ 38" by simp_all
  have "length (evenHex n) \<le> 40" using assms p evenHex_length [of 20 n] by simp
  moreover have "length (evenHex n) \<le> 38 \<longleftrightarrow> n < 2 ^ 152" using p evenHex_length [of 19 n] by simp
  moreover have "length (evenHex n) \<noteq> 39" using evenHex_even [of n] by (metis odd_numeral)
  ultimately have "length (evenHex n) = 40 \<longleftrightarrow> 2 ^ 152 \<le> n" by linarith
  thus ?thesis by (simp add: matchesHex_def evenHex_digits)
qed

lemma beBytes_short: "n < 65536 \<Longrightarrow> beBytes n = (if n < 256 then [of_nat n] else [of_nat (n div 256), of_nat (n mod 256)])"
  by (subst beBytes.simps, subst beBytes.simps) (simp add: div_less_iff_less_mult)

lemma beBytes_long: "65536 \<le> n \<Longrightarrow> 2 < length (beBytes n)"
proof -
  assume n: "65536 \<le> n"
  hence "256 \<le> n div 256" by (simp add: less_eq_div_iff_mult_less_eq)
  moreover have "0 < length (beBytes (n div 256 div 256))" by (subst beBytes.simps) simp
  ultimately show ?thesis using n
    by (subst beBytes.simps, subst beBytes.simps) (simp del: length_greater_0_conv)
qed

section \<open>An executable instance of the package\<close>

definition padLeft :: "nat \<Rightarrow> string \<Rightarrow> string" where
  "padLeft n s = drop (length s) (replicate n CHR ''0'' @ s)"

definition hexOfByte :: "byte \<Rightarrow> string" where
  "hexOfByte b = [digitChar (unat b div 16), digitChar (unat b mod 16)]"

fun unhex :: "string \<Rightarrow> byte list" where
  "unhex (c # d # r) = of_nat (digitsVal 16 0 [c, d]) # unhex r"
| "unhex _ = []"

fun flatWords :: "val \<Rightarrow> string" where
  "flatWords (VStr s) = padLeft 64 (drop 2 s)"
| "flatWords (VNum i) = padLeft 64 (showBase 16 (nat i))"
| "flatWords (VBool b) = padLeft 64 (if b then ''1'' else ''0'')"
| "flatWords (VBytes bs) = concat (map hexOfByte bs)"
| "flatWords (VList vs) = concat (map flatWords vs)"
| "flatWords (VObj kvs) = concat (map (\<lambda>kv. flatWords (snd kv)) kvs)"
| "flatWords _ = []"

fun rawHex :: "val \<Rightarrow> string" where
  "rawHex (VStr s) = drop 2 s"
| "rawHex (VBytes bs) = concat (map hexOfByte bs)"
| "rawHex _ = []"

definition plainDigest :: "byte list \<Rightarrow> byte list" where
  "plainDigest bs = take 32 (bs @ replicate 32 0)"

definition plainEthers :: ethers where
  "plainEthers = \<lparr>
     e_bnFrom = (\<lambda>s. if isHexString s then Inr (hexVal s) else Inl (Error ''invalid BigNumber string'')),
     e_hexlify = (\<lambda>n. Inr (''0x'' @ evenHex (nat n))),
     e_arrayify = (\<lambda>v. case v of VNum n \<Rightarrow> Inr (beBytes (nat n)) | VBytes bs \<Rightarrow> Inr bs
        | VStr s \<Rightarrow> Inr (unhex (drop 2 s)) | _ \<Rightarrow> Inl (Error ''invalid arrayify value'')),
     e_sha256 = (\<lambda>bs. Inr (''0x'' @ concat (map hexOfByte (plainDigest bs)))),
     e_keccak256 = (\<lambda>v. Inr (''0x'' @ rawHex v)),
     e_zeroPad = (\<lambda>bs n. if length bs > n then Inl (Error ''value out of range'')
        else Inr (replicate (n - length bs) 0 @ bs)),
     e_hexZeroPad = (\<lambda>s n. Inr (''0x'' @ padLeft (2 * n) (drop 2 s))),
     e_hexDataSlice = (\<lambda>s n. Inr (''0x'' @ drop (2 + 2 * n) s)),
     e_concat = (\<lambda>vs. Inr (VStr (''0x'' @ concat (map rawHex vs)))),
     e_abiEncode = (\<lambda>_ vs. Inr (''0x'' @ concat (map flatWords vs))),
     e_encodeFunctionData = (\<lambda>_ f vs. Inr (''0x'' @ padLeft 8 [] @ concat (map flatWords vs))),
     e_deployData = (\<lambda>c vs. Inr (''0x'' @ concat (map flatWords vs))),
     e_getCreate2Address = (\<lambda>a salt h. Inr (''0x'' @ padLeft 40 h)),
     e_solidityKeccak256 = (\<lambda>_ vs. Inr (''0x'' @ concat (map flatWords vs))),
     e_hexlifyBytes = (\<lambda>bs. Inr (''0x'' @ concat (map hexOfByte bs))) \<rparr>"

lemma padLeft_length [simp]: "length (padLeft n s) = n"
  by (simp add: padLeft_def)

lemma unhex_hexOfByte [simp]: "unhex (concat (map hexOfByte bs)) = bs"
proof (induction bs)
  case (Cons b bs)
  have "unat b < 256" using unsigned_less [of b] by simp
  hence "unat b div 16 < 16" by (simp add: div_less_iff_less_mult)
  hence "of_nat (digitsVal 16 0 (hexOfByte b)) = b"
    by (simp add: hexOfByte_def mult.commute)
  thus ?case using Cons by (simp add: hexOfByte_def)
qed simp

lemma plain_bn: "bn_documented plainEthers"
  by (simp add: bn_documented_def plainEthers_def)

lemma plainDigest_length [simp]: "length (plainDigest bs) = 32"
  by (simp add: plainDigest_def)

lemma plain_bytes: "bytes_documented plainEthers plainDigest"
  by (simp add: bytes_documented_def plainEthers_def)

section \<open>Properties\<close>

text \<open>Aliasing an L1 address for L2 adds the fixed offset modulo 2^160, loses no
  information (subtracting the offset gives the address back), and the returned string has
  the 40 digits of an address exactly when the aliased value needs its top byte: smaller
  values are returned unpadded.\<close>

theorem applyL1ToL2Alias_correct:
  assumes "bn_documented E" and "matchesHex 40 address"
  shows "\<exists>t. applyL1ToL2Alias E address = Inr t \<and> isHexString t \<and>
     hexVal t = (hexVal address + hexVal L1_TO_L2_ALIAS_OFFSET) mod ADDRESS_MODULO \<and>
     (hexVal t - hexVal L1_TO_L2_ALIAS_OFFSET) mod ADDRESS_MODULO = hexVal address \<and>
     (matchesHex 40 t \<longleftrightarrow> 2 ^ 152 \<le> hexVal t)"
proof -
  let ?o = "hexVal L1_TO_L2_ALIAS_OFFSET"
  define n where "n = nat ((hexVal address + ?o) mod ADDRESS_MODULO)"
  have n: "int n = (hexVal address + ?o) mod ADDRESS_MODULO" by (simp add: n_def ADDRESS_MODULO_def)
  hence n160: "n < 2 ^ 160" by (simp add: ADDRESS_MODULO_def flip: of_nat_less_iff)
  have "isHexString L1_TO_L2_ALIAS_OFFSET" by (simp add: isHexString_def L1_TO_L2_ALIAS_OFFSET_def) code_simp
  hence "applyL1ToL2Alias E address = Inr (''0x'' @ evenHex n)"
    using assms matchesHex_isHexString [of 40 address]
    by (simp add: applyL1ToL2Alias_def bn_documented_def flip: n)
  moreover have "(int n - ?o) mod ADDRESS_MODULO = hexVal address"
    using hexVal_bound [OF assms(2)] by (simp add: n mod_diff_left_eq ADDRESS_MODULO_def)
  moreover have "matchesHex 40 (''0x'' @ evenHex n) \<longleftrightarrow> 2 ^ 152 \<le> int n"
    using matchesHex_evenHex [OF n160] by (simp add: numeral_power_le_of_nat_cancel_iff)
  ultimately show ?thesis using n by (metis hexVal_evenHex isHexString_evenHex)
qed

theorem applyL1ToL2Alias_witness:
  "\<exists>t. applyL1ToL2Alias plainEthers ''0xeeef000000000000000000000000000000000000'' = Inr t \<and>
     hexVal t = 4369 \<and> \<not> matchesHex 40 t"
proof -
  let ?a = "''0xeeef000000000000000000000000000000000000''"
  have "matchesHex 40 ?a" by code_simp
  from applyL1ToL2Alias_correct [OF plain_bn this]
  obtain t where t: "applyL1ToL2Alias plainEthers ?a = Inr t"
    "hexVal t = (hexVal ?a + hexVal L1_TO_L2_ALIAS_OFFSET) mod ADDRESS_MODULO"
    "matchesHex 40 t \<longleftrightarrow> 2 ^ 152 \<le> hexVal t" by blast
  moreover have "hexVal ?a = 1364069681558522625698315279583082328236304105472"
    "hexVal L1_TO_L2_ALIAS_OFFSET = 97431955772380292505369553133200691419628441873"
    by (simp_all add: hexVal_def digitVal_def L1_TO_L2_ALIAS_OFFSET_def)
  ultimately show ?thesis by (simp add: ADDRESS_MODULO_def)
qed

text \<open>C31: the zkEVM bytecode hash.  For a bytecode of \<open>w\<close> 32-byte words the hash is the
  sha256 digest with its first four bytes overwritten by the version 1, a zero, and \<open>w\<close> in two
  big-endian bytes; a length that is no multiple of 32, an even \<open>w\<close>, and a \<open>w\<close> of 2^16 or
  more are rejected with their own errors, in this order.\<close>

theorem hashL2Bytecode_correct:
  assumes "bytes_documented E digest" and "e_arrayify E bytecode = Inr bs" and "w = length bs div 32"
  shows "hashL2Bytecode E bytecode =
    (if length bs mod 32 \<noteq> 0 then Inl (Error ''The bytecode length in bytes must be divisible by 32'')
     else if even w then Inl (Error ''Bytecode length in 32-byte words must be odd'')
     else if 2 ^ 16 \<le> w then Inl (Error ''Bytecode length must be less than 2^16 bytes'')
     else Inr ([1, 0, of_nat (w div 256), of_nat (w mod 256)] @ drop 4 (digest bs)))"
proof -
  obtain h where h: "e_sha256 E bs = Inr h" "e_arrayify E (VStr h) = Inr (digest bs)"
    using assms(1) unfolding bytes_documented_def by blast
  have len: "length (digest bs) = 32" and num: "e_arrayify E (VNum (int w)) = Inr (beBytes w)"
    and pad: "\<And>xs n. length xs \<le> n \<Longrightarrow> e_zeroPad E xs n = Inr (replicate (n - length xs) 0 @ xs)"
    using assms(1) unfolding bytes_documented_def by blast+
  note run = hashL2Bytecode_def assms(2) h num throwIf_def assms(3) [symmetric] even_iff_mod_2_eq_zero
  consider "length bs mod 32 \<noteq> 0 \<or> even w" | "length bs mod 32 = 0" "odd w" "2 ^ 16 \<le> w"
    | "length bs mod 32 = 0" "odd w" "w < 65536" by force
  thus ?thesis
  proof cases
    case 1
    thus ?thesis by (auto simp: run)
  next
    case 2
    with beBytes_long [of w] show ?thesis by (simp add: run)
  next
    case 3
    let ?p = "[of_nat (w div 256), of_nat (w mod 256)] :: byte list"
    have l: "length (beBytes w) \<le> 2" using 3 by (simp add: beBytes_short)
    have "e_zeroPad E (beBytes w) 2 = Inr ?p"
      using pad [OF l] 3 by (simp add: beBytes_short numeral_2_eq_2)
    moreover have "setBytes (digest bs) [1, 0] 0 = Inr ([1, 0] @ drop 2 (digest bs))"
      by (simp add: setBytes_def len numeral_2_eq_2)
    moreover have "setBytes ([1, 0] @ drop 2 (digest bs)) ?p 2 = Inr ([1, 0] @ ?p @ drop 4 (digest bs))"
      by (simp add: setBytes_def len)
    ultimately show ?thesis using 3 l by (simp add: run)
  qed
qed

theorem hashL2Bytecode_witness:
  "hashL2Bytecode plainEthers (VBytes (replicate 96 7)) = Inr ([1, 0, 0, 3] @ replicate 28 7)"
proof -
  have "e_arrayify plainEthers (VBytes (replicate 96 7)) = Inr (replicate 96 7)"
    by (simp add: plainEthers_def)
  from hashL2Bytecode_correct [OF plain_bytes this refl] show ?thesis
    by (simp add: plainDigest_def)
qed

lemma packSemver_Num:
  assumes "0 \<le> m" "0 \<le> p" "m * 4294967296 + p < 2 ^ 53"
  shows "packSemver (Num 0) (Num m) (Num p) = Inr (Num (m * 4294967296 + p))"
  using assms by (simp add: packSemver_def SEMVER_MINOR_VERSION_MULTIPLIER_def)

lemma unpackNumberSemVer_Num:
  assumes "0 \<le> m" "0 \<le> p"
  shows "unpackNumberSemVer (Num (m * 4294967296 + p)) =
    (Num 0, Num (m + p div 4294967296), Num (p mod 4294967296))"
proof -
  have "sgn x * (\<bar>x\<bar> mod 4294967296) = x mod 4294967296" if "0 \<le> x" for x :: int
    using that by (cases "x = 0") simp_all
  from this [of "m * 4294967296 + p"] show ?thesis
    using assms by (simp add: unpackNumberSemVer_def SEMVER_MINOR_VERSION_MULTIPLIER_def)
qed

lemma unpackStringSemVer_show:
  assumes "major < 2 ^ 53" "minor < 2 ^ 53" "patch < 2 ^ 53"
  shows "unpackStringSemVer (showNat major @ ''.'' @ showNat minor @ ''.'' @ showNat patch) =
    (Num (int major), Num (int minor), Num (int patch))"
proof -
  have "CHR ''.'' \<notin> set (showNat n)" for n using showNat_isDigit isDigit_distinct by blast
  thus ?thesis using assms by (simp add: unpackStringSemVer_def argOf_def parseInt_showNat)
qed

text \<open>A version survives the trip through its text and through its packed number: the text
  \<open>0.minor.patch\<close> parses to its three components, packing them succeeds, and unpacking the packed
  number gives them back, for every patch below 2^32 and minor below 2^21 (where the packed value is
  an exact double).  A nonzero major version is refused.\<close>

theorem semver_roundtrip:
  assumes "minor < 2 ^ 21" and "patch < 2 ^ 32"
  shows "unpackStringSemVer (showNat major @ ''.'' @ showNat minor @ ''.'' @ showNat patch) = (a, b, c) \<Longrightarrow>
     major < 2 ^ 53 \<Longrightarrow>
     (if major = 0 then \<exists>v. packSemver a b c = Inr v \<and> unpackNumberSemVer v = (Num 0, b, c) \<and>
         b = Num (int minor) \<and> c = Num (int patch)
      else packSemver a b c = Inl (Error ''Major version must be 0''))"
proof -
  assume u: "unpackStringSemVer (showNat major @ ''.'' @ showNat minor @ ''.'' @ showNat patch) = (a, b, c)"
    and "major < 2 ^ 53"
  with assms have abc: "a = Num (int major)" "b = Num (int minor)" "c = Num (int patch)"
    using unpackStringSemVer_show [of major minor patch] by simp_all
  have "int minor * 4294967296 + int patch < 2 ^ 53" using assms by simp
  with assms show ?thesis
    using packSemver_Num [of "int minor" "int patch"] unpackNumberSemVer_Num [of "int minor" "int patch"]
    by (simp add: abc packSemver_def)
qed

theorem semver_roundtrip_witness:
  "\<exists>v. packSemver (Num 0) (Num 27) (Num 3) = Inr v \<and> unpackNumberSemVer v = (Num 0, Num 27, Num 3)"
  using semver_roundtrip [of 27 3 0 "Num 0" "Num 27" "Num 3"] unpackStringSemVer_show [of 0 27 3] by simp

text \<open>Bumping a packed protocol version adds to its components: when the sums stay an exact
  double the new number unpacks to the sum of the minors plus the carry of the patches, so the patch
  part is the sum of the patches exactly when that sum is below 2^32.\<close>

theorem addToProtocolVersion_correct:
  assumes "0 \<le> m" "0 \<le> p" "p < 2 ^ 32" "0 \<le> dm" "0 \<le> dp" "(m + dm) * 2 ^ 32 + (p + dp) < 2 ^ 53"
  shows "\<exists>v. addToProtocolVersion (Num (m * 2 ^ 32 + p)) (Num dm) (Num dp) = Inr v \<and>
    unpackNumberSemVer v = (Num 0, Num (m + dm + (p + dp) div 2 ^ 32), Num ((p + dp) mod 2 ^ 32))"
proof -
  have b: "m + dm < 2 ^ 53" "p + dp < 2 ^ 53" "0 \<le> m + dm" "0 \<le> p + dp" using assms by simp_all
  have "unpackNumberSemVer (Num (m * 2 ^ 32 + p)) = (Num 0, Num m, Num p)"
    using unpackNumberSemVer_Num [of m p] assms by simp
  hence "addToProtocolVersion (Num (m * 2 ^ 32 + p)) (Num dm) (Num dp) =
      Inr (Num ((m + dm) * 4294967296 + (p + dp)))"
    using packSemver_Num [of "m + dm" "p + dp"] assms b by (simp add: addToProtocolVersion_def)
  with unpackNumberSemVer_Num [OF b(3,4)] show ?thesis by simp
qed

theorem addToProtocolVersion_witness:
  "\<exists>v. addToProtocolVersion (Num (27 * 2 ^ 32 + 4294967295)) (Num 1) (Num 1) = Inr v \<and>
    unpackNumberSemVer v = (Num 0, Num 29, Num 0)"
  using addToProtocolVersion_correct [of 27 4294967295 1 1] by simp

lemma length_concat_words: "(\<And>s. length (enc s) = 64) \<Longrightarrow> length (concat (map enc ss)) = 64 * length ss"
  by (induction ss) simp_all



definition exampleConfig :: SystemConfig where
  "exampleConfig = \<lparr> requiredL2GasPricePerPubdata = VNum 800, priorityTxMinimalGasPrice = VNum 250000000,
     priorityTxMaxGasPerBatch = VNum 80000000, priorityTxPubdataPerBatch = VNum 120000,
     priorityTxBatchOverheadL1Gas = VNum 1000000, priorityTxMaxPubdata = VNum 99000 \<rparr>"

definition exampleVk :: VerifierParams where
  "exampleVk = \<lparr> recursionNodeLevelVkHash = ''0x01'', recursionLeafLevelVkHash = ''0x02'',
     recursionCircuitsSetVksHash = HashZero \<rparr>"

lemma plain_initialize_abi:
  "initialize_abi plainEthers (replicate 8 CHR ''0'') (\<lambda>s. padLeft 64 (drop 2 s))
     (\<lambda>kvs. concat (map (\<lambda>kv. flatWords (snd kv)) kvs))"
proof -
  have "concat (map (\<lambda>kv. flatWords (snd kv)) (zip ks (map VStr ss))) = concat (map (\<lambda>s. padLeft 64 (drop 2 s)) ss)"
    if "length ks = length ss" for ks ss :: "string list"
    using that by (induction ks ss rule: list_induct2) simp_all
  thus ?thesis
    by (simp add: initialize_abi_def plainEthers_def padLeft_def mandatoryKeys_def numeral_eq_Suc)
qed



end
