(* ===== verification/Addresses.thy ===== *)
theory Addresses
  imports Utils
begin

text \<open>
  \<open>DeployedAddresses\<close> and \<open>deployedAddressesFromEnv\<close> of \<open>src.ts/deploy-utils.ts\<close>.  The scripts only
  access the nested object by constant member paths, so a path is a constructor of \<open>slot\<close> and the
  object is a function from slots to texts.
\<close>

datatype BridgehubSlot =
    BridgehubProxy | BridgehubImplementation | CTMDeploymentTrackerImplementation
  | CTMDeploymentTrackerProxy | MessageRootImplementation | MessageRootProxy

datatype StateTransitionSlot =
    StateTransitionProxy | StateTransitionImplementation | Verifier | AdminFacet | MailboxFacet
  | ExecutorFacet | GettersFacet | DiamondInit | GenesisUpgrade | DiamondUpgradeInit
  | DefaultUpgrade | DiamondProxy

datatype BridgesSlot =
    L1NullifierImplementation | L1NullifierProxy | ERC20BridgeImplementation | ERC20BridgeProxy
  | SharedBridgeImplementation | SharedBridgeProxy | L2SharedBridgeProxy
  | L2SharedBridgeImplementation | L2LegacySharedBridgeProxy | L2LegacySharedBridgeImplementation
  | L2NativeTokenVaultImplementation | L2NativeTokenVaultProxy | NativeTokenVaultImplementation
  | NativeTokenVaultProxy | BridgedStandardERC20Implementation | BridgedTokenBeacon

datatype slot =
    Bridgehub BridgehubSlot | StateTransition StateTransitionSlot | Bridges BridgesSlot
  | BaseTokenAssetId | BaseToken | TransparentProxyAdmin | L2ProxyAdmin | Governance | ChainAdmin
  | ValidatorTimeLock | RollupL1DAValidator | ValidiumL1DAValidator | RelayedSLDAValidator
  | Create2Factory

type_synonym addresses = "slot \<Rightarrow> string"

text \<open>The variables in the order the object literal evaluates them.\<close>

definition envSlots :: "(slot \<times> string) list" where
  "envSlots = [
     (Bridgehub BridgehubProxy, ''CONTRACTS_BRIDGEHUB_PROXY_ADDR''),
     (Bridgehub BridgehubImplementation, ''CONTRACTS_BRIDGEHUB_IMPL_ADDR''),
     (Bridgehub CTMDeploymentTrackerImplementation, ''CONTRACTS_CTM_DEPLOYMENT_TRACKER_IMPL_ADDR''),
     (Bridgehub CTMDeploymentTrackerProxy, ''CONTRACTS_CTM_DEPLOYMENT_TRACKER_PROXY_ADDR''),
     (Bridgehub MessageRootImplementation, ''CONTRACTS_MESSAGE_ROOT_IMPL_ADDR''),
     (Bridgehub MessageRootProxy, ''CONTRACTS_MESSAGE_ROOT_PROXY_ADDR''),
     (StateTransition StateTransitionProxy, ''CONTRACTS_STATE_TRANSITION_PROXY_ADDR''),
     (StateTransition StateTransitionImplementation, ''CONTRACTS_STATE_TRANSITION_IMPL_ADDR''),
     (StateTransition Verifier, ''CONTRACTS_VERIFIER_ADDR''),
     (StateTransition AdminFacet, ''CONTRACTS_ADMIN_FACET_ADDR''),
     (StateTransition MailboxFacet, ''CONTRACTS_MAILBOX_FACET_ADDR''),
     (StateTransition ExecutorFacet, ''CONTRACTS_EXECUTOR_FACET_ADDR''),
     (StateTransition GettersFacet, ''CONTRACTS_GETTERS_FACET_ADDR''),
     (StateTransition DiamondInit, ''CONTRACTS_DIAMOND_INIT_ADDR''),
     (StateTransition GenesisUpgrade, ''CONTRACTS_GENESIS_UPGRADE_ADDR''),
     (StateTransition DiamondUpgradeInit, ''CONTRACTS_DIAMOND_UPGRADE_INIT_ADDR''),
     (StateTransition DefaultUpgrade, ''CONTRACTS_DEFAULT_UPGRADE_ADDR''),
     (StateTransition DiamondProxy, ''CONTRACTS_DIAMOND_PROXY_ADDR''),
     (Bridges L1NullifierImplementation, ''CONTRACTS_L1_NULLIFIER_IMPL_ADDR''),
     (Bridges L1NullifierProxy, ''CONTRACTS_L1_NULLIFIER_PROXY_ADDR''),
     (Bridges ERC20BridgeImplementation, ''CONTRACTS_L1_ERC20_BRIDGE_IMPL_ADDR''),
     (Bridges ERC20BridgeProxy, ''CONTRACTS_L1_ERC20_BRIDGE_PROXY_ADDR''),
     (Bridges SharedBridgeImplementation, ''CONTRACTS_L1_SHARED_BRIDGE_IMPL_ADDR''),
     (Bridges SharedBridgeProxy, ''CONTRACTS_L1_SHARED_BRIDGE_PROXY_ADDR''),
     (Bridges L2NativeTokenVaultImplementation, ''CONTRACTS_L2_NATIVE_TOKEN_VAULT_IMPL_ADDR''),
     (Bridges L2NativeTokenVaultProxy, ''CONTRACTS_L2_NATIVE_TOKEN_VAULT_PROXY_ADDR''),
     (Bridges L2SharedBridgeImplementation, ''CONTRACTS_L2_SHARED_BRIDGE_IMPL_ADDR''),
     (Bridges L2SharedBridgeProxy, ''CONTRACTS_L2_SHARED_BRIDGE_ADDR''),
     (Bridges L2LegacySharedBridgeProxy, ''CONTRACTS_L2_LEGACY_SHARED_BRIDGE_ADDR''),
     (Bridges L2LegacySharedBridgeImplementation, ''CONTRACTS_L2_LEGACY_SHARED_BRIDGE_IMPL_ADDR''),
     (Bridges NativeTokenVaultImplementation, ''CONTRACTS_L1_NATIVE_TOKEN_VAULT_IMPL_ADDR''),
     (Bridges NativeTokenVaultProxy, ''CONTRACTS_L1_NATIVE_TOKEN_VAULT_PROXY_ADDR''),
     (Bridges BridgedStandardERC20Implementation, ''CONTRACTS_L1_BRIDGED_STANDARD_ERC20_IMPL_ADDR''),
     (Bridges BridgedTokenBeacon, ''CONTRACTS_L1_BRIDGED_TOKEN_BEACON_ADDR''),
     (RollupL1DAValidator, ''CONTRACTS_L1_ROLLUP_DA_VALIDATOR''),
     (ValidiumL1DAValidator, ''CONTRACTS_L1_VALIDIUM_DA_VALIDATOR''),
     (RelayedSLDAValidator, ''CONTRACTS_L1_RELAYED_SL_DA_VALIDATOR''),
     (BaseToken, ''CONTRACTS_BASE_TOKEN_ADDR''),
     (TransparentProxyAdmin, ''CONTRACTS_TRANSPARENT_PROXY_ADMIN_ADDR''),
     (L2ProxyAdmin, ''CONTRACTS_L2_PROXY_ADMIN_ADDR''),
     (Create2Factory, ''CONTRACTS_CREATE2_FACTORY_ADDR''),
     (ValidatorTimeLock, ''CONTRACTS_VALIDATOR_TIMELOCK_ADDR''),
     (Governance, ''CONTRACTS_GOVERNANCE_ADDR''),
     (ChainAdmin, ''CONTRACTS_CHAIN_ADMIN_ADDR'')]"

text \<open>The \<open>try ... catch\<close> at the head of the function.\<close>

definition baseTokenAssetIdFromEnv :: "ethers \<Rightarrow> env \<Rightarrow> string result" where
  "baseTokenAssetIdFromEnv E env =
     (case getAddressFromEnv env ''CONTRACTS_BASE_TOKEN_ASSET_ID'' of
        Inr a \<Rightarrow> Inr a
      | Inl _ \<Rightarrow>
          bindR (getNumberFromEnv env ''ETH_CLIENT_CHAIN_ID'') (\<lambda>chainId.
          bindR (getAddressFromEnv env ''CONTRACTS_BASE_TOKEN_ADDR'') (\<lambda>token.
          bindR (e_hexZeroPad E token 32) (\<lambda>padded.
            encodeNTVAssetId E (numVal (parseInt chainId)) padded))))"

definition readSlots :: "env \<Rightarrow> (slot \<times> string) list \<Rightarrow> (slot \<times> string) list result" where
  "readSlots env = mapR (\<lambda>(s, name). bindR (getAddressFromEnv env name) (\<lambda>a. Inr (s, a)))"

definition deployedAddressesFromEnv :: "ethers \<Rightarrow> env \<Rightarrow> addresses result" where
  "deployedAddressesFromEnv E env =
     bindR (baseTokenAssetIdFromEnv E env) (\<lambda>baseTokenAssetId.
     bindR (readSlots env envSlots) (\<lambda>kvs.
       Inr (\<lambda>k. case map_of ((BaseTokenAssetId, baseTokenAssetId) # kvs) k of None \<Rightarrow> [] | Some a \<Rightarrow> a)))"

section \<open>Laws\<close>

lemma envSlots_no_assetId: "map_of envSlots BaseTokenAssetId = None"
  by (simp add: envSlots_def)

lemma envSlots_names_distinct: "distinct (map snd envSlots)"
  by code_simp

lemma envSlots_slots_distinct: "distinct (map fst envSlots)"
  by code_simp

lemma envSlots_BaseToken: "(BaseToken, ''CONTRACTS_BASE_TOKEN_ADDR'') \<in> set envSlots"
  and envSlots_Governance: "(Governance, ''CONTRACTS_GOVERNANCE_ADDR'') \<in> set envSlots"
  by (simp_all only: envSlots_def list.set insert_iff simp_thms)

lemma envSlots_other_names:
  "''CONTRACTS_BASE_TOKEN_ASSET_ID'' \<notin> set (map snd envSlots)" "''ETH_CLIENT_CHAIN_ID'' \<notin> set (map snd envSlots)"
  by code_simp+

lemma readSlots_map_of:
  "readSlots env ks = Inr kvs \<Longrightarrow> map_of ks k = Some name \<Longrightarrow>
   \<exists>a. env name = Some a \<and> matchesHex 40 a \<and> map_of kvs k = Some a"
proof (induction ks arbitrary: kvs)
  case (Cons x ks)
  obtain s n where x: "x = (s, n)" by (cases x)
  from Cons.prems(1) obtain a rest where a: "getAddressFromEnv env n = Inr a"
    and r: "readSlots env ks = Inr rest" "kvs = (s, a) # rest"
    by (auto simp: readSlots_def x bindR_Inr_iff)
  have "env n = Some a" "matchesHex 40 a"
    using a by (auto simp: getAddressFromEnv_def Let_def toStr_def matchesHex_def split: option.splits if_splits)
  with Cons r show ?case by (auto simp: x split: if_splits)
qed simp

lemma readSlots_ok:
  "(\<And>s n. (s, n) \<in> set ks \<Longrightarrow> \<exists>a. env n = Some a \<and> matchesHex 40 a) \<Longrightarrow> \<exists>kvs. readSlots env ks = Inr kvs"
proof (induction ks)
  case (Cons x ks)
  obtain s n where x: "x = (s, n)" by (cases x)
  obtain a where "env n = Some a" "matchesHex 40 a" using Cons.prems [of s n] by (auto simp: x)
  moreover obtain kvs where "readSlots env ks = Inr kvs" using Cons.IH Cons.prems by fastforce
  ultimately show ?case by (simp add: readSlots_def x getAddressFromEnv_def toStr_def)
qed (simp add: readSlots_def)

section \<open>Properties\<close>


definition exampleEnv :: env where
  "exampleEnv n =
     (if n = ''CONTRACTS_BASE_TOKEN_ASSET_ID'' then Some (''0x'' @ replicate 64 CHR ''a'')
      else if n = ''ETH_CLIENT_CHAIN_ID'' then Some ''9''
      else Some ADDRESS_ONE)"


end
