(* ===== verification/Chain.thy ===== *)
theory Chain
  imports Addresses
begin

text \<open>
  The world the scripts act on.  A node is a record \<open>'s net\<close> of functions on an abstract chain state:
  reading code and views, accepting a transaction, and waiting for it.  Whatever the node answers, the
  script's own part of the world (environment, the \<open>Deployer\<close> object, the machine readable lines
  \<open>KEY=value\<close> it prints, the transactions it handed to the node) only changes by the script's steps.

  \<open>'s ctx\<close> bundles the parameters: the ethers package, the node, hardhat's contract lookup, the
  artifact files, the system configuration, the source of random bytes and the clock.
\<close>

section \<open>Transactions and the node\<close>

record txOpts =
  gasPrice :: "int option"
  nonce :: "int option"
  gasLimit :: "int option"
  txValue :: "int option"
  maxFeePerGas :: "int option"
  maxPriorityFeePerGas :: "int option"

datatype txKind =
    Invoke string string "val list"
  | Create string

record tx =
  txFrom :: string
  txKind :: txKind
  txOptions :: txOpts

record pending =
  pendingHash :: string
  pendingCreates :: string

record receipt =
  receiptHash :: string
  receiptLogs :: "string list list"

record 's net =
  n_getCode :: "'s \<Rightarrow> string \<Rightarrow> string"
  n_submit :: "'s \<Rightarrow> tx \<Rightarrow> pending result \<times> 's"
  n_wait :: "'s \<Rightarrow> pending \<Rightarrow> receipt result \<times> 's"
  n_call :: "'s \<Rightarrow> string \<Rightarrow> string \<Rightarrow> val list \<Rightarrow> val result"
  n_gasPrice :: "'s \<Rightarrow> int result"
  n_nonce :: "'s \<Rightarrow> string \<Rightarrow> int result"
  n_chainId :: "'s \<Rightarrow> int"

section \<open>The deployer object and the world\<close>

record Deployer =
  addresses :: addresses
  deployWallet :: string
  zkWallet :: bool
  verbose :: bool
  chainId :: jsnum
  l1ChainId :: jsnum
  ownerAddress :: string
  deployedLogPrefix :: string
  L2_BOOTLOADER_BYTECODE_HASH :: string
  L2_DEFAULT_ACCOUNT_BYTECODE_HASH :: string
  L2_EVM_EMULATOR_BYTECODE_HASH :: string

record 's world =
  chain :: 's
  procEnv :: env
  self :: Deployer
  out :: "(string \<times> string) list"
  sent :: "tx list"
  ticks :: nat

record 's ctx =
  cE :: ethers
  cN :: "'s net"
  cAt :: getContractAt
  cJson :: "string \<Rightarrow> val result"
  cReadFile :: "string \<Rightarrow> byte list result"
  cCfg :: SystemConfig
  cPubdata :: val
  cRandom :: "nat \<Rightarrow> string"
  cNow :: "nat \<Rightarrow> int"
  cEventTopic :: "string \<Rightarrow> string \<Rightarrow> string"
  cZkArtifact :: "string \<Rightarrow> (string \<times> string list) result"
  cZkHashBytecode :: "string \<Rightarrow> string result"
  cZkEncodeDeploy :: "string \<Rightarrow> val list \<Rightarrow> string result"
  cZkCreate2Address :: "string \<Rightarrow> string \<Rightarrow> string \<Rightarrow> string \<Rightarrow> string result"

definition noOpts :: txOpts where
  "noOpts = \<lparr> gasPrice = None, nonce = None, gasLimit = None, txValue = None,
     maxFeePerGas = None, maxPriorityFeePerGas = None \<rparr>"

definition DEFAULT_GAS_LIMIT :: int where
  "DEFAULT_GAS_LIMIT = 10000000"

text \<open>\<open>ethTxOptions.gasLimit ??= 10_000_000\<close>.\<close>

definition withGasLimit :: "txOpts \<Rightarrow> txOpts" where
  "withGasLimit o' = (case gasLimit o' of None \<Rightarrow> o'\<lparr> gasLimit := Some DEFAULT_GAS_LIMIT \<rparr> | Some _ \<Rightarrow> o')"

section \<open>Steps\<close>

definition selfE :: "(Deployer \<Rightarrow> 'a) \<Rightarrow> ('s world, 'a) eff" where
  "selfE f = readE (\<lambda>w. f (self w))"

definition addrE :: "slot \<Rightarrow> ('s world, string) eff" where
  "addrE k = readE (\<lambda>w. addresses (self w) k)"

definition envE :: "(env \<Rightarrow> 'a result) \<Rightarrow> ('s world, 'a) eff" where
  "envE f = bindE (readE (\<lambda>w. f (procEnv w))) liftR"

definition setAddrE :: "slot \<Rightarrow> string \<Rightarrow> ('s world, unit) eff" where
  "setAddrE k a = modifyE (\<lambda>w. w\<lparr> self := (self w)\<lparr> addresses := (addresses (self w))(k := a) \<rparr> \<rparr>)"

definition printE :: "string \<Rightarrow> string \<Rightarrow> ('s world, unit) eff" where
  "printE k v = modifyE (\<lambda>w. w\<lparr> out := out w @ [(k, v)] \<rparr>)"

text \<open>\<open>if (this.verbose) console.log(`KEY=${value}`)\<close>.\<close>

definition logE :: "string \<Rightarrow> string \<Rightarrow> ('s world, unit) eff" where
  "logE k v = bindE (selfE verbose) (\<lambda>b. whenE b (printE k v))"

definition getCodeE :: "'s ctx \<Rightarrow> string \<Rightarrow> ('s world, string) eff" where
  "getCodeE C a = readE (\<lambda>w. n_getCode (cN C) (chain w) a)"

definition callE :: "'s ctx \<Rightarrow> string \<Rightarrow> string \<Rightarrow> val list \<Rightarrow> ('s world, val) eff" where
  "callE C target method args = bindE (readE (\<lambda>w. n_call (cN C) (chain w) target method args)) liftR"

definition submitE :: "'s ctx \<Rightarrow> tx \<Rightarrow> ('s world, pending) eff" where
  "submitE C t = (\<lambda>w. case n_submit (cN C) (chain w) t of (r, s') \<Rightarrow>
     (r, w\<lparr> chain := s', sent := sent w @ [t] \<rparr>))"

definition waitE :: "'s ctx \<Rightarrow> pending \<Rightarrow> ('s world, receipt) eff" where
  "waitE C p = (\<lambda>w. case n_wait (cN C) (chain w) p of (r, s') \<Rightarrow> (r, w\<lparr> chain := s' \<rparr>))"

text \<open>A contract method called by the deployer's wallet: submission only, and with \<open>wait()\<close>.\<close>

definition invokeE :: "'s ctx \<Rightarrow> string \<Rightarrow> string \<Rightarrow> val list \<Rightarrow> txOpts \<Rightarrow> ('s world, pending) eff" where
  "invokeE C target method args o' =
     bindE (selfE deployWallet) (\<lambda>from.
       submitE C \<lparr> txFrom = from, txKind = Invoke target method args, txOptions = o' \<rparr>)"

definition invokeWaitE :: "'s ctx \<Rightarrow> string \<Rightarrow> string \<Rightarrow> val list \<Rightarrow> txOpts \<Rightarrow> ('s world, receipt) eff" where
  "invokeWaitE C target method args o' = bindE (invokeE C target method args o') (waitE C)"

definition createE :: "'s ctx \<Rightarrow> string \<Rightarrow> txOpts \<Rightarrow> ('s world, pending) eff" where
  "createE C initCode o' =
     bindE (selfE deployWallet) (\<lambda>from.
       submitE C \<lparr> txFrom = from, txKind = Create initCode, txOptions = o' \<rparr>)"

definition randomE :: "'s ctx \<Rightarrow> ('s world, string) eff" where
  "randomE C = (\<lambda>w. (Inr (cRandom C (ticks w)), w\<lparr> ticks := Suc (ticks w) \<rparr>))"

definition nowE :: "'s ctx \<Rightarrow> ('s world, int) eff" where
  "nowE C = (\<lambda>w. (Inr (cNow C (ticks w)), w\<lparr> ticks := Suc (ticks w) \<rparr>))"

definition getTransactionCountE :: "'s ctx \<Rightarrow> ('s world, int) eff" where
  "getTransactionCountE C =
     bindE (selfE deployWallet) (\<lambda>a. bindE (readE (\<lambda>w. n_nonce (cN C) (chain w) a)) liftR)"

text \<open>\<open>nonce ? parseInt(nonce) : await this.deployWallet.getTransactionCount()\<close>.\<close>

definition resolveNonce :: "'s ctx \<Rightarrow> int option \<Rightarrow> ('s world, int) eff" where
  "resolveNonce C n = (case n of
     Some k \<Rightarrow> if k \<noteq> 0 then returnE k else getTransactionCountE C
   | None \<Rightarrow> getTransactionCountE C)"

definition asStr :: "val \<Rightarrow> string result" where
  "asStr v = (case v of VStr s \<Rightarrow> Inr s | _ \<Rightarrow> Inl (TypeError ''string expected''))"

definition asInt :: "val \<Rightarrow> int result" where
  "asInt v = (case v of VNum n \<Rightarrow> Inr n | _ \<Rightarrow> Inl (TypeError ''number expected''))"

definition asBool :: "val \<Rightarrow> bool result" where
  "asBool v = (case v of VBool b \<Rightarrow> Inr b | _ \<Rightarrow> Inl (TypeError ''boolean expected''))"

text \<open>\<open>hexDataLength\<close> of a node's answer to \<open>getCode\<close>.\<close>

definition codeLength :: "string \<Rightarrow> nat" where
  "codeLength s = (length s - 2) div 2"

section \<open>Worlds only grow\<close>

text \<open>The environment never changes, the wallet and the mode never change, and the printed lines and
  the transactions handed to the node are only appended to.\<close>

definition grows :: "'s world \<Rightarrow> 's world \<Rightarrow> bool" where
  "grows w w' \<longleftrightarrow> procEnv w' = procEnv w \<and> deployWallet (self w') = deployWallet (self w) \<and>
     zkWallet (self w') = zkWallet (self w) \<and> verbose (self w') = verbose (self w) \<and>
     ownerAddress (self w') = ownerAddress (self w) \<and>
     (\<exists>xs. out w' = out w @ xs) \<and> (\<exists>ts. sent w' = sent w @ ts)"

text \<open>No address of the deployer changes and nothing is printed.\<close>

definition quiet :: "'s world \<Rightarrow> 's world \<Rightarrow> bool" where
  "quiet w w' \<longleftrightarrow> procEnv w' = procEnv w \<and> self w' = self w \<and> out w' = out w \<and> (\<exists>ts. sent w' = sent w @ ts)"

interpretation grows: world_order grows
proof
  fix u v w :: "'a world"
  show "grows w w" by (simp add: grows_def)
  show "grows u v \<Longrightarrow> grows v w \<Longrightarrow> grows u w" by (auto simp: grows_def)
qed

interpretation quiet: world_order quiet
proof
  fix u v w :: "'a world"
  show "quiet w w" by (simp add: quiet_def)
  show "quiet u v \<Longrightarrow> quiet v w \<Longrightarrow> quiet u w" by (auto simp: quiet_def)
qed

lemma quiet_grows: "quiet w w' \<Longrightarrow> grows w w'"
  by (auto simp: quiet_def grows_def)

lemma keeps_quiet_grows: "keeps quiet m \<Longrightarrow> keeps grows m"
  by (simp add: keeps_def quiet_grows)

lemma quiet_steps [keeps_intros]:
  "keeps quiet (selfE f)" "keeps quiet (addrE k)" "keeps quiet (getCodeE C a)"
  by (simp_all add: selfE_def addrE_def getCodeE_def quiet.keeps_read)

lemma quiet_envE [keeps_intros]: "keeps quiet (envE g)"
  by (simp add: envE_def quiet.keeps_bind quiet.keeps_read quiet.keeps_liftR)

lemma quiet_callE [keeps_intros]: "keeps quiet (callE C t m as)"
  by (simp add: callE_def quiet.keeps_bind quiet.keeps_read quiet.keeps_liftR)

lemma quiet_submitE [keeps_intros]: "keeps quiet (submitE C t)"
  by (auto simp: keeps_def submitE_def quiet_def split: prod.splits)

lemma quiet_waitE [keeps_intros]: "keeps quiet (waitE C p)"
  by (auto simp: keeps_def waitE_def quiet_def split: prod.splits)

lemma quiet_randomE [keeps_intros]: "keeps quiet (randomE C)" "keeps quiet (nowE C)"
  by (simp_all add: keeps_def randomE_def nowE_def quiet_def)

lemma quiet_sends [keeps_intros]:
  "keeps quiet (invokeE C a m vs opt)" "keeps quiet (invokeWaitE C a m vs opt)" "keeps quiet (createE C code opt)"
  by (auto simp: invokeE_def invokeWaitE_def createE_def intro!: keeps_intros)

lemma quiet_nonce [keeps_intros]: "keeps quiet (getTransactionCountE C)" "keeps quiet (resolveNonce C n)"
  by (auto simp: getTransactionCountE_def resolveNonce_def intro!: keeps_intros split: option.splits)

lemma grows_setAddrE: "keeps grows (setAddrE k a)"
  by (simp add: setAddrE_def grows.keeps_modify grows_def)

lemma grows_printE: "keeps grows (printE k v)"
  by (simp add: printE_def grows.keeps_modify grows_def)

lemma grows_logE: "keeps grows (logE k v)"
  by (simp add: logE_def grows.keeps_bind keeps_quiet_grows quiet_steps grows.keeps_when grows_printE)

end
