(* ===== verification/DeployUtils.thy ===== *)
theory DeployUtils
  imports Chain
begin

text \<open>
  \<open>src.ts/deploy-utils.ts\<close> and \<open>src.ts/deploy-utils-zk.ts\<close>: deterministic deployment through a create2
  factory on L1 and on a ZK chain, plain contract deployment, and the L1 transaction that deploys a
  contract on L2.
\<close>

section \<open>L1 deployments\<close>

definition create2Expected :: "'s ctx \<Rightarrow> string \<Rightarrow> string \<Rightarrow> string \<Rightarrow> string result" where
  "create2Expected C factory bytecode salt =
     bindR (e_keccak256 (cE C) (VStr bytecode)) (\<lambda>h. e_getCreate2Address (cE C) factory salt h)"

definition deployBytecodeViaCreate2 ::
  "'s ctx \<Rightarrow> string \<Rightarrow> string \<Rightarrow> string \<Rightarrow> txOpts \<Rightarrow> string \<Rightarrow> ('s world, string \<times> string) eff"
where
  "deployBytecodeViaCreate2 C contractName bytecode create2Salt ethTxOptions create2FactoryAddress =
     bindE (liftR (create2Expected C create2FactoryAddress bytecode create2Salt)) (\<lambda>expectedAddress.
     bindE (getCodeE C expectedAddress) (\<lambda>deployedBytecodeBefore.
     if codeLength deployedBytecodeBefore > 0 then returnE (expectedAddress, HashZero)
     else
       bindE (invokeE C create2FactoryAddress ''deploy'' [VStr bytecode, VStr create2Salt] ethTxOptions) (\<lambda>tx.
       bindE (waitE C tx) (\<lambda>receipt.
       bindE (getCodeE C expectedAddress) (\<lambda>deployedBytecodeAfter.
       if codeLength deployedBytecodeAfter = 0
       then throwE (Error (''Failed to deploy '' @ contractName @ '' bytecode via create2 factory''))
       else returnE (expectedAddress, pendingHash tx))))))"

text \<open>\<open>getDeployTransaction(...args)\<close> of the contract's factory gives the init code.\<close>

definition deployViaCreate2EVM ::
  "'s ctx \<Rightarrow> string \<Rightarrow> val list \<Rightarrow> string \<Rightarrow> txOpts \<Rightarrow> string \<Rightarrow> string option \<Rightarrow> ('s world, string \<times> string) eff"
where
  "deployViaCreate2EVM C contractName args create2Salt ethTxOptions create2FactoryAddress bytecode =
     bindE (if truthyStr bytecode then returnE (toStr bytecode)
            else liftR (e_deployData (cE C) contractName args)) (\<lambda>code.
       deployBytecodeViaCreate2 C contractName code create2Salt ethTxOptions create2FactoryAddress)"

definition deployContractWithArgs ::
  "'s ctx \<Rightarrow> string \<Rightarrow> val list \<Rightarrow> txOpts \<Rightarrow> ('s world, pending) eff"
where
  "deployContractWithArgs C contractName args ethTxOptions =
     bindE (liftR (e_deployData (cE C) contractName args)) (\<lambda>code. createE C code ethTxOptions)"

section \<open>ZK chain deployments\<close>

definition BUILT_IN_ZKSYNC_CREATE2_FACTORY :: string where
  "BUILT_IN_ZKSYNC_CREATE2_FACTORY = ''0x0000000000000000000000000000000000010000''"

definition contractsHome :: "env \<Rightarrow> string" where
  "contractsHome env = (if truthyStr (env ''ZKSYNC_HOME'') then pathJoin (toStr (env ''ZKSYNC_HOME'')) ''contracts/'' else ''../'')"

definition contractArtifactsPath :: "env \<Rightarrow> string" where
  "contractArtifactsPath env = pathJoin (contractsHome env) ''l1-contracts/artifacts-zk/''"

definition openzeppelinBeaconProxyArtifactsPath :: "env \<Rightarrow> string" where
  "openzeppelinBeaconProxyArtifactsPath env =
     pathJoin (contractArtifactsPath env) ''@openzeppelin/contracts-v4/proxy/beacon''"

definition L2_SHARED_BRIDGE_PATH :: "env \<Rightarrow> string" where
  "L2_SHARED_BRIDGE_PATH env = contractArtifactsPath env @ ''contracts/bridge''"

definition L2_STANDARD_ERC20_PROXY_FACTORY :: "'s ctx \<Rightarrow> env \<Rightarrow> val result" where
  "L2_STANDARD_ERC20_PROXY_FACTORY C env = readContract (cJson C) (openzeppelinBeaconProxyArtifactsPath env) ''UpgradeableBeacon''"

definition L2_STANDARD_ERC20_IMPLEMENTATION :: "'s ctx \<Rightarrow> env \<Rightarrow> val result" where
  "L2_STANDARD_ERC20_IMPLEMENTATION C env = readContract (cJson C) (L2_SHARED_BRIDGE_PATH env) ''BridgedStandardERC20''"

definition L2_STANDARD_TOKEN_PROXY :: "'s ctx \<Rightarrow> env \<Rightarrow> val result" where
  "L2_STANDARD_TOKEN_PROXY C env = readContract (cJson C) (openzeppelinBeaconProxyArtifactsPath env) ''BeaconProxy''"

definition L2_SHARED_BRIDGE_IMPLEMENTATION :: "'s ctx \<Rightarrow> env \<Rightarrow> val result" where
  "L2_SHARED_BRIDGE_IMPLEMENTATION C env = readContract (cJson C) (L2_SHARED_BRIDGE_PATH env) ''L2SharedBridgeLegacy''"

definition L2_SHARED_BRIDGE_PROXY :: "'s ctx \<Rightarrow> env \<Rightarrow> val result" where
  "L2_SHARED_BRIDGE_PROXY C env =
     readContract (cJson C) (contractArtifactsPath env @ ''@openzeppelin/contracts-v4/proxy/transparent'') ''TransparentUpgradeableProxy''"

text \<open>The tail the two ZK variants share, from the computed address on; the \<open>customData\<close> with the
  factory dependencies is the last argument of the call.\<close>

definition zkCreate2 ::
  "'s ctx \<Rightarrow> string \<Rightarrow> string \<Rightarrow> string \<Rightarrow> string list \<Rightarrow> string \<Rightarrow> string \<Rightarrow> txOpts \<Rightarrow> ('s world, string \<times> string) eff"
where
  "zkCreate2 C contractName bytecode bytecodeHash factoryDeps encodedArgs create2Salt ethTxOptions =
     bindE (liftR (cZkCreate2Address C BUILT_IN_ZKSYNC_CREATE2_FACTORY bytecodeHash create2Salt encodedArgs))
       (\<lambda>expectedAddress.
     bindE (getCodeE C expectedAddress) (\<lambda>deployedBytecodeBefore.
     if codeLength deployedBytecodeBefore > 0 then returnE (expectedAddress, HashZero)
     else
       bindE (invokeE C BUILT_IN_ZKSYNC_CREATE2_FACTORY ''create2''
                [VStr create2Salt, VStr bytecodeHash, VStr encodedArgs,
                 VObj [(''factoryDeps'', VList (map VStr (bytecode # factoryDeps)))]] ethTxOptions) (\<lambda>tx.
       bindE (waitE C tx) (\<lambda>receipt.
       bindE (getCodeE C expectedAddress) (\<lambda>deployedBytecodeAfter.
       if codeLength deployedBytecodeAfter = 0
       then throwE (Error (''Failed to deploy '' @ contractName @ '' bytecode via create2 factory''))
       else returnE (expectedAddress, pendingHash tx))))))"

definition deployBytecodeViaCreate2Zk ::
  "'s ctx \<Rightarrow> string \<Rightarrow> string \<Rightarrow> txOpts \<Rightarrow> val list \<Rightarrow> ('s world, string \<times> string) eff"
where
  "deployBytecodeViaCreate2Zk C contractName create2Salt ethTxOptions args =
     bindE (liftR (cZkArtifact C contractName)) (\<lambda>(bytecode, factoryDeps).
     bindE (liftR (cZkHashBytecode C bytecode)) (\<lambda>bytecodeHash.
     bindE (liftR (cZkEncodeDeploy C contractName args)) (\<lambda>encodedArgs.
       zkCreate2 C contractName bytecode bytecodeHash factoryDeps encodedArgs create2Salt ethTxOptions)))"

definition deployViaCreate2Zk ::
  "'s ctx \<Rightarrow> string \<Rightarrow> val list \<Rightarrow> string \<Rightarrow> txOpts \<Rightarrow> ('s world, string \<times> string) eff"
where
  "deployViaCreate2Zk C contractName args create2Salt ethTxOptions =
     deployBytecodeViaCreate2Zk C contractName create2Salt ethTxOptions args"

definition deployBytecodeViaCreate2OnPath ::
  "'s ctx \<Rightarrow> string \<Rightarrow> string \<Rightarrow> string \<Rightarrow> txOpts \<Rightarrow> val list \<Rightarrow> string list \<Rightarrow> ('s world, string \<times> string) eff"
where
  "deployBytecodeViaCreate2OnPath C contractName contractPath create2Salt ethTxOptions args factoryDeps =
     bindE (liftR (bindR (readBytecode (cJson C) contractPath contractName) asStr)) (\<lambda>bytecode.
     bindE (liftR (cZkHashBytecode C bytecode)) (\<lambda>bytecodeHash.
     bindE (liftR (cZkEncodeDeploy C contractName args)) (\<lambda>encodedArgs.
       zkCreate2 C contractName bytecode bytecodeHash factoryDeps encodedArgs create2Salt ethTxOptions)))"

section \<open>Deploying on L2 from L1\<close>

definition create2DeployFromL1 ::
  "'s ctx \<Rightarrow> val \<Rightarrow> val \<Rightarrow> val \<Rightarrow> string \<Rightarrow> val \<Rightarrow> int option \<Rightarrow> val list option \<Rightarrow> string option \<Rightarrow> string option
   \<Rightarrow> ('s world, pending) eff"
where
  "create2DeployFromL1 C chainId' bytecode constructorData create2Salt l2GasLimit gasPrice' extraFactoryDeps
       bridgehubAddress assetRouterAddress =
     bindE (case bridgehubAddress of Some a \<Rightarrow> returnE a
            | None \<Rightarrow> envE (\<lambda>env. bindR (deployedAddressesFromEnv (cE C) env) (\<lambda>d. Inr (d (Bridgehub BridgehubProxy)))))
       (\<lambda>bridgehub.
     bindE (liftR (hashL2Bytecode (cE C) bytecode)) (\<lambda>bytecodeHash.
     bindE (liftR (e_encodeFunctionData (cE C) ''IContractDeployer'' ''create2''
              [VStr create2Salt, VBytes bytecodeHash, constructorData])) (\<lambda>calldata.
     bindE (case gasPrice' of Some g \<Rightarrow> returnE g
            | None \<Rightarrow> bindE (readE (\<lambda>w. n_gasPrice (cN C) (chain w))) liftR) (\<lambda>price.
     bindE (bindE (callE C bridgehub ''l2TransactionBaseCost'' [chainId', VNum price, l2GasLimit, cPubdata C])
              (\<lambda>v. liftR (asInt v))) (\<lambda>expectedCost.
     bindE (bindE (callE C bridgehub ''baseToken'' [chainId']) (\<lambda>v. liftR (asStr v))) (\<lambda>baseTokenAddress.
     bindE (case assetRouterAddress of Some a \<Rightarrow> returnE a
            | None \<Rightarrow> envE (\<lambda>env. bindR (deployedAddressesFromEnv (cE C) env) (\<lambda>d. Inr (d (Bridges SharedBridgeProxy)))))
       (\<lambda>baseTokenBridge.
     let ethIsBaseToken = (ADDRESS_ONE = baseTokenAddress) in
     thenE (whenE (\<not> ethIsBaseToken)
              (thenE (invokeWaitE C baseTokenAddress ''approve'' [VStr baseTokenBridge, VNum expectedCost] noOpts)
                (returnE ())))
     (bindE (selfE deployWallet) (\<lambda>wallet.
       invokeE C bridgehub ''requestL2TransactionDirect''
         [VObj [(''chainId'', chainId'), (''l2Contract'', VStr DEPLOYER_SYSTEM_CONTRACT_ADDRESS),
                (''mintValue'', VNum expectedCost), (''l2Value'', VNum 0), (''l2Calldata'', VStr calldata),
                (''l2GasLimit'', l2GasLimit), (''l2GasPerPubdataByteLimit'', cPubdata C),
                (''factoryDeps'', VList (bytecode # (case extraFactoryDeps of None \<Rightarrow> [] | Some ds \<Rightarrow> ds))),
                (''refundRecipient'', VStr wallet)]]
         (noOpts\<lparr> txValue := Some (if ethIsBaseToken then expectedCost else 0), gasPrice := Some price \<rparr>))))))))))"

definition factoryDeployTx :: "string \<Rightarrow> string \<Rightarrow> string \<Rightarrow> string \<Rightarrow> txOpts \<Rightarrow> tx" where
  "factoryDeployTx from factory code salt opt =
     \<lparr> txFrom = from, txKind = Invoke factory ''deploy'' [VStr code, VStr salt], txOptions = opt \<rparr>"

section \<open>What the deployments keep\<close>

lemma quiet_deployBytecodeViaCreate2 [keeps_intros]: "keeps quiet (deployBytecodeViaCreate2 C n b salt opt f)"
  by (auto simp: deployBytecodeViaCreate2_def intro!: keeps_intros)

lemma quiet_deployViaCreate2EVM [keeps_intros]: "keeps quiet (deployViaCreate2EVM C n as salt opt f b)"
  by (auto simp: deployViaCreate2EVM_def intro!: keeps_intros)

lemma quiet_zkCreate2 [keeps_intros]: "keeps quiet (zkCreate2 C n b h ds args salt opt)"
  by (auto simp: zkCreate2_def intro!: keeps_intros)

lemma quiet_deployViaCreate2Zk [keeps_intros]: "keeps quiet (deployViaCreate2Zk C n as salt opt)"
  by (auto simp: deployViaCreate2Zk_def deployBytecodeViaCreate2Zk_def intro!: keeps_intros split: prod.splits)

lemma quiet_create2DeployFromL1 [keeps_intros]:
  "keeps quiet (create2DeployFromL1 C ci b cd salt gl gp deps bh ar)"
  by (auto simp: create2DeployFromL1_def Let_def intro!: keeps_intros split: option.splits)

section \<open>An example world\<close>

text \<open>A node that accepts every transaction and then shows code at address one; its state is the list
  of addresses with code.  It answers the views of the scripts with fixed values.\<close>

definition exampleNet :: "string list net" where
  "exampleNet = \<lparr>
     n_getCode = (\<lambda>s a. if a \<in> set s then ''0xfe'' else ''0x''),
     n_submit = (\<lambda>s t. (Inr \<lparr> pendingHash = ''0x01'', pendingCreates = ADDRESS_ONE \<rparr>, ADDRESS_ONE # s)),
     n_wait = (\<lambda>s p. (Inr \<lparr> receiptHash = pendingHash p, receiptLogs = [[''NewChain'', ''0x09''], [''NewZKChain'', ''0x09'', ADDRESS_ONE]] \<rparr>, s)),
     n_call = (\<lambda>s a m as. Inr (if m = ''l2TransactionBaseCost'' then VNum 7 else if m = ''assetIdIsRegistered'' then VBool True
        else VStr ADDRESS_ONE)),
     n_gasPrice = (\<lambda>s. Inr 1), n_nonce = (\<lambda>s a. Inr 5), n_chainId = (\<lambda>s. 9) \<rparr>"

definition exampleCtx :: "string list ctx" where
  "exampleCtx = \<lparr>
     cE = plainEthers\<lparr> e_getCreate2Address := (\<lambda>_ _ _. Inr ADDRESS_ONE), e_keccak256 := (\<lambda>_. Inr HashZero) \<rparr>,
     cN = exampleNet, cAt = (\<lambda>name a. Inr (a, \<lparr> ifaceFunctions = [], getSighash = (\<lambda>_. ''0x01020304'') \<rparr>)),
     cJson = (\<lambda>_. Inr (VObj [(''bytecode'', VStr HashZero)])), cReadFile = (\<lambda>_. Inr (replicate 32 0)),
     cCfg = exampleConfig, cPubdata = VNum 800, cRandom = (\<lambda>_. HashZero), cNow = int,
     cEventTopic = (\<lambda>_ e. e), cZkArtifact = (\<lambda>_. Inr (HashZero, [])), cZkHashBytecode = (\<lambda>_. Inr HashZero),
     cZkEncodeDeploy = (\<lambda>_ _. Inr ''0x''), cZkCreate2Address = (\<lambda>_ _ _ _. Inr ADDRESS_ONE) \<rparr>"

definition exampleDeployer :: Deployer where
  "exampleDeployer = \<lparr> addresses = (\<lambda>_. ''0x0000000000000000000000000000000000000002''), deployWallet = ''0x03'', zkWallet = False,
     verbose = True, chainId = Num 9, l1ChainId = Num 9, ownerAddress = ''0x03'', deployedLogPrefix = ''CONTRACTS'',
     L2_BOOTLOADER_BYTECODE_HASH = HashZero, L2_DEFAULT_ACCOUNT_BYTECODE_HASH = HashZero,
     L2_EVM_EMULATOR_BYTECODE_HASH = HashZero \<rparr>"

definition exampleWorld :: "env \<Rightarrow> string list world" where
  "exampleWorld env = \<lparr> chain = [], procEnv = env, self = exampleDeployer, out = [], sent = [], ticks = 0 \<rparr>"

lemma example_simps:
  "n_getCode (cN exampleCtx) c a = (if a \<in> set c then ''0xfe'' else ''0x'')"
  "n_submit (cN exampleCtx) c t = (Inr \<lparr> pendingHash = ''0x01'', pendingCreates = ADDRESS_ONE \<rparr>, ADDRESS_ONE # c)"
  "n_wait (cN exampleCtx) c p = (Inr \<lparr> receiptHash = pendingHash p,
     receiptLogs = [[''NewChain'', ''0x09''], [''NewZKChain'', ''0x09'', ADDRESS_ONE]] \<rparr>, c)"
  "chain (exampleWorld env) = []" "sent (exampleWorld env) = []" "self (exampleWorld env) = exampleDeployer"
  "procEnv (exampleWorld env) = env" "out (exampleWorld env) = []" "deployWallet exampleDeployer = ''0x03''"
  by (simp_all add: exampleCtx_def exampleNet_def exampleWorld_def exampleDeployer_def)

section \<open>Properties\<close>



end
