(* ===== verification/Deployer.thy ===== *)
theory Deployer
  imports DeployUtils
begin

text \<open>
  The class \<open>Deployer\<close> of \<open>src.ts/deploy.ts\<close>, first half: its constructor, the diamond cut and genesis
  data it computes, the create2 front end and the methods that deploy one contract, print its address
  and store it.  Every method is a definition of the same name; \<open>this\<close> is the \<open>self\<close> component of the
  world.
\<close>

section \<open>Construction\<close>

record DeployerConfig =
  cfgWallet :: string
  cfgZkWallet :: bool
  cfgAddresses :: "addresses option"
  cfgOwnerAddress :: "string option"
  cfgVerbose :: "bool option"
  cfgBootloaderBytecodeHash :: "string option"
  cfgDefaultAccountBytecodeHash :: "string option"
  cfgDeployedLogPrefix :: "string option"
  cfgL1ChainId :: "string option"
  cfgEvmEmulatorBytecodeHash :: "string option"

text \<open>\<open>hexlify(hashL2Bytecode(...))\<close>.\<close>

definition bytecodeHashHex :: "ethers \<Rightarrow> val \<Rightarrow> string result" where
  "bytecodeHashHex E code = bindR (hashL2Bytecode E code) (e_hexlifyBytes E)"

text \<open>\<open>scripts/utils.ts\<close> exports no \<open>readEvmEmulatorbytecode\<close>, so the import is undefined and the
  call of it throws.\<close>

definition readEvmEmulatorbytecode :: "val result" where
  "readEvmEmulatorbytecode = Inl (TypeError ''readEvmEmulatorbytecode is not a function'')"

definition newDeployer :: "'s ctx \<Rightarrow> env \<Rightarrow> DeployerConfig \<Rightarrow> Deployer result" where
  "newDeployer C env config =
     bindR (case cfgAddresses config of Some a \<Rightarrow> Inr a | None \<Rightarrow> deployedAddressesFromEnv (cE C) env) (\<lambda>addrs.
     bindR (if truthyStr (cfgBootloaderBytecodeHash config) then Inr (toStr (cfgBootloaderBytecodeHash config))
            else bindR (readBatchBootloaderBytecode (cReadFile C) env)
                   (\<lambda>bs. bytecodeHashHex (cE C) (VBytes bs))) (\<lambda>boot.
     bindR (if truthyStr (cfgDefaultAccountBytecodeHash config) then Inr (toStr (cfgDefaultAccountBytecodeHash config))
            else bindR (readSystemContractsBytecode (cJson C) env ''DefaultAccount'') (bytecodeHashHex (cE C))) (\<lambda>acc.
     bindR (if truthyStr (cfgEvmEmulatorBytecodeHash config) then Inr (toStr (cfgEvmEmulatorBytecodeHash config))
            else bindR readEvmEmulatorbytecode (bytecodeHashHex (cE C))) (\<lambda>evm.
     bindR (if truthyStr (cfgL1ChainId config) then Inr (toStr (cfgL1ChainId config))
            else getNumberFromEnv env ''ETH_CLIENT_CHAIN_ID'') (\<lambda>l1.
       Inr \<lparr> addresses = addrs, deployWallet = cfgWallet config, zkWallet = cfgZkWallet config,
         verbose = (case cfgVerbose config of None \<Rightarrow> False | Some v \<Rightarrow> v),
         chainId = parseInt (toStr (env ''CHAIN_ETH_ZKSYNC_NETWORK_ID'')), l1ChainId = parseInt l1,
         ownerAddress = (case cfgOwnerAddress config of None \<Rightarrow> cfgWallet config | Some o' \<Rightarrow> o'),
         deployedLogPrefix = (case cfgDeployedLogPrefix config of None \<Rightarrow> ''CONTRACTS'' | Some p \<Rightarrow> p),
         L2_BOOTLOADER_BYTECODE_HASH = boot, L2_DEFAULT_ACCOUNT_BYTECODE_HASH = acc,
         L2_EVM_EMULATOR_BYTECODE_HASH = evm \<rparr>)))))"

definition isZkMode :: "('s world, bool) eff" where
  "isZkMode = selfE zkWallet"

text \<open>The unary plus on a text of decimal digits.\<close>

definition digitsNum :: "string \<Rightarrow> jsnum" where
  "digitsNum s = Num (dbl (int (digitsVal 10 0 s)))"

definition getL1ChainId :: "'s ctx \<Rightarrow> ('s world, val) eff" where
  "getL1ChainId C = bindE isZkMode (\<lambda>zk.
     if zk then bindE (envE (\<lambda>env. getNumberFromEnv env ''ETH_CLIENT_CHAIN_ID'')) (\<lambda>n. returnE (numVal (digitsNum n)))
     else bindE (readE (\<lambda>w. n_chainId (cN C) (chain w))) (\<lambda>n. returnE (VNum n)))"

section \<open>Initial diamond cut and genesis data\<close>

definition DIAMOND_CUT_DATA_ABI_STRING :: string where
  "DIAMOND_CUT_DATA_ABI_STRING = ''tuple(tuple(address facet, uint8 action, bool isFreezable, bytes4[] selectors)[] facetCuts, address initAddress, bytes initCalldata)''"

definition FIXED_FORCE_DEPLOYMENTS_DATA_ABI_STRING :: string where
  "FIXED_FORCE_DEPLOYMENTS_DATA_ABI_STRING = ''tuple(uint256 l1ChainId, uint256 eraChainId, address l1AssetRouter, bytes32 l2TokenProxyBytecodeHash, address aliasedL1Governance, uint256 maxNumberOfZKChains, bytes32 bridgehubBytecodeHash, bytes32 l2AssetRouterBytecodeHash, bytes32 l2NtvBytecodeHash, bytes32 messageRootBytecodeHash, address l2SharedBridgeLegacyImpl, address l2BridgedStandardERC20Impl)''"

definition BRIDGEHUB_CTM_ASSET_DATA_ABI_STRING :: string where
  "BRIDGEHUB_CTM_ASSET_DATA_ABI_STRING = ''tuple(uint256 chainId, bytes ctmData, bytes chainData)''"

definition actionNum :: "Action \<Rightarrow> int" where
  "actionNum a = (case a of Add \<Rightarrow> 0 | Replace \<Rightarrow> 1 | Remove \<Rightarrow> 2)"

definition cutVal :: "DiamondCut \<Rightarrow> val" where
  "cutVal d = VObj [
     (''facetCuts'', VList (map (\<lambda>c. VObj [(''facet'', VStr (facet c)), (''selectors'', VList (map VStr (selectors c))),
        (''action'', VNum (actionNum (action c))), (''isFreezable'', VBool (isFreezable c))]) (facetCuts d))),
     (''initAddress'', optVal (initAddress d)), (''initCalldata'', VStr (initCalldata d))]"

definition initialZkSyncZKChainDiamondCut ::
  "'s ctx \<Rightarrow> FacetCut list option \<Rightarrow> bool \<Rightarrow> ('s world, DiamondCut) eff"
where
  "initialZkSyncZKChainDiamondCut C extraFacets compareDiamondCutHash =
     bindE (selfE (\<lambda>d. d)) (\<lambda>this.
     bindE (liftR (getCurrentFacetCutsForAdd (cAt C)
         (Some (addresses this (StateTransition AdminFacet))) (Some (addresses this (StateTransition GettersFacet)))
         (Some (addresses this (StateTransition MailboxFacet))) (Some (addresses this (StateTransition ExecutorFacet)))))
       (\<lambda>current.
     bindE (envE (\<lambda>env. getHashFromEnv env ''CONTRACTS_FRI_RECURSION_NODE_LEVEL_VK_HASH'')) (\<lambda>node.
     bindE (envE (\<lambda>env. getHashFromEnv env ''CONTRACTS_FRI_RECURSION_LEAF_LEVEL_VK_HASH'')) (\<lambda>leaf.
     bindE (envE (\<lambda>env. getNumberFromEnv env ''CONTRACTS_PRIORITY_TX_MAX_GAS_LIMIT'')) (\<lambda>gas.
     bindE (liftR (compileInitialCutHash (cE C) (cCfg C)
         (map snd current @ (case extraFacets of None \<Rightarrow> [] | Some fs \<Rightarrow> fs))
         \<lparr> recursionNodeLevelVkHash = node, recursionLeafLevelVkHash = leaf, recursionCircuitsSetVksHash = HashZero \<rparr>
         (L2_BOOTLOADER_BYTECODE_HASH this) (L2_DEFAULT_ACCOUNT_BYTECODE_HASH this)
         (L2_EVM_EMULATOR_BYTECODE_HASH this) (Some (addresses this (StateTransition Verifier)))
         (digitsNum gas) (Some (addresses this (StateTransition DiamondInit))) False)) (\<lambda>cutData.
     thenE (whenE compareDiamondCutHash
        (bindE (liftR (bindR (e_abiEncode (cE C) [DIAMOND_CUT_DATA_ABI_STRING] [cutVal cutData])
                  (\<lambda>enc. e_keccak256 (cE C) (VStr enc)))) (\<lambda>hash.
         bindE (callE C (addresses this (StateTransition StateTransitionProxy)) ''initialCutHash'' []) (\<lambda>v.
         bindE (liftR (asStr v)) (\<lambda>hashFromCTM.
         if hash \<noteq> hashFromCTM
         then throwE (Error (''Has from CTM '' @ hashFromCTM @ '' does not match the computed hash '' @ hash))
         else returnE ())))))
     (returnE cutData)))))))"

definition genesisForceDeploymentsData :: "'s ctx \<Rightarrow> ('s world, string) eff" where
  "genesisForceDeploymentsData C =
     bindE (selfE (\<lambda>d. d)) (\<lambda>this.
     bindE (readE (\<lambda>w. procEnv w ''CHAIN_ETH_NETWORK'' \<noteq> Some ''hardhat'')) (\<lambda>real.
     bindE (liftR (if real then readBytecode (cJson C) ''./artifacts-zk/contracts/bridgehub'' ''Bridgehub'' else Inr (VStr HashZero))) (\<lambda>bh.
     bindE (liftR (if real then readBytecode (cJson C) ''./artifacts-zk/contracts/bridge/asset-router'' ''L2AssetRouter'' else Inr (VStr HashZero))) (\<lambda>ar.
     bindE (liftR (if real then readBytecode (cJson C) ''./artifacts-zk/contracts/bridge/ntv'' ''L2NativeTokenVault'' else Inr (VStr HashZero))) (\<lambda>ntv.
     bindE (liftR (if real then readBytecode (cJson C) ''./artifacts-zk/contracts/bridgehub'' ''MessageRoot'' else Inr (VStr HashZero))) (\<lambda>mr.
     bindE (liftR (if real then bindR (readBytecode (cJson C) ''./artifacts-zk/@openzeppelin/contracts-v4/proxy/beacon'' ''BeaconProxy'')
                     (bytecodeHashHex (cE C)) else Inr HashZero)) (\<lambda>proxyHash.
     bindE (envE (\<lambda>env. getNumberFromEnv env ''ETH_CLIENT_CHAIN_ID'')) (\<lambda>l1.
     bindE (envE (\<lambda>env. getNumberFromEnv env ''CONTRACTS_ERA_CHAIN_ID'')) (\<lambda>era.
     bindE (liftR (applyL1ToL2Alias (cE C) (addresses this Governance))) (\<lambda>gov.
     bindE (envE (\<lambda>env. getNumberFromEnv env ''CONTRACTS_MAX_NUMBER_OF_ZK_CHAINS'')) (\<lambda>maxChains.
     bindE (liftR (bytecodeHashHex (cE C) bh)) (\<lambda>bhHash.
     bindE (liftR (bytecodeHashHex (cE C) ar)) (\<lambda>arHash.
     bindE (liftR (bytecodeHashHex (cE C) ntv)) (\<lambda>ntvHash.
     bindE (liftR (bytecodeHashHex (cE C) mr)) (\<lambda>mrHash.
       liftR (e_abiEncode (cE C) [FIXED_FORCE_DEPLOYMENTS_DATA_ABI_STRING] [VObj [
         (''l1ChainId'', VStr l1), (''eraChainId'', VStr era),
         (''l1AssetRouter'', VStr (addresses this (Bridges SharedBridgeProxy))),
         (''l2TokenProxyBytecodeHash'', VStr proxyHash), (''aliasedL1Governance'', VStr gov),
         (''maxNumberOfZKChains'', VStr maxChains), (''bridgehubBytecodeHash'', VStr bhHash),
         (''l2AssetRouterBytecodeHash'', VStr arHash), (''l2NtvBytecodeHash'', VStr ntvHash),
         (''messageRootBytecodeHash'', VStr mrHash), (''l2SharedBridgeLegacyImpl'', VStr AddressZero),
         (''l2BridgedStandardERC20Impl'', VStr AddressZero)]]))))))))))))))))"

section \<open>Create2 front end\<close>

definition updateCreate2FactoryZkMode :: "('s world, unit) eff" where
  "updateCreate2FactoryZkMode = bindE isZkMode (\<lambda>zk.
     if \<not> zk then throwE (Error ''`updateCreate2FactoryZkMode` should be only called in Zk mode'')
     else thenE (printE ''CONTRACTS_CREATE2_FACTORY_ADDR'' BUILT_IN_ZKSYNC_CREATE2_FACTORY)
            (setAddrE Create2Factory BUILT_IN_ZKSYNC_CREATE2_FACTORY))"

definition deployCreate2Factory :: "'s ctx \<Rightarrow> txOpts \<Rightarrow> ('s world, unit) eff" where
  "deployCreate2Factory C ethTxOptions = bindE isZkMode (\<lambda>zk.
     if zk then throwE (Error ''Create2Factory is built into zkSync and should not be deployed separately'')
     else
       bindE (deployContractWithArgs C ''SingletonFactory'' [] ethTxOptions) (\<lambda>create2Factory.
       bindE (waitE C create2Factory) (\<lambda>rec.
       thenE (logE ''CONTRACTS_CREATE2_FACTORY_ADDR'' (pendingCreates create2Factory))
         (setAddrE Create2Factory (pendingCreates create2Factory)))))"

definition deployViaCreate2 ::
  "'s ctx \<Rightarrow> string \<Rightarrow> val list \<Rightarrow> string \<Rightarrow> txOpts \<Rightarrow> string option \<Rightarrow> ('s world, string) eff"
where
  "deployViaCreate2 C contractName args create2Salt ethTxOptions bytecode = bindE isZkMode (\<lambda>zk.
     if zk then
       (if bytecode \<noteq> None then returnE ADDRESS_ONE
        else bindE (deployViaCreate2Zk C contractName args create2Salt ethTxOptions) (\<lambda>result. returnE (fst result)))
     else
       bindE (addrE Create2Factory) (\<lambda>factory.
       bindE (deployViaCreate2EVM C contractName args create2Salt (withGasLimit ethTxOptions) factory bytecode)
         (\<lambda>result. returnE (fst result))))"

definition loadFromDAFolder :: "'s ctx \<Rightarrow> string \<Rightarrow> string result" where
  "loadFromDAFolder C contractName =
     (if contractName = ''RollupL1DAValidator'' then e_deployData (cE C) ''RollupL1DAValidator'' []
      else Inl (Error (''Unknown DA contract name '' @ contractName)))"

definition deployerBytecodeViaCreate2 ::
  "'s ctx \<Rightarrow> string \<Rightarrow> string \<Rightarrow> string \<Rightarrow> txOpts \<Rightarrow> ('s world, string) eff"
where
  "deployerBytecodeViaCreate2 C contractName bytecode create2Salt ethTxOptions = bindE isZkMode (\<lambda>zk.
     if zk then throwE (Error ''`deployBytecodeViaCreate2` not supported in zkMode'')
     else bindE (addrE Create2Factory) (\<lambda>factory.
          bindE (deployBytecodeViaCreate2 C contractName bytecode create2Salt (withGasLimit ethTxOptions) factory)
            (\<lambda>result. returnE (fst result))))"

section \<open>One contract per method\<close>

text \<open>The shared ending: print \<open>KEY=address\<close> when verbose, then store the address.\<close>

definition recordAddr :: "slot \<Rightarrow> string \<Rightarrow> string \<Rightarrow> ('s world, unit) eff" where
  "recordAddr k key a = thenE (logE key a) (setAddrE k a)"

definition encodeE :: "'s ctx \<Rightarrow> string \<Rightarrow> string \<Rightarrow> val list \<Rightarrow> ('s world, string) eff" where
  "encodeE C iface f args = liftR (e_encodeFunctionData (cE C) iface f args)"

definition strAddr :: "slot \<Rightarrow> ('s world, val) eff" where
  "strAddr k = bindE (addrE k) (\<lambda>a. returnE (VStr a))"

definition envNumber :: "string \<Rightarrow> ('s world, string) eff" where
  "envNumber n = envE (\<lambda>env. getNumberFromEnv env n)"

definition envAddress :: "string \<Rightarrow> ('s world, string) eff" where
  "envAddress n = envE (\<lambda>env. getAddressFromEnv env n)"

definition TRANSPARENT_PROXY :: string where
  "TRANSPARENT_PROXY = ''@openzeppelin/contracts-v4/proxy/transparent/TransparentUpgradeableProxy.sol:TransparentUpgradeableProxy''"

definition deployGovernance :: "'s ctx \<Rightarrow> string \<Rightarrow> txOpts \<Rightarrow> ('s world, unit) eff" where
  "deployGovernance C create2Salt ethTxOptions =
     bindE (selfE ownerAddress) (\<lambda>owner.
     bindE (deployViaCreate2 C ''Governance'' [VStr owner, VStr AddressZero, VNum 0] create2Salt ethTxOptions None)
       (recordAddr Governance ''CONTRACTS_GOVERNANCE_ADDR''))"

definition deployChainAdmin :: "'s ctx \<Rightarrow> string \<Rightarrow> txOpts \<Rightarrow> ('s world, unit) eff" where
  "deployChainAdmin C create2Salt ethTxOptions = (let opts = withGasLimit ethTxOptions in
     bindE (selfE ownerAddress) (\<lambda>owner.
     bindE (deployViaCreate2 C ''AccessControlRestriction'' [VNum 0, VStr owner] create2Salt opts None)
       (\<lambda>accessControlRestriction.
     thenE (logE ''CONTRACTS_ACCESS_CONTROL_RESTRICTION_ADDR'' accessControlRestriction)
     (bindE (deployViaCreate2 C ''ChainAdmin'' [VList [VStr accessControlRestriction]] create2Salt opts None)
       (recordAddr ChainAdmin ''CONTRACTS_CHAIN_ADMIN_ADDR'')))))"

definition PROXY_ADMIN :: string where
  "PROXY_ADMIN = ''@openzeppelin/contracts-v4/proxy/transparent/ProxyAdmin.sol:ProxyAdmin''"

definition deployTransparentProxyAdmin :: "'s ctx \<Rightarrow> string \<Rightarrow> txOpts \<Rightarrow> ('s world, unit) eff" where
  "deployTransparentProxyAdmin C create2Salt ethTxOptions = bindE isZkMode (\<lambda>zk.
     bindE (deployContractWithArgs C PROXY_ADMIN [] (if zk then ethTxOptions else withGasLimit ethTxOptions))
       (\<lambda>proxyAdmin.
     bindE (waitE C proxyAdmin) (\<lambda>rec.
     thenE (recordAddr TransparentProxyAdmin ''CONTRACTS_TRANSPARENT_PROXY_ADMIN_ADDR'' (pendingCreates proxyAdmin))
     (bindE (strAddr Governance) (\<lambda>governance.
      bindE (invokeWaitE C (pendingCreates proxyAdmin) ''transferOwnership'' [governance] noOpts)
        (\<lambda>receipt. returnE ()))))))"

definition deployBridgehubImplementation :: "'s ctx \<Rightarrow> string \<Rightarrow> txOpts \<Rightarrow> ('s world, unit) eff" where
  "deployBridgehubImplementation C create2Salt ethTxOptions =
     bindE (getL1ChainId C) (\<lambda>l1.
     bindE (strAddr Governance) (\<lambda>governance.
     bindE (envNumber ''CONTRACTS_MAX_NUMBER_OF_ZK_CHAINS'') (\<lambda>maxChains.
     bindE (deployViaCreate2 C ''Bridgehub'' [l1, governance, VStr maxChains] create2Salt ethTxOptions None)
       (recordAddr (Bridgehub BridgehubImplementation) ''CONTRACTS_BRIDGEHUB_IMPL_ADDR''))))"

text \<open>The shared shape of the proxy deployments.\<close>

definition deployProxy ::
  "'s ctx \<Rightarrow> string \<Rightarrow> slot \<Rightarrow> string \<Rightarrow> string \<Rightarrow> txOpts \<Rightarrow> ('s world, string) eff"
where
  "deployProxy C proxyName implementation initCalldata' create2Salt ethTxOptions =
     bindE (strAddr implementation) (\<lambda>impl.
     bindE (strAddr TransparentProxyAdmin) (\<lambda>admin.
       deployViaCreate2 C proxyName [impl, admin, VStr initCalldata'] create2Salt ethTxOptions None))"

definition deployBridgehubProxy :: "'s ctx \<Rightarrow> string \<Rightarrow> txOpts \<Rightarrow> ('s world, unit) eff" where
  "deployBridgehubProxy C create2Salt ethTxOptions =
     bindE (strAddr Governance) (\<lambda>governance.
     bindE (encodeE C ''Bridgehub'' ''initialize'' [governance]) (\<lambda>initCalldata'.
     bindE (deployProxy C TRANSPARENT_PROXY (Bridgehub BridgehubImplementation) initCalldata' create2Salt ethTxOptions)
       (recordAddr (Bridgehub BridgehubProxy) ''CONTRACTS_BRIDGEHUB_PROXY_ADDR'')))"

definition deployMessageRootImplementation :: "'s ctx \<Rightarrow> string \<Rightarrow> txOpts \<Rightarrow> ('s world, unit) eff" where
  "deployMessageRootImplementation C create2Salt ethTxOptions =
     bindE (strAddr (Bridgehub BridgehubProxy)) (\<lambda>bridgehub.
     bindE (deployViaCreate2 C ''MessageRoot'' [bridgehub] create2Salt ethTxOptions None)
       (recordAddr (Bridgehub MessageRootImplementation) ''CONTRACTS_MESSAGE_ROOT_IMPL_ADDR''))"

definition deployMessageRootProxy :: "'s ctx \<Rightarrow> string \<Rightarrow> txOpts \<Rightarrow> ('s world, unit) eff" where
  "deployMessageRootProxy C create2Salt ethTxOptions =
     bindE (encodeE C ''MessageRoot'' ''initialize'' []) (\<lambda>initCalldata'.
     bindE (deployProxy C ''TransparentUpgradeableProxy'' (Bridgehub MessageRootImplementation) initCalldata' create2Salt ethTxOptions)
       (recordAddr (Bridgehub MessageRootProxy) ''CONTRACTS_MESSAGE_ROOT_PROXY_ADDR''))"

definition deployChainTypeManagerImplementation :: "'s ctx \<Rightarrow> string \<Rightarrow> txOpts \<Rightarrow> ('s world, unit) eff" where
  "deployChainTypeManagerImplementation C create2Salt ethTxOptions =
     bindE (strAddr (Bridgehub BridgehubProxy)) (\<lambda>bridgehub.
     bindE (deployViaCreate2 C ''ChainTypeManager'' [bridgehub] create2Salt
              (ethTxOptions\<lparr> gasLimit := Some 20000000 \<rparr>) None)
       (recordAddr (StateTransition StateTransitionImplementation) ''CONTRACTS_STATE_TRANSITION_IMPL_ADDR''))"

text \<open>\<open>packSemver(...unpackStringSemVer(process.env...))\<close>; splitting an undefined variable throws.\<close>

definition protocolVersionFromEnv :: "env \<Rightarrow> jsnum result" where
  "protocolVersionFromEnv env = (case env ''CONTRACTS_GENESIS_PROTOCOL_SEMANTIC_VERSION'' of
     None \<Rightarrow> Inl (TypeError ''Cannot read properties of undefined (reading split)'')
   | Some v \<Rightarrow> (case unpackStringSemVer v of (major, minor, patch) \<Rightarrow> packSemver major minor patch))"

definition deployChainTypeManagerProxy ::
  "'s ctx \<Rightarrow> string \<Rightarrow> txOpts \<Rightarrow> FacetCut list option \<Rightarrow> ('s world, unit) eff"
where
  "deployChainTypeManagerProxy C create2Salt ethTxOptions extraFacets =
     bindE (envE (\<lambda>env. getHashFromEnv env ''CONTRACTS_GENESIS_ROOT'')) (\<lambda>genesisBatchHash.
     bindE (envNumber ''CONTRACTS_GENESIS_ROLLUP_LEAF_INDEX'') (\<lambda>genesisRollupLeafIndex.
     bindE (envE (\<lambda>env. getHashFromEnv env ''CONTRACTS_GENESIS_BATCH_COMMITMENT'')) (\<lambda>genesisBatchCommitment.
     bindE (initialZkSyncZKChainDiamondCut C extraFacets False) (\<lambda>cutData.
     bindE (envE protocolVersionFromEnv) (\<lambda>protocolVersion.
     bindE (genesisForceDeploymentsData C) (\<lambda>forceDeploymentsData.
     bindE (strAddr (StateTransition GenesisUpgrade)) (\<lambda>genesisUpgrade.
     bindE (strAddr Governance) (\<lambda>governance.
     bindE (strAddr ValidatorTimeLock) (\<lambda>timelock.
     bindE (encodeE C ''ChainTypeManager'' ''initialize'' [VObj [
         (''owner'', governance), (''validatorTimelock'', timelock),
         (''chainCreationParams'', VObj [(''genesisUpgrade'', genesisUpgrade),
            (''genesisBatchHash'', VStr genesisBatchHash),
            (''genesisIndexRepeatedStorageChanges'', VStr genesisRollupLeafIndex),
            (''genesisBatchCommitment'', VStr genesisBatchCommitment),
            (''diamondCut'', cutVal cutData), (''forceDeploymentsData'', VStr forceDeploymentsData)]),
         (''protocolVersion'', numVal protocolVersion)]]) (\<lambda>initCalldata'.
     bindE (deployProxy C TRANSPARENT_PROXY (StateTransition StateTransitionImplementation) initCalldata' create2Salt ethTxOptions)
       (recordAddr (StateTransition StateTransitionProxy) ''CONTRACTS_STATE_TRANSITION_PROXY_ADDR'')))))))))))"

definition deployAdminFacet :: "'s ctx \<Rightarrow> string \<Rightarrow> txOpts \<Rightarrow> ('s world, unit) eff" where
  "deployAdminFacet C create2Salt ethTxOptions =
     bindE (getL1ChainId C) (\<lambda>l1.
     bindE (deployViaCreate2 C ''AdminFacet'' [l1, VStr AddressZero] create2Salt ethTxOptions None)
       (recordAddr (StateTransition AdminFacet) ''CONTRACTS_ADMIN_FACET_ADDR''))"

definition deployMailboxFacet :: "'s ctx \<Rightarrow> string \<Rightarrow> txOpts \<Rightarrow> ('s world, unit) eff" where
  "deployMailboxFacet C create2Salt ethTxOptions =
     bindE (envNumber ''CONTRACTS_ERA_CHAIN_ID'') (\<lambda>eraChainId.
     bindE (getL1ChainId C) (\<lambda>l1.
     bindE (deployViaCreate2 C ''MailboxFacet'' [VStr eraChainId, l1] create2Salt ethTxOptions None)
       (recordAddr (StateTransition MailboxFacet) ''CONTRACTS_MAILBOX_FACET_ADDR'')))"

definition deployExecutorFacet :: "'s ctx \<Rightarrow> string \<Rightarrow> txOpts \<Rightarrow> ('s world, unit) eff" where
  "deployExecutorFacet C create2Salt ethTxOptions =
     bindE (getL1ChainId C) (\<lambda>l1.
     bindE (deployViaCreate2 C ''ExecutorFacet'' [l1] create2Salt ethTxOptions None)
       (recordAddr (StateTransition ExecutorFacet) ''CONTRACTS_EXECUTOR_FACET_ADDR''))"

definition deployGettersFacet :: "'s ctx \<Rightarrow> string \<Rightarrow> txOpts \<Rightarrow> ('s world, unit) eff" where
  "deployGettersFacet C create2Salt ethTxOptions =
     bindE (deployViaCreate2 C ''GettersFacet'' [] create2Salt ethTxOptions None)
       (recordAddr (StateTransition GettersFacet) ''CONTRACTS_GETTERS_FACET_ADDR'')"

definition deployVerifier :: "'s ctx \<Rightarrow> string \<Rightarrow> txOpts \<Rightarrow> ('s world, unit) eff" where
  "deployVerifier C create2Salt ethTxOptions =
     bindE (readE (\<lambda>w. procEnv w ''CHAIN_ETH_NETWORK'' = Some ''mainnet'')) (\<lambda>mainnet.
     bindE (deployViaCreate2 C (if mainnet then ''Verifier'' else ''TestnetVerifier'') [] create2Salt ethTxOptions None)
       (recordAddr (StateTransition Verifier) ''CONTRACTS_VERIFIER_ADDR''))"

end
