(* ===== verification/DeployerOps.thy ===== *)
theory DeployerOps
  imports Deployer
begin

text \<open>
  The class \<open>Deployer\<close> of \<open>src.ts/deploy.ts\<close>, second half: execution through governance, the bridge
  contracts, the registration of chain type managers, tokens and chains, the legacy L2 bridge and the
  move of a chain to a gateway.
\<close>

section \<open>Tokens\<close>

text \<open>\<open>getTokens\<close> of \<open>src.ts/deploy-token.ts\<close>.\<close>

definition getTokens :: "'s ctx \<Rightarrow> env \<Rightarrow> val list result" where
  "getTokens C env =
     (let network = (if truthyStr (env ''CHAIN_ETH_NETWORK'') then toStr (env ''CHAIN_ETH_NETWORK'') else ''localhost'');
          configPath = (if network = ''hardhat'' then ''./test/test_config/constant/'' @ network @ ''.json''
                        else toStr (env ''ZKSYNC_HOME'') @ ''/etc/tokens/'' @ network @ ''.json'') in
      bindR (cJson C configPath) (\<lambda>j. case j of VList ts \<Rightarrow> Inr ts | _ \<Rightarrow> Inl (TypeError ''tokens.find is not a function'')))"

text \<open>\<open>tokens.find((token) => token.symbol == name).address\<close>.\<close>

fun tokenAddress :: "string \<Rightarrow> val list \<Rightarrow> val result" where
  "tokenAddress name [] = Inl (TypeError ''Cannot read properties of undefined (reading address)'')"
| "tokenAddress name (t # ts) = bindR (getProp t ''symbol'') (\<lambda>s.
     if s = VStr name then getProp t ''address'' else tokenAddress name ts)"

definition l1WethToken :: "'s ctx \<Rightarrow> ('s world, val) eff" where
  "l1WethToken C = envE (\<lambda>env. bindR (getTokens C env) (tokenAddress ''WETH''))"

section \<open>Governance\<close>

definition governanceOperation :: "string \<Rightarrow> int \<Rightarrow> string \<Rightarrow> string \<Rightarrow> val" where
  "governanceOperation targetAddress value callData salt = VObj [
     (''calls'', VList [VObj [(''target'', VStr targetAddress), (''value'', VNum value), (''data'', VStr callData)]]),
     (''predecessor'', VStr HashZero), (''salt'', VStr salt)]"

definition executeUpgrade ::
  "'s ctx \<Rightarrow> string \<Rightarrow> int \<Rightarrow> string \<Rightarrow> txOpts \<Rightarrow> bool \<Rightarrow> ('s world, receipt option) eff"
where
  "executeUpgrade C targetAddress value callData ethTxOptions printOperation =
     bindE (addrE Governance) (\<lambda>governance.
     bindE (randomE C) (\<lambda>salt.
     let operation = governanceOperation targetAddress value callData salt in
     if printOperation then
       bindE (encodeE C ''IGovernance'' ''scheduleTransparent'' [operation, VNum 0]) (\<lambda>schedule.
       bindE (encodeE C ''IGovernance'' ''execute'' [operation]) (\<lambda>execute. returnE None))
     else
       bindE (invokeWaitE C governance ''scheduleTransparent'' [operation, VNum 0] noOpts) (\<lambda>_.
       bindE (invokeWaitE C governance ''execute'' [operation] (ethTxOptions\<lparr> txValue := Some value \<rparr>)) (\<lambda>receipt.
       bindE (selfE verbose) (\<lambda>v.
       thenE (whenE v
          (bindE (callE C governance ''hashOperation'' [operation]) (\<lambda>h.
           bindE (callE C governance ''isOperationDone'' [h]) (\<lambda>_. returnE ()))))
         (returnE (Some receipt)))))))"

definition executeDirectOrGovernance ::
  "'s ctx \<Rightarrow> bool \<Rightarrow> string \<Rightarrow> string \<Rightarrow> string \<Rightarrow> val list \<Rightarrow> int \<Rightarrow> txOpts \<Rightarrow> bool \<Rightarrow> ('s world, receipt option) eff"
where
  "executeDirectOrGovernance C useGovernance iface address fname fargs value overrides printOperation =
     (if useGovernance then
        bindE (encodeE C iface fname fargs) (\<lambda>cdata. executeUpgrade C address value cdata overrides printOperation)
      else
        bindE (invokeWaitE C address fname fargs (overrides\<lparr> txValue := Some value \<rparr>)) (\<lambda>r. returnE (Some r)))"

definition viewInt :: "'s ctx \<Rightarrow> string \<Rightarrow> string \<Rightarrow> val list \<Rightarrow> ('s world, int) eff" where
  "viewInt C a m as = bindE (callE C a m as) (\<lambda>v. liftR (asInt v))"

definition viewStr :: "'s ctx \<Rightarrow> string \<Rightarrow> string \<Rightarrow> val list \<Rightarrow> ('s world, string) eff" where
  "viewStr C a m as = bindE (callE C a m as) (\<lambda>v. liftR (asStr v))"

definition viewBool :: "'s ctx \<Rightarrow> string \<Rightarrow> string \<Rightarrow> val list \<Rightarrow> ('s world, bool) eff" where
  "viewBool C a m as = bindE (callE C a m as) (\<lambda>v. liftR (asBool v))"

definition executeUpgradeOnL2 ::
  "'s ctx \<Rightarrow> string \<Rightarrow> string \<Rightarrow> int \<Rightarrow> string \<Rightarrow> val \<Rightarrow> txOpts \<Rightarrow> bool \<Rightarrow> ('s world, receipt option) eff"
where
  "executeUpgradeOnL2 C chainId' targetAddress gasPrice' callData l2GasLimit ethTxOptions printOperation =
     bindE (addrE (Bridgehub BridgehubProxy)) (\<lambda>bridgehub.
     bindE (viewInt C bridgehub ''l2TransactionBaseCost'' [VStr chainId', VNum gasPrice', l2GasLimit, cPubdata C]) (\<lambda>value.
     bindE (viewStr C bridgehub ''baseToken'' [VStr chainId']) (\<lambda>baseTokenAddress.
     let ethIsBaseToken = (baseTokenAddress = ADDRESS_ONE) in
     thenE (whenE (\<not> ethIsBaseToken)
        (bindE (strAddr Governance) (\<lambda>governance.
         bindE (invokeWaitE C baseTokenAddress ''transfer'' [governance, VNum value] noOpts) (\<lambda>_.
         bindE (strAddr (Bridges SharedBridgeProxy)) (\<lambda>sharedBridge.
         bindE (encodeE C ''TestnetERC20Token'' ''approve'' [sharedBridge, VNum value]) (\<lambda>approveData.
         bindE (executeUpgrade C baseTokenAddress 0 approveData noOpts False) (\<lambda>_. returnE ())))))))
     (bindE (selfE deployWallet) (\<lambda>wallet.
      bindE (encodeE C ''Bridgehub'' ''requestL2TransactionDirect'' [VObj [
          (''chainId'', VStr chainId'), (''l2Contract'', VStr targetAddress), (''mintValue'', VNum value),
          (''l2Value'', VNum 0), (''l2Calldata'', VStr callData), (''l2GasLimit'', l2GasLimit),
          (''l2GasPerPubdataByteLimit'', requiredL2GasPricePerPubdata (cCfg C)), (''factoryDeps'', VList []),
          (''refundRecipient'', VStr wallet)]]) (\<lambda>l1Calldata.
        executeUpgrade C bridgehub (if ethIsBaseToken then value else 0) l1Calldata
          (ethTxOptions\<lparr> gasPrice := Some gasPrice' \<rparr>) printOperation))))))"

text \<open>\<open>await this.executeUpgrade(target, 0, data)\<close> with the result dropped.\<close>

definition upgradeCall :: "'s ctx \<Rightarrow> slot \<Rightarrow> string \<Rightarrow> string \<Rightarrow> val list \<Rightarrow> ('s world, unit) eff" where
  "upgradeCall C target iface f args =
     bindE (encodeE C iface f args) (\<lambda>data.
     bindE (addrE target) (\<lambda>a.
     bindE (executeUpgrade C a 0 data noOpts False) (\<lambda>_. returnE ())))"

section \<open>Bridges\<close>

definition deployERC20BridgeImplementation :: "'s ctx \<Rightarrow> string \<Rightarrow> txOpts \<Rightarrow> bool \<Rightarrow> ('s world, unit) eff" where
  "deployERC20BridgeImplementation C create2Salt ethTxOptions dummy =
     bindE (envNumber ''CONTRACTS_ERA_CHAIN_ID'') (\<lambda>eraChainId.
     bindE (strAddr (Bridges L1NullifierProxy)) (\<lambda>nullifier.
     bindE (strAddr (Bridges SharedBridgeProxy)) (\<lambda>sharedBridge.
     bindE (strAddr (Bridges NativeTokenVaultProxy)) (\<lambda>ntv.
     bindE (deployViaCreate2 C (if dummy then ''DummyL1ERC20Bridge'' else ''L1ERC20Bridge'')
              [nullifier, sharedBridge, ntv, VStr eraChainId] create2Salt ethTxOptions None)
       (recordAddr (Bridges ERC20BridgeImplementation) ''CONTRACTS_L1_ERC20_BRIDGE_IMPL_ADDR'')))))"

definition setParametersSharedBridge :: "'s ctx \<Rightarrow> ('s world, unit) eff" where
  "setParametersSharedBridge C =
     bindE (strAddr (Bridges ERC20BridgeProxy)) (\<lambda>erc20Bridge.
       upgradeCall C (Bridges SharedBridgeProxy) ''L1AssetRouter'' ''setL1Erc20Bridge'' [erc20Bridge])"

definition deployERC20BridgeProxy :: "'s ctx \<Rightarrow> string \<Rightarrow> txOpts \<Rightarrow> ('s world, unit) eff" where
  "deployERC20BridgeProxy C create2Salt ethTxOptions =
     bindE (encodeE C ''L1ERC20Bridge'' ''initialize'' []) (\<lambda>initCalldata'.
     bindE (deployProxy C TRANSPARENT_PROXY (Bridges ERC20BridgeImplementation) initCalldata' create2Salt ethTxOptions)
       (recordAddr (Bridges ERC20BridgeProxy) ''CONTRACTS_L1_ERC20_BRIDGE_PROXY_ADDR''))"

definition deployL1NullifierImplementation :: "'s ctx \<Rightarrow> string \<Rightarrow> txOpts \<Rightarrow> ('s world, unit) eff" where
  "deployL1NullifierImplementation C create2Salt ethTxOptions =
     bindE (envNumber ''CONTRACTS_ERA_CHAIN_ID'') (\<lambda>eraChainId.
     bindE (envAddress ''CONTRACTS_ERA_DIAMOND_PROXY_ADDR'') (\<lambda>eraDiamondProxy.
     bindE (readE (\<lambda>w. isCurrentNetworkLocal (procEnv w))) (\<lambda>local'.
     bindE (strAddr (Bridgehub BridgehubProxy)) (\<lambda>bridgehub.
     bindE (deployViaCreate2 C (if local' then ''L1NullifierDev'' else ''L1Nullifier'')
              [bridgehub, VStr eraChainId, VStr eraDiamondProxy] create2Salt ethTxOptions None)
       (recordAddr (Bridges L1NullifierImplementation) ''CONTRACTS_L1_NULLIFIER_IMPL_ADDR'')))))"

definition deployL1NullifierProxy :: "'s ctx \<Rightarrow> string \<Rightarrow> txOpts \<Rightarrow> ('s world, unit) eff" where
  "deployL1NullifierProxy C create2Salt ethTxOptions =
     bindE (strAddr Governance) (\<lambda>governance.
     bindE (encodeE C ''L1Nullifier'' ''initialize'' [governance, VNum 1, VNum 1, VNum 1, VNum 0]) (\<lambda>initCalldata'.
     bindE (deployProxy C ''TransparentUpgradeableProxy'' (Bridges L1NullifierImplementation) initCalldata' create2Salt ethTxOptions)
       (recordAddr (Bridges L1NullifierProxy) ''CONTRACTS_L1_NULLIFIER_PROXY_ADDR'')))"

definition deploySharedBridgeImplementation :: "'s ctx \<Rightarrow> string \<Rightarrow> txOpts \<Rightarrow> ('s world, unit) eff" where
  "deploySharedBridgeImplementation C create2Salt ethTxOptions =
     bindE (l1WethToken C) (\<lambda>weth.
     bindE (envNumber ''CONTRACTS_ERA_CHAIN_ID'') (\<lambda>eraChainId.
     bindE (envAddress ''CONTRACTS_ERA_DIAMOND_PROXY_ADDR'') (\<lambda>eraDiamondProxy.
     bindE (strAddr (Bridgehub BridgehubProxy)) (\<lambda>bridgehub.
     bindE (strAddr (Bridges L1NullifierProxy)) (\<lambda>nullifier.
     bindE (deployViaCreate2 C ''L1AssetRouter'' [weth, bridgehub, nullifier, VStr eraChainId, VStr eraDiamondProxy]
              create2Salt ethTxOptions None)
       (recordAddr (Bridges SharedBridgeImplementation) ''CONTRACTS_L1_SHARED_BRIDGE_IMPL_ADDR''))))))"

definition deploySharedBridgeProxy :: "'s ctx \<Rightarrow> string \<Rightarrow> txOpts \<Rightarrow> ('s world, unit) eff" where
  "deploySharedBridgeProxy C create2Salt ethTxOptions =
     bindE (strAddr Governance) (\<lambda>governance.
     bindE (encodeE C ''L1AssetRouter'' ''initialize'' [governance]) (\<lambda>initCalldata'.
     bindE (deployProxy C TRANSPARENT_PROXY (Bridges SharedBridgeImplementation) initCalldata' create2Salt ethTxOptions)
       (recordAddr (Bridges SharedBridgeProxy) ''CONTRACTS_L1_SHARED_BRIDGE_PROXY_ADDR'')))"

definition deployBridgedStandardERC20Implementation :: "'s ctx \<Rightarrow> string \<Rightarrow> txOpts \<Rightarrow> ('s world, unit) eff" where
  "deployBridgedStandardERC20Implementation C create2Salt ethTxOptions =
     bindE (deployViaCreate2 C ''BridgedStandardERC20'' [] create2Salt ethTxOptions None)
       (recordAddr (Bridges BridgedStandardERC20Implementation) ''CONTRACTS_L1_BRIDGED_STANDARD_ERC20_IMPL_ADDR'')"

definition deployBridgedTokenBeacon :: "'s ctx \<Rightarrow> string \<Rightarrow> txOpts \<Rightarrow> ('s world, unit) eff" where
  "deployBridgedTokenBeacon C create2Salt ethTxOptions =
     bindE (strAddr (Bridges BridgedStandardERC20Implementation)) (\<lambda>impl.
     bindE (deployContractWithArgs C ''@openzeppelin/contracts-v4/proxy/beacon/UpgradeableBeacon.sol:UpgradeableBeacon''
              [impl] (withGasLimit ethTxOptions)) (\<lambda>beacon.
     bindE (waitE C beacon) (\<lambda>rec.
     thenE (recordAddr (Bridges BridgedTokenBeacon) ''CONTRACTS_L1_BRIDGED_TOKEN_BEACON_ADDR'' (pendingCreates beacon))
     (bindE (strAddr Governance) (\<lambda>governance.
      bindE (invokeE C (pendingCreates beacon) ''transferOwnership'' [governance] noOpts) (\<lambda>_. returnE ()))))))"

definition deployNativeTokenVaultImplementation :: "'s ctx \<Rightarrow> string \<Rightarrow> txOpts \<Rightarrow> ('s world, unit) eff" where
  "deployNativeTokenVaultImplementation C create2Salt ethTxOptions =
     bindE (l1WethToken C) (\<lambda>weth.
     bindE (strAddr (Bridges SharedBridgeProxy)) (\<lambda>sharedBridge.
     bindE (strAddr (Bridges L1NullifierProxy)) (\<lambda>nullifier.
     bindE (deployViaCreate2 C ''L1NativeTokenVault'' [weth, sharedBridge, nullifier] create2Salt ethTxOptions None)
       (recordAddr (Bridges NativeTokenVaultImplementation) ''CONTRACTS_L1_NATIVE_TOKEN_VAULT_IMPL_ADDR''))))"

definition deployNativeTokenVaultProxy :: "'s ctx \<Rightarrow> string \<Rightarrow> txOpts \<Rightarrow> ('s world, unit) eff" where
  "deployNativeTokenVaultProxy C create2Salt ethTxOptions =
     bindE (strAddr Governance) (\<lambda>governance.
     bindE (strAddr (Bridges BridgedTokenBeacon)) (\<lambda>beacon.
     bindE (encodeE C ''L1NativeTokenVault'' ''initialize'' [governance, beacon]) (\<lambda>initCalldata'.
     thenE (bindE (deployProxy C ''TransparentUpgradeableProxy'' (Bridges NativeTokenVaultImplementation) initCalldata' create2Salt ethTxOptions)
       (recordAddr (Bridges NativeTokenVaultProxy) ''CONTRACTS_L1_NATIVE_TOKEN_VAULT_PROXY_ADDR''))
     (bindE (strAddr (Bridges NativeTokenVaultProxy)) (\<lambda>ntv.
      thenE (upgradeCall C (Bridges SharedBridgeProxy) ''IL1AssetRouter'' ''setNativeTokenVault'' [ntv])
      (thenE (upgradeCall C (Bridges L1NullifierProxy) ''IL1Nullifier'' ''setL1NativeTokenVault'' [ntv])
      (bindE (strAddr (Bridges SharedBridgeProxy)) (\<lambda>sharedBridge.
       thenE (upgradeCall C (Bridges L1NullifierProxy) ''IL1Nullifier'' ''setL1AssetRouter'' [sharedBridge])
       (bindE (addrE (Bridges NativeTokenVaultProxy)) (\<lambda>vault.
        bindE (invokeWaitE C vault ''registerEthToken'' [] noOpts) (\<lambda>_.
        bindE (invokeE C vault ''registerEthToken'' [] noOpts) (\<lambda>_. returnE ()))))))))))))"

definition deployCTMDeploymentTrackerImplementation :: "'s ctx \<Rightarrow> string \<Rightarrow> txOpts \<Rightarrow> ('s world, unit) eff" where
  "deployCTMDeploymentTrackerImplementation C create2Salt ethTxOptions =
     bindE (strAddr (Bridgehub BridgehubProxy)) (\<lambda>bridgehub.
     bindE (strAddr (Bridges SharedBridgeProxy)) (\<lambda>sharedBridge.
     bindE (deployViaCreate2 C ''CTMDeploymentTracker'' [bridgehub, sharedBridge] create2Salt ethTxOptions None)
       (recordAddr (Bridgehub CTMDeploymentTrackerImplementation) ''CONTRACTS_CTM_DEPLOYMENT_TRACKER_IMPL_ADDR'')))"

definition deployCTMDeploymentTrackerProxy :: "'s ctx \<Rightarrow> string \<Rightarrow> txOpts \<Rightarrow> ('s world, unit) eff" where
  "deployCTMDeploymentTrackerProxy C create2Salt ethTxOptions =
     bindE (strAddr Governance) (\<lambda>governance.
     bindE (encodeE C ''CTMDeploymentTracker'' ''initialize'' [governance]) (\<lambda>initCalldata'.
     bindE (deployProxy C ''TransparentUpgradeableProxy'' (Bridgehub CTMDeploymentTrackerImplementation) initCalldata' create2Salt ethTxOptions)
       (recordAddr (Bridgehub CTMDeploymentTrackerProxy) ''CONTRACTS_CTM_DEPLOYMENT_TRACKER_PROXY_ADDR'')))"

definition sharedBridgeSetEraPostUpgradeFirstBatch :: "'s ctx \<Rightarrow> ('s world, unit) eff" where
  "sharedBridgeSetEraPostUpgradeFirstBatch C =
     bindE (envNumber ''CONTRACTS_SHARED_BRIDGE_UPGRADE_STORAGE_SWITCH'') (\<lambda>storageSwitch.
     bindE (addrE (Bridges SharedBridgeProxy)) (\<lambda>sharedBridge.
     bindE (invokeWaitE C sharedBridge ''setEraPostUpgradeFirstBatch'' [VStr storageSwitch] noOpts) (\<lambda>_. returnE ())))"

definition registerAddresses :: "'s ctx \<Rightarrow> ('s world, unit) eff" where
  "registerAddresses C =
     bindE (strAddr (Bridges SharedBridgeProxy)) (\<lambda>sharedBridge.
     bindE (strAddr (Bridgehub CTMDeploymentTrackerProxy)) (\<lambda>tracker.
     bindE (strAddr (Bridgehub MessageRootProxy)) (\<lambda>messageRoot.
       upgradeCall C (Bridgehub BridgehubProxy) ''Bridgehub'' ''setAddresses'' [sharedBridge, tracker, messageRoot])))"

definition registerTokenBridgehub :: "'s ctx \<Rightarrow> string \<Rightarrow> bool \<Rightarrow> ('s world, unit) eff" where
  "registerTokenBridgehub C tokenAddr useGovernance =
     bindE (addrE (Bridgehub BridgehubProxy)) (\<lambda>bridgehub.
     bindE (selfE l1ChainId) (\<lambda>l1.
     bindE (liftR (encodeNTVAssetId (cE C) (numVal l1) tokenAddr)) (\<lambda>baseTokenAssetId.
     bindE (executeDirectOrGovernance C useGovernance ''Bridgehub'' bridgehub ''addTokenAssetId''
              [VStr baseTokenAssetId] 0 noOpts False) (\<lambda>receipt. returnE ()))))"

definition registerTokenInNativeTokenVault :: "'s ctx \<Rightarrow> string \<Rightarrow> ('s world, unit) eff" where
  "registerTokenInNativeTokenVault C token =
     upgradeCall C (Bridges NativeTokenVaultProxy) ''IL1NativeTokenVault'' ''registerToken'' [VStr token]"

section \<open>State transition contracts\<close>

definition deployStateTransitionDiamondInit :: "'s ctx \<Rightarrow> string \<Rightarrow> txOpts \<Rightarrow> ('s world, unit) eff" where
  "deployStateTransitionDiamondInit C create2Salt ethTxOptions =
     bindE (deployViaCreate2 C ''DiamondInit'' [] create2Salt ethTxOptions None)
       (recordAddr (StateTransition DiamondInit) ''CONTRACTS_DIAMOND_INIT_ADDR'')"

text \<open>The next two methods assign to \<open>this.addresses.stateTransition.defaultUpgrade\<close>; the object has no
  member \<open>stateTransition\<close> (its name is \<open>StateTransition\<close>), so the assignment throws.\<close>

definition assignUndefinedMember :: "('s world, unit) eff" where
  "assignUndefinedMember = throwE (TypeError ''Cannot set properties of undefined (setting defaultUpgrade)'')"

definition deployDefaultUpgrade :: "'s ctx \<Rightarrow> string \<Rightarrow> txOpts \<Rightarrow> ('s world, unit) eff" where
  "deployDefaultUpgrade C create2Salt ethTxOptions =
     bindE (deployViaCreate2 C ''DefaultUpgrade'' [] create2Salt ethTxOptions None) (\<lambda>contractAddress.
     thenE (logE ''CONTRACTS_DEFAULT_UPGRADE_ADDR'' contractAddress) assignUndefinedMember)"

definition deployZKChainsUpgrade :: "'s ctx \<Rightarrow> string \<Rightarrow> txOpts \<Rightarrow> ('s world, unit) eff" where
  "deployZKChainsUpgrade C create2Salt ethTxOptions =
     bindE (deployViaCreate2 C ''UpgradeZKChains'' [] create2Salt ethTxOptions None) (\<lambda>contractAddress.
     thenE (logE ''CONTRACTS_ZK_CHAIN_UPGRADE_ADDR'' contractAddress) assignUndefinedMember)"

definition deployGenesisUpgrade :: "'s ctx \<Rightarrow> string \<Rightarrow> txOpts \<Rightarrow> ('s world, unit) eff" where
  "deployGenesisUpgrade C create2Salt ethTxOptions =
     bindE (deployViaCreate2 C ''L1GenesisUpgrade'' [] create2Salt ethTxOptions None)
       (recordAddr (StateTransition GenesisUpgrade) ''CONTRACTS_GENESIS_UPGRADE_ADDR'')"

definition optsGas :: "int option \<Rightarrow> txOpts" where
  "optsGas g = noOpts\<lparr> gasPrice := g \<rparr>"

definition optsNonce :: "int option \<Rightarrow> int \<Rightarrow> txOpts" where
  "optsNonce g n = noOpts\<lparr> gasPrice := g, nonce := Some n \<rparr>"

definition deployBridgehubContract :: "'s ctx \<Rightarrow> string \<Rightarrow> int option \<Rightarrow> int option \<Rightarrow> ('s world, unit) eff" where
  "deployBridgehubContract C create2Salt gasPrice' nonce' =
     bindE (resolveNonce C nonce') (\<lambda>n. seqE [
       deployBridgehubImplementation C create2Salt (optsNonce gasPrice' n),
       deployBridgehubProxy C create2Salt (optsGas gasPrice'),
       deployMessageRootImplementation C create2Salt (optsGas gasPrice'),
       deployMessageRootProxy C create2Salt (optsGas gasPrice')])"

definition deployStateTransitionDiamondFacets ::
  "'s ctx \<Rightarrow> string \<Rightarrow> int option \<Rightarrow> int option \<Rightarrow> ('s world, unit) eff"
where
  "deployStateTransitionDiamondFacets C create2Salt gasPrice' nonce' =
     bindE (resolveNonce C nonce') (\<lambda>n. seqE [
       deployExecutorFacet C create2Salt (optsNonce gasPrice' n),
       deployAdminFacet C create2Salt (optsNonce gasPrice' (n + 1)),
       deployMailboxFacet C create2Salt (optsNonce gasPrice' (n + 2)),
       deployGettersFacet C create2Salt (optsNonce gasPrice' (n + 3)),
       deployStateTransitionDiamondInit C create2Salt (optsNonce gasPrice' (n + 4))])"

definition ctmAssetInfo :: "'s ctx \<Rightarrow> ('s world, unit) eff" where
  "ctmAssetInfo C =
     bindE (addrE (Bridgehub BridgehubProxy)) (\<lambda>bridgehub.
     bindE (strAddr (StateTransition StateTransitionProxy)) (\<lambda>ctm.
     bindE (viewStr C bridgehub ''ctmAssetId'' [ctm]) (printE ''CONTRACTS_CTM_ASSET_INFO'')))"

definition registerChainTypeManager :: "'s ctx \<Rightarrow> ('s world, unit) eff" where
  "registerChainTypeManager C =
     bindE (addrE (Bridgehub BridgehubProxy)) (\<lambda>bridgehub.
     bindE (addrE (StateTransition StateTransitionProxy)) (\<lambda>ctm.
     bindE (viewBool C bridgehub ''chainTypeManagerIsRegistered'' [VStr ctm]) (\<lambda>registered.
     whenE (\<not> registered)
       (bindE (encodeE C ''Bridgehub'' ''addChainTypeManager'' [VStr ctm]) (\<lambda>upgradeData.
        bindE isZkMode (\<lambda>zk.
        if zk then bindE (envE (\<lambda>env. getHashFromEnv env ''CONTRACTS_CTM_ASSET_INFO'')) (printE ''CONTRACTS_CTM_ASSET_INFO'')
        else
          bindE (executeUpgrade C bridgehub 0 upgradeData noOpts False) (\<lambda>receipt1.
          bindE (strAddr (Bridgehub CTMDeploymentTrackerProxy)) (\<lambda>tracker.
          bindE (liftR (e_hexZeroPad (cE C) ctm 32)) (\<lambda>ctmWord.
          thenE (upgradeCall C (Bridges SharedBridgeProxy) ''IL1AssetRouter'' ''setAssetDeploymentTracker'' [VStr ctmWord, tracker])
          (bindE (selfE verbose) (\<lambda>v.
           thenE (whenE v (ctmAssetInfo C))
           (thenE (upgradeCall C (Bridgehub CTMDeploymentTrackerProxy) ''ICTMDeploymentTracker'' ''registerCTMAssetOnL1'' [VStr ctm])
              (whenE v (ctmAssetInfo C)))))))))))))) "

definition deployChainTypeManagerContract ::
  "'s ctx \<Rightarrow> string \<Rightarrow> FacetCut list option \<Rightarrow> int option \<Rightarrow> int option \<Rightarrow> ('s world, unit) eff"
where
  "deployChainTypeManagerContract C create2Salt extraFacets gasPrice' nonce' =
     bindE (resolveNonce C nonce') (\<lambda>n. seqE [
       deployStateTransitionDiamondFacets C create2Salt gasPrice' (Some n),
       deployChainTypeManagerImplementation C create2Salt (optsGas gasPrice'),
       deployChainTypeManagerProxy C create2Salt (optsGas gasPrice') extraFacets,
       registerChainTypeManager C])"

definition registerSettlementLayer :: "'s ctx \<Rightarrow> ('s world, unit) eff" where
  "registerSettlementLayer C =
     bindE (selfE chainId) (\<lambda>ci.
       upgradeCall C (Bridgehub BridgehubProxy) ''Bridgehub'' ''registerSettlementLayer'' [numVal ci, VBool True])"

section \<open>Chain administration\<close>

text \<open>A call of \<open>ChainAdmin.multicall\<close>: target, value and data.\<close>

type_synonym chainAdminCall = "string \<times> int \<times> string"

definition executeChainAdminMulticall :: "'s ctx \<Rightarrow> chainAdminCall list \<Rightarrow> bool \<Rightarrow> ('s world, receipt) eff" where
  "executeChainAdminMulticall C calls requireSuccess =
     bindE (addrE ChainAdmin) (\<lambda>chainAdmin.
       invokeWaitE C chainAdmin ''multicall''
         [VList (map (\<lambda>(target, v, data). VObj [(''target'', VStr target), (''value'', VNum v), (''data'', VStr data)]) calls),
          VBool requireSuccess]
         (noOpts\<lparr> txValue := Some (foldl (\<lambda>acc c. acc + fst (snd c)) 0 calls) \<rparr>))"

definition setTokenMultiplierSetterAddress :: "'s ctx \<Rightarrow> string \<Rightarrow> ('s world, unit) eff" where
  "setTokenMultiplierSetterAddress C a =
     bindE (addrE ChainAdmin) (\<lambda>chainAdmin.
     bindE (invokeWaitE C chainAdmin ''setTokenMultiplierSetter'' [VStr a] noOpts) (\<lambda>_. returnE ()))"

definition enableEvmEmulation :: "'s ctx \<Rightarrow> ('s world, unit) eff" where
  "enableEvmEmulation C =
     bindE (addrE (StateTransition StateTransitionProxy)) (\<lambda>stm.
     bindE (selfE chainId) (\<lambda>ci.
     bindE (viewStr C stm ''getHyperchain'' [numVal ci]) (\<lambda>diamondProxyAddress.
     bindE (invokeWaitE C diamondProxyAddress ''allowEvmEmulation'' [] noOpts) (\<lambda>_. returnE ()))))"

definition transferAdminFromDeployerToChainAdmin :: "'s ctx \<Rightarrow> ('s world, unit) eff" where
  "transferAdminFromDeployerToChainAdmin C =
     bindE (addrE (StateTransition StateTransitionProxy)) (\<lambda>ctm.
     bindE (selfE chainId) (\<lambda>ci.
     bindE (viewStr C ctm ''getZKChain'' [numVal ci]) (\<lambda>diamondProxyAddress.
     bindE (strAddr ChainAdmin) (\<lambda>chainAdmin.
     bindE (invokeWaitE C diamondProxyAddress ''setPendingAdmin'' [chainAdmin] noOpts) (\<lambda>_.
     bindE (encodeE C ''IZKChain'' ''acceptAdmin'' []) (\<lambda>acceptAdminData.
     bindE (executeChainAdminMulticall C [(diamondProxyAddress, 0, acceptAdminData)] True) (\<lambda>_. returnE ())))))))"

definition moveChainToGateway :: "'s ctx \<Rightarrow> string \<Rightarrow> int \<Rightarrow> ('s world, receipt) eff" where
  "moveChainToGateway C gatewayChainId gasPrice' =
     bindE (envE protocolVersionFromEnv) (\<lambda>protocolVersion.
     bindE (liftR (e_abiEncode (cE C) [''uint256''] [numVal protocolVersion])) (\<lambda>chainData.
     bindE (addrE (Bridgehub BridgehubProxy)) (\<lambda>bridgehub.
     bindE (bindE (viewInt C bridgehub ''l2TransactionBaseCost'' [VStr gatewayChainId, VNum gasPrice', VNum 72000000, cPubdata C])
              (\<lambda>c. returnE (c * 5))) (\<lambda>expectedCost.
     bindE (selfE deployWallet) (\<lambda>newAdmin.
     bindE (initialZkSyncZKChainDiamondCut C None False) (\<lambda>diamondCutData.
     bindE (liftR (e_abiEncode (cE C) [DIAMOND_CUT_DATA_ABI_STRING] [cutVal diamondCutData])) (\<lambda>initialDiamondCut.
     bindE (liftR (e_abiEncode (cE C) [''uint256'', ''bytes''] [VStr newAdmin, VStr initialDiamondCut])) (\<lambda>ctmData.
     bindE (selfE chainId) (\<lambda>ci.
     bindE (liftR (e_abiEncode (cE C) [BRIDGEHUB_CTM_ASSET_DATA_ABI_STRING]
              [VList [numVal ci, VStr ctmData, VStr chainData]])) (\<lambda>bridgehubData.
     bindE (viewStr C bridgehub ''ctmAssetIdFromChainId'' [numVal ci]) (\<lambda>chainAssetId.
     thenE (logE ''CONTRACTS_CTM_ASSET_INFO'' chainAssetId)
     (bindE (liftR (e_abiEncode (cE C) [''bytes32'', ''bytes''] [VStr chainAssetId, VStr bridgehubData])) (\<lambda>enc.
      bindE (strAddr (Bridges SharedBridgeProxy)) (\<lambda>sharedBridge.
      bindE (encodeE C ''Bridgehub'' ''requestL2TransactionTwoBridges'' [VObj [
          (''chainId'', VStr gatewayChainId), (''mintValue'', VNum expectedCost), (''l2Value'', VNum 0),
          (''l2GasLimit'', VNum 72000000), (''l2GasPerPubdataByteLimit'', cPubdata C),
          (''refundRecipient'', VStr newAdmin), (''secondBridgeAddress'', sharedBridge),
          (''secondBridgeValue'', VNum 0), (''secondBridgeCalldata'', VStr (''0x01'' @ drop 2 enc))]]) (\<lambda>data.
        executeChainAdminMulticall C [(bridgehub, expectedCost, data)] True)))))))))))))))"

definition finishMoveChainToL1 :: "'s ctx \<Rightarrow> val \<Rightarrow> ('s world, unit) eff" where
  "finishMoveChainToL1 C synclayerChainId =
     bindE (addrE (Bridges L1NullifierProxy)) (\<lambda>nullifier.
     bindE (liftR (e_abiEncode (cE C) [''bytes32'', ''bytes''] [])) (\<lambda>message.
     bindE (invokeWaitE C nullifier ''finalizeWithdrawal''
              [synclayerChainId, VNum 1, VNum 1, VNum 1, VStr message, VList [VStr ''0x00'']] noOpts) (\<lambda>_. returnE ())))"

section \<open>The legacy L2 shared bridge\<close>

definition artifactBytecode :: "('s ctx \<Rightarrow> env \<Rightarrow> val result) \<Rightarrow> 's ctx \<Rightarrow> ('s world, val) eff" where
  "artifactBytecode art C = envE (\<lambda>env. bindR (art C env) (\<lambda>j. getProp j ''bytecode''))"

text \<open>The call data of the proxy's initialiser.\<close>

definition proxyInitializationParams :: "'s ctx \<Rightarrow> string \<Rightarrow> ('s world, string) eff" where
  "proxyInitializationParams C l2GovernorAddress =
     bindE (strAddr (Bridges SharedBridgeProxy)) (\<lambda>l1SharedBridge.
     bindE (artifactBytecode L2_STANDARD_TOKEN_PROXY C) (\<lambda>tokenProxy.
     bindE (liftR (hashL2Bytecode (cE C) tokenProxy)) (\<lambda>tokenProxyHash.
       encodeE C ''L2SharedBridgeLegacy'' ''initialize''
         [l1SharedBridge, VBytes tokenProxyHash, VStr l2GovernorAddress])))"

text \<open>Constructor data and predicted address of the L2 proxy, given the implementation's address.\<close>

definition l2SharedBridgeProxyData :: "'s ctx \<Rightarrow> string \<Rightarrow> ('s world, val \<times> string) eff" where
  "l2SharedBridgeProxyData C implAddress =
     bindE (addrE Governance) (\<lambda>governance.
     bindE (liftR (applyL1ToL2Alias (cE C) governance)) (\<lambda>l2GovernorAddress.
     bindE (proxyInitializationParams C l2GovernorAddress) (\<lambda>params.
     bindE (liftR (bindR (e_abiEncode (cE C) [''address'', ''address'', ''bytes'']
              [VStr implAddress, VStr l2GovernorAddress, VStr params])
              (\<lambda>enc. e_arrayify (cE C) (VStr enc)))) (\<lambda>constructorData.
     bindE (selfE deployWallet) (\<lambda>wallet.
     bindE (artifactBytecode L2_SHARED_BRIDGE_PROXY C) (\<lambda>proxyBytecode.
     bindE (liftR (computeL2Create2Address (cE C) wallet proxyBytecode (VBytes constructorData) (VStr HashZero)))
       (\<lambda>a. returnE (VBytes constructorData, a))))))))"

definition l2SharedBridgeImplAddress :: "'s ctx \<Rightarrow> ('s world, string) eff" where
  "l2SharedBridgeImplAddress C =
     bindE (artifactBytecode L2_SHARED_BRIDGE_IMPLEMENTATION C) (\<lambda>code.
     bindE (selfE deployWallet) (\<lambda>wallet.
       liftR (computeL2Create2Address (cE C) wallet code (VStr ''0x'') (VStr HashZero))))"

definition setL2LegacySharedBridgeInL1Nullifier :: "'s ctx \<Rightarrow> string \<Rightarrow> ('s world, unit) eff" where
  "setL2LegacySharedBridgeInL1Nullifier C inputChainId =
     bindE (readE (\<lambda>w. isCurrentNetworkLocal (procEnv w))) (\<lambda>local'.
     whenE local'
       (bindE (l2SharedBridgeImplAddress C) (\<lambda>implAddress.
        bindE (l2SharedBridgeProxyData C implAddress) (\<lambda>proxy.
        bindE (addrE (Bridges L1NullifierProxy)) (\<lambda>l1Nullifier.
        bindE (invokeWaitE C l1Nullifier ''setL2LegacySharedBridge'' [VStr inputChainId, VStr (snd proxy)] noOpts)
          (\<lambda>_. returnE ()))))))"

definition priorityTxMaxGasLimit :: "('s world, val) eff" where
  "priorityTxMaxGasLimit = bindE (envNumber ''CONTRACTS_PRIORITY_TX_MAX_GAS_LIMIT'') (\<lambda>n. returnE (VStr n))"

definition deploySharedBridgeImplOnL2ThroughL1 :: "'s ctx \<Rightarrow> string \<Rightarrow> int option \<Rightarrow> ('s world, unit) eff" where
  "deploySharedBridgeImplOnL2ThroughL1 C chainId' gasPrice' =
     bindE (envNumber ''CONTRACTS_ERA_CHAIN_ID'') (\<lambda>eraChainId.
     bindE (artifactBytecode L2_SHARED_BRIDGE_IMPLEMENTATION C) (\<lambda>code.
     if code \<in> {VUndef, VNull, VStr []} then throwE (Error ''l2SharedBridgeImplementationBytecode not found'')
     else
     bindE (l2SharedBridgeImplAddress C) (\<lambda>implAddress.
     thenE (setAddrE (Bridges L2LegacySharedBridgeImplementation) implAddress)
     (bindE (liftR (e_abiEncode (cE C) [''uint256''] [VStr eraChainId])) (\<lambda>constructorData.
      bindE priorityTxMaxGasLimit (\<lambda>gl.
      bindE (artifactBytecode L2_STANDARD_TOKEN_PROXY C) (\<lambda>tokenProxy.
      bindE (addrE (Bridgehub BridgehubProxy)) (\<lambda>bridgehub.
      bindE (addrE (Bridges SharedBridgeProxy)) (\<lambda>sharedBridge.
      bindE (create2DeployFromL1 C (VStr chainId') code (VStr constructorData) HashZero gl gasPrice'
               (Some [tokenProxy]) (Some bridgehub) (Some sharedBridge)) (\<lambda>tx2.
      bindE (waitE C tx2) (\<lambda>_.
        logE ''CONTRACTS_L2_LEGACY_SHARED_BRIDGE_IMPL_ADDR'' implAddress)))))))))))"

definition deploySharedBridgeProxyOnL2ThroughL1 :: "'s ctx \<Rightarrow> string \<Rightarrow> int option \<Rightarrow> ('s world, unit) eff" where
  "deploySharedBridgeProxyOnL2ThroughL1 C chainId' gasPrice' =
     bindE (addrE (Bridges L2LegacySharedBridgeImplementation)) (\<lambda>implAddress.
     bindE (l2SharedBridgeProxyData C implAddress) (\<lambda>proxy.
     thenE (setAddrE (Bridges L2LegacySharedBridgeProxy) (snd proxy))
     (bindE (artifactBytecode L2_SHARED_BRIDGE_PROXY C) (\<lambda>proxyBytecode.
      bindE priorityTxMaxGasLimit (\<lambda>gl.
      bindE (addrE (Bridgehub BridgehubProxy)) (\<lambda>bridgehub.
      bindE (addrE (Bridges SharedBridgeProxy)) (\<lambda>sharedBridge.
      bindE (create2DeployFromL1 C (VStr chainId') proxyBytecode (fst proxy) HashZero gl gasPrice'
               None (Some bridgehub) (Some sharedBridge)) (\<lambda>tx3.
      bindE (waitE C tx3) (\<lambda>_.
        logE ''CONTRACTS_L2_LEGACY_SHARED_BRIDGE_ADDR'' (snd proxy))))))))))"

definition deployL2LegacySharedBridge :: "'s ctx \<Rightarrow> string \<Rightarrow> int option \<Rightarrow> ('s world, unit) eff" where
  "deployL2LegacySharedBridge C inputChainId gasPrice' =
     thenE (deploySharedBridgeImplOnL2ThroughL1 C inputChainId gasPrice')
       (deploySharedBridgeProxyOnL2ThroughL1 C inputChainId gasPrice')"

section \<open>Registration of a chain\<close>

text \<open>\<open>receipt.logs.find((log) => log.topics[0] == topic)\<close>; reading a member of a missing log throws.\<close>

definition findLog :: "string \<Rightarrow> receipt \<Rightarrow> string list result" where
  "findLog topic r = (case List.find (\<lambda>ts. ts \<noteq> [] \<and> hd ts = topic) (receiptLogs r) of
     None \<Rightarrow> Inl (TypeError ''Cannot read properties of undefined (reading topics)'')
   | Some ts \<Rightarrow> Inr ts)"

definition topicAt :: "string list \<Rightarrow> nat \<Rightarrow> val" where
  "topicAt ts i = (if i < length ts then VStr (ts ! i) else VUndef)"

text \<open>\<open>parseInt(s, 16)\<close> of a topic.\<close>

definition parseHexTopic :: "val \<Rightarrow> jsnum" where
  "parseHexTopic v = (case v of VStr s \<Rightarrow>
       (let ds = takeWhile (digitBelow 16) (if take 2 s = ''0x'' then drop 2 s else s) in
        if ds = [] then NaN else Num (dbl (int (digitsVal 16 0 ds))))
     | _ \<Rightarrow> NaN)"

definition txOptionsFor :: "bool \<Rightarrow> txOpts" where
  "txOptionsFor zk = (if zk then noOpts else noOpts\<lparr> gasLimit := Some 10000000 \<rparr>)"

definition factoryDepsFor :: "'s ctx \<Rightarrow> ('s world, val) eff" where
  "factoryDepsFor C =
     bindE (readE (\<lambda>w. procEnv w ''CHAIN_ETH_NETWORK'' \<noteq> Some ''hardhat'')) (\<lambda>real.
     if real then
       bindE (artifactBytecode L2_STANDARD_ERC20_PROXY_FACTORY C) (\<lambda>a.
       bindE (artifactBytecode L2_STANDARD_ERC20_IMPLEMENTATION C) (\<lambda>b.
       bindE (artifactBytecode L2_STANDARD_TOKEN_PROXY C) (\<lambda>c. returnE (VList [a, b, c]))))
     else returnE (VList []))"

definition createNewChain ::
  "'s ctx \<Rightarrow> string \<Rightarrow> string \<Rightarrow> FacetCut list option \<Rightarrow> int option \<Rightarrow> bool \<Rightarrow> bool \<Rightarrow> string \<Rightarrow> ('s world, receipt) eff"
where
  "createNewChain C inputChainId baseTokenAssetId extraFacets gasPrice' compareDiamondCutHash useGovernance admin =
     bindE isZkMode (\<lambda>zk.
     bindE (initialZkSyncZKChainDiamondCut C extraFacets compareDiamondCutHash) (\<lambda>diamondCutData.
     bindE (liftR (e_abiEncode (cE C) [DIAMOND_CUT_DATA_ABI_STRING] [cutVal diamondCutData])) (\<lambda>initialDiamondCut.
     bindE (genesisForceDeploymentsData C) (\<lambda>forceDeploymentsData.
     bindE (liftR (e_abiEncode (cE C) [''bytes'', ''bytes''] [VStr initialDiamondCut, VStr forceDeploymentsData])) (\<lambda>initData.
     bindE (factoryDepsFor C) (\<lambda>factoryDeps.
     bindE (addrE (Bridgehub BridgehubProxy)) (\<lambda>bridgehub.
     bindE (strAddr (StateTransition StateTransitionProxy)) (\<lambda>ctm.
     bindE (nowE C) (\<lambda>now.
     bindE (executeDirectOrGovernance C useGovernance ''Bridgehub'' bridgehub ''createNewChain''
              [VStr inputChainId, ctm, VStr baseTokenAssetId, VNum now, VStr admin, VStr initData, factoryDeps] 0
              ((txOptionsFor zk)\<lparr> gasPrice := gasPrice' \<rparr>) False) (\<lambda>receipt.
       liftR (case receipt of Some r \<Rightarrow> Inr r
              | None \<Rightarrow> Inl (TypeError ''Cannot read properties of undefined (reading logs)''))))))))))))"

definition setChainId :: "jsnum \<Rightarrow> ('s world, unit) eff" where
  "setChainId c = modifyE (\<lambda>w. w\<lparr> self := (self w)\<lparr> chainId := c \<rparr> \<rparr>)"

text \<open>What follows \<open>createNewChain\<close>: bookkeeping, validators with explicit nonces, chain parameters.\<close>

definition registerValidators :: "'s ctx \<Rightarrow> val \<Rightarrow> int \<Rightarrow> int option \<Rightarrow> ('s world, unit) eff" where
  "registerValidators C chainTopic n gasPrice' =
     bindE isZkMode (\<lambda>zk.
     bindE (envAddress ''ETH_SENDER_SENDER_OPERATOR_COMMIT_ETH_ADDR'') (\<lambda>validatorOneAddress.
     bindE (envAddress ''ETH_SENDER_SENDER_OPERATOR_BLOBS_ETH_ADDR'') (\<lambda>validatorTwoAddress.
     bindE (addrE ValidatorTimeLock) (\<lambda>timelock.
     bindE (invokeWaitE C timelock ''addValidator'' [chainTopic, VStr validatorOneAddress]
              ((txOptionsFor zk)\<lparr> gasPrice := gasPrice', nonce := Some n \<rparr>)) (\<lambda>_.
     bindE (invokeWaitE C timelock ''addValidator'' [chainTopic, VStr validatorTwoAddress]
              ((txOptionsFor zk)\<lparr> gasPrice := gasPrice', nonce := Some (n + 1) \<rparr>)) (\<lambda>_. returnE ()))))))"

definition setChainParameters :: "'s ctx \<Rightarrow> string \<Rightarrow> bool \<Rightarrow> ('s world, unit) eff" where
  "setChainParameters C admin validiumMode =
     bindE (selfE deployWallet) (\<lambda>wallet.
     bindE (addrE (StateTransition DiamondProxy)) (\<lambda>diamondProxy.
     whenE (admin = wallet)
       (bindE (invokeWaitE C diamondProxy ''setTokenMultiplier'' [VNum 1, VNum 1] noOpts) (\<lambda>_.
        whenE validiumMode
          (bindE (invokeWaitE C diamondProxy ''setPubdataPricingMode'' [VNum 1] noOpts) (\<lambda>_. returnE ()))))))"

definition recordNewChain :: "'s ctx \<Rightarrow> string \<Rightarrow> string \<Rightarrow> bool \<Rightarrow> receipt \<Rightarrow> val \<Rightarrow> ('s world, unit) eff" where
  "recordNewChain C baseTokenAddress baseTokenAssetId alreadyRegisteredInCTM r chainTopic =
     bindE (selfE verbose) (\<lambda>v. seqE [
       setAddrE BaseToken baseTokenAddress,
       setAddrE BaseTokenAssetId baseTokenAssetId,
       whenE v (seqE [
         printE ''CHAIN_ETH_ZKSYNC_NETWORK_ID'' (showNum (parseHexTopic chainTopic)),
         ctmAssetInfo C,
         printE ''CONTRACTS_BASE_TOKEN_ADDR'' baseTokenAddress]),
       whenE (\<not> alreadyRegisteredInCTM)
         (bindE (liftR (bindR (findLog (cEventTopic C ''ChainTypeManager'' ''NewZKChain'') r) (\<lambda>ts. asStr (topicAt ts 2)))) (\<lambda>t.
            recordAddr (StateTransition DiamondProxy) ''CONTRACTS_DIAMOND_PROXY_ADDR'' (''0x'' @ drop 26 t))),
       setChainId (parseHexTopic chainTopic)])"

definition registerZKChain ::
  "'s ctx \<Rightarrow> string \<Rightarrow> bool \<Rightarrow> FacetCut list option \<Rightarrow> int option \<Rightarrow> bool \<Rightarrow> int option \<Rightarrow> string option \<Rightarrow> bool \<Rightarrow> bool
   \<Rightarrow> ('s world, unit) eff"
where
  "registerZKChain C baseTokenAssetId validiumMode extraFacets gasPrice' compareDiamondCutHash nonce' predefinedChainId
       useGovernance l2LegacySharedBridge =
     bindE (resolveNonce C nonce') (\<lambda>n0.
     bindE (addrE (Bridges NativeTokenVaultProxy)) (\<lambda>ntv.
     bindE (viewStr C ntv ''tokenAddress'' [VStr baseTokenAssetId]) (\<lambda>baseTokenAddress.
     bindE (if truthyStr predefinedChainId then returnE (toStr predefinedChainId)
            else envNumber ''CHAIN_ETH_ZKSYNC_NETWORK_ID'') (\<lambda>inputChainId.
     bindE (addrE (StateTransition StateTransitionProxy)) (\<lambda>ctm.
     bindE (bindE (viewStr C ctm ''getZKChain'' [VStr inputChainId]) (\<lambda>a. returnE (a \<noteq> AddressZero))) (\<lambda>alreadyRegisteredInCTM.
     thenE (whenE l2LegacySharedBridge (setL2LegacySharedBridgeInL1Nullifier C inputChainId))
     (bindE (readE (\<lambda>w. if truthyStr (procEnv w ''CHAIN_ADMIN_ADDRESS'') then toStr (procEnv w ''CHAIN_ADMIN_ADDRESS'')
                        else ownerAddress (self w))) (\<lambda>admin.
      bindE (createNewChain C inputChainId baseTokenAssetId extraFacets gasPrice' compareDiamondCutHash useGovernance admin) (\<lambda>r.
      bindE (liftR (bindR (findLog (cEventTopic C ''Bridgehub'' ''NewChain'') r) (\<lambda>ts. Inr (topicAt ts 1)))) (\<lambda>chainTopic.
      let n = n0 + (if l2LegacySharedBridge then 1 else 0) + 1 + (if useGovernance then 1 else 0) in
      seqE [
        recordNewChain C baseTokenAddress baseTokenAssetId alreadyRegisteredInCTM r chainTopic,
        registerValidators C chainTopic n gasPrice',
        setChainParameters C admin validiumMode,
        whenE l2LegacySharedBridge (deployL2LegacySharedBridge C inputChainId gasPrice')]))))))))))"

section \<open>Shared bridge, timelock and data availability contracts\<close>

definition deploySharedBridgeContracts :: "'s ctx \<Rightarrow> string \<Rightarrow> int option \<Rightarrow> int option \<Rightarrow> ('s world, unit) eff" where
  "deploySharedBridgeContracts C create2Salt gasPrice' nonce' =
     bindE (resolveNonce C nonce') (\<lambda>n. seqE [
       deployL1NullifierImplementation C create2Salt (optsNonce gasPrice' n),
       deployL1NullifierProxy C create2Salt (optsNonce gasPrice' (n + 1)),
       deploySharedBridgeImplementation C create2Salt (optsNonce gasPrice' (n + 2)),
       deploySharedBridgeProxy C create2Salt (optsNonce gasPrice' (n + 2 + 1)),
       deployBridgedStandardERC20Implementation C create2Salt (optsNonce gasPrice' (n + 2 + 2)),
       deployBridgedTokenBeacon C create2Salt (optsNonce gasPrice' (n + 2 + 2 + 1)),
       deployNativeTokenVaultImplementation C create2Salt (optsNonce gasPrice' (n + 2 + 2 + 3)),
       deployNativeTokenVaultProxy C create2Salt (optsGas gasPrice'),
       deployCTMDeploymentTrackerImplementation C create2Salt (optsGas gasPrice'),
       deployCTMDeploymentTrackerProxy C create2Salt (optsGas gasPrice'),
       registerAddresses C])"

definition deployValidatorTimelock :: "'s ctx \<Rightarrow> string \<Rightarrow> txOpts \<Rightarrow> ('s world, unit) eff" where
  "deployValidatorTimelock C create2Salt ethTxOptions =
     bindE (envNumber ''CONTRACTS_VALIDATOR_TIMELOCK_EXECUTION_DELAY'') (\<lambda>executionDelay.
     bindE (selfE ownerAddress) (\<lambda>owner.
     bindE (deployViaCreate2 C ''ValidatorTimelock'' [VStr owner, VStr executionDelay] create2Salt ethTxOptions None)
       (recordAddr ValidatorTimeLock ''CONTRACTS_VALIDATOR_TIMELOCK_ADDR'')))"

definition setChainTypeManagerInValidatorTimelock :: "'s ctx \<Rightarrow> txOpts \<Rightarrow> ('s world, unit) eff" where
  "setChainTypeManagerInValidatorTimelock C ethTxOptions =
     bindE (addrE ValidatorTimeLock) (\<lambda>timelock.
     bindE (strAddr (StateTransition StateTransitionProxy)) (\<lambda>ctm.
     bindE (invokeWaitE C timelock ''setChainTypeManager'' [ctm] ethTxOptions) (\<lambda>_. returnE ())))"

definition deployMulticall3 :: "'s ctx \<Rightarrow> string \<Rightarrow> txOpts \<Rightarrow> ('s world, unit) eff" where
  "deployMulticall3 C create2Salt ethTxOptions =
     bindE (deployViaCreate2 C ''Multicall3'' [] create2Salt ethTxOptions None)
       (logE ''CONTRACTS_L1_MULTICALL3_ADDR'')"

definition deployDAValidators :: "'s ctx \<Rightarrow> string \<Rightarrow> txOpts \<Rightarrow> ('s world, unit) eff" where
  "deployDAValidators C create2Salt ethTxOptions = (let opts = withGasLimit ethTxOptions in
     bindE (liftR (loadFromDAFolder C ''RollupL1DAValidator'')) (\<lambda>rollupValidatorBytecode.
     bindE (deployViaCreate2 C ''RollupL1DAValidator'' [] create2Salt opts (Some rollupValidatorBytecode)) (\<lambda>rollup.
     thenE (logE ''CONTRACTS_L1_ROLLUP_DA_VALIDATOR'' rollup)
     (bindE (deployViaCreate2 C ''ValidiumL1DAValidator'' [] create2Salt opts None) (\<lambda>validium.
      thenE (logE ''CONTRACTS_L1_VALIDIUM_DA_VALIDATOR'' validium)
      (bindE (deployViaCreate2 C ''RelayedSLDAValidator'' [] create2Salt opts None) (\<lambda>relayed.
       thenE (logE ''CONTRACTS_L1_RELAYED_SL_DA_VALIDATOR'' relayed)
         (seqE [setAddrE RollupL1DAValidator rollup, setAddrE ValidiumL1DAValidator validium,
                setAddrE RelayedSLDAValidator relayed]))))))))"

end
