(* ===== verification/DeployProcess.thy ===== *)
theory DeployProcess
  imports DeployerOps
begin

text \<open>
  \<open>src.ts/deploy-process.ts\<close>: the initial deployment of the shared contracts and the registration of
  a ZK chain, and the properties of the deployer's methods.
\<close>

section \<open>The processes\<close>

definition L2_MESSAGE_ROOT_ADDRESS :: string where
  "L2_MESSAGE_ROOT_ADDRESS = ''0x0000000000000000000000000000000000010005''"

text \<open>\<open>{ gasPrice, nonce }\<close> with a nonce that may be undefined.\<close>

definition optsMaybe :: "int option \<Rightarrow> int option \<Rightarrow> txOpts" where
  "optsMaybe g n = noOpts\<lparr> gasPrice := g, nonce := n \<rparr>"

definition bumpNonce :: "int option \<Rightarrow> int option" where
  "bumpNonce n = map_option (\<lambda>k. k + 1) n"

definition deployLocalFactory :: "'s ctx \<Rightarrow> int option \<Rightarrow> string \<Rightarrow> int option \<Rightarrow> ('s world, int option) eff" where
  "deployLocalFactory C gasPrice' create2Salt n =
     bindE (readE (\<lambda>w. isCurrentNetworkLocal (procEnv w))) (\<lambda>local'.
     if \<not> local' then returnE n
     else
       bindE isZkMode (\<lambda>zk.
       bindE (if \<not> zk then thenE (deployCreate2Factory C (optsMaybe gasPrice' n)) (returnE (bumpNonce n))
              else thenE updateCreate2FactoryZkMode (returnE n)) (\<lambda>n1.
       thenE (deployMulticall3 C create2Salt (optsMaybe gasPrice' n1)) (returnE (bumpNonce n1)))))"

definition zkBridgehub :: "('s world, unit) eff" where
  "zkBridgehub = seqE [
     setAddrE (Bridgehub BridgehubProxy) L2_BRIDGEHUB_ADDRESS,
     setAddrE (Bridgehub MessageRootProxy) L2_MESSAGE_ROOT_ADDRESS,
     printE ''CONTRACTS_BRIDGEHUB_IMPL_ADDR'' L2_BRIDGEHUB_ADDRESS,
     printE ''CONTRACTS_BRIDGEHUB_PROXY_ADDR'' L2_BRIDGEHUB_ADDRESS,
     printE ''CONTRACTS_MESSAGE_ROOT_IMPL_ADDR'' L2_MESSAGE_ROOT_ADDRESS,
     printE ''CONTRACTS_MESSAGE_ROOT_PROXY_ADDR'' L2_MESSAGE_ROOT_ADDRESS]"

definition initialBridgehubDeployment ::
  "'s ctx \<Rightarrow> FacetCut list option \<Rightarrow> int option \<Rightarrow> bool \<Rightarrow> string option \<Rightarrow> int option \<Rightarrow> ('s world, unit) eff"
where
  "initialBridgehubDeployment C extraFacets gasPrice' onlyVerifier salt nonce' =
     bindE (if truthyStr salt then returnE (toStr salt) else randomE C) (\<lambda>create2Salt.
     bindE (deployLocalFactory C gasPrice' create2Salt nonce') (\<lambda>n.
     if onlyVerifier then deployVerifier C create2Salt (optsMaybe gasPrice' n)
     else
       bindE isZkMode (\<lambda>zk. seqE [
         deployDefaultUpgrade C create2Salt (optsGas gasPrice'),
         deployGenesisUpgrade C create2Salt (optsGas gasPrice'),
         deployDAValidators C create2Salt (optsGas gasPrice'),
         deployGovernance C create2Salt (optsGas gasPrice'),
         deployChainAdmin C create2Salt (optsGas gasPrice'),
         deployValidatorTimelock C create2Salt (optsGas gasPrice'),
         (if \<not> zk then seqE [
            deployTransparentProxyAdmin C create2Salt (optsGas gasPrice'),
            deployBridgehubContract C create2Salt gasPrice' None]
          else zkBridgehub),
         whenE (\<not> zk) (seqE [
            deploySharedBridgeContracts C create2Salt gasPrice' None,
            deployERC20BridgeImplementation C create2Salt (optsGas gasPrice') False,
            deployERC20BridgeProxy C create2Salt (optsGas gasPrice'),
            setParametersSharedBridge C]),
         deployChainTypeManagerContract C create2Salt extraFacets gasPrice' None,
         setChainTypeManagerInValidatorTimelock C (optsGas gasPrice')])))"

definition registerZKChainProcess ::
  "'s ctx \<Rightarrow> bool \<Rightarrow> FacetCut list option \<Rightarrow> int option \<Rightarrow> string option \<Rightarrow> string option \<Rightarrow> bool \<Rightarrow> ('s world, unit) eff"
where
  "registerZKChainProcess C validiumMode extraFacets gasPrice' baseTokenName chainId' useGovernance =
     bindE (envE (getTokens C)) (\<lambda>testnetTokens.
     bindE (if truthyStr baseTokenName
            then liftR (bindR (tokenAddress (toStr baseTokenName) testnetTokens) asStr)
            else returnE ADDRESS_ONE) (\<lambda>baseTokenAddress.
     bindE (selfE l1ChainId) (\<lambda>l1.
     bindE (liftR (bindR (e_hexZeroPad (cE C) baseTokenAddress 32) (encodeNTVAssetId (cE C) (numVal l1)))) (\<lambda>baseTokenAssetId.
     bindE (addrE (Bridgehub BridgehubProxy)) (\<lambda>bridgehub.
     bindE (viewBool C bridgehub ''assetIdIsRegistered'' [VStr baseTokenAssetId]) (\<lambda>registered.
     seqE [
       whenE (\<not> registered) (registerTokenBridgehub C baseTokenAddress useGovernance),
       whenE (baseTokenAddress \<noteq> ADDRESS_ONE) (registerTokenInNativeTokenVault C baseTokenAddress),
       registerZKChain C baseTokenAssetId validiumMode extraFacets gasPrice' False None chainId' useGovernance True]))))))"

section \<open>What the methods keep\<close>

lemma quiet_isZkMode [keeps_intros]: "keeps quiet isZkMode"
  by (simp add: isZkMode_def quiet_steps)

lemma quiet_deployViaCreate2 [keeps_intros]: "keeps quiet (deployViaCreate2 C n as salt opt b)"
  by (auto simp: deployViaCreate2_def intro!: keeps_intros)

lemma quiet_encodeE [keeps_intros]: "keeps quiet (encodeE C i f as)"
  by (simp add: encodeE_def quiet.keeps_liftR)

lemma quiet_small [keeps_intros]:
  "keeps quiet (strAddr k)" "keeps quiet (envNumber n)" "keeps quiet (envAddress n)"
  "keeps quiet (viewInt C a m as)" "keeps quiet (viewStr C a m as)" "keeps quiet (viewBool C a m as)"
  "keeps quiet (getL1ChainId C)" "keeps quiet (l1WethToken C)" "keeps quiet (artifactBytecode art C)"
  by (auto simp: strAddr_def envNumber_def envAddress_def viewInt_def viewStr_def viewBool_def getL1ChainId_def
      l1WethToken_def artifactBytecode_def intro!: keeps_intros)

lemma quiet_executeUpgrade [keeps_intros]: "keeps quiet (executeUpgrade C a v d opt p)"
  by (auto simp: executeUpgrade_def Let_def intro!: keeps_intros)

lemma quiet_upgradeCall [keeps_intros]: "keeps quiet (upgradeCall C a i f as)"
  by (auto simp: upgradeCall_def intro!: keeps_intros)

lemma quiet_deployProxy [keeps_intros]: "keeps quiet (deployProxy C n i d salt opt)"
  by (auto simp: deployProxy_def intro!: keeps_intros)

end
