(* ===== verification/Deployments.thy ===== *)
theory Deployments
  imports DeployProcess
begin

text \<open>Properties of the deployment methods of \<open>deploy.ts\<close> and of the deployment process: what each method
  records, what it sends, and which runs cannot succeed.\<close>

section \<open>Methods that deploy one contract\<close>

lemma deployBytecodeViaCreate2_code:
  "deployBytecodeViaCreate2 C n b salt opt f w = (Inr (a, h), w') \<Longrightarrow> codeLength (n_getCode (cN C) (chain w') a) > 0"
  by (auto simp: deployBytecodeViaCreate2_def bindE_apply eff_simps getCodeE_def split: prod.splits sum.splits if_splits)

lemma zkCreate2_code:
  "zkCreate2 C n b bh ds args salt opt w = (Inr (a, h), w') \<Longrightarrow> codeLength (n_getCode (cN C) (chain w') a) > 0"
  by (auto simp: zkCreate2_def bindE_apply eff_simps getCodeE_def split: prod.splits sum.splits if_splits)

lemma deployViaCreate2_code:
  assumes "deployViaCreate2 C n as salt opt None w = (Inr a, w')"
  shows "codeLength (n_getCode (cN C) (chain w') a) > 0"
proof (cases "zkWallet (self w)")
  case True
  then obtain h where "deployViaCreate2Zk C n as salt opt w = (Inr (a, h), w')"
    using assms by (auto simp: deployViaCreate2_def isZkMode_def selfE_def eff_simps elim!: bindE_success)
  thus ?thesis
    by (auto simp: deployViaCreate2Zk_def deployBytecodeViaCreate2Zk_def eff_simps dest: zkCreate2_code
        elim!: bindE_success)
next
  case False
  then obtain f h where "deployViaCreate2EVM C n as salt (withGasLimit opt) f None w = (Inr (a, h), w')"
    using assms by (auto simp: deployViaCreate2_def isZkMode_def selfE_def addrE_def eff_simps elim!: bindE_success)
  thus ?thesis
    by (auto simp: deployViaCreate2EVM_def truthyStr_def eff_simps dest: deployBytecodeViaCreate2_code elim!: bindE_success)
qed

text \<open>\<open>m\<close> deploys one contract into slot \<open>k\<close>: on success the slot, and nothing else of the deployer, is
  set to an address with code, and the line \<open>key=address\<close> is printed when verbose; on failure the
  deployer and the printed lines are untouched.\<close>

definition recordsDeployment :: "'s ctx \<Rightarrow> ('s world, unit) eff \<Rightarrow> slot \<Rightarrow> string \<Rightarrow> bool" where
  "recordsDeployment C m k key \<longleftrightarrow> (\<forall>w. case m w of
     (Inr _, w') \<Rightarrow> (\<exists>a. self w' = (self w)\<lparr> addresses := (addresses (self w))(k := a) \<rparr> \<and>
        out w' = out w @ (if verbose (self w) then [(key, a)] else []) \<and>
        codeLength (n_getCode (cN C) (chain w') a) > 0 \<and> procEnv w' = procEnv w \<and> (\<exists>ts. sent w' = sent w @ ts))
   | (Inl _, w') \<Rightarrow> quiet w w')"

lemma recordsDeployment_bind [keeps_intros]:
  assumes "keeps quiet m" and "\<And>a. recordsDeployment C (f a) k key"
  shows "recordsDeployment C (bindE m f) k key"
  unfolding recordsDeployment_def
proof (rule allI)
  fix w
  obtain r w1 where m: "m w = (r, w1)" by fastforce
  with assms(1) have q: "quiet w w1" by (rule keepsD)
  show "case bindE m f w of
     (Inr _, w') \<Rightarrow> (\<exists>a. self w' = (self w)\<lparr> addresses := (addresses (self w))(k := a) \<rparr> \<and>
        out w' = out w @ (if verbose (self w) then [(key, a)] else []) \<and>
        codeLength (n_getCode (cN C) (chain w') a) > 0 \<and> procEnv w' = procEnv w \<and> (\<exists>ts. sent w' = sent w @ ts))
   | (Inl _, w') \<Rightarrow> quiet w w'"
  proof (cases r)
    case (Inl e)
    thus ?thesis using m q by (simp add: bindE_Inl)
  next
    case (Inr a)
    obtain r2 w2 where f: "f a w1 = (r2, w2)" by fastforce
    note b = assms(2) [of a, unfolded recordsDeployment_def, THEN spec, of w1, unfolded f]
    show ?thesis using m f q Inr b by (cases r2) (auto simp: bindE_Inr quiet_def)
  qed
qed

lemma logE_run: "logE k v w = (Inr (), w\<lparr> out := out w @ (if verbose (self w) then [(k, v)] else []) \<rparr>)"
  by (simp add: logE_def selfE_def printE_def bindE_apply eff_simps whenE_def)

lemma recordAddr_run:
  "recordAddr k key a w = (Inr (), w\<lparr> self := (self w)\<lparr> addresses := (addresses (self w))(k := a) \<rparr>,
     out := out w @ (if verbose (self w) then [(key, a)] else []) \<rparr>)"
  by (simp add: recordAddr_def logE_def selfE_def printE_def setAddrE_def thenE_def bindE_apply eff_simps whenE_def)

lemma recordsDeployment_base [keeps_intros]:
  "recordsDeployment C (bindE (deployViaCreate2 C n as salt opt None) (recordAddr k key)) k key"
  unfolding recordsDeployment_def
proof (rule allI)
  fix w
  obtain r w1 where m: "deployViaCreate2 C n as salt opt None w = (r, w1)" by fastforce
  have q: "quiet w w1" using quiet_deployViaCreate2 m by (rule keepsD)
  show "case bindE (deployViaCreate2 C n as salt opt None) (recordAddr k key) w of
     (Inr _, w') \<Rightarrow> (\<exists>a. self w' = (self w)\<lparr> addresses := (addresses (self w))(k := a) \<rparr> \<and>
        out w' = out w @ (if verbose (self w) then [(key, a)] else []) \<and>
        codeLength (n_getCode (cN C) (chain w') a) > 0 \<and> procEnv w' = procEnv w \<and> (\<exists>ts. sent w' = sent w @ ts))
   | (Inl _, w') \<Rightarrow> quiet w w'"
  proof (cases r)
    case (Inl e)
    thus ?thesis using m q by (simp add: bindE_Inl)
  next
    case (Inr a)
    with m have "codeLength (n_getCode (cN C) (chain w1) a) > 0" using deployViaCreate2_code by metis
    thus ?thesis using m q Inr by (auto simp: bindE_Inr recordAddr_run quiet_def)
  qed
qed

lemma recordsDeployment_proxy [keeps_intros]:
  "recordsDeployment C (bindE (deployProxy C n i d salt opt) (recordAddr k key)) k key"
proof -
  have "bindE (deployProxy C n i d salt opt) (recordAddr k key) =
      bindE (strAddr i) (\<lambda>impl. bindE (strAddr TransparentProxyAdmin) (\<lambda>admin.
        bindE (deployViaCreate2 C n [impl, admin, VStr d] salt opt None) (recordAddr k key)))"
    by (simp add: deployProxy_def bindE_assoc)
  thus ?thesis by (auto intro!: keeps_intros)
qed

text \<open>The methods of this kind, the slot each one fills and the variable it prints.\<close>

definition simpleDeployments ::
  "'s ctx \<Rightarrow> string \<Rightarrow> txOpts \<Rightarrow> FacetCut list option \<Rightarrow> bool \<Rightarrow> (('s world, unit) eff \<times> slot \<times> string) list"
where
  "simpleDeployments C salt opt extraFacets dummy = [
     (deployGovernance C salt opt, Governance, ''CONTRACTS_GOVERNANCE_ADDR''),
     (deployBridgehubImplementation C salt opt, Bridgehub BridgehubImplementation, ''CONTRACTS_BRIDGEHUB_IMPL_ADDR''),
     (deployBridgehubProxy C salt opt, Bridgehub BridgehubProxy, ''CONTRACTS_BRIDGEHUB_PROXY_ADDR''),
     (deployMessageRootImplementation C salt opt, Bridgehub MessageRootImplementation, ''CONTRACTS_MESSAGE_ROOT_IMPL_ADDR''),
     (deployMessageRootProxy C salt opt, Bridgehub MessageRootProxy, ''CONTRACTS_MESSAGE_ROOT_PROXY_ADDR''),
     (deployChainTypeManagerImplementation C salt opt, StateTransition StateTransitionImplementation, ''CONTRACTS_STATE_TRANSITION_IMPL_ADDR''),
     (deployChainTypeManagerProxy C salt opt extraFacets, StateTransition StateTransitionProxy, ''CONTRACTS_STATE_TRANSITION_PROXY_ADDR''),
     (deployAdminFacet C salt opt, StateTransition AdminFacet, ''CONTRACTS_ADMIN_FACET_ADDR''),
     (deployMailboxFacet C salt opt, StateTransition MailboxFacet, ''CONTRACTS_MAILBOX_FACET_ADDR''),
     (deployExecutorFacet C salt opt, StateTransition ExecutorFacet, ''CONTRACTS_EXECUTOR_FACET_ADDR''),
     (deployGettersFacet C salt opt, StateTransition GettersFacet, ''CONTRACTS_GETTERS_FACET_ADDR''),
     (deployVerifier C salt opt, StateTransition Verifier, ''CONTRACTS_VERIFIER_ADDR''),
     (deployStateTransitionDiamondInit C salt opt, StateTransition DiamondInit, ''CONTRACTS_DIAMOND_INIT_ADDR''),
     (deployGenesisUpgrade C salt opt, StateTransition GenesisUpgrade, ''CONTRACTS_GENESIS_UPGRADE_ADDR''),
     (deployERC20BridgeImplementation C salt opt dummy, Bridges ERC20BridgeImplementation, ''CONTRACTS_L1_ERC20_BRIDGE_IMPL_ADDR''),
     (deployERC20BridgeProxy C salt opt, Bridges ERC20BridgeProxy, ''CONTRACTS_L1_ERC20_BRIDGE_PROXY_ADDR''),
     (deployL1NullifierImplementation C salt opt, Bridges L1NullifierImplementation, ''CONTRACTS_L1_NULLIFIER_IMPL_ADDR''),
     (deployL1NullifierProxy C salt opt, Bridges L1NullifierProxy, ''CONTRACTS_L1_NULLIFIER_PROXY_ADDR''),
     (deploySharedBridgeImplementation C salt opt, Bridges SharedBridgeImplementation, ''CONTRACTS_L1_SHARED_BRIDGE_IMPL_ADDR''),
     (deploySharedBridgeProxy C salt opt, Bridges SharedBridgeProxy, ''CONTRACTS_L1_SHARED_BRIDGE_PROXY_ADDR''),
     (deployBridgedStandardERC20Implementation C salt opt, Bridges BridgedStandardERC20Implementation, ''CONTRACTS_L1_BRIDGED_STANDARD_ERC20_IMPL_ADDR''),
     (deployNativeTokenVaultImplementation C salt opt, Bridges NativeTokenVaultImplementation, ''CONTRACTS_L1_NATIVE_TOKEN_VAULT_IMPL_ADDR''),
     (deployCTMDeploymentTrackerImplementation C salt opt, Bridgehub CTMDeploymentTrackerImplementation, ''CONTRACTS_CTM_DEPLOYMENT_TRACKER_IMPL_ADDR''),
     (deployCTMDeploymentTrackerProxy C salt opt, Bridgehub CTMDeploymentTrackerProxy, ''CONTRACTS_CTM_DEPLOYMENT_TRACKER_PROXY_ADDR''),
     (deployValidatorTimelock C salt opt, ValidatorTimeLock, ''CONTRACTS_VALIDATOR_TIMELOCK_ADDR'')]"

lemmas simple_method_defs =
  deployGovernance_def deployBridgehubImplementation_def deployBridgehubProxy_def deployMessageRootImplementation_def
  deployMessageRootProxy_def deployChainTypeManagerImplementation_def deployChainTypeManagerProxy_def
  deployAdminFacet_def deployMailboxFacet_def deployExecutorFacet_def deployGettersFacet_def deployVerifier_def
  deployStateTransitionDiamondInit_def deployGenesisUpgrade_def deployERC20BridgeImplementation_def
  deployERC20BridgeProxy_def deployL1NullifierImplementation_def deployL1NullifierProxy_def
  deploySharedBridgeImplementation_def deploySharedBridgeProxy_def deployBridgedStandardERC20Implementation_def
  deployNativeTokenVaultImplementation_def deployCTMDeploymentTrackerImplementation_def
  deployCTMDeploymentTrackerProxy_def deployValidatorTimelock_def

lemma quiet_diamondCut [keeps_intros]:
  "keeps quiet (initialZkSyncZKChainDiamondCut C ex b)" "keeps quiet (genesisForceDeploymentsData C)"
  by (auto simp: initialZkSyncZKChainDiamondCut_def genesisForceDeploymentsData_def intro!: keeps_intros)

lemma simpleDeployments_record:
  "list_all (\<lambda>(m, k, key). recordsDeployment C m k key) (simpleDeployments C salt opt ex dummy)"
  unfolding simpleDeployments_def list.pred_inject case_prod_conv simp_thms
  by (intro conjI; auto simp: simple_method_defs intro!: keeps_intros)

lemma simpleDeployments_variables:
  "list_all (\<lambda>(m, k, key). (k, key) \<in> set envSlots) (simpleDeployments C salt opt ex dummy)"
  unfolding simpleDeployments_def envSlots_def by simp

section \<open>Runs that cannot succeed\<close>

text \<open>Write sets: only the slots of \<open>K\<close> may change, and what was printed or sent stays.\<close>

definition touches :: "slot set \<Rightarrow> 's world \<Rightarrow> 's world \<Rightarrow> bool" where
  "touches K w w' \<longleftrightarrow> grows w w' \<and> (\<forall>k. k \<notin> K \<longrightarrow> addresses (self w') k = addresses (self w) k)"

interpretation touches: world_order "touches K" for K
proof
  fix u v w :: "'a world"
  show "touches K w w" by (simp add: touches_def grows.R_refl)
  show "touches K u v \<Longrightarrow> touches K v w \<Longrightarrow> touches K u w" by (auto simp: touches_def intro: grows.R_trans)
qed

lemma keeps_quiet_touches: "keeps quiet m \<Longrightarrow> keeps (touches K) m"
proof (rule keepsI)
  fix w r w' assume "keeps quiet m" "m w = (r, w')"
  hence "quiet w w'" by (rule keepsD)
  thus "touches K w w'" using quiet_grows [of w w'] by (simp add: touches_def quiet_def)
qed

lemma touches_steps [keeps_intros]:
  "k \<in> K \<Longrightarrow> keeps (touches K) (setAddrE k a)" "keeps (touches K) (printE key v)" "keeps (touches K) (setChainId c)"
  by (auto simp: keeps_def touches_def grows_def setAddrE_def printE_def setChainId_def modifyE_def)

lemma touches_logs [keeps_intros]:
  "keeps (touches K) (logE key v)" "k \<in> K \<Longrightarrow> keeps (touches K) (recordAddr k key a)"
  by (auto simp: keeps_def logE_run recordAddr_run touches_def grows_def)

lemmas quiet_touches [keeps_intros] =
  quiet_steps [THEN keeps_quiet_touches] quiet_envE [THEN keeps_quiet_touches] quiet_callE [THEN keeps_quiet_touches]
  quiet_submitE [THEN keeps_quiet_touches] quiet_waitE [THEN keeps_quiet_touches] quiet_randomE [THEN keeps_quiet_touches]
  quiet_sends [THEN keeps_quiet_touches] quiet_nonce [THEN keeps_quiet_touches] quiet_isZkMode [THEN keeps_quiet_touches]
  quiet_deployViaCreate2 [THEN keeps_quiet_touches] quiet_encodeE [THEN keeps_quiet_touches]
  quiet_small [THEN keeps_quiet_touches] quiet_executeUpgrade [THEN keeps_quiet_touches]
  quiet_upgradeCall [THEN keeps_quiet_touches] quiet_deployProxy [THEN keeps_quiet_touches]
  quiet_diamondCut [THEN keeps_quiet_touches] quiet_create2DeployFromL1 [THEN keeps_quiet_touches]

lemma recordsDeployment_touches: "recordsDeployment C m k key \<Longrightarrow> k \<in> K \<Longrightarrow> keeps (touches K) m"
proof (rule keepsI)
  fix w r w' assume a: "recordsDeployment C m k key" "k \<in> K" "m w = (r, w')"
  note b = a(1) [unfolded recordsDeployment_def, THEN spec, of w, unfolded a(3)]
  show "touches K w w'" using b a(2) quiet_grows [of w w']
    by (cases r) (auto simp: touches_def grows_def quiet_def)
qed

lemma deployLocalFactory_touches: "keeps (touches {Create2Factory}) (deployLocalFactory C gp salt n)"
  by (auto simp: deployLocalFactory_def deployCreate2Factory_def deployContractWithArgs_def updateCreate2FactoryZkMode_def
      deployMulticall3_def intro!: keeps_intros)

lemma assignUndefinedMember_throws: "\<exists>e. assignUndefinedMember w = (Inl e, w)"
  by (simp add: assignUndefinedMember_def throwE_def)

lemma deployDefaultUpgrade_throws: "\<exists>e w'. deployDefaultUpgrade C salt opt w = (Inl e, w') \<and> touches {} w w'"
proof -
  obtain r w1 where d: "deployDefaultUpgrade C salt opt w = (r, w1)" by fastforce
  have "keeps (touches {}) (deployDefaultUpgrade C salt opt)"
    by (auto simp: deployDefaultUpgrade_def assignUndefinedMember_def intro!: keeps_intros)
  hence "touches {} w w1" using d by (rule keepsD)
  moreover have "\<not> isOk r" using d
    by (auto simp: deployDefaultUpgrade_def bindE_apply eff_simps assignUndefinedMember_def logE_run thenE_def split: prod.splits sum.splits)
  ultimately show ?thesis using d by (cases r) auto
qed

section \<open>Success of results\<close>

lemma isOk_bindR: "isOk (bindR r f) \<longleftrightarrow> isOk r \<and> isOk (f (projr r))"
  by (cases r) simp_all

lemma isOk_if: "isOk (if c then Inr x else r) \<longleftrightarrow> c \<or> isOk r"
  by simp

lemma isOk_option: "isOk (case o' of None \<Rightarrow> r | Some a \<Rightarrow> Inr a) \<longleftrightarrow> (case o' of None \<Rightarrow> isOk r | Some _ \<Rightarrow> True)"
  by (cases o') simp_all

section \<open>Printed lines as an environment\<close>

text \<open>The environment after the printed lines \<open>KEY=value\<close> are exported, later lines overriding earlier ones.\<close>

definition exportLines :: "env \<Rightarrow> (string \<times> string) list \<Rightarrow> env" where
  "exportLines env kvs = foldl (\<lambda>e (k, v). e(k \<mapsto> v)) env kvs"

lemma deployedAddressesFromEnv_slots:
  assumes "deployedAddressesFromEnv E env = Inr d" and "(s, n) \<in> set envSlots"
  shows "env n = Some (d s)"
proof -
  obtain b kvs where kvs: "readSlots env envSlots = Inr kvs"
    and d: "d = (\<lambda>k. case map_of ((BaseTokenAssetId, b) # kvs) k of None \<Rightarrow> [] | Some a \<Rightarrow> a)"
    using assms(1) by (auto simp: deployedAddressesFromEnv_def bindR_Inr_iff)
  have sn: "map_of envSlots s = Some n" using assms(2) envSlots_slots_distinct by simp
  moreover from sn envSlots_no_assetId have "s \<noteq> BaseTokenAssetId" by auto
  ultimately show ?thesis using readSlots_map_of [OF kvs] d by fastforce
qed

lemma env_update:
  "key \<noteq> n \<Longrightarrow> getAddressFromEnv (env(key \<mapsto> a)) n = getAddressFromEnv env n"
  "key \<noteq> n \<Longrightarrow> getNumberFromEnv (env(key \<mapsto> a)) n = getNumberFromEnv env n"
  by (simp_all add: getAddressFromEnv_def getNumberFromEnv_def)

lemma readSlots_update:
  assumes "readSlots env ks = Inr kvs" and "matchesHex 40 a" shows "\<exists>kvs'. readSlots (env(key \<mapsto> a)) ks = Inr kvs'"
proof (rule readSlots_ok)
  fix s n assume "(s, n) \<in> set ks"
  hence "\<exists>b. env n = Some b \<and> matchesHex 40 b" using assms(1)
  proof (induction ks arbitrary: kvs)
    case (Cons x ks)
    obtain s' n' where x: "x = (s', n')" by (cases x)
    from Cons.prems(2) obtain c rest where c: "getAddressFromEnv env n' = Inr c" and r: "readSlots env ks = Inr rest"
      by (auto simp: readSlots_def x bindR_Inr_iff)
    have "env n' = Some c \<and> matchesHex 40 c"
      using c by (auto simp: getAddressFromEnv_def Let_def toStr_def matchesHex_def split: option.splits if_splits)
    thus ?case using Cons.IH [OF _ r] Cons.prems(1) x by auto
  qed simp
  thus "\<exists>b. (env(key \<mapsto> a)) n = Some b \<and> matchesHex 40 b" using assms(2) by auto
qed

lemma deployedAddressesFromEnv_update:
  assumes "deployedAddressesFromEnv E env = Inr d" and "matchesHex 40 a"
    and "key \<notin> {''CONTRACTS_BASE_TOKEN_ASSET_ID'', ''ETH_CLIENT_CHAIN_ID'', ''CONTRACTS_BASE_TOKEN_ADDR''}"
  shows "\<exists>d'. deployedAddressesFromEnv E (env(key \<mapsto> a)) = Inr d'"
proof -
  obtain b kvs where b: "baseTokenAssetIdFromEnv E env = Inr b" and kvs: "readSlots env envSlots = Inr kvs"
    using assms(1) by (auto simp: deployedAddressesFromEnv_def bindR_Inr_iff)
  have "baseTokenAssetIdFromEnv E (env(key \<mapsto> a)) = Inr b"
    using b assms(3) env_update(1) [of key "''CONTRACTS_BASE_TOKEN_ASSET_ID''" env a]
      env_update(2) [of key "''ETH_CLIENT_CHAIN_ID''" env a] env_update(1) [of key "''CONTRACTS_BASE_TOKEN_ADDR''" env a]
    by (cases "getAddressFromEnv env ''CONTRACTS_BASE_TOKEN_ASSET_ID''") (simp_all add: baseTokenAssetIdFromEnv_def)
  thus ?thesis using readSlots_update [OF kvs assms(2), of key] by (auto simp: deployedAddressesFromEnv_def)
qed

lemma simpleDeployments_keys:
  "list_all (\<lambda>(m, k, key). key \<notin> {''CONTRACTS_BASE_TOKEN_ASSET_ID'', ''ETH_CLIENT_CHAIN_ID'', ''CONTRACTS_BASE_TOKEN_ADDR''})
     (simpleDeployments C salt opt ex dummy)"
  unfolding simpleDeployments_def by simp

section \<open>Properties of the deployment methods\<close>

text \<open>C10: every method that deploys one contract sets exactly its own slot to an address that has code
  after the call, keeps the rest of the deployer and the environment, and prints (when verbose) the
  variable under which \<open>deployedAddressesFromEnv\<close> later reads that slot; a method that fails changes
  neither the deployer nor the printed lines.\<close>

theorem simple_deployments_correct:
  "list_all (\<lambda>(m, k, key). recordsDeployment C m k key \<and> (k, key) \<in> set envSlots) (simpleDeployments C salt opt ex dummy)"
  using simpleDeployments_record [of C salt opt ex dummy] simpleDeployments_variables [of C salt opt ex dummy]
  by (auto simp: list_all_iff)

text \<open>C36: the initial deployment without \<open>onlyVerifier\<close> never returns normally, whatever the node answers:
  \<open>deployDefaultUpgrade\<close>, its first step after the local factory, stores into the missing member
  \<open>addresses.stateTransition\<close> and throws, so of all the address slots at most the create2 factory is set.\<close>

theorem initialBridgehubDeployment_never_succeeds:
  "\<exists>e w'. initialBridgehubDeployment C extraFacets gasPrice' False salt nonce' w = (Inl e, w') \<and> touches {Create2Factory} w w'"
proof -
  have weaken: "touches {} u v \<Longrightarrow> touches {Create2Factory} u v" for u v :: "'a world" by (simp add: touches_def)
  define pre where "pre = bindE (if truthyStr salt then returnE (toStr salt) else randomE C) (\<lambda>create2Salt.
     bindE (deployLocalFactory C gasPrice' create2Salt nonce') (\<lambda>n. bindE isZkMode (\<lambda>zk. returnE (create2Salt, zk))))"
  have k: "keeps (touches {Create2Factory}) pre"
    unfolding pre_def by (auto intro!: keeps_intros deployLocalFactory_touches)
  obtain g where split: "initialBridgehubDeployment C extraFacets gasPrice' False salt nonce' =
      bindE pre (\<lambda>(s, zk). bindE (deployDefaultUpgrade C s (optsGas gasPrice')) (g s zk))"
    by (simp add: initialBridgehubDeployment_def pre_def bindE_assoc thenE_def)
  obtain r0 w0 where p: "pre w = (r0, w0)" by fastforce
  have t0: "touches {Create2Factory} w w0" using k p by (rule keepsD)
  show ?thesis
  proof (cases r0)
    case (Inl e)
    thus ?thesis using t0 p by (simp add: split bindE_Inl)
  next
    case (Inr a)
    obtain s zk where a: "a = (s, zk)" by (cases a)
    obtain e w2 where d: "deployDefaultUpgrade C s (optsGas gasPrice') w0 = (Inl e, w2)" "touches {} w0 w2"
      using deployDefaultUpgrade_throws by blast
    have "touches {Create2Factory} w w2" using t0 weaken [OF d(2)] by (rule touches.R_trans)
    thus ?thesis using p Inr a d(1) by (simp add: split bindE_Inr bindE_Inl)
  qed
qed

text \<open>The two calls of a governance operation.\<close>

definition scheduleTx :: "Deployer \<Rightarrow> val \<Rightarrow> tx" where
  "scheduleTx d operation = \<lparr> txFrom = deployWallet d,
     txKind = Invoke (addresses d Governance) ''scheduleTransparent'' [operation, VNum 0], txOptions = noOpts \<rparr>"

definition executeTx :: "Deployer \<Rightarrow> val \<Rightarrow> int \<Rightarrow> txOpts \<Rightarrow> tx" where
  "executeTx d operation value opt = \<lparr> txFrom = deployWallet d,
     txKind = Invoke (addresses d Governance) ''execute'' [operation], txOptions = opt\<lparr> txValue := Some value \<rparr> \<rparr>"

text \<open>C37: \<open>executeUpgrade\<close> draws one salt and hands the governance contract the scheduling and then the
  execution of one and the same operation, in this order; the execution is sent only after the
  scheduling was accepted, a normal return means that both were sent, with \<open>printOperation\<close> nothing is
  sent, and the deployer and the printed lines never change.\<close>

theorem executeUpgrade_transactions:
  "case executeUpgrade C target value callData opt printOperation w of (r, w') \<Rightarrow>
     self w' = self w \<and> out w' = out w \<and>
     (let operation = governanceOperation target value callData (cRandom C (ticks w));
          s = scheduleTx (self w) operation; x = executeTx (self w) operation value opt in
      if printOperation then sent w' = sent w \<and> r \<in> range Inl \<union> {Inr None}
      else (sent w' = sent w @ [s] \<and> \<not> isOk r) \<or> (sent w' = sent w @ [s, x] \<and> r \<noteq> Inr None))"
  by (cases printOperation)
    (simp_all add: executeUpgrade_def scheduleTx_def executeTx_def Let_def bindE_apply eff_simps addrE_def randomE_def
      encodeE_def invokeWaitE_def invokeE_def selfE_def submitE_def waitE_def callE_def whenE_def thenE_def
      split: prod.splits sum.splits)


text \<open>C26: deploy, export, reload.  When an environment loads, and a deployer constructed over those addresses
  runs one of the single-contract methods verbosely, then exporting the line it printed gives an
  environment that loads again, in which the deployed slot holds the new address and every other slot
  read from the environment is as before: the restarted deployer has the addresses of the running one.\<close>

theorem deploy_export_reload:
  assumes "deployedAddressesFromEnv (cE C) env = Inr (addresses (self w))" and "verbose (self w)" and "out w = []"
    and "(m, k, key) \<in> set (simpleDeployments C salt opt ex dummy)" and "m w = (Inr (), w')"
    and "matchesHex 40 (addresses (self w') k)"
  shows "\<exists>d. deployedAddressesFromEnv (cE C) (exportLines env (out w')) = Inr d \<and>
    (\<forall>(s, n) \<in> set envSlots. d s = addresses (self w') s)"
proof -
  have r: "recordsDeployment C m k key" and kn: "(k, key) \<in> set envSlots"
    and f: "key \<notin> {''CONTRACTS_BASE_TOKEN_ASSET_ID'', ''ETH_CLIENT_CHAIN_ID'', ''CONTRACTS_BASE_TOKEN_ADDR''}"
    using assms(4) simpleDeployments_record [of C salt opt ex dummy] simpleDeployments_variables [of C salt opt ex dummy]
      simpleDeployments_keys [of C salt opt ex dummy] by (auto simp: list_all_iff)
  from r [unfolded recordsDeployment_def, THEN spec, of w] assms(2,3,5) obtain a
    where s: "addresses (self w') = (addresses (self w))(k := a)" and o: "out w' = [(key, a)]" by auto
  have e: "exportLines env (out w') = env(key \<mapsto> a)" by (simp add: exportLines_def o)
  obtain d where d: "deployedAddressesFromEnv (cE C) (env(key \<mapsto> a)) = Inr d"
    using deployedAddressesFromEnv_update [OF assms(1) _ f] assms(6) s by auto
  have "d s' = addresses (self w') s'" if sn: "(s', n) \<in> set envSlots" for s' n
  proof (cases "n = key")
    case True
    hence "s' = k" using sn kn envSlots_names_distinct by (metis distinct_map inj_onD snd_conv fst_conv)
    thus ?thesis using deployedAddressesFromEnv_slots [OF d sn] True s by simp
  next
    case False
    hence "s' \<noteq> k" using sn kn envSlots_slots_distinct by (metis map_of_is_SomeI option.inject)
    thus ?thesis using deployedAddressesFromEnv_slots [OF d sn] deployedAddressesFromEnv_slots [OF assms(1) sn] False s by simp
  qed
  thus ?thesis using d e by auto
qed

text \<open>An environment that loads, and a deployer constructed over it.\<close>

definition loadedWorld :: "addresses \<Rightarrow> string list world" where
  "loadedWorld d = (exampleWorld exampleEnv)\<lparr> self := exampleDeployer\<lparr> addresses := d \<rparr> \<rparr>"

lemma exampleEnv_loads: "\<exists>d. deployedAddressesFromEnv (cE exampleCtx) exampleEnv = Inr d"
proof -
  have "exampleEnv n = Some ADDRESS_ONE" if "n \<in> set (map snd envSlots)" for n
    using that envSlots_other_names by (cases "n = ''ETH_CLIENT_CHAIN_ID'' \<or> n = ''CONTRACTS_BASE_TOKEN_ASSET_ID''")
      (auto simp: exampleEnv_def simp del: set_map)
  moreover have "matchesHex 40 ADDRESS_ONE" by code_simp
  ultimately have "\<exists>kvs. readSlots exampleEnv envSlots = Inr kvs"
    by (intro readSlots_ok) (metis image_eqI list.set_map snd_conv)
  moreover have "\<exists>b. baseTokenAssetIdFromEnv (cE exampleCtx) exampleEnv = Inr b"
  proof -
    have "\<not> matchesHex 40 (''0x'' @ replicate 64 CHR ''a'')" "matchesNumber ''9''" "matchesHex 40 ADDRESS_ONE" by code_simp+
    thus ?thesis
      by (simp add: baseTokenAssetIdFromEnv_def getAddressFromEnv_def getNumberFromEnv_def toStr_def exampleEnv_def
          exampleCtx_def plainEthers_def encodeNTVAssetId_def)
  qed
  ultimately show ?thesis by (auto simp: deployedAddressesFromEnv_def)
qed

theorem deploy_export_reload_witness:
  "\<exists>d0 w' d. deployedAddressesFromEnv (cE exampleCtx) exampleEnv = Inr d0 \<and>
     deployGettersFacet exampleCtx ''0x07'' noOpts (loadedWorld d0) = (Inr (), w') \<and>
     deployedAddressesFromEnv (cE exampleCtx) (exportLines exampleEnv (out w')) = Inr d \<and>
     (\<forall>(s, n) \<in> set envSlots. d s = addresses (self w') s)"
proof -
  obtain d0 where d0: "deployedAddressesFromEnv (cE exampleCtx) exampleEnv = Inr d0" using exampleEnv_loads by blast
  let ?w = "loadedWorld d0"
  have w: "self ?w = exampleDeployer\<lparr> addresses := d0 \<rparr>" "verbose (self ?w)" "out ?w = []" "chain ?w = []"
    by (simp_all add: loadedWorld_def exampleWorld_def exampleDeployer_def)
  have e: "create2Expected exampleCtx f c s = Inr ADDRESS_ONE" "e_deployData (cE exampleCtx) n [] = Inr ''0x''" for f c s n
    by (simp_all add: create2Expected_def exampleCtx_def plainEthers_def)
  obtain w' where run: "deployGettersFacet exampleCtx ''0x07'' noOpts ?w = (Inr (), w')"
    and a: "addresses (self w') (StateTransition GettersFacet) = ADDRESS_ONE"
    by (simp add: deployGettersFacet_def deployViaCreate2_def isZkMode_def deployViaCreate2EVM_def truthyStr_def
        deployBytecodeViaCreate2_def e bindE_apply eff_simps getCodeE_def invokeE_def selfE_def addrE_def submitE_def waitE_def
        example_simps codeLength_def recordAddr_run w exampleDeployer_def)
  have m: "(deployGettersFacet exampleCtx ''0x07'' noOpts, StateTransition GettersFacet, ''CONTRACTS_GETTERS_FACET_ADDR'')
      \<in> set (simpleDeployments exampleCtx ''0x07'' noOpts None False)"
    by (simp only: simpleDeployments_def list.set insert_iff simp_thms)
  have h: "matchesHex 40 (addresses (self w') (StateTransition GettersFacet))" unfolding a by code_simp
  have d: "deployedAddressesFromEnv (cE exampleCtx) exampleEnv = Inr (addresses (self ?w))" using d0 by (simp add: w)
  show ?thesis using deploy_export_reload [OF d w(2,3) m run h] d0 run by blast
qed

end
