(* ===== verification/ChainRegistration.thy ===== *)
theory ChainRegistration
  imports Deployments
begin

text \<open>Which transactions the registration of a chain hands to the node, in which order and with which
  nonces (\<open>registerZKChain\<close> and the legacy bridge of \<open>src.ts/deploy.ts\<close>).\<close>

section \<open>Emitted transactions\<close>

text \<open>The method and the explicit nonce of a transaction.\<close>

definition txSig :: "tx \<Rightarrow> string \<times> int option" where
  "txSig t = ((case txKind t of Invoke _ m _ \<Rightarrow> m | Create _ \<Rightarrow> ''create''), nonce (txOptions t))"

text \<open>Under the environment \<open>env\<close>, a normal return of \<open>m\<close> has sent exactly \<open>l\<close>.\<close>

definition emits :: "env \<Rightarrow> ('s world, 'a) eff \<Rightarrow> (string \<times> int option) list \<Rightarrow> bool" where
  "emits env m l \<longleftrightarrow> (\<forall>w a w'. procEnv w = env \<longrightarrow> m w = (Inr a, w') \<longrightarrow>
     procEnv w' = env \<and> (\<exists>ts. sent w' = sent w @ ts \<and> map txSig ts = l))"

definition silent :: "'s world \<Rightarrow> 's world \<Rightarrow> bool" where
  "silent w w' \<longleftrightarrow> procEnv w' = procEnv w \<and> sent w' = sent w"

interpretation silent: world_order silent
  by unfold_locales (auto simp: silent_def)

lemma emitsD:
  "emits env m l \<Longrightarrow> procEnv w = env \<Longrightarrow> m w = (Inr a, w') \<Longrightarrow>
     procEnv w' = env \<and> (\<exists>ts. sent w' = sent w @ ts \<and> map txSig ts = l)"
  unfolding emits_def by blast

lemma emits_silent:
  assumes "keeps silent m" shows "emits env m []"
  unfolding emits_def using keepsD [OF assms] by (fastforce simp: silent_def)

lemma emits_bind:
  assumes "emits env m l1" and "\<And>a. emits env (f a) l2"
  shows "emits env (bindE m f) (l1 @ l2)"
  unfolding emits_def
proof (intro allI impI)
  fix w a w' assume p: "procEnv w = env" and r: "bindE m f w = (Inr a, w')"
  from r obtain b w1 where m: "m w = (Inr b, w1)" and f: "f b w1 = (Inr a, w')" by (rule bindE_success)
  obtain t1 where 1: "procEnv w1 = env" "sent w1 = sent w @ t1" "map txSig t1 = l1" using emitsD [OF assms(1) p m] by blast
  obtain t2 where "procEnv w' = env" "sent w' = sent w1 @ t2" "map txSig t2 = l2" using emitsD [OF assms(2) 1(1) f] by blast
  thus "procEnv w' = env \<and> (\<exists>ts. sent w' = sent w @ ts \<and> map txSig ts = l1 @ l2)"
    using 1 by (intro conjI exI [of _ "t1 @ t2"]) simp_all
qed

lemma emits_quietly: "keeps silent m \<Longrightarrow> (\<And>a. emits env (f a) l) \<Longrightarrow> emits env (bindE m f) l"
  by (rule emits_bind [OF emits_silent, unfolded append_Nil])

lemma emits_then: "emits env m l1 \<Longrightarrow> emits env k l2 \<Longrightarrow> emits env (thenE m k) (l1 @ l2)"
  by (simp add: thenE_def emits_bind)

lemma emits_invokeWaitE: "emits env (invokeWaitE C t m as opt) [(m, nonce opt)]"
  by (auto simp: emits_def invokeWaitE_def invokeE_def selfE_def submitE_def waitE_def txSig_def bindE_apply eff_simps
      split: prod.splits sum.splits)

lemma emits_invoke_then:
  "(\<And>a. emits env (f a) l) \<Longrightarrow> emits env (bindE (invokeWaitE C t m as opt) f) ((m, nonce opt) # l)"
  by (rule emits_bind [OF emits_invokeWaitE, unfolded append_Cons append_Nil])

lemma silent_steps [keeps_intros]:
  "keeps silent (selfE g)" "keeps silent (addrE k)" "keeps silent (getCodeE C a)" "keeps silent (setAddrE k a)"
  "keeps silent (printE key v)" "keeps silent (logE key v)" "keeps silent (setChainId c)" "keeps silent (randomE C)"
  "keeps silent (nowE C)"
  by (simp_all add: keeps_def silent_def selfE_def addrE_def getCodeE_def setAddrE_def printE_def logE_run setChainId_def
      randomE_def nowE_def modifyE_def readE_def)

lemma silent_reads [keeps_intros]:
  "keeps silent (envE g)" "keeps silent (callE C a m as)"
  by (auto simp: envE_def callE_def intro!: keeps_intros)

lemma silent_views [keeps_intros]:
  "keeps silent (getTransactionCountE C)" "keeps silent (resolveNonce C n)" "keeps silent isZkMode"
  "keeps silent (encodeE C i f as)" "keeps silent (strAddr k)" "keeps silent (envNumber n')" "keeps silent (envAddress n')"
  "keeps silent (viewInt C a m as)" "keeps silent (viewStr C a m as)" "keeps silent (viewBool C a m as)"
  "keeps silent (getL1ChainId C)" "keeps silent (artifactBytecode art C)" "keeps silent (recordAddr k key a)"
  by (auto simp: getTransactionCountE_def resolveNonce_def isZkMode_def encodeE_def strAddr_def envNumber_def envAddress_def
      viewInt_def viewStr_def viewBool_def getL1ChainId_def artifactBytecode_def recordAddr_def
      intro!: keeps_intros split: option.splits)

lemma silent_diamondCut [keeps_intros]:
  "keeps silent (initialZkSyncZKChainDiamondCut C ex b)" "keeps silent (genesisForceDeploymentsData C)"
  "keeps silent (factoryDepsFor C)" "keeps silent (ctmAssetInfo C)"
  by (auto simp: initialZkSyncZKChainDiamondCut_def genesisForceDeploymentsData_def factoryDepsFor_def ctmAssetInfo_def
      intro!: keeps_intros)

lemma silent_recordNewChain [keeps_intros]: "keeps silent (recordNewChain C a b c r t)"
  by (auto simp: recordNewChain_def intro!: keeps_intros)

section \<open>The transactions of a registration\<close>

lemma emits_return: "emits env (returnE a) []"
  by (rule emits_silent [OF silent.keeps_return])

lemma emits_liftR: "emits env (liftR r) []"
  by (rule emits_silent [OF silent.keeps_liftR])

lemma emits_executeUpgrade:
  "emits env (executeUpgrade C a v d opt False) [(''scheduleTransparent'', None), (''execute'', nonce opt)]"
proof -
  have "emits env (executeUpgrade C a v d opt False)
      [(''scheduleTransparent'', nonce noOpts), (''execute'', nonce (opt\<lparr> txValue := Some v \<rparr>))]"
    unfolding executeUpgrade_def Let_def if_False
    by (intro emits_quietly emits_invoke_then emits_silent) (auto intro!: keeps_intros)
  thus ?thesis by (simp add: noOpts_def)
qed

lemma emits_executeDirectOrGovernance:
  "emits env (executeDirectOrGovernance C g i a f as v opt False)
     (if g then [(''scheduleTransparent'', None), (''execute'', nonce opt)] else [(f, nonce opt)])"
proof (cases g)
  case True
  thus ?thesis by (simp add: executeDirectOrGovernance_def emits_quietly silent_views emits_executeUpgrade)
next
  case False
  have "emits env (executeDirectOrGovernance C False i a f as v opt False) [(f, nonce (opt\<lparr> txValue := Some v \<rparr>))]"
    unfolding executeDirectOrGovernance_def if_False by (intro emits_invoke_then emits_return)
  thus ?thesis using False by simp
qed

definition creationTxs :: "bool \<Rightarrow> (string \<times> int option) list" where
  "creationTxs useGovernance =
     (if useGovernance then [(''scheduleTransparent'', None), (''execute'', None)] else [(''createNewChain'', None)])"

lemma emits_cong:
  assumes "\<And>w. procEnv w = env \<Longrightarrow> m' w = m w" and "emits env m l" shows "emits env m' l"
  unfolding emits_def using assms(1) emitsD [OF assms(2)] by metis

lemma emits_eq: "emits env m l \<Longrightarrow> l = l' \<Longrightarrow> emits env m l'"
  by simp

lemma nonce_txOptionsFor: "nonce (txOptionsFor zk) = None"
  by (simp add: txOptionsFor_def noOpts_def)

lemma emits_createNewChain: "emits env (createNewChain C i b ex gp cmp g admin) (creationTxs g)"
proof -
  have e: "emits env (bindE (executeDirectOrGovernance C g i' a ''createNewChain'' as v ((txOptionsFor zk)\<lparr> gasPrice := gp \<rparr>) False)
      (\<lambda>r. liftR (h r))) (creationTxs g)" for i' a as v zk and h :: "receipt option \<Rightarrow> receipt result"
    by (rule emits_eq [OF emits_bind [OF emits_executeDirectOrGovernance emits_liftR]])
      (simp add: nonce_txOptionsFor creationTxs_def)
  show ?thesis unfolding createNewChain_def
    by (intro emits_quietly e) (auto intro!: keeps_intros)
qed

lemma emits_registerValidators:
  "emits env (registerValidators C t n gp) [(''addValidator'', Some n), (''addValidator'', Some (n + 1))]"
proof -
  have e: "emits env (bindE (invokeWaitE C a ''addValidator'' as1 ((txOptionsFor zk)\<lparr> gasPrice := gp, nonce := Some n \<rparr>)) (\<lambda>_.
      bindE (invokeWaitE C a ''addValidator'' as2 ((txOptionsFor zk)\<lparr> gasPrice := gp, nonce := Some (n + 1) \<rparr>)) (\<lambda>_. returnE ())))
      [(''addValidator'', Some n), (''addValidator'', Some (n + 1))]" for a as1 as2 zk
    by (rule emits_eq [OF emits_invoke_then [OF emits_invoke_then [OF emits_return]]]) simp
  show ?thesis unfolding registerValidators_def
    by (intro emits_quietly e) (auto intro!: keeps_intros)
qed

definition legacyTxs :: "env \<Rightarrow> bool \<Rightarrow> (string \<times> int option) list" where
  "legacyTxs env legacy = (if legacy \<and> isCurrentNetworkLocal env then [(''setL2LegacySharedBridge'', None)] else [])"

lemma silent_legacyData [keeps_intros]:
  "keeps silent (l2SharedBridgeImplAddress C)" "keeps silent (l2SharedBridgeProxyData C a)"
  by (auto simp: l2SharedBridgeImplAddress_def l2SharedBridgeProxyData_def proxyInitializationParams_def intro!: keeps_intros
      split: prod.splits)

lemma emits_setL2LegacySharedBridgeInL1Nullifier:
  "emits env (whenE legacy (setL2LegacySharedBridgeInL1Nullifier C i)) (legacyTxs env legacy)"
proof (cases "legacy \<and> isCurrentNetworkLocal env")
  case False
  hence "whenE legacy (setL2LegacySharedBridgeInL1Nullifier C i) w = returnE () w" if "procEnv w = env" for w
    using that by (auto simp: whenE_def setL2LegacySharedBridgeInL1Nullifier_def bindE_apply eff_simps)
  thus ?thesis using False by (intro emits_cong [OF _ emits_eq [OF emits_return]]) (auto simp: legacyTxs_def)
next
  case True
  have m: "emits env (bindE (l2SharedBridgeImplAddress C) (\<lambda>implAddress.
        bindE (l2SharedBridgeProxyData C implAddress) (\<lambda>proxy.
        bindE (addrE (Bridges L1NullifierProxy)) (\<lambda>l1Nullifier.
        bindE (invokeWaitE C l1Nullifier ''setL2LegacySharedBridge'' [VStr i, VStr (snd proxy)] noOpts)
          (\<lambda>_. returnE ()))))) [(''setL2LegacySharedBridge'', nonce noOpts)]" (is "emits env ?m _")
    by (intro emits_quietly emits_invoke_then emits_return) (auto intro!: keeps_intros)
  have "setL2LegacySharedBridgeInL1Nullifier C i w = ?m w" if "procEnv w = env" for w
    using that True by (simp add: setL2LegacySharedBridgeInL1Nullifier_def bindE_apply eff_simps whenE_def)
  hence "emits env (setL2LegacySharedBridgeInL1Nullifier C i) [(''setL2LegacySharedBridge'', nonce noOpts)]"
    by (intro emits_cong [OF _ m]) simp
  thus ?thesis using True by (simp add: whenE_def legacyTxs_def noOpts_def)
qed

text \<open>A normal return of \<open>m\<close> has first sent \<open>l\<close>.\<close>

definition startsWith :: "env \<Rightarrow> ('s world, 'a) eff \<Rightarrow> (string \<times> int option) list \<Rightarrow> bool" where
  "startsWith env m l \<longleftrightarrow> (\<forall>w a w'. procEnv w = env \<longrightarrow> m w = (Inr a, w') \<longrightarrow>
     (\<exists>ts rest. sent w' = sent w @ ts @ rest \<and> map txSig ts = l))"

lemma startsWith_grows: assumes "keeps grows m" shows "startsWith env m []"
  unfolding startsWith_def using keepsD [OF assms] by (auto simp: grows_def)

lemma startsWith_bind:
  assumes "emits env m l1" and "\<And>a. startsWith env (f a) l2"
  shows "startsWith env (bindE m f) (l1 @ l2)"
  unfolding startsWith_def
proof (intro allI impI)
  fix w a w' assume p: "procEnv w = env" and r: "bindE m f w = (Inr a, w')"
  from r obtain b w1 where m: "m w = (Inr b, w1)" and f: "f b w1 = (Inr a, w')" by (rule bindE_success)
  obtain t1 where 1: "procEnv w1 = env" "sent w1 = sent w @ t1" "map txSig t1 = l1" using emitsD [OF assms(1) p m] by blast
  obtain t2 rest where "sent w' = sent w1 @ t2 @ rest" "map txSig t2 = l2"
    using assms(2) [of b] 1(1) f unfolding startsWith_def by blast
  thus "\<exists>ts rest. sent w' = sent w @ ts @ rest \<and> map txSig ts = l1 @ l2"
    using 1 by (intro exI [of _ "t1 @ t2"] exI [of _ rest]) simp
qed

lemma startsWith_quietly: "keeps silent m \<Longrightarrow> (\<And>a. startsWith env (f a) l) \<Longrightarrow> startsWith env (bindE m f) l"
  by (rule startsWith_bind [OF emits_silent, unfolded append_Nil])

lemma startsWith_then: "emits env m l1 \<Longrightarrow> startsWith env k l2 \<Longrightarrow> startsWith env (thenE m k) (l1 @ l2)"
  by (simp add: thenE_def startsWith_bind)

lemma keeps_touches_grows: "keeps (touches K) m \<Longrightarrow> keeps grows m"
  by (simp add: keeps_def touches_def)

lemma touches_legacyData [keeps_intros]:
  "keeps (touches K) (l2SharedBridgeImplAddress C)" "keeps (touches K) (l2SharedBridgeProxyData C a)"
  "keeps (touches K) priorityTxMaxGasLimit"
  by (auto simp: l2SharedBridgeImplAddress_def l2SharedBridgeProxyData_def proxyInitializationParams_def priorityTxMaxGasLimit_def
      intro!: keeps_intros)

lemma touches_deployL2LegacySharedBridge [keeps_intros]:
  "{Bridges L2LegacySharedBridgeImplementation, Bridges L2LegacySharedBridgeProxy} \<subseteq> K \<Longrightarrow>
   keeps (touches K) (deployL2LegacySharedBridge C i gp)"
  by (auto simp: deployL2LegacySharedBridge_def deploySharedBridgeImplOnL2ThroughL1_def deploySharedBridgeProxyOnL2ThroughL1_def
      intro!: keeps_intros)

lemma touches_setChainParameters [keeps_intros]: "keeps (touches K) (setChainParameters C a v)"
  by (auto simp: setChainParameters_def intro!: keeps_intros)

text \<open>The nonce of the first \<open>addValidator\<close> transaction, counted from the wallet's nonce \<open>n0\<close>.\<close>

definition validatorNonce :: "bool \<Rightarrow> bool \<Rightarrow> int \<Rightarrow> int" where
  "validatorNonce legacy useGovernance n0 = n0 + (if legacy then 1 else 0) + 1 + (if useGovernance then 1 else 0)"

lemma registerTail:
  "startsWith env (seqE [recordNewChain C a b c r t, registerValidators C t n gp, setChainParameters C admin validium,
       whenE legacy (deployL2LegacySharedBridge C i gp)]) [(''addValidator'', Some n), (''addValidator'', Some (n + 1))]"
proof -
  have "keeps (touches UNIV) (seqE [setChainParameters C admin validium, whenE legacy (deployL2LegacySharedBridge C i gp)])"
    by (auto intro!: keeps_intros)
  hence t: "startsWith env (seqE [setChainParameters C admin validium, whenE legacy (deployL2LegacySharedBridge C i gp)]) []"
    by (intro startsWith_grows keeps_touches_grows)
  show ?thesis
    using startsWith_then [OF emits_silent [OF silent_recordNewChain] startsWith_then [OF emits_registerValidators t]] by simp
qed

lemma registerZKChain_starts:
  "\<exists>f. registerZKChain C b validium ex gp cmp nonce' pre gov legacy = bindE (resolveNonce C nonce') f \<and>
     (\<forall>n0. startsWith env (f n0) (legacyTxs env legacy @ creationTxs gov @
        [(''addValidator'', Some (validatorNonce legacy gov n0)), (''addValidator'', Some (validatorNonce legacy gov n0 + 1))]))"
  unfolding registerZKChain_def Let_def
  by (intro exI conjI allI, rule refl, unfold validatorNonce_def,
      intro startsWith_quietly startsWith_then startsWith_bind emits_setL2LegacySharedBridgeInL1Nullifier emits_createNewChain registerTail)
    (auto intro!: keeps_intros)

lemma map_append_two:
  "map f ts = p @ [x, y] \<Longrightarrow> \<exists>b u v. ts = b @ [u, v] \<and> map f b = p \<and> f u = x \<and> f v = y"
  by (auto simp: map_eq_append_conv map_eq_Cons_conv)

section \<open>Properties\<close>

text \<open>C6: nonces of a chain registration.  A normal return of \<open>registerZKChain\<close> has sent, in this order, the
  optional legacy bridge setting, the creation of the chain (two governance calls or one direct call),
  all with the wallet's own nonce, and then the two \<open>addValidator\<close> transactions with explicit nonces.
  These are the wallet's next two nonces, except with \<open>l2LegacySharedBridge\<close> on a network that is not
  local: there the legacy setting is skipped but still counted, and both nonces are one too high.\<close>

theorem registerZKChain_nonces:
  assumes "resolveNonce C nonce' w = (Inr n0, w)"
    and "registerZKChain C assetId validium extraFacets gp cmp nonce' predefined useGovernance legacy w = (Inr (), w')"
  shows "\<exists>before v1 v2 rest. sent w' = sent w @ before @ [v1, v2] @ rest \<and>
    map txSig before = legacyTxs (procEnv w) legacy @ creationTxs useGovernance \<and>
    txSig v1 = (''addValidator'', Some (n0 + int (length before) + (if legacy \<and> \<not> isCurrentNetworkLocal (procEnv w) then 1 else 0))) \<and>
    txSig v2 = (''addValidator'', Some (n0 + int (length before) + 1 + (if legacy \<and> \<not> isCurrentNetworkLocal (procEnv w) then 1 else 0)))"
proof -
  let ?n = "validatorNonce legacy useGovernance n0"
  let ?pre = "legacyTxs (procEnv w) legacy @ creationTxs useGovernance"
  obtain f where f: "registerZKChain C assetId validium extraFacets gp cmp nonce' predefined useGovernance legacy =
      bindE (resolveNonce C nonce') f"
    and s: "startsWith (procEnv w) (f n0) (?pre @ [(''addValidator'', Some ?n), (''addValidator'', Some (?n + 1))])"
    using registerZKChain_starts [of C assetId validium extraFacets gp cmp nonce' predefined useGovernance legacy "procEnv w"]
    by (metis append.assoc)
  have "f n0 w = (Inr (), w')" using assms f by (simp add: bindE_Inr)
  then obtain ts rest where ts: "sent w' = sent w @ ts @ rest"
      "map txSig ts = ?pre @ [(''addValidator'', Some ?n), (''addValidator'', Some (?n + 1))]"
    using s unfolding startsWith_def by blast
  then obtain before v1 v2 where b: "ts = before @ [v1, v2]" "map txSig before = ?pre"
      "txSig v1 = (''addValidator'', Some ?n)" "txSig v2 = (''addValidator'', Some (?n + 1))"
    using map_append_two [OF ts(2)] by blast
  have "length before = length ?pre" using b(2) by (metis length_map)
  hence "?n = n0 + int (length before) + (if legacy \<and> \<not> isCurrentNetworkLocal (procEnv w) then 1 else 0)"
    by (simp add: validatorNonce_def legacyTxs_def creationTxs_def)
  thus ?thesis using ts(1) b by (intro exI [of _ before] exI [of _ v1] exI [of _ v2] exI [of _ rest]) auto
qed

section \<open>An example registration\<close>

text \<open>An ethers package with constant answers, and the environment of a public network.\<close>

definition constEthers :: ethers where
  "constEthers = \<lparr> e_bnFrom = (\<lambda>_. Inr 0), e_hexlify = (\<lambda>_. Inr HashZero),
     e_arrayify = (\<lambda>v. case v of VNum _ \<Rightarrow> Inr [1] | _ \<Rightarrow> Inr (replicate 32 0)), e_sha256 = (\<lambda>_. Inr HashZero),
     e_keccak256 = (\<lambda>_. Inr HashZero), e_zeroPad = (\<lambda>_ n. Inr (replicate n 0)), e_hexZeroPad = (\<lambda>_ _. Inr HashZero),
     e_hexDataSlice = (\<lambda>_ _. Inr ADDRESS_ONE), e_concat = (\<lambda>_. Inr (VStr HashZero)), e_abiEncode = (\<lambda>_ _. Inr HashZero),
     e_encodeFunctionData = (\<lambda>_ _ _. Inr HashZero), e_deployData = (\<lambda>_ _. Inr HashZero),
     e_getCreate2Address = (\<lambda>_ _ _. Inr ADDRESS_ONE), e_solidityKeccak256 = (\<lambda>_ _. Inr HashZero),
     e_hexlifyBytes = (\<lambda>_. Inr HashZero) \<rparr>"

definition constCtx :: "string list ctx" where
  "constCtx = exampleCtx\<lparr> cE := constEthers \<rparr>"

definition publicEnv :: env where
  "publicEnv n =
     (if n = ''CHAIN_ETH_NETWORK'' then Some ''sepolia''
      else if n \<in> {''ETH_SENDER_SENDER_OPERATOR_COMMIT_ETH_ADDR'', ''ETH_SENDER_SENDER_OPERATOR_BLOBS_ETH_ADDR''} then Some ADDRESS_ONE
      else if n \<in> {''CONTRACTS_FRI_RECURSION_NODE_LEVEL_VK_HASH'', ''CONTRACTS_FRI_RECURSION_LEAF_LEVEL_VK_HASH''} then Some HashZero
      else if n \<in> {''CHAIN_ADMIN_ADDRESS'', ''ZKSYNC_HOME''} then None
      else Some ''9'')"

lemma const_hash: "hashL2Bytecode constEthers (VStr b) = Inr ([1, 0, 0, 0] @ replicate 28 0)"
  by (simp add: hashL2Bytecode_def constEthers_def throwIf_def setBytes_def numeral_2_eq_2)

lemma const_simps:
  "cE constCtx = constEthers" "cN constCtx = exampleNet" "cJson constCtx p = Inr (VObj [(''bytecode'', VStr HashZero)])"
  "cEventTopic constCtx i e = e" "cNow constCtx = int" "cPubdata constCtx = VNum 800" "cCfg constCtx = exampleConfig"
  "cAt constCtx name a = Inr (a, \<lparr> ifaceFunctions = [], getSighash = (\<lambda>_. ''0x01020304'') \<rparr>)"
  by (simp_all add: constCtx_def exampleCtx_def)

lemma const_ethers:
  "e_abiEncode constEthers ts vs = Inr HashZero" "e_encodeFunctionData constEthers i f vs = Inr HashZero"
  "e_hexlifyBytes constEthers bs = Inr HashZero" "e_bnFrom constEthers t = Inr 0" "e_hexlify constEthers k = Inr HashZero"
  "e_hexZeroPad constEthers t n = Inr HashZero" "e_keccak256 constEthers v = Inr HashZero"
  "e_solidityKeccak256 constEthers ts vs = Inr HashZero" "e_concat constEthers vs = Inr (VStr HashZero)"
  "e_hexDataSlice constEthers t n = Inr ADDRESS_ONE" "e_arrayify constEthers (VStr t) = Inr (replicate 32 0)"
  by (simp_all add: constEthers_def)

lemma public_formats:
  "matchesNumber ''9''" "matchesHex 40 ADDRESS_ONE" "matchesHex 64 HashZero"
  by code_simp+

lemma public_env:
  "getNumberFromEnv publicEnv ''CONTRACTS_PRIORITY_TX_MAX_GAS_LIMIT'' = Inr ''9''"
  "getNumberFromEnv publicEnv ''ETH_CLIENT_CHAIN_ID'' = Inr ''9''"
  "getNumberFromEnv publicEnv ''CONTRACTS_ERA_CHAIN_ID'' = Inr ''9''"
  "getNumberFromEnv publicEnv ''CONTRACTS_MAX_NUMBER_OF_ZK_CHAINS'' = Inr ''9''"
  "getNumberFromEnv publicEnv ''CHAIN_ETH_ZKSYNC_NETWORK_ID'' = Inr ''9''"
  "getHashFromEnv publicEnv ''CONTRACTS_FRI_RECURSION_NODE_LEVEL_VK_HASH'' = Inr HashZero"
  "getHashFromEnv publicEnv ''CONTRACTS_FRI_RECURSION_LEAF_LEVEL_VK_HASH'' = Inr HashZero"
  "getAddressFromEnv publicEnv ''ETH_SENDER_SENDER_OPERATOR_COMMIT_ETH_ADDR'' = Inr ADDRESS_ONE"
  "getAddressFromEnv publicEnv ''ETH_SENDER_SENDER_OPERATOR_BLOBS_ETH_ADDR'' = Inr ADDRESS_ONE"
  "\<not> isCurrentNetworkLocal publicEnv" "publicEnv ''CHAIN_ADMIN_ADDRESS'' = None" "publicEnv ''CHAIN_ETH_NETWORK'' = Some ''sepolia''"
  using public_formats
  by (simp_all add: getNumberFromEnv_def getHashFromEnv_def getAddressFromEnv_def publicEnv_def toStr_def
      isCurrentNetworkLocal_def LOCAL_NETWORKS_def)

lemma const_diamondCut:
  "procEnv w = publicEnv \<Longrightarrow> \<exists>cd. initialZkSyncZKChainDiamondCut constCtx None False w = (Inr cd, w)"
  by (simp add: initialZkSyncZKChainDiamondCut_def bindE_apply eff_simps selfE_def envE_def public_env const_simps
      getCurrentFacetCutsForAdd_def addFacetCut_def truthyStr_def compileInitialCutHash_def const_ethers whenE_def thenE_def)

lemma const_bytecode:
  "readBytecode (cJson constCtx) p n = Inr (VStr HashZero)"
  by (simp add: readBytecode_def const_simps getProp_def)

lemma const_genesis: "procEnv w = publicEnv \<Longrightarrow> \<exists>d. genesisForceDeploymentsData constCtx w = (Inr d, w)"
  by (simp add: genesisForceDeploymentsData_def bindE_apply eff_simps selfE_def envE_def public_env const_bytecode
      bytecodeHashHex_def const_simps const_hash const_ethers applyL1ToL2Alias_def)

lemma const_compute: "computeL2Create2Address constEthers a (VStr b) c d = Inr ADDRESS_ONE"
  by (simp add: computeL2Create2Address_def const_ethers const_hash)

lemma const_artifact: "artifactBytecode art constCtx w = (Inr (VStr HashZero), w)"
  if "\<And>env. art constCtx env = Inr (VObj [(''bytecode'', VStr HashZero)])" for art
  using that by (simp add: artifactBytecode_def envE_def bindE_apply eff_simps getProp_def)

lemma const_artifacts:
  "artifactBytecode L2_STANDARD_ERC20_PROXY_FACTORY constCtx w = (Inr (VStr HashZero), w)"
  "artifactBytecode L2_STANDARD_ERC20_IMPLEMENTATION constCtx w = (Inr (VStr HashZero), w)"
  "artifactBytecode L2_STANDARD_TOKEN_PROXY constCtx w = (Inr (VStr HashZero), w)"
  "artifactBytecode L2_SHARED_BRIDGE_IMPLEMENTATION constCtx w = (Inr (VStr HashZero), w)"
  "artifactBytecode L2_SHARED_BRIDGE_PROXY constCtx w = (Inr (VStr HashZero), w)"
  by (simp_all add: const_artifact L2_STANDARD_ERC20_PROXY_FACTORY_def L2_STANDARD_ERC20_IMPLEMENTATION_def
      L2_STANDARD_TOKEN_PROXY_def L2_SHARED_BRIDGE_IMPLEMENTATION_def L2_SHARED_BRIDGE_PROXY_def readContract_def const_simps)

definition accepted :: "receipt" where
  "accepted = \<lparr> receiptHash = ''0x01'', receiptLogs = [[''NewChain'', ''0x09''], [''NewZKChain'', ''0x09'', ADDRESS_ONE]] \<rparr>"

text \<open>\<open>m\<close> returns normally in the example world and keeps its environment and its deployer's wallet.\<close>

definition succeeds :: "(string list world, 'a) eff \<Rightarrow> bool" where
  "succeeds m \<longleftrightarrow> (\<forall>w. procEnv w = publicEnv \<longrightarrow> (\<exists>a w'. m w = (Inr a, w') \<and> procEnv w' = publicEnv))"

lemma succeeds_bind: "succeeds m \<Longrightarrow> (\<And>a. succeeds (f a)) \<Longrightarrow> succeeds (bindE m f)"
  unfolding succeeds_def by (metis bindE_Inr)

lemma succeeds_then: "succeeds m \<Longrightarrow> succeeds k \<Longrightarrow> succeeds (thenE m k)"
  by (simp add: thenE_def succeeds_bind)

lemma succeeds_if: "(c \<Longrightarrow> succeeds m) \<Longrightarrow> (\<not> c \<Longrightarrow> succeeds k) \<Longrightarrow> succeeds (if c then m else k)"
  by simp

lemma succeeds_when: "(c \<Longrightarrow> succeeds m) \<Longrightarrow> succeeds (whenE c m)"
  by (auto simp: whenE_def succeeds_def returnE_def)

lemma succeeds_basic:
  "succeeds (returnE a)" "succeeds (liftR (Inr b))" "succeeds (readE g)" "succeeds (selfE h)" "succeeds (addrE k)"
  "succeeds (setAddrE k v)" "succeeds (printE key v)" "succeeds (logE key v)" "succeeds (setChainId c)" "succeeds (nowE C)"
  "succeeds isZkMode" "succeeds (strAddr k)" "succeeds (invokeWaitE constCtx t f as opt)" "succeeds (invokeE constCtx t f as opt)"
  "succeeds (waitE constCtx p)" "succeeds (callE constCtx t f as)" "succeeds (encodeE constCtx i f as)"
  "succeeds (resolveNonce constCtx n)"
  by (simp_all add: succeeds_def eff_simps selfE_def addrE_def setAddrE_def printE_def logE_run setChainId_def nowE_def isZkMode_def
      strAddr_def invokeWaitE_def invokeE_def submitE_def waitE_def callE_def encodeE_def resolveNonce_def getTransactionCountE_def
      bindE_apply const_simps exampleNet_def const_ethers split: option.splits)

lemma succeeds_views:
  "m \<notin> {''l2TransactionBaseCost'', ''assetIdIsRegistered''} \<Longrightarrow> succeeds (viewStr constCtx t m as)"
  "succeeds (bindE (callE constCtx t ''l2TransactionBaseCost'' as) (\<lambda>v. liftR (asInt v)))"
  "succeeds (bindE (callE constCtx t ''baseToken'' as) (\<lambda>v. liftR (asStr v)))"
  by (simp_all add: succeeds_def viewStr_def callE_def bindE_apply eff_simps const_simps exampleNet_def asStr_def asInt_def)

lemma succeeds_env:
  "succeeds (envNumber ''CONTRACTS_PRIORITY_TX_MAX_GAS_LIMIT'')" "succeeds (envNumber ''CONTRACTS_ERA_CHAIN_ID'')"
  "succeeds (envNumber ''CHAIN_ETH_ZKSYNC_NETWORK_ID'')"
  "succeeds (envAddress ''ETH_SENDER_SENDER_OPERATOR_COMMIT_ETH_ADDR'')"
  "succeeds (envAddress ''ETH_SENDER_SENDER_OPERATOR_BLOBS_ETH_ADDR'')"
  by (simp_all add: succeeds_def envNumber_def envAddress_def envE_def bindE_apply eff_simps public_env)

lemma succeeds_value:
  assumes "\<And>w. procEnv w = publicEnv \<Longrightarrow> \<exists>w'. m w = (Inr v, w') \<and> procEnv w' = publicEnv" and "succeeds (f v)"
  shows "succeeds (bindE m f)"
  using assms unfolding succeeds_def by (metis bindE_Inr)

lemma succeeds_artifact: "succeeds (f (VStr HashZero)) \<Longrightarrow> succeeds (bindE (artifactBytecode L2_STANDARD_ERC20_PROXY_FACTORY constCtx) f)"
  "succeeds (f (VStr HashZero)) \<Longrightarrow> succeeds (bindE (artifactBytecode L2_STANDARD_ERC20_IMPLEMENTATION constCtx) f)"
  "succeeds (f (VStr HashZero)) \<Longrightarrow> succeeds (bindE (artifactBytecode L2_STANDARD_TOKEN_PROXY constCtx) f)"
  "succeeds (f (VStr HashZero)) \<Longrightarrow> succeeds (bindE (artifactBytecode L2_SHARED_BRIDGE_IMPLEMENTATION constCtx) f)"
  "succeeds (f (VStr HashZero)) \<Longrightarrow> succeeds (bindE (artifactBytecode L2_SHARED_BRIDGE_PROXY constCtx) f)"
  by (auto intro!: succeeds_value simp: const_artifacts)

lemmas succeeds_intros = succeeds_bind succeeds_then succeeds_if succeeds_when succeeds_basic succeeds_views succeeds_env succeeds_artifact

lemma liftR_const:
  "succeeds (liftR (computeL2Create2Address (cE constCtx) a (VStr b) c d))" "succeeds (liftR (hashL2Bytecode (cE constCtx) (VStr b)))"
  "succeeds (liftR (applyL1ToL2Alias (cE constCtx) a))" "succeeds (liftR (e_abiEncode (cE constCtx) ts vs))"
  "succeeds (liftR (e_encodeFunctionData (cE constCtx) i f vs))"
  "succeeds (liftR (bindR (e_abiEncode (cE constCtx) ts vs) (\<lambda>enc. e_arrayify (cE constCtx) (VStr enc))))"
  by (simp_all add: const_simps const_compute const_hash const_ethers applyL1ToL2Alias_def succeeds_basic)

lemma succeeds_legacyData:
  "succeeds (l2SharedBridgeImplAddress constCtx)" "succeeds (l2SharedBridgeProxyData constCtx a)" "succeeds priorityTxMaxGasLimit"
  by (auto simp: l2SharedBridgeImplAddress_def l2SharedBridgeProxyData_def proxyInitializationParams_def priorityTxMaxGasLimit_def
      intro!: succeeds_intros liftR_const)

lemma succeeds_create2DeployFromL1:
  "succeeds (create2DeployFromL1 constCtx ci (VStr b) cd salt gl (Some gp) deps (Some bh) (Some ar))"
  by (auto simp: create2DeployFromL1_def Let_def const_simps exampleNet_def intro!: succeeds_intros liftR_const [unfolded const_simps] split: option.splits)

lemma succeeds_legacy: "succeeds (deployL2LegacySharedBridge constCtx i (Some gp))"
  by (auto simp: deployL2LegacySharedBridge_def deploySharedBridgeImplOnL2ThroughL1_def deploySharedBridgeProxyOnL2ThroughL1_def
      HashZero_def intro!: succeeds_intros [unfolded HashZero_def] succeeds_legacyData succeeds_create2DeployFromL1 liftR_const)

lemma succeeds_nullifier: "succeeds (setL2LegacySharedBridgeInL1Nullifier constCtx i)"
  by (auto simp: setL2LegacySharedBridgeInL1Nullifier_def intro!: succeeds_intros succeeds_legacyData)

lemma succeeds_diamondCut: "succeeds (initialZkSyncZKChainDiamondCut constCtx None False)" "succeeds (genesisForceDeploymentsData constCtx)"
  using const_diamondCut const_genesis unfolding succeeds_def by blast+

lemma returns_createNewChain:
  assumes "procEnv w = publicEnv"
  shows "\<exists>w'. createNewChain constCtx i b None gp False False admin w = (Inr accepted, w') \<and> procEnv w' = publicEnv"
proof -
  obtain cd where cd: "initialZkSyncZKChainDiamondCut constCtx None False w = (Inr cd, w)" using const_diamondCut assms by blast
  obtain d where d: "genesisForceDeploymentsData constCtx w = (Inr d, w)" using const_genesis assms by blast
  show ?thesis using assms
    by (simp add: createNewChain_def bindE_apply eff_simps isZkMode_def selfE_def cd d const_ethers const_simps factoryDepsFor_def
        public_env const_artifacts addrE_def strAddr_def nowE_def executeDirectOrGovernance_def invokeWaitE_def invokeE_def
        submitE_def waitE_def exampleNet_def accepted_def)
qed

lemma succeeds_created:
  "succeeds (f accepted) \<Longrightarrow> succeeds (bindE (createNewChain constCtx i b None gp False False admin) f)"
  by (rule succeeds_value [OF returns_createNewChain])

lemma succeeds_registerZKChain:
  "succeeds (registerZKChain constCtx assetId validium None (Some gp) False n (Some ''9'') False legacy)"
proof -
  have f: "findLog (cEventTopic constCtx ''Bridgehub'' ''NewChain'') accepted = Inr [''NewChain'', ''0x09'']"
    "findLog (cEventTopic constCtx ''ChainTypeManager'' ''NewZKChain'') accepted = Inr [''NewZKChain'', ''0x09'', ADDRESS_ONE]"
    by (simp_all add: findLog_def accepted_def const_simps)
  show ?thesis unfolding registerZKChain_def
    by (auto simp: truthyStr_def toStr_def Let_def f recordNewChain_def ctmAssetInfo_def registerValidators_def setChainParameters_def
        topicAt_def asStr_def recordAddr_def
        intro!: succeeds_created succeeds_intros succeeds_nullifier succeeds_legacy)
qed

theorem registerZKChain_nonces_witness:
  "\<exists>w' create v1 v2 rest.
     registerZKChain constCtx HashZero False None (Some 1) False None (Some ''9'') False True (exampleWorld publicEnv) = (Inr (), w') \<and>
     n_nonce (cN constCtx) (chain (exampleWorld publicEnv)) ''0x03'' = Inr 5 \<and>
     sent w' = [create, v1, v2] @ rest \<and> txSig create = (''createNewChain'', None) \<and> txSig v1 = (''addValidator'', Some 7)"
proof -
  let ?w = "exampleWorld publicEnv"
  have n: "n_nonce (cN constCtx) (chain ?w) ''0x03'' = Inr 5" by (simp add: const_simps exampleNet_def)
  have r: "resolveNonce constCtx None ?w = (Inr 5, ?w)"
    by (simp add: resolveNonce_def getTransactionCountE_def selfE_def bindE_apply eff_simps example_simps n [unfolded example_simps])
  obtain w' where run: "registerZKChain constCtx HashZero False None (Some 1) False None (Some ''9'') False True ?w = (Inr (), w')"
    using succeeds_registerZKChain [of HashZero False 1 None True] example_simps(7) [of publicEnv] unfolding succeeds_def by fastforce
  show ?thesis using run n registerZKChain_nonces [OF r run]
    by (auto simp: example_simps public_env legacyTxs_def creationTxs_def map_eq_Cons_conv)
qed

end
