(* ===== verification/Evm.thy ===== *)
theory Evm
  imports Prelude "HOL-Library.Word"
begin

text \<open>
  Values of the repository's Solidity contracts under \<open>contracts/contracts\<close>: machine words, byte strings
  and the reasons for which a call reverts.  A reverted call has no effect, so a contract function
  returns either a reason or the new state; arithmetic is checked, as in Solidity 0.8.
\<close>

section \<open>Words and bytes\<close>

type_synonym uint256 = "256 word"
type_synonym bytes32 = "256 word"
type_synonym uint8 = "8 word"
type_synonym address = "160 word"
type_synonym bytes = "8 word list"

text \<open>Custom errors of the contracts, \<open>require\<close> with its text, and arithmetic panics.\<close>

datatype reverted =
    Panic
  | Require string
  | ZeroDepositAmount | TransferFailed | AlreadyWithdrawn | InvalidMerkleProof | NotSequencer | InvalidNewRoot
  | DAProviderNotEnabled | DAProviderAlreadySet | BridgeFrozenError | InvalidProof | UnknownVerifier uint8
  | OwnableUnauthorizedAccount | ReentrancyGuardReentrantCall
  | NoBlobAttached | BlobHashMismatch | InvalidCommitment
  | VerifierGteSnarkScalarField | PairingAddFailed | PairingMulFailed | PairingOpcodeFailed

definition checkedAdd :: "uint256 \<Rightarrow> uint256 \<Rightarrow> reverted + uint256" where
  "checkedAdd a b = (if unat a + unat b < 2 ^ 256 then Inr (a + b) else Inl Panic)"

definition checkedSub :: "uint256 \<Rightarrow> uint256 \<Rightarrow> reverted + uint256" where
  "checkedSub a b = (if b \<le> a then Inr (a - b) else Inl Panic)"

text \<open>\<open>bytes32(data)\<close> of a 32 byte slice, and the bytes of a value under \<open>abi.encodePacked\<close>.\<close>

definition wordOfBytes :: "bytes \<Rightarrow> uint256" where
  "wordOfBytes bs = word_rcat bs"

definition bytesOfWord :: "'n::len word \<Rightarrow> bytes" where
  "bytesOfWord (w :: 'n word) = map (\<lambda>i. ucast (drop_bit (8 * i) w)) (rev [0..<LENGTH('n) div 8])"

text \<open>\<open>data[from:to]\<close>.\<close>

definition calldataSlice :: "bytes \<Rightarrow> nat \<Rightarrow> nat \<Rightarrow> bytes" where
  "calldataSlice bs i j = take (j - i) (drop i bs)"

section \<open>Laws\<close>

lemma checkedAdd_Inr: "checkedAdd a b = Inr c \<longleftrightarrow> c = a + b \<and> unat c = unat a + unat b"
proof (cases "unat a + unat b < 2 ^ 256")
  case True
  hence "unat (a + b) = unat a + unat b" by (simp add: unat_word_ariths)
  thus ?thesis using True by (auto simp: checkedAdd_def)
next
  case False
  moreover have "unat (a + b) < 2 ^ 256" using unsigned_less [of "a + b"] by simp
  ultimately show ?thesis by (auto simp: checkedAdd_def)
qed

lemma checkedSub_Inr: "checkedSub a b = Inr c \<longleftrightarrow> b \<le> a \<and> c = a - b"
  by (auto simp: checkedSub_def)

lemma bit_wordOfBytes:
  "bit (wordOfBytes bs) n \<longleftrightarrow> n < 256 \<and> n div 8 < length bs \<and> bit (rev bs ! (n div 8)) (n mod 8)"
  using bit_horner_sum_uint_exp_iff [of "rev bs" n] by (simp add: wordOfBytes_def word_rcat_def bit_word_of_int_iff)

lemma bytesOfWord_wordOfBytes:
  assumes "length bs = 32" shows "bytesOfWord (wordOfBytes bs) = bs"
proof (rule nth_equalityI)
  show "length (bytesOfWord (wordOfBytes bs)) = length bs" using assms by (simp add: bytesOfWord_def)
  fix i assume "i < length (bytesOfWord (wordOfBytes bs))"
  hence i: "i < 32" by (simp add: bytesOfWord_def)
  have "bit (bytesOfWord (wordOfBytes bs) ! i) j = bit (bs ! i) j" if j: "j < 8" for j
  proof -
    have "8 * (31 - i) + j < 256" "(8 * (31 - i) + j) div 8 = 31 - i" "(8 * (31 - i) + j) mod 8 = j"
      using i j by auto
    moreover have "rev bs ! (31 - i) = bs ! i" using assms i by (simp add: rev_nth)
    ultimately have "bit (wordOfBytes bs) (8 * (31 - i) + j) = bit (bs ! i) j"
      using assms i by (simp add: bit_wordOfBytes)
    thus ?thesis using i j by (simp add: bytesOfWord_def rev_nth bit_ucast_iff bit_drop_bit_eq)
  qed
  thus "bytesOfWord (wordOfBytes bs) ! i = bs ! i" by (intro bit_word_eqI) simp
qed

lemma wordOfBytes_bytesOfWord: "wordOfBytes (bytesOfWord w) = w"
proof (rule bit_word_eqI)
  fix n :: nat assume "n < LENGTH(256)"
  hence n: "n < 256" "n div 8 < 32" by auto
  have "rev (bytesOfWord w) ! (n div 8) = ucast (drop_bit (8 * (n div 8)) w)"
    using n by (simp add: bytesOfWord_def rev_map)
  thus "bit (wordOfBytes (bytesOfWord w)) n = bit w n"
    using n by (simp add: bit_wordOfBytes bytesOfWord_def [of w] bit_ucast_iff bit_drop_bit_eq)
qed

lemma length_slice: "j \<le> length bs \<Longrightarrow> i \<le> j \<Longrightarrow> length (calldataSlice bs i j) = j - i"
  by (simp add: calldataSlice_def)

lemma slice_append: "i \<le> j \<Longrightarrow> j \<le> k \<Longrightarrow> calldataSlice bs i j @ calldataSlice bs j k = calldataSlice bs i k"
proof -
  assume "i \<le> j" "j \<le> k"
  then obtain m n where m: "j = i + m" "k = i + m + n" by (metis le_iff_add)
  have "take (m + n) (drop i bs) = take m (drop i bs) @ take n (drop m (drop i bs))" by (rule take_add)
  thus ?thesis by (simp add: calldataSlice_def m add.commute)
qed

lemma slice_all: "calldataSlice bs 0 (length bs) = bs"
  by (simp add: calldataSlice_def)

end
