(* ===== verification/RollupBridge.thy ===== *)
theory RollupBridge
  imports Evm "HOL-Library.Sublist"
begin

text \<open>
  \<open>contracts/contracts/bridge/ZKRollupBridge.sol\<close>: deposits and withdrawals, forced inclusion and freezing,
  batch commitment with a proof or optimistically, and the owner's settings.

  The state of the contract is the record \<open>bridge\<close>, with its ether balance, the flag of the reentrancy
  guard and the emitted events.  A \<open>callEnv\<close> holds what a call sees of the outside: sender, value, block,
  the current owner (the OpenZeppelin base contract keeps it), the data availability providers and
  verifiers behind addresses, the Merkle proof library and keccak.  A call that hands control to another
  contract carries the calls that contract makes back into the bridge, so reentrancy is part of the model;
  every function is executable.
\<close>

section \<open>State and calls\<close>

datatype event =
    DepositEvent address address uint256
  | DepositERC20Event address address address uint256
  | Withdrawal address uint256 bytes32
  | SequencerUpdated address
  | BridgeFrozen string
  | BridgeUnfrozen
  | DAProviderSet uint8 address bool
  | VerifierSet uint8 address
  | BatchCommitted uint256 uint8 uint8 bytes32 bytes32 bytes32
  | BatchSoftCommitted uint256 bytes32 uint256
  | BatchDataPointer uint256 bytes
  | ForcedTransactionEnqueued bytes32 uint256
  | OptimisticRootFinalized bytes32

record bridge =
  latestStateRoot :: bytes32
  verifiers :: "uint8 \<Rightarrow> address"
  sequencer :: address
  nextBatchId :: uint256
  batchCommitment :: "uint256 \<Rightarrow> bytes32"
  batchNewRoot :: "uint256 \<Rightarrow> bytes32"
  daProviders :: "uint8 \<Rightarrow> address"
  daEnabled :: "uint8 \<Rightarrow> bool"
  nullifiers :: "bytes32 \<Rightarrow> bool"
  forcedInclusionDelay :: uint256
  forcedTxTimestamps :: "bytes32 \<Rightarrow> uint256"
  forcedTxQueue :: "bytes32 list"
  forcedHead :: uint256
  frozen :: bool
  optimisticMode :: bool
  challengePeriod :: uint256
  pendingStateRoot :: bytes32
  pendingTimestamp :: uint256
  entered :: bool
  balance :: nat
  events :: "event list"

text \<open>The points of a Groth16 proof and the public inputs, as they are passed to a verifier.\<close>

record proofArgs =
  argA :: "uint256 \<times> uint256"
  argB :: "(uint256 \<times> uint256) \<times> (uint256 \<times> uint256)"
  argC :: "uint256 \<times> uint256"
  argInputs :: "uint256 list"

record callEnv =
  sender :: address
  msgValue :: uint256
  blockNumber :: uint256
  blockTimestamp :: uint256
  bridgeOwner :: address
  computeCommitmentOf :: "address \<Rightarrow> bytes \<Rightarrow> bytes \<Rightarrow> reverted + bytes32"
  validateDAOf :: "address \<Rightarrow> bytes32 \<Rightarrow> bytes \<Rightarrow> reverted + unit"
  modeOf :: "address \<Rightarrow> reverted + uint8"
  verifyProofOf :: "address \<Rightarrow> proofArgs \<Rightarrow> reverted + bool"
  merkleVerify :: "bytes32 list \<Rightarrow> bytes32 \<Rightarrow> bytes32 \<Rightarrow> bool"
  keccak :: "bytes \<Rightarrow> bytes32"

text \<open>The external functions.  \<open>Withdraw\<close> and \<open>DepositERC20\<close> carry whether the called contract succeeds, and
  the calls it makes into the bridge meanwhile.\<close>

datatype call =
    Deposit address
  | DepositERC20 address address uint256 bool "(callEnv \<times> call) list"
  | Withdraw "bytes32 list" address uint256 bytes32 bool "(callEnv \<times> call) list"
  | SetOptimisticMode bool
  | SetChallengePeriod uint256
  | SetSequencer address
  | SetDAProvider uint8 address bool
  | SetVerifier uint8 address
  | Unfreeze
  | Freeze
  | ForceTransaction bytes32
  | CommitBatch uint8 uint8 bytes bytes bytes32 bytes
  | VerifyFraudProof bytes
  | FinalizeOptimisticRoot

definition emit :: "event list \<Rightarrow> bridge \<Rightarrow> bridge" where
  "emit es s = s\<lparr> events := events s @ es \<rparr>"

section \<open>Construction\<close>

definition SEVEN_DAYS :: uint256 where
  "SEVEN_DAYS = 604800"

definition newBridge :: "address \<Rightarrow> bytes32 \<Rightarrow> uint256 \<Rightarrow> bridge" where
  "newBridge verifier genesisRoot delay = \<lparr>
     latestStateRoot = genesisRoot, verifiers = (\<lambda>_. 0)(0 := verifier), sequencer = 0, nextBatchId = 1,
     batchCommitment = (\<lambda>_. 0), batchNewRoot = (\<lambda>_. 0), daProviders = (\<lambda>_. 0), daEnabled = (\<lambda>_. False),
     nullifiers = (\<lambda>_. False), forcedInclusionDelay = delay, forcedTxTimestamps = (\<lambda>_. 0), forcedTxQueue = [],
     forcedHead = 0, frozen = False, optimisticMode = False, challengePeriod = SEVEN_DAYS, pendingStateRoot = 0,
     pendingTimestamp = 0, entered = False, balance = 0, events = [] \<rparr>"

section \<open>Bridging\<close>

definition deposit :: "callEnv \<Rightarrow> address \<Rightarrow> bridge \<Rightarrow> reverted + bridge" where
  "deposit e recipient s =
     (if msgValue e = 0 then Inl ZeroDepositAmount
      else Inr (emit [DepositEvent (sender e) recipient (msgValue e)] (s\<lparr> balance := balance s + unat (msgValue e) \<rparr>)))"

text \<open>\<open>callee\<close> is the effect of the calls the token makes into the bridge.\<close>

definition depositERC20 ::
  "callEnv \<Rightarrow> address \<Rightarrow> address \<Rightarrow> uint256 \<Rightarrow> bool \<Rightarrow> (bridge \<Rightarrow> bridge) \<Rightarrow> bridge \<Rightarrow> reverted + bridge"
where
  "depositERC20 e token recipient amount ok callee s =
     (if amount = 0 then Inl ZeroDepositAmount
      else if \<not> ok then Inl (Require ''SafeERC20FailedOperation'')
      else Inr (emit [DepositERC20Event token (sender e) recipient amount] (callee s)))"

definition withdrawalLeaf :: "callEnv \<Rightarrow> address \<Rightarrow> uint256 \<Rightarrow> bytes32 \<Rightarrow> bytes32" where
  "withdrawalLeaf e recipient amount withdrawalId =
     keccak e (bytesOfWord recipient @ bytesOfWord amount @ bytesOfWord withdrawalId)"

text \<open>The state in which the recipient is called, and the state after it returned.\<close>

definition withdrawStart :: "uint256 \<Rightarrow> bytes32 \<Rightarrow> bridge \<Rightarrow> bridge" where
  "withdrawStart amount withdrawalId s =
     s\<lparr> entered := True, nullifiers := (nullifiers s)(withdrawalId := True), balance := balance s - unat amount \<rparr>"

definition withdrawEnd :: "address \<Rightarrow> uint256 \<Rightarrow> bytes32 \<Rightarrow> bridge \<Rightarrow> bridge" where
  "withdrawEnd recipient amount withdrawalId s = (emit [Withdrawal recipient amount withdrawalId] s)\<lparr> entered := False \<rparr>"

definition withdraw ::
  "callEnv \<Rightarrow> bytes32 list \<Rightarrow> address \<Rightarrow> uint256 \<Rightarrow> bytes32 \<Rightarrow> bool \<Rightarrow> (bridge \<Rightarrow> bridge) \<Rightarrow> bridge \<Rightarrow> reverted + bridge"
where
  "withdraw e merkleProof recipient amount withdrawalId ok callee s =
     (if entered s then Inl ReentrancyGuardReentrantCall
      else if nullifiers s withdrawalId then Inl AlreadyWithdrawn
      else if \<not> merkleVerify e merkleProof (latestStateRoot s) (withdrawalLeaf e recipient amount withdrawalId)
      then Inl InvalidMerkleProof
      else if balance s < unat amount \<or> \<not> ok then Inl TransferFailed
      else Inr (withdrawEnd recipient amount withdrawalId (callee (withdrawStart amount withdrawalId s))))"

section \<open>Administration\<close>

definition onlyOwner :: "callEnv \<Rightarrow> (reverted + bridge) \<Rightarrow> reverted + bridge" where
  "onlyOwner e r = (if sender e \<noteq> bridgeOwner e then Inl OwnableUnauthorizedAccount else r)"

definition setOptimisticMode :: "callEnv \<Rightarrow> bool \<Rightarrow> bridge \<Rightarrow> reverted + bridge" where
  "setOptimisticMode e mode s = onlyOwner e (Inr (s\<lparr> optimisticMode := mode \<rparr>))"

definition setChallengePeriod :: "callEnv \<Rightarrow> uint256 \<Rightarrow> bridge \<Rightarrow> reverted + bridge" where
  "setChallengePeriod e period s = onlyOwner e (Inr (s\<lparr> challengePeriod := period \<rparr>))"

definition setSequencer :: "callEnv \<Rightarrow> address \<Rightarrow> bridge \<Rightarrow> reverted + bridge" where
  "setSequencer e newSequencer s =
     onlyOwner e (Inr (emit [SequencerUpdated newSequencer] (s\<lparr> sequencer := newSequencer \<rparr>)))"

definition setDAProvider :: "callEnv \<Rightarrow> uint8 \<Rightarrow> address \<Rightarrow> bool \<Rightarrow> bridge \<Rightarrow> reverted + bridge" where
  "setDAProvider e daId provider enabled s = onlyOwner e
     (if daProviders s daId \<noteq> 0 \<and> daEnabled s daId \<and> daProviders s daId \<noteq> provider then Inl DAProviderAlreadySet
      else Inr (emit [DAProviderSet daId provider enabled]
        (s\<lparr> daProviders := (daProviders s)(daId := provider), daEnabled := (daEnabled s)(daId := enabled) \<rparr>)))"

definition setVerifier :: "callEnv \<Rightarrow> uint8 \<Rightarrow> address \<Rightarrow> bridge \<Rightarrow> reverted + bridge" where
  "setVerifier e verifierId verifierAddress s = onlyOwner e
     (Inr (emit [VerifierSet verifierId verifierAddress]
        (s\<lparr> verifiers := (verifiers s)(verifierId := verifierAddress) \<rparr>)))"

section \<open>Freezing and forced inclusion\<close>

definition unfreeze :: "callEnv \<Rightarrow> bridge \<Rightarrow> reverted + bridge" where
  "unfreeze e s = onlyOwner e
     (if \<not> frozen s then Inl (Require '''') else Inr (emit [BridgeUnfrozen] (s\<lparr> frozen := False \<rparr>)))"

text \<open>The oldest forced transaction is past its deadline.\<close>

definition censored :: "callEnv \<Rightarrow> bridge \<Rightarrow> bool" where
  "censored e s \<longleftrightarrow> unat (forcedHead s) < length (forcedTxQueue s) \<and>
     forcedTxTimestamps s (forcedTxQueue s ! unat (forcedHead s)) < blockNumber e"

definition freeze :: "callEnv \<Rightarrow> bridge \<Rightarrow> reverted + bridge" where
  "freeze e s =
     (if censored e s then Inr (emit [BridgeFrozen ''Censorship proven via freeze()''] (s\<lparr> frozen := True \<rparr>))
      else Inl (Require ''No censorship detected''))"

definition forceTransaction :: "callEnv \<Rightarrow> bytes32 \<Rightarrow> bridge \<Rightarrow> reverted + bridge" where
  "forceTransaction e txHash s =
     (if frozen s then Inl BridgeFrozenError
      else bindR (checkedAdd (blockNumber e) (forcedInclusionDelay s)) (\<lambda>deadline.
        Inr (emit [ForcedTransactionEnqueued txHash deadline]
          (s\<lparr> forcedTxTimestamps := (forcedTxTimestamps s)(txHash := deadline), forcedTxQueue := forcedTxQueue s @ [txHash] \<rparr>))))"

definition requireSequencer :: "callEnv \<Rightarrow> bridge \<Rightarrow> reverted + unit" where
  "requireSequencer e s =
     (if frozen s then Inl BridgeFrozenError
      else if sequencer s \<noteq> 0 \<and> sender e \<noteq> sequencer s then Inl NotSequencer
      else Inr ())"

section \<open>Batches\<close>

text \<open>The public inputs: the two roots and the two halves of the commitment.\<close>

definition publicInputs :: "bytes32 \<Rightarrow> bytes32 \<Rightarrow> bytes32 \<Rightarrow> uint256 list" where
  "publicInputs oldRoot newRoot daCommitment =
     [oldRoot, newRoot, and daCommitment (mask 128), drop_bit 128 daCommitment]"

text \<open>The eight words of a Groth16 proof, the coefficients of the G2 point swapped; other verifiers get
  zeros.\<close>

definition decodeProof :: "uint8 \<Rightarrow> bytes \<Rightarrow> uint256 list \<Rightarrow> reverted + proofArgs" where
  "decodeProof verifierId proof inputs =
     (if verifierId = 0 then
        (if length proof \<noteq> 256 then Inl (Require ''Invalid proof length'')
         else Inr \<lparr>
           argA = (wordOfBytes (calldataSlice proof 0 32), wordOfBytes (calldataSlice proof 32 64)),
           argB = ((wordOfBytes (calldataSlice proof 96 128), wordOfBytes (calldataSlice proof 64 96)),
                   (wordOfBytes (calldataSlice proof 160 192), wordOfBytes (calldataSlice proof 128 160))),
           argC = (wordOfBytes (calldataSlice proof 192 224), wordOfBytes (calldataSlice proof 224 256)),
           argInputs = inputs \<rparr>)
      else Inr \<lparr> argA = (0, 0), argB = ((0, 0), (0, 0)), argC = (0, 0), argInputs = inputs \<rparr>)"

text \<open>\<open>nextBatchId++\<close> and the records of the batch.\<close>

definition recordBatch ::
  "bytes32 \<Rightarrow> bytes32 \<Rightarrow> bytes32 \<Rightarrow> uint8 \<Rightarrow> uint8 \<Rightarrow> bytes \<Rightarrow> bridge \<Rightarrow> reverted + bridge"
where
  "recordBatch oldRoot newRoot daCommitment daMode verifierId daMeta s =
     bindR (checkedAdd (nextBatchId s) 1) (\<lambda>next. let batchId = nextBatchId s in
       Inr (emit [BatchDataPointer batchId daMeta, BatchCommitted batchId daMode verifierId daCommitment oldRoot newRoot]
         (s\<lparr> nextBatchId := next, batchCommitment := (batchCommitment s)(batchId := daCommitment),
            batchNewRoot := (batchNewRoot s)(batchId := newRoot) \<rparr>)))"

definition finalizeBatch ::
  "bytes32 \<Rightarrow> bytes32 \<Rightarrow> bytes32 \<Rightarrow> uint8 \<Rightarrow> uint8 \<Rightarrow> bytes \<Rightarrow> bridge \<Rightarrow> reverted + bridge"
where
  "finalizeBatch oldRoot newRoot daCommitment daMode verifierId daMeta s =
     (if newRoot = 0 then Inl InvalidNewRoot
      else recordBatch oldRoot newRoot daCommitment daMode verifierId daMeta (s\<lparr> latestStateRoot := newRoot \<rparr>))"

definition commitBatch ::
  "callEnv \<Rightarrow> uint8 \<Rightarrow> uint8 \<Rightarrow> bytes \<Rightarrow> bytes \<Rightarrow> bytes32 \<Rightarrow> bytes \<Rightarrow> bridge \<Rightarrow> reverted + bridge"
where
  "commitBatch e daId verifierId batchData daMeta newRoot proof s =
     bindR (requireSequencer e s) (\<lambda>_.
     if censored e s then Inl BridgeFrozenError
     else let provider = daProviders s daId in
     if provider = 0 \<or> \<not> daEnabled s daId then Inl DAProviderNotEnabled
     else
     bindR (computeCommitmentOf e provider batchData daMeta) (\<lambda>daCommitment.
     bindR (validateDAOf e provider daCommitment daMeta) (\<lambda>_.
     let oldRoot = latestStateRoot s; inputs = publicInputs oldRoot newRoot daCommitment; verifier = verifiers s verifierId in
     if verifier = 0 then Inl (UnknownVerifier verifierId)
     else
     bindR (decodeProof verifierId proof inputs) (\<lambda>args.
     let soft = BatchSoftCommitted (nextBatchId s) newRoot (blockTimestamp e) in
     if \<not> optimisticMode s then
       bindR (verifyProofOf e verifier args) (\<lambda>valid.
       if \<not> valid then Inl InvalidProof
       else bindR (modeOf e provider) (\<lambda>daMode.
         finalizeBatch oldRoot newRoot daCommitment daMode verifierId daMeta (emit [soft] s)))
     else if newRoot = 0 then Inl InvalidNewRoot
     else bindR (modeOf e provider) (\<lambda>daMode.
       recordBatch oldRoot newRoot daCommitment daMode verifierId daMeta
         ((emit [soft] s)\<lparr> pendingStateRoot := newRoot, pendingTimestamp := blockTimestamp e \<rparr>))))))"

definition verifyFraudProof :: "bytes \<Rightarrow> bridge \<Rightarrow> reverted + bridge" where
  "verifyFraudProof proof s = Inl (Require ''FraudProofNotImplemented'')"

definition finalizeOptimisticRoot :: "callEnv \<Rightarrow> bridge \<Rightarrow> reverted + bridge" where
  "finalizeOptimisticRoot e s =
     (if \<not> optimisticMode s then Inl (Require ''Not in optimistic mode'')
      else if pendingStateRoot s = 0 then Inl (Require ''No pending root'')
      else bindR (checkedAdd (pendingTimestamp s) (challengePeriod s)) (\<lambda>deadline.
        if blockTimestamp e < deadline then Inl (Require ''Challenge period not elapsed'')
        else Inr (emit [OptimisticRootFinalized (pendingStateRoot s)]
          (s\<lparr> latestStateRoot := pendingStateRoot s, pendingStateRoot := 0 \<rparr>))))"

section \<open>Calls\<close>

text \<open>A function that is not payable reverts when ether is sent along.\<close>

definition nonPayable :: "callEnv \<Rightarrow> (reverted + bridge) \<Rightarrow> reverted + bridge" where
  "nonPayable e r = (if msgValue e \<noteq> 0 then Inl (Require '''') else r)"

fun exec :: "callEnv \<Rightarrow> call \<Rightarrow> bridge \<Rightarrow> reverted + bridge"
  and execAll :: "(callEnv \<times> call) list \<Rightarrow> bridge \<Rightarrow> bridge"
where
  "exec e (Deposit recipient) s = deposit e recipient s"
| "exec e (DepositERC20 token recipient amount ok cs) s =
     nonPayable e (depositERC20 e token recipient amount ok (\<lambda>t. execAll cs t) s)"
| "exec e (Withdraw proof recipient amount withdrawalId ok cs) s =
     nonPayable e (withdraw e proof recipient amount withdrawalId ok (\<lambda>t. execAll cs t) s)"
| "exec e (SetOptimisticMode mode) s = nonPayable e (setOptimisticMode e mode s)"
| "exec e (SetChallengePeriod period) s = nonPayable e (setChallengePeriod e period s)"
| "exec e (SetSequencer a) s = nonPayable e (setSequencer e a s)"
| "exec e (SetDAProvider daId a enabled) s = nonPayable e (setDAProvider e daId a enabled s)"
| "exec e (SetVerifier verifierId a) s = nonPayable e (setVerifier e verifierId a s)"
| "exec e Unfreeze s = nonPayable e (unfreeze e s)"
| "exec e Freeze s = nonPayable e (freeze e s)"
| "exec e (ForceTransaction h) s = nonPayable e (forceTransaction e h s)"
| "exec e (CommitBatch daId verifierId batchData daMeta newRoot proof) s =
     nonPayable e (commitBatch e daId verifierId batchData daMeta newRoot proof s)"
| "exec e (VerifyFraudProof proof) s = nonPayable e (verifyFraudProof proof s)"
| "exec e FinalizeOptimisticRoot s = nonPayable e (finalizeOptimisticRoot e s)"
| "execAll [] s = s"
| "execAll ((e, c) # cs) s = execAll cs (case exec e c s of Inl _ \<Rightarrow> s | Inr s' \<Rightarrow> s')"

end
