(* ===== verification/BridgeSafety.thy ===== *)
theory BridgeSafety
  imports RollupBridge
begin

text \<open>
  Invariants of the rollup bridge over arbitrary sequences of calls, reentrant ones included.  The locale
  \<open>call_order\<close> proves once that a relation kept by every function is kept by every run; its
  interpretations give conservation of ether, single use of withdrawal identifiers, append-only batches,
  the provenance of the state root and the shape of the forced queue.
\<close>

section \<open>Plain calls\<close>

text \<open>Calls that do not hand control to another contract.\<close>

fun plain :: "call \<Rightarrow> bool" where
  "plain (DepositERC20 token recipient amount ok cs) = False"
| "plain (Withdraw proof recipient amount withdrawalId ok cs) = False"
| "plain _ = True"

lemmas plain_defs =
  nonPayable_def deposit_def setOptimisticMode_def setChallengePeriod_def setSequencer_def setDAProvider_def setVerifier_def
  onlyOwner_def unfreeze_def freeze_def forceTransaction_def verifyFraudProof_def finalizeOptimisticRoot_def emit_def
  bindR_Inr_iff checkedAdd_Inr

text \<open>What a successful \<open>commitBatch\<close> has checked and done.\<close>

lemma commitBatch_cases:
  assumes "commitBatch e daId verifierId batchData daMeta newRoot proof s = Inr s'"
  obtains c m args where
    "\<not> frozen s" "sequencer s = 0 \<or> sender e = sequencer s" "\<not> censored e s"
    "daProviders s daId \<noteq> 0" "daEnabled s daId" "verifiers s verifierId \<noteq> 0" "newRoot \<noteq> 0"
    "computeCommitmentOf e (daProviders s daId) batchData daMeta = Inr c"
    "validateDAOf e (daProviders s daId) c daMeta = Inr ()"
    "decodeProof verifierId proof (publicInputs (latestStateRoot s) newRoot c) = Inr args"
    "optimisticMode s \<or> verifyProofOf e (verifiers s verifierId) args = Inr True"
    "unat (nextBatchId s + 1) = unat (nextBatchId s) + 1"
    "s' = s\<lparr> latestStateRoot := if optimisticMode s then latestStateRoot s else newRoot,
       pendingStateRoot := if optimisticMode s then newRoot else pendingStateRoot s,
       pendingTimestamp := if optimisticMode s then blockTimestamp e else pendingTimestamp s,
       nextBatchId := nextBatchId s + 1, batchCommitment := (batchCommitment s)(nextBatchId s := c),
       batchNewRoot := (batchNewRoot s)(nextBatchId s := newRoot),
       events := events s @ [BatchSoftCommitted (nextBatchId s) newRoot (blockTimestamp e), BatchDataPointer (nextBatchId s) daMeta,
         BatchCommitted (nextBatchId s) m verifierId c (latestStateRoot s) newRoot] \<rparr>"
proof (cases "optimisticMode s")
  case True
  thus ?thesis using assms that
    by (auto simp: commitBatch_def requireSequencer_def recordBatch_def emit_def Let_def bindR_Inr_iff checkedAdd_Inr split: if_splits)
next
  case False
  thus ?thesis using assms that
    by (auto simp: commitBatch_def requireSequencer_def recordBatch_def finalizeBatch_def emit_def Let_def bindR_Inr_iff checkedAdd_Inr
        split: if_splits)
qed

section \<open>The reentrancy guard\<close>

fun withdrawals :: "event list \<Rightarrow> (uint256 \<times> bytes32) list" where
  "withdrawals [] = []"
| "withdrawals (Withdrawal recipient amount i # es) = (amount, i) # withdrawals es"
| "withdrawals (_ # es) = withdrawals es"

fun deposits :: "event list \<Rightarrow> uint256 list" where
  "deposits [] = []"
| "deposits (DepositEvent from recipient amount # es) = amount # deposits es"
| "deposits (_ # es) = deposits es"

lemma withdrawals_append [simp]: "withdrawals (xs @ ys) = withdrawals xs @ withdrawals ys"
  by (induction xs rule: withdrawals.induct) simp_all

lemma deposits_append [simp]: "deposits (xs @ ys) = deposits xs @ deposits ys"
  by (induction xs rule: deposits.induct) simp_all

text \<open>While a withdrawal is in progress, no other one completes.\<close>

definition guarded :: "bridge \<Rightarrow> bridge \<Rightarrow> bool" where
  "guarded s t \<longleftrightarrow> entered t = entered s \<and>
     (entered s \<longrightarrow> nullifiers t = nullifiers s \<and> withdrawals (events t) = withdrawals (events s))"

lemma plain_guarded: "plain c \<Longrightarrow> exec e c s = Inr s' \<Longrightarrow> guarded s s'"
  by (cases c) (auto simp: guarded_def plain_defs elim!: commitBatch_cases split: if_splits)

lemma guarded_refl: "guarded s s" and guarded_trans: "guarded s t \<Longrightarrow> guarded t u \<Longrightarrow> guarded s u"
  by (simp_all add: guarded_def)

lemma guarded_run:
  "exec e c s = Inr s' \<Longrightarrow> guarded s s'" "guarded s (execAll cs s)"
proof (induction e c s and cs s arbitrary: s' and rule: exec_execAll.induct)
  case (2 e token recipient amount ok cs s)
  hence "s' = emit [DepositERC20Event token (sender e) recipient amount] (execAll cs s)"
    by (auto simp: nonPayable_def depositERC20_def split: if_splits)
  thus ?case using 2 by (simp add: guarded_def emit_def)
next
  case (3 e mp recipient amount withdrawalId ok cs s)
  hence s': "s' = withdrawEnd recipient amount withdrawalId (execAll cs (withdrawStart amount withdrawalId s))" "\<not> entered s"
    by (auto simp: nonPayable_def withdraw_def split: if_splits)
  thus ?case by (simp add: guarded_def withdrawEnd_def emit_def)
next
  case (16 e c cs s)
  thus ?case by (cases "exec e c s") (auto intro: guarded_trans)
qed (simp_all only: execAll.simps guarded_refl, (erule plain_guarded [rotated], simp)+)

section \<open>Relations kept by every run\<close>

locale call_order =
  fixes R :: "bridge \<Rightarrow> bridge \<Rightarrow> bool"
  assumes R_refl: "R s s"
    and R_trans: "R s t \<Longrightarrow> R t u \<Longrightarrow> R s u"
    and R_plain: "plain c \<Longrightarrow> exec e c s = Inr s' \<Longrightarrow> R s s'"
    and R_token: "R s (emit [DepositERC20Event token from recipient amount] s)"
    and R_withdraw: "\<not> entered s \<Longrightarrow> \<not> nullifiers s i \<Longrightarrow> unat amount \<le> balance s \<Longrightarrow>
      merkleVerify e proof (latestStateRoot s) (withdrawalLeaf e recipient amount i) \<Longrightarrow>
      guarded (withdrawStart amount i s) t \<Longrightarrow> R (withdrawStart amount i s) t \<Longrightarrow> R s (withdrawEnd recipient amount i t)"
begin

lemma exec_keeps: "exec e c s = Inr s' \<Longrightarrow> R s s'"
  and run_keeps: "R s (execAll cs s)"
proof (induction e c s and cs s arbitrary: s' and rule: exec_execAll.induct)
  case (2 e token recipient amount ok cs s)
  hence "s' = emit [DepositERC20Event token (sender e) recipient amount] (execAll cs s)"
    by (auto simp: nonPayable_def depositERC20_def split: if_splits)
  thus ?case using 2 R_token R_trans by blast
next
  case (3 e mp recipient amount withdrawalId ok cs s)
  hence "s' = withdrawEnd recipient amount withdrawalId (execAll cs (withdrawStart amount withdrawalId s))" "\<not> entered s"
    "\<not> nullifiers s withdrawalId" "unat amount \<le> balance s"
    "merkleVerify e mp (latestStateRoot s) (withdrawalLeaf e recipient amount withdrawalId)"
    by (auto simp: nonPayable_def withdraw_def split: if_splits)
  thus ?case using 3(1) R_withdraw guarded_run(2) by blast
next
  case (16 e c cs s)
  thus ?case by (cases "exec e c s") (auto intro: R_trans)
qed (simp_all only: execAll.simps R_refl, (erule R_plain [rotated], simp)+)

end

section \<open>Ether\<close>

definition paidOut :: "bridge \<Rightarrow> nat" where
  "paidOut s = sum_list (map (\<lambda>(amount, i). unat amount) (withdrawals (events s)))"

definition paidIn :: "bridge \<Rightarrow> nat" where
  "paidIn s = sum_list (map unat (deposits (events s)))"

definition conserves :: "bridge \<Rightarrow> bridge \<Rightarrow> bool" where
  "conserves s t \<longleftrightarrow> balance t + paidOut t + paidIn s = balance s + paidOut s + paidIn t"

lemma plain_conserves: "plain c \<Longrightarrow> exec e c s = Inr s' \<Longrightarrow> conserves s s'"
  by (cases c) (auto simp: conserves_def paidOut_def paidIn_def plain_defs elim!: commitBatch_cases split: if_splits)

interpretation ether: call_order conserves
proof
  show "conserves s t \<Longrightarrow> conserves t u \<Longrightarrow> conserves s u" for s t u by (simp add: conserves_def)
  show "conserves s (withdrawEnd recipient amount i t)"
    if "unat amount \<le> balance s" "conserves (withdrawStart amount i s) t" for s i amount recipient t
    using that by (simp add: conserves_def withdrawStart_def withdrawEnd_def emit_def paidOut_def paidIn_def)
qed (auto simp: plain_conserves, simp_all add: conserves_def emit_def paidOut_def paidIn_def)

section \<open>Withdrawal identifiers\<close>

definition spent_inv :: "bridge \<Rightarrow> bool" where
  "spent_inv s \<longleftrightarrow> distinct (map snd (withdrawals (events s))) \<and> (\<forall>(a, i) \<in> set (withdrawals (events s)). nullifiers s i)"

definition spends :: "bridge \<Rightarrow> bridge \<Rightarrow> bool" where
  "spends s t \<longleftrightarrow> (spent_inv s \<longrightarrow> spent_inv t) \<and> (\<forall>i. nullifiers s i \<longrightarrow> nullifiers t i)"

lemma plain_frame:
  "plain c \<Longrightarrow> exec e c s = Inr s' \<Longrightarrow> nullifiers s' = nullifiers s \<and> withdrawals (events s') = withdrawals (events s)"
  by (cases c) (auto simp: plain_defs elim!: commitBatch_cases split: if_splits)

interpretation spending: call_order spends
proof
  show "spends s s'" if "plain c" "exec e c s = Inr s'" for c e s s'
    using plain_frame [OF that] by (simp add: spends_def spent_inv_def)
  show "spends s (withdrawEnd recipient amount i t)"
    if n: "\<not> nullifiers s i" and g: "guarded (withdrawStart amount i s) t" and r: "spends (withdrawStart amount i s) t"
    for s i amount recipient t
  proof -
    have w: "withdrawals (events t) = withdrawals (events s)" "nullifiers t = (nullifiers s)(i := True)"
      using g by (simp_all add: guarded_def withdrawStart_def)
    have "i \<notin> snd ` set (withdrawals (events s))" if "spent_inv s" using that n by (auto simp: spent_inv_def)
    thus ?thesis unfolding spends_def spent_inv_def withdrawEnd_def emit_def using w by auto
  qed
qed (auto simp: spends_def, simp_all add: spent_inv_def emit_def)

section \<open>Batches and roots\<close>

definition appends :: "bridge \<Rightarrow> bridge \<Rightarrow> bool" where
  "appends s t \<longleftrightarrow> nextBatchId s \<le> nextBatchId t \<and> prefix (events s) (events t) \<and>
     (\<forall>i < nextBatchId s. batchNewRoot t i = batchNewRoot s i \<and> batchCommitment t i = batchCommitment s i)"

lemma succ_gt: "unat (w + 1) = unat w + 1 \<Longrightarrow> w < w + 1" for w :: uint256
  by (simp add: word_less_nat_alt)

lemma plain_appends: "plain c \<Longrightarrow> exec e c s = Inr s' \<Longrightarrow> appends s s'"
  by (cases c) (auto simp: appends_def plain_defs succ_gt less_imp_le elim!: commitBatch_cases split: if_splits)

interpretation batches: call_order appends
proof
  show "appends s u" if "appends s t" "appends t u" for s t u
    using that by (auto simp: appends_def intro: prefix_order.trans dest: less_le_trans)
  show "appends s (withdrawEnd recipient amount i t)" if "appends (withdrawStart amount i s) t" for s i amount recipient t
    using that by (simp add: appends_def withdrawStart_def withdrawEnd_def emit_def)
qed (auto simp: plain_appends, simp_all add: appends_def emit_def)

text \<open>The state root is the genesis root or the root of a recorded batch, and so is a pending root; batch
  identifiers are used up consecutively from one, with nonzero roots.\<close>

definition committedRoot :: "bridge \<Rightarrow> bytes32 \<Rightarrow> bool" where
  "committedRoot s r \<longleftrightarrow> (\<exists>i. 0 < i \<and> i < nextBatchId s \<and> batchNewRoot s i = r)"

definition root_inv :: "bytes32 \<Rightarrow> bridge \<Rightarrow> bool" where
  "root_inv g s \<longleftrightarrow> 0 < nextBatchId s \<and>
     (latestStateRoot s = g \<or> committedRoot s (latestStateRoot s)) \<and>
     (pendingStateRoot s = 0 \<or> committedRoot s (pendingStateRoot s)) \<and>
     (\<forall>i. (batchNewRoot s i \<noteq> 0) = (0 < i \<and> i < nextBatchId s))"

definition keeps_root :: "bytes32 \<Rightarrow> bridge \<Rightarrow> bridge \<Rightarrow> bool" where
  "keeps_root g s t \<longleftrightarrow> (root_inv g s \<longrightarrow> root_inv g t)"

lemma less_succ_iff: "unat (w + 1) = unat w + 1 \<Longrightarrow> i < w + 1 \<longleftrightarrow> i < w \<or> i = w" for w i :: uint256
  by (auto simp: word_less_nat_alt word_unat_eq_iff)

lemma commitBatch_keeps_root:
  assumes c: "commitBatch e daId verifierId batchData daMeta newRoot mp s = Inr s'" and r: "root_inv g s"
  shows "root_inv g s'"
proof -
  obtain m d where n: "unat (nextBatchId s + 1) = unat (nextBatchId s) + 1" and z: "newRoot \<noteq> 0"
    and s': "s' = s\<lparr> latestStateRoot := if optimisticMode s then latestStateRoot s else newRoot,
       pendingStateRoot := if optimisticMode s then newRoot else pendingStateRoot s,
       pendingTimestamp := if optimisticMode s then blockTimestamp e else pendingTimestamp s,
       nextBatchId := nextBatchId s + 1, batchCommitment := (batchCommitment s)(nextBatchId s := d),
       batchNewRoot := (batchNewRoot s)(nextBatchId s := newRoot),
       events := events s @ [BatchSoftCommitted (nextBatchId s) newRoot (blockTimestamp e), BatchDataPointer (nextBatchId s) daMeta,
         BatchCommitted (nextBatchId s) m verifierId d (latestStateRoot s) newRoot] \<rparr>"
    using c by (rule commitBatch_cases) blast
  have l: "i < nextBatchId s + 1 \<longleftrightarrow> i < nextBatchId s \<or> i = nextBatchId s" for i by (rule less_succ_iff [OF n])
  have old: "committedRoot s' x" if "committedRoot s x" for x
  proof -
    obtain i where "0 < i" "i < nextBatchId s" "batchNewRoot s i = x" using \<open>committedRoot s x\<close> by (auto simp: committedRoot_def)
    hence "0 < i \<and> i < nextBatchId s' \<and> batchNewRoot s' i = x" by (auto simp: s' l)
    thus ?thesis unfolding committedRoot_def by blast
  qed
  have new: "committedRoot s' newRoot"
    unfolding committedRoot_def using r by (intro exI [of _ "nextBatchId s"]) (simp add: s' l root_inv_def)
  have b: "(batchNewRoot s' i \<noteq> 0) = (0 < i \<and> i < nextBatchId s')" for i
    using r z by (simp add: s' l root_inv_def)
  have "0 < nextBatchId s'" using r l [of 0] by (simp add: s' root_inv_def)
  moreover have "latestStateRoot s' \<in> {latestStateRoot s, newRoot}" "pendingStateRoot s' \<in> {pendingStateRoot s, newRoot}"
    by (simp_all add: s')
  hence "latestStateRoot s' = g \<or> committedRoot s' (latestStateRoot s')" "pendingStateRoot s' = 0 \<or> committedRoot s' (pendingStateRoot s')"
    using r old new unfolding root_inv_def by auto
  ultimately show ?thesis using b by (simp add: root_inv_def)
qed

definition rootView :: "bridge \<Rightarrow> uint256 \<times> (uint256 \<Rightarrow> bytes32) \<times> bytes32 \<times> bytes32" where
  "rootView s = (nextBatchId s, batchNewRoot s, latestStateRoot s, pendingStateRoot s)"

lemma root_inv_view: "rootView t = rootView s \<Longrightarrow> root_inv g t = root_inv g s"
  by (simp add: rootView_def root_inv_def committedRoot_def)

lemma plain_rootView:
  "plain c \<Longrightarrow> exec e c s = Inr s' \<Longrightarrow> c \<noteq> FinalizeOptimisticRoot \<Longrightarrow> (\<forall>a b d m r p. c \<noteq> CommitBatch a b d m r p) \<Longrightarrow>
   rootView s' = rootView s"
  by (cases c) (auto simp: rootView_def plain_defs split: if_splits)

lemma finalize_keeps_root:
  assumes "finalizeOptimisticRoot e s = Inr s'" and "root_inv g s" shows "root_inv g s'"
proof -
  have "latestStateRoot s' = pendingStateRoot s" "pendingStateRoot s' = 0" "pendingStateRoot s \<noteq> 0"
    "nextBatchId s' = nextBatchId s" "batchNewRoot s' = batchNewRoot s"
    using assms(1) by (auto simp: finalizeOptimisticRoot_def emit_def bindR_Inr_iff split: if_splits)
  thus ?thesis using assms(2) by (simp add: root_inv_def committedRoot_def)
qed

lemma plain_keeps_root:
  assumes "plain c" and "exec e c s = Inr s'" shows "keeps_root g s s'"
proof -
  consider "c = FinalizeOptimisticRoot" | a b d m r p where "c = CommitBatch a b d m r p"
    | "c \<noteq> FinalizeOptimisticRoot" "\<forall>a b d m r p. c \<noteq> CommitBatch a b d m r p" by blast
  thus ?thesis
  proof cases
    case 1
    hence "finalizeOptimisticRoot e s = Inr s'" using assms(2) by (simp add: nonPayable_def split: if_splits)
    thus ?thesis unfolding keeps_root_def using finalize_keeps_root by blast
  next
    case 2
    hence "commitBatch e a b d m r p s = Inr s'" using assms(2) by (simp add: nonPayable_def split: if_splits)
    thus ?thesis unfolding keeps_root_def using commitBatch_keeps_root by blast
  next
    case 3
    hence "root_inv g s' = root_inv g s" using plain_rootView [OF assms] root_inv_view [of s' s g] by blast
    thus ?thesis by (simp add: keeps_root_def)
  qed
qed

interpretation roots: call_order "keeps_root g" for g
proof
  show "keeps_root g s t \<Longrightarrow> keeps_root g t u \<Longrightarrow> keeps_root g s u" for s t u by (simp add: keeps_root_def)
  show "keeps_root g s (withdrawEnd recipient amount i t)" if "keeps_root g (withdrawStart amount i s) t" for s i amount recipient t
  proof -
    have "rootView (withdrawStart amount i s) = rootView s" "rootView (withdrawEnd recipient amount i t) = rootView t"
      by (simp_all add: rootView_def withdrawStart_def withdrawEnd_def emit_def)
    thus ?thesis using that root_inv_view unfolding keeps_root_def by metis
  qed
  show "keeps_root g s (emit [DepositERC20Event token from recipient amount] s)" for s token "from" recipient amount
    using root_inv_view [of "emit [DepositERC20Event token from recipient amount] s" s] by (simp add: keeps_root_def rootView_def emit_def)
qed (simp_all add: plain_keeps_root, simp add: keeps_root_def)

section \<open>The forced queue\<close>

text \<open>No function advances the head of the queue, removes an entry or changes the delay.\<close>

definition queues :: "bridge \<Rightarrow> bridge \<Rightarrow> bool" where
  "queues s t \<longleftrightarrow> forcedHead t = forcedHead s \<and> forcedInclusionDelay t = forcedInclusionDelay s \<and>
     prefix (forcedTxQueue s) (forcedTxQueue t)"

lemma plain_queues: "plain c \<Longrightarrow> exec e c s = Inr s' \<Longrightarrow> queues s s'"
  by (cases c) (auto simp: queues_def plain_defs elim!: commitBatch_cases split: if_splits)

interpretation queue: call_order queues
proof
  show "queues s u" if "queues s t" "queues t u" for s t u
    using that by (auto simp: queues_def intro: prefix_order.trans)
  show "queues s (withdrawEnd recipient amount i t)" if "queues (withdrawStart amount i s) t" for s i amount recipient t
    using that by (simp add: queues_def withdrawStart_def withdrawEnd_def emit_def)
qed (auto simp: plain_queues, simp_all add: queues_def emit_def)

text \<open>A deadline only changes when its transaction is enqueued again.\<close>

definition deadlines :: "bridge \<Rightarrow> bridge \<Rightarrow> bool" where
  "deadlines s t \<longleftrightarrow> (\<exists>hs. forcedTxQueue t = forcedTxQueue s @ hs \<and>
     (\<forall>h. h \<notin> set hs \<longrightarrow> forcedTxTimestamps t h = forcedTxTimestamps s h))"

lemma plain_deadlines: "plain c \<Longrightarrow> exec e c s = Inr s' \<Longrightarrow> deadlines s s'"
  by (cases c) (auto simp: deadlines_def plain_defs elim!: commitBatch_cases split: if_splits)

interpretation deadline: call_order deadlines
proof
  show "deadlines s u" if st: "deadlines s t" and tu: "deadlines t u" for s t u
  proof -
    obtain hs where hs: "forcedTxQueue t = forcedTxQueue s @ hs" "\<forall>h. h \<notin> set hs \<longrightarrow> forcedTxTimestamps t h = forcedTxTimestamps s h"
      using st unfolding deadlines_def by blast
    obtain is' where is': "forcedTxQueue u = forcedTxQueue t @ is'" "\<forall>h. h \<notin> set is' \<longrightarrow> forcedTxTimestamps u h = forcedTxTimestamps t h"
      using tu unfolding deadlines_def by blast
    show ?thesis unfolding deadlines_def by (intro exI [of _ "hs @ is'"]) (simp add: hs is')
  qed
  show "deadlines s (withdrawEnd recipient amount i t)" if "deadlines (withdrawStart amount i s) t" for s i amount recipient t
    using that by (simp add: deadlines_def withdrawStart_def withdrawEnd_def emit_def)
qed (simp_all add: plain_deadlines, simp_all add: deadlines_def emit_def)

section \<open>Properties\<close>

lemma newBridge_entered: "entered (execAll cs (newBridge v g d)) = False"
  using guarded_run(2) [of "newBridge v g d" cs] by (simp add: guarded_def newBridge_def)

text \<open>C3: conservation of ether.  After any sequence of calls on a new bridge, reverted and reentrant ones
  included, the contract holds exactly what was deposited minus what was withdrawn; in particular the
  withdrawals never exceed the deposits.\<close>

theorem bridge_conserves_ether:
  "balance (execAll cs (newBridge verifier genesisRoot delay)) + paidOut (execAll cs (newBridge verifier genesisRoot delay)) =
   paidIn (execAll cs (newBridge verifier genesisRoot delay))"
  using ether.run_keeps [of "newBridge verifier genesisRoot delay" cs]
  by (simp add: conserves_def paidOut_def paidIn_def newBridge_def)

text \<open>C2: no double withdrawal.  After any sequence of calls on a new bridge, even with recipients that call
  back, the completed withdrawals have pairwise different identifiers, and a further withdrawal with one of
  them is refused whatever its proof, recipient and amount.\<close>

theorem bridge_withdraws_once:
  "distinct (map snd (withdrawals (events (execAll cs (newBridge verifier genesisRoot delay))))) \<and>
   list_all (\<lambda>(a, i). withdraw e proof recipient amount i ok callee (execAll cs (newBridge verifier genesisRoot delay)) = Inl AlreadyWithdrawn)
     (withdrawals (events (execAll cs (newBridge verifier genesisRoot delay))))"
proof -
  have "spent_inv (newBridge verifier genesisRoot delay)" by (simp add: spent_inv_def newBridge_def)
  hence "spent_inv (execAll cs (newBridge verifier genesisRoot delay))"
    using spending.run_keeps [of "newBridge verifier genesisRoot delay" cs] by (simp add: spends_def)
  thus ?thesis by (auto simp: spent_inv_def list_all_iff withdraw_def newBridge_entered)
qed

text \<open>C7: provenance of the state root and append-only history.  After any sequence of calls the state root is
  the genesis root or the root of a recorded batch, batch identifiers are consecutive with nonzero roots,
  and further calls neither change a recorded batch nor remove an event.\<close>

theorem bridge_history:
  "root_inv genesisRoot (execAll cs (newBridge verifier genesisRoot delay)) \<and>
   appends (execAll cs (newBridge verifier genesisRoot delay)) (execAll ds (execAll cs (newBridge verifier genesisRoot delay)))"
proof -
  have "root_inv genesisRoot (newBridge verifier genesisRoot delay)" by (auto simp: root_inv_def newBridge_def)
  thus ?thesis
    using roots.run_keeps [of genesisRoot "newBridge verifier genesisRoot delay" cs] batches.run_keeps
    by (simp add: keeps_root_def)
qed

text \<open>C4: a successful \<open>commitBatch\<close> was sent by the sequencer (or anyone, when none is set) to a bridge that
  is neither frozen nor censoring, used an enabled data availability provider whose checks passed and a
  registered verifier, and either the verifier accepted the decoded proof for the old root, the new root
  and the two halves of the commitment, and the state root is the new root, or the bridge is optimistic,
  no proof was checked, the state root is unchanged and the new root is pending since this block.\<close>

theorem commitBatch_correct:
  "case commitBatch e daId verifierId batchData daMeta newRoot proof s of Inl _ \<Rightarrow> True | Inr s' \<Rightarrow>
     \<not> frozen s \<and> sequencer s \<in> {0, sender e} \<and> \<not> censored e s \<and> daEnabled s daId \<and> newRoot \<noteq> 0 \<and>
     (case computeCommitmentOf e (daProviders s daId) batchData daMeta of Inl _ \<Rightarrow> False | Inr c \<Rightarrow>
        validateDAOf e (daProviders s daId) c daMeta = Inr () \<and>
        batchCommitment s' (nextBatchId s) = c \<and> batchNewRoot s' (nextBatchId s) = newRoot \<and>
        (case decodeProof verifierId proof (publicInputs (latestStateRoot s) newRoot c) of Inl _ \<Rightarrow> False | Inr args \<Rightarrow>
           if optimisticMode s
           then latestStateRoot s' = latestStateRoot s \<and> pendingStateRoot s' = newRoot \<and> pendingTimestamp s' = blockTimestamp e
           else verifyProofOf e (verifiers s verifierId) args = Inr True \<and> latestStateRoot s' = newRoot \<and>
             pendingStateRoot s' = pendingStateRoot s)) \<and>
     nextBatchId s' = nextBatchId s + 1 \<and> nullifiers s' = nullifiers s \<and> balance s' = balance s \<and>
     forcedTxQueue s' = forcedTxQueue s \<and> frozen s' = frozen s"
proof (cases "commitBatch e daId verifierId batchData daMeta newRoot proof s")
  case (Inr s')
  show ?thesis by (rule commitBatch_cases [OF Inr]) (auto simp: Inr)
qed simp

end
