(* ===== verification/BridgeLiveness.thy ===== *)
theory BridgeLiveness
  imports BridgeSafety
begin

text \<open>
  What the rollup bridge guarantees and fails to guarantee about progress: forced transactions and
  freezing, optimistic finalisation; and the encodings of proofs and public inputs.
\<close>

section \<open>An example environment\<close>

definition envAt :: "address \<Rightarrow> uint256 \<Rightarrow> uint256 \<Rightarrow> callEnv" where
  "envAt from n ts = \<lparr> sender = from, msgValue = 0, blockNumber = n, blockTimestamp = ts, bridgeOwner = 1,
     computeCommitmentOf = (\<lambda>a b m. Inr 7), validateDAOf = (\<lambda>a c m. Inr ()), modeOf = (\<lambda>a. Inr 0),
     verifyProofOf = (\<lambda>a p. Inr True), merkleVerify = (\<lambda>p r l. True), keccak = (\<lambda>b. 0) \<rparr>"

text \<open>A bridge with a data availability provider and a second verifier.\<close>

definition readyBridge :: bridge where
  "readyBridge = execAll [(envAt 1 1 1, SetDAProvider 0 5 True), (envAt 1 1 1, SetVerifier 1 6)] (newBridge 4 9 50)"

lemmas run_simps =
  nonPayable_def setDAProvider_def setVerifier_def onlyOwner_def forceTransaction_def freeze_def censored_def commitBatch_def
  requireSequencer_def decodeProof_def finalizeBatch_def recordBatch_def setOptimisticMode_def finalizeOptimisticRoot_def
  emit_def envAt_def newBridge_def checkedAdd_def Let_def

section \<open>Forced transactions\<close>

text \<open>C27: a forced transaction can never be cleared.  Once the deadline of the oldest forced transaction has
  passed, every \<open>commitBatch\<close> reverts and \<open>freeze\<close> succeeds, after every sequence of calls that does not
  enqueue the same transaction again: no function advances \<open>forcedHead\<close>, so including the transaction,
  or unfreezing as the owner, does not help.\<close>

theorem forced_transaction_blocks:
  assumes "unat (forcedHead s) < length (forcedTxQueue s)"
    and "forcedTxTimestamps s (forcedTxQueue s ! unat (forcedHead s)) < blockNumber e"
    and "forcedTxQueue s ! unat (forcedHead s) \<notin> set (drop (length (forcedTxQueue s)) (forcedTxQueue (execAll cs s)))"
  shows "\<not> isOk (commitBatch e daId verifierId batchData daMeta newRoot proof (execAll cs s)) \<and> isOk (freeze e (execAll cs s))"
proof -
  let ?t = "execAll cs s" and ?h = "forcedTxQueue s ! unat (forcedHead s)"
  obtain hs where hs: "forcedTxQueue ?t = forcedTxQueue s @ hs" "\<forall>h. h \<notin> set hs \<longrightarrow> forcedTxTimestamps ?t h = forcedTxTimestamps s h"
    using deadline.run_keeps [of s cs] unfolding deadlines_def by blast
  have "forcedHead ?t = forcedHead s" using queue.run_keeps [of s cs] by (simp add: queues_def)
  hence "censored e ?t" using assms hs by (simp add: censored_def nth_append)
  thus ?thesis by (auto simp: freeze_def commitBatch_def isOk_def bindR_def split: sum.splits)
qed

theorem forced_transaction_blocks_witness:
  "nextBatchId (execAll [(envAt 3 11 11, CommitBatch 0 1 [] [] 8 [])] (execAll [(envAt 2 10 10, ForceTransaction 77)] readyBridge)) = 2 \<and>
   \<not> isOk (commitBatch (envAt 3 61 61) 0 1 [] [] 9 []
      (execAll [(envAt 3 11 11, CommitBatch 0 1 [] [] 8 [])] (execAll [(envAt 2 10 10, ForceTransaction 77)] readyBridge)))"
proof -
  let ?s = "execAll [(envAt 2 10 10, ForceTransaction 77)] readyBridge"
  let ?cs = "[(envAt 3 11 11, CommitBatch 0 1 [] [] 8 [])]"
  have s: "forcedTxQueue ?s = [77]" "forcedHead ?s = 0" "forcedTxTimestamps ?s 77 = 60"
    "forcedTxQueue (execAll ?cs ?s) = [77]" "nextBatchId (execAll ?cs ?s) = 2"
    by (simp_all add: readyBridge_def run_simps)
  show ?thesis using forced_transaction_blocks [of ?s "envAt 3 61 61" ?cs 0 1 "[]" "[]" 9 "[]"] s
    by (simp add: envAt_def)
qed

text \<open>C28: a deadline can be postponed by anyone.  Forcing the hash of the oldest forced transaction once more,
  which needs no permission, moves its deadline to the current block plus the delay; until then \<open>freeze\<close>
  reverts, so the transaction can be censored forever by repeating this.\<close>

theorem forced_transaction_postponed:
  assumes "unat (forcedHead s) < length (forcedTxQueue s)"
    and "forceTransaction e (forcedTxQueue s ! unat (forcedHead s)) s = Inr t"
    and "blockNumber e' \<le> blockNumber e + forcedInclusionDelay s"
  shows "freeze e' t = Inl (Require ''No censorship detected'') \<and> forcedHead t = forcedHead s"
  using assms by (auto simp: forceTransaction_def freeze_def censored_def emit_def bindR_Inr_iff checkedAdd_Inr nth_append
      split: if_splits)

theorem forced_transaction_postponed_witness:
  "\<exists>t. forceTransaction (envAt 3 60 60) 77 (execAll [(envAt 2 10 10, ForceTransaction 77)] readyBridge) = Inr t \<and>
     freeze (envAt 4 110 110) t = Inl (Require ''No censorship detected'')"
proof -
  let ?s = "execAll [(envAt 2 10 10, ForceTransaction 77)] readyBridge"
  have s: "forcedTxQueue ?s = [77]" "forcedHead ?s = 0" "forcedInclusionDelay ?s = 50" by (simp_all add: readyBridge_def run_simps)
  obtain t where t: "forceTransaction (envAt 3 60 60) 77 ?s = Inr t" by (simp add: readyBridge_def run_simps)
  show ?thesis using forced_transaction_postponed [of ?s "envAt 3 60 60" t "envAt 4 110 110"] s t by (simp add: envAt_def)
qed

section \<open>Optimistic finalisation\<close>

text \<open>C29: after an optimistic commit the new root, and no earlier pending one, becomes the state root: exactly
  once the challenge period counted from this commit has elapsed can anyone finalise it, no fraud proof
  is ever accepted, and the commit is recorded on top of the finalised root even when another root was
  still pending.\<close>

theorem optimistic_commit_finalises:
  assumes "optimisticMode s" and "commitBatch e daId verifierId batchData daMeta newRoot proof s = Inr s1"
    and "unat (blockTimestamp e) + unat (challengePeriod s) < 2 ^ 256"
  shows "isOk (finalizeOptimisticRoot e' s1) = (blockTimestamp e + challengePeriod s \<le> blockTimestamp e') \<and>
    (case finalizeOptimisticRoot e' s1 of Inl _ \<Rightarrow> True | Inr t \<Rightarrow> latestStateRoot t = newRoot \<and> pendingStateRoot t = 0) \<and>
    \<not> isOk (verifyFraudProof fraudProof s1) \<and>
    (\<exists>m c. last (events s1) = BatchCommitted (nextBatchId s) m verifierId c (latestStateRoot s) newRoot)"
proof -
  have f: "optimisticMode s1" "pendingStateRoot s1 = newRoot" "newRoot \<noteq> 0" "pendingTimestamp s1 = blockTimestamp e"
    "challengePeriod s1 = challengePeriod s"
    "\<exists>m c. last (events s1) = BatchCommitted (nextBatchId s) m verifierId c (latestStateRoot s) newRoot"
    by (rule commitBatch_cases [OF assms(2)], simp add: assms(1))+
  have "checkedAdd (blockTimestamp e) (challengePeriod s) = Inr (blockTimestamp e + challengePeriod s)"
    using assms(3) by (simp add: checkedAdd_def)
  thus ?thesis using f by (auto simp: finalizeOptimisticRoot_def verifyFraudProof_def emit_def)
qed

theorem optimistic_commit_finalises_witness:
  "\<exists>s s1 t. s = execAll [(envAt 1 1 1, SetOptimisticMode True), (envAt 2 3 100, CommitBatch 0 1 [] [] 21 [])] readyBridge \<and>
     pendingStateRoot s = 21 \<and> commitBatch (envAt 2 4 200) 0 1 [] [] 22 [] s = Inr s1 \<and>
     finalizeOptimisticRoot (envAt 3 5 605000) s1 = Inr t \<and> latestStateRoot t = 22"
proof -
  define s where "s = execAll [(envAt 1 1 1, SetOptimisticMode True), (envAt 2 3 100, CommitBatch 0 1 [] [] 21 [])] readyBridge"
  have s: "optimisticMode s" "pendingStateRoot s = 21" "challengePeriod s = 604800"
    by (simp_all add: s_def readyBridge_def run_simps SEVEN_DAYS_def)
  obtain s1 where s1: "commitBatch (envAt 2 4 200) 0 1 [] [] 22 [] s = Inr s1" by (simp add: s_def readyBridge_def run_simps)
  have e: "blockTimestamp (envAt 2 4 200) = 200" "blockTimestamp (envAt 3 5 605000) = 605000" by (simp_all add: envAt_def)
  have "isOk (finalizeOptimisticRoot (envAt 3 5 605000) s1) \<and>
      (case finalizeOptimisticRoot (envAt 3 5 605000) s1 of Inl _ \<Rightarrow> True | Inr t \<Rightarrow> latestStateRoot t = 22)"
    using optimistic_commit_finalises [OF s(1) s1, of "envAt 3 5 605000" "[]"] by (auto simp: s e split: sum.splits)
  then obtain t where "finalizeOptimisticRoot (envAt 3 5 605000) s1 = Inr t" "latestStateRoot t = 22"
    by (cases "finalizeOptimisticRoot (envAt 3 5 605000) s1") auto
  thus ?thesis using s s1 s_def by blast
qed

section \<open>Encodings\<close>

text \<open>The flat proof: A, the coefficients of B with the real part first, C.\<close>

definition encodeProof :: "proofArgs \<Rightarrow> bytes" where
  "encodeProof args = concat (map bytesOfWord
     [fst (argA args), snd (argA args), snd (fst (argB args)), fst (fst (argB args)), snd (snd (argB args)), fst (snd (argB args)),
      fst (argC args), snd (argC args)])"

lemma slice_word: "length p = 256 \<Longrightarrow> i + 32 \<le> 256 \<Longrightarrow> bytesOfWord (wordOfBytes (calldataSlice p i (i + 32))) = calldataSlice p i (i + 32)"
  by (simp add: bytesOfWord_wordOfBytes length_slice)

text \<open>Decoding a Groth16 proof loses nothing and reads every byte once: exactly the byte strings of length
  256 decode, and writing the decoded points back in the flat layout, with the coefficients of the G2 point
  swapped back, gives the same bytes; any other verifier is called with zero points.\<close>

theorem decodeProof_roundtrip:
  "(case decodeProof 0 p inputs of Inl r \<Rightarrow> length p \<noteq> 256 \<and> r = Require ''Invalid proof length''
     | Inr args \<Rightarrow> length p = 256 \<and> encodeProof args = p \<and> argInputs args = inputs) \<and>
   (if verifierId = 0 then True else decodeProof verifierId p inputs =
      Inr \<lparr> argA = (0, 0), argB = ((0, 0), (0, 0)), argC = (0, 0), argInputs = inputs \<rparr>)"
proof -
  have "encodeProof args = p" if "length p = 256" "decodeProof 0 p inputs = Inr args" for args
  proof -
    have w: "bytesOfWord (wordOfBytes (calldataSlice p (32 * k) (32 * k + 32))) = calldataSlice p (32 * k) (32 * k + 32)"
      if "k < 8" for k using slice_word [OF \<open>length p = 256\<close>, of "32 * k"] that by simp
    have "encodeProof args = calldataSlice p 0 32 @ calldataSlice p 32 64 @ calldataSlice p 64 96 @ calldataSlice p 96 128 @
        calldataSlice p 128 160 @ calldataSlice p 160 192 @ calldataSlice p 192 224 @ calldataSlice p 224 256"
      using that w [of 0] w [of 1] w [of 2] w [of 3] w [of 4] w [of 5] w [of 6] w [of 7]
      by (auto simp: decodeProof_def encodeProof_def)
    also have "\<dots> = calldataSlice p 0 256" by (simp add: slice_append)
    finally show ?thesis using slice_all [of p] that by simp
  qed
  thus ?thesis by (auto simp: decodeProof_def split: sum.splits)
qed

text \<open>The two halves of the commitment fit in 128 bits, below the scalar field, and together with the roots
  determine the public statement: different batches never share the public inputs.\<close>

theorem publicInputs_correct:
  "publicInputs r n c ! 2 < 2 ^ 128 \<and> publicInputs r n c ! 3 < 2 ^ 128 \<and>
   or (push_bit 128 (publicInputs r n c ! 3)) (publicInputs r n c ! 2) = c \<and>
   (publicInputs r n c = publicInputs r' n' c') = (r = r' \<and> n = n' \<and> c = c')"
proof -
  have split: "or (push_bit 128 (drop_bit 128 d)) (and d (mask 128)) = d" for d :: uint256
    by (rule bit_word_eqI) (auto simp: bit_simps)
  have "and c (mask 128) < 2 ^ 128" by (rule and_mask_less_size) (simp add: word_size)
  moreover have "drop_bit 128 c < 2 ^ 128"
  proof -
    have u: "unat c < 2 ^ 256" using unsigned_less [of c] by simp
    hence "take_bit 256 (unat c) = unat c" by (simp only: take_bit_nat_eq_self)
    hence "unat (drop_bit 128 c) = drop_bit 128 (unat c)" by (simp add: unsigned_drop_bit_eq)
    hence "unat (drop_bit 128 c) = unat c div 2 ^ 128" by (simp only: drop_bit_eq_div)
    with u show ?thesis by (simp add: word_less_nat_alt)
  qed
  ultimately show ?thesis using split by (auto simp: publicInputs_def) (metis split)
qed

end
