(* ===== verification/BridgeProviders.thy ===== *)
theory BridgeProviders
  imports BridgeLiveness
begin

text \<open>
  The contracts the rollup bridge calls: the data availability providers (\<open>contracts/da\<close>, \<open>contracts/test\<close>),
  the verifiers (\<open>contracts/verifiers\<close>) with the pairing library, and the baseline token.  Keccak, the blob
  hashes of the transaction and the curve precompiles are parameters.
\<close>

section \<open>Data availability\<close>

definition CalldataDA_computeCommitment :: "(bytes \<Rightarrow> bytes32) \<Rightarrow> bytes \<Rightarrow> bytes \<Rightarrow> reverted + bytes32" where
  "CalldataDA_computeCommitment keccak256 batchData daMeta = Inr (keccak256 batchData)"

definition CalldataDA_validateDA :: "bytes32 \<Rightarrow> bytes \<Rightarrow> reverted + unit" where
  "CalldataDA_validateDA commitment daMeta = Inr ()"

text \<open>\<open>abi.decode(daMeta, (bytes32, uint8))\<close> reverts on short data and on an index that is no \<open>uint8\<close>.\<close>

definition decodeBlobMeta :: "bytes \<Rightarrow> reverted + (bytes32 \<times> uint8)" where
  "decodeBlobMeta daMeta =
     (if length daMeta < 64 then Inl (Require '''')
      else let i = wordOfBytes (calldataSlice daMeta 32 64) in
        if 256 \<le> i then Inl (Require '''') else Inr (wordOfBytes (calldataSlice daMeta 0 32), ucast i))"

definition BlobDA_computeCommitment :: "bytes \<Rightarrow> bytes \<Rightarrow> reverted + bytes32" where
  "BlobDA_computeCommitment batchData daMeta = bindR (decodeBlobMeta daMeta) (\<lambda>(expectedVersionedHash, i). Inr expectedVersionedHash)"

definition BlobDA_validateDA :: "(uint8 \<Rightarrow> bytes32) \<Rightarrow> bytes32 \<Rightarrow> bytes \<Rightarrow> reverted + unit" where
  "BlobDA_validateDA getBlobHash commitment daMeta =
     bindR (decodeBlobMeta daMeta) (\<lambda>(expectedVersionedHash, blobIndex).
     if expectedVersionedHash = 0 then Inl InvalidCommitment
     else if commitment \<noteq> expectedVersionedHash then Inl InvalidCommitment
     else let actual = getBlobHash blobIndex in
       if actual = 0 then Inl NoBlobAttached
       else if actual \<noteq> expectedVersionedHash then Inl BlobHashMismatch
       else Inr ())"

definition TestBlobDA_getBlobHash :: "(uint8 \<Rightarrow> bytes32) \<Rightarrow> (uint8 \<Rightarrow> bytes32) \<Rightarrow> uint8 \<Rightarrow> bytes32" where
  "TestBlobDA_getBlobHash mockBlobHashes blobhash i = (if mockBlobHashes i \<noteq> 0 then mockBlobHashes i else blobhash i)"

definition TestBlobDA_setMockBlobHash :: "uint8 \<Rightarrow> bytes32 \<Rightarrow> (uint8 \<Rightarrow> bytes32) \<Rightarrow> uint8 \<Rightarrow> bytes32" where
  "TestBlobDA_setMockBlobHash i h mockBlobHashes = mockBlobHashes(i := h)"

definition OffChainDA_computeCommitment :: "bytes \<Rightarrow> bytes \<Rightarrow> reverted + bytes32" where
  "OffChainDA_computeCommitment batchData daMeta =
     (if length daMeta \<noteq> 32 then Inl (Require ''Invalid DA Meta length for OffChain'')
      else Inr (wordOfBytes (calldataSlice daMeta 0 32)))"

definition OffChainDA_validateDA :: "bytes32 \<Rightarrow> bytes \<Rightarrow> reverted + unit" where
  "OffChainDA_validateDA commitment daMeta = Inr ()"

section \<open>Stub verifiers\<close>

definition Plonky2Verifier_verifyProof :: "proofArgs \<Rightarrow> reverted + bool" where
  "Plonky2Verifier_verifyProof args = Inr True"

definition Halo2Verifier_verifyProof :: "proofArgs \<Rightarrow> reverted + bool" where
  "Halo2Verifier_verifyProof args = Inr True"

record MockVerifier =
  shouldVerify :: bool
  checkInput :: bool
  expectedInput :: "uint256 list"

definition newMockVerifier :: MockVerifier where
  "newMockVerifier = \<lparr> shouldVerify = True, checkInput = False, expectedInput = [0, 0, 0, 0] \<rparr>"

definition setShouldVerify :: "bool \<Rightarrow> MockVerifier \<Rightarrow> MockVerifier" where
  "setShouldVerify b m = m\<lparr> shouldVerify := b \<rparr>"

definition setExpectedInput :: "uint256 list \<Rightarrow> MockVerifier \<Rightarrow> MockVerifier" where
  "setExpectedInput newInput m = m\<lparr> expectedInput := newInput, checkInput := True \<rparr>"

definition MockVerifier_verifyProof :: "MockVerifier \<Rightarrow> proofArgs \<Rightarrow> reverted + bool" where
  "MockVerifier_verifyProof m args =
     (if \<not> shouldVerify m then Inr False
      else if checkInput m \<and> \<not> list_all (\<lambda>i. argInputs args ! i = expectedInput m ! i) [0..<4] then Inr False
      else Inr True)"

section \<open>The pairing library\<close>

record G1Point =
  pX :: uint256
  pY :: uint256

record G2Point =
  pXs :: "uint256 \<times> uint256"
  pYs :: "uint256 \<times> uint256"

text \<open>The precompiled contracts 6, 7 and 8; \<open>None\<close> when the call fails.\<close>

record precompiles =
  ecAdd :: "uint256 list \<Rightarrow> G1Point option"
  ecMul :: "uint256 list \<Rightarrow> G1Point option"
  ecPairing :: "uint256 list \<Rightarrow> uint256 option"

definition SNARK_SCALAR_FIELD :: uint256 where
  "SNARK_SCALAR_FIELD = 21888242871839275222246405745257275088548364400416034343698204186575808495617"

definition PRIME_Q :: uint256 where
  "PRIME_Q = 21888242871839275222246405745257275088696311157297823662689037894645226208583"

definition negate :: "G1Point \<Rightarrow> G1Point" where
  "negate p = (if pX p = 0 \<and> pY p = 0 then \<lparr> pX = 0, pY = 0 \<rparr>
     else \<lparr> pX = pX p, pY = PRIME_Q - (pY p mod PRIME_Q) \<rparr>)"

definition plusG1 :: "precompiles \<Rightarrow> G1Point \<Rightarrow> G1Point \<Rightarrow> reverted + G1Point" where
  "plusG1 P p1 p2 = (case ecAdd P [pX p1, pY p1, pX p2, pY p2] of None \<Rightarrow> Inl PairingAddFailed | Some r \<Rightarrow> Inr r)"

definition scalarMul :: "precompiles \<Rightarrow> G1Point \<Rightarrow> uint256 \<Rightarrow> reverted + G1Point" where
  "scalarMul P p s = (case ecMul P [pX p, pY p, s] of None \<Rightarrow> Inl PairingMulFailed | Some r \<Rightarrow> Inr r)"

definition pairingInput :: "G1Point \<times> G2Point \<Rightarrow> uint256 list" where
  "pairingInput pq = (case pq of (p, q) \<Rightarrow> [pX p, pY p, fst (pXs q), snd (pXs q), fst (pYs q), snd (pYs q)])"

definition pairing :: "precompiles \<Rightarrow> (G1Point \<times> G2Point) list \<Rightarrow> reverted + bool" where
  "pairing P ps = (case ecPairing P (concat (map pairingInput ps)) of None \<Rightarrow> Inl PairingOpcodeFailed | Some r \<Rightarrow> Inr (r \<noteq> 0))"

section \<open>Groth16\<close>

record VerifyingKey =
  alfa1 :: G1Point
  beta2 :: G2Point
  gamma2 :: G2Point
  delta2 :: G2Point
  vkIC :: "G1Point list"

definition Groth16Verifier_verifyingKey :: VerifyingKey where
  "Groth16Verifier_verifyingKey = \<lparr>
     alfa1 = \<lparr> pX = 21822242540597157074012091638679474706577954402424279205403488398070144889097, pY = 11657470843581999353966660394575927570776613563673046916912564610407327428862 \<rparr>,
     beta2 = \<lparr> pXs = (21180897882515069725885483020567201309893203678491720762859409709185870490068, 6161271991872527173248472514204045545864472835243725087823001342190361902077), pYs = (18952505539734862326214587730042924528149422638218478665084611027691778560242, 4810988015609571482636222816020687626416722043859366308645988985624083634561) \<rparr>,
     gamma2 = \<lparr> pXs = (17777282119217853865067107735566039892478651452608010128675812763554289211969, 5020934497712336544522874957938089460149347554708288586947657002612186811691), pYs = (20151585840224233659409238740223690311450403600777670959508317056108205014863, 1350273452902826485012320557818788075206201436540820802206277682174694826423) \<rparr>,
     delta2 = \<lparr> pXs = (17057747211200797935640364186269398226117892394617811125319764057653677103855, 3997846458537744497227948862370967106332058850562382389932795560333747416548), pYs = (16324491015466543966881665045657923853373833409710818107344196733526710690734, 17314432875989702143791325718565779421295768075639140206142564600950427846134) \<rparr>,
     vkIC = [\<lparr> pX = 4061739729062729555241851009038059662275235444092958130654581472384697125907, pY = 12029951762153533807609673943046963226306499592951992082114840619778377684717 \<rparr>,
       \<lparr> pX = 471748696848346367690728219394419807330342235501937646861213327491933317101, pY = 6841400413466067383278971854372498523741953841316138260195907191368662899780 \<rparr>,
       \<lparr> pX = 18611617755817725192467262144159138580231708084474797623520557264676335396890, pY = 8979389552931687038736108923532726870335338305104916012579667445609777244879 \<rparr>,
       \<lparr> pX = 12579291583667349001977581338701385687602284275642654823322494276978089297227, pY = 13499846075284945950326453524488544582043172554366327231731354387469716735501 \<rparr>,
       \<lparr> pX = 16948595712768179289092235324398971592102672628665357883163838383944335672470, pY = 13213991630749406192127484312614659818746092847273214645959450821853331025445 \<rparr>] \<rparr>"

definition RealVerifier_verifyingKey :: VerifyingKey where
  "RealVerifier_verifyingKey = \<lparr>
     alfa1 = \<lparr> pX = 19653235966401989816864491462017406529110581938577150188451447329893704720169, pY = 13008246822243593656322132252213975159948508750611636271140860124000885034827 \<rparr>,
     beta2 = \<lparr> pXs = (20181714086087284274513575734039800408935005334821172580620385175659085744300, 12285379448060744572373693768390304801984785200522784264202516825521967984381), pYs = (1668480078190439365952843839040836164174790853850075719227640754772596906191, 16693671663319739108928937924167460066340609924825209768462698565792846404425) \<rparr>,
     gamma2 = \<lparr> pXs = (17825177573485518853308894222597964956018685441930207792795785903784065395669, 8713759399720148109183275351514947181762536586683198754910959833101348605530), pYs = (15470325608483369235472735414774789341718578729569018286442683077157074577230, 343785599740725139408264406200576217714907969867538921002487699313564244503) \<rparr>,
     delta2 = \<lparr> pXs = (7906741351610419496877342830300726794549578660974514638272084357471221678493, 15547621645864541430301184085476560719320674882102324347796527923028471867361), pYs = (12362777137443568022239269545409139871206368215358113535815590610869089173401, 20904409981812296971977380133092784554492925954269502023146628769080534610261) \<rparr>,
     vkIC = [\<lparr> pX = 11249507495662698899265669139159192696888520903869720289070074571944422974516, pY = 10988251287812921925444947250581460247129331140350133376378788000132061254618 \<rparr>,
       \<lparr> pX = 21507747301119000992088367649076775671715617536056950066395861228395011383956, pY = 1817225819321218031444741247811581335750147776828051976088229212335827611763 \<rparr>,
       \<lparr> pX = 3926443225669847873907836154002539958909080131413062058419064458021711405708, pY = 12905095909219643478880896955376224154734007930258953581511411030592409845053 \<rparr>,
       \<lparr> pX = 12620638117016892520539620385565016812271521551772961093427847665943823297948, pY = 6052764783237730725967690762521203646058143214119557453401298935195998609694 \<rparr>,
       \<lparr> pX = 20008626605309389978832451055999411738137247564665401674832280561790159506027, pY = 7482188558501874318192664007444957281113776432548764000626549514150225082564 \<rparr>] \<rparr>"

text \<open>The loop over the public inputs.\<close>

fun accumulate :: "precompiles \<Rightarrow> G1Point list \<Rightarrow> uint256 list \<Rightarrow> G1Point \<Rightarrow> reverted + G1Point" where
  "accumulate P (ic # ics) (x # xs) vk_x =
     (if SNARK_SCALAR_FIELD \<le> x then Inl VerifierGteSnarkScalarField
      else bindR (scalarMul P ic x) (\<lambda>m. bindR (plusG1 P vk_x m) (\<lambda>r. accumulate P ics xs r)))"
| "accumulate P _ _ vk_x = Inr vk_x"

definition Groth16_verifyProof :: "precompiles \<Rightarrow> VerifyingKey \<Rightarrow> proofArgs \<Rightarrow> reverted + bool" where
  "Groth16_verifyProof P vk args =
     bindR (plusG1 P \<lparr> pX = 0, pY = 0 \<rparr> (hd (vkIC vk))) (\<lambda>vk_0.
     bindR (accumulate P (tl (vkIC vk)) (argInputs args) vk_0) (\<lambda>vk_x.
       pairing P [
         (negate \<lparr> pX = fst (argA args), pY = snd (argA args) \<rparr>, \<lparr> pXs = fst (argB args), pYs = snd (argB args) \<rparr>),
         (alfa1 vk, beta2 vk), (vk_x, gamma2 vk),
         (\<lparr> pX = fst (argC args), pY = snd (argC args) \<rparr>, delta2 vk)]))"

section \<open>Baseline token\<close>

definition mintToken :: "address \<Rightarrow> uint256 \<Rightarrow> (address \<Rightarrow> uint256) \<Rightarrow> reverted + (address \<Rightarrow> uint256)" where
  "mintToken from amount balances = bindR (checkedAdd (balances from) amount) (\<lambda>b. Inr (balances(from := b)))"

definition transferToken :: "address \<Rightarrow> address \<Rightarrow> uint256 \<Rightarrow> (address \<Rightarrow> uint256) \<Rightarrow> reverted + (address \<Rightarrow> uint256)" where
  "transferToken from recipient amount balances =
     (if balances from < amount then Inl (Require ''Insufficient balance'')
      else bindR (checkedSub (balances from) amount) (\<lambda>b.
        let balances1 = balances(from := b) in
        bindR (checkedAdd (balances1 recipient) amount) (\<lambda>c. Inr (balances1(recipient := c)))))"

section \<open>Properties\<close>

lemma slice_first: "length xs = n \<Longrightarrow> calldataSlice (xs @ ys) 0 n = xs"
  by (simp add: calldataSlice_def)

lemma slice_second: "length xs = n \<Longrightarrow> length ys = m \<Longrightarrow> calldataSlice (xs @ ys) n (n + m) = ys"
  by (simp add: calldataSlice_def)

lemma length_bytesOfWord: "length (bytesOfWord (w :: uint256)) = 32"
  by (simp add: bytesOfWord_def)

lemma ucast_uint8: "(ucast j :: uint256) < 256 \<and> (ucast (ucast j :: uint256) :: uint8) = j" for j :: uint8
proof -
  have j: "unat j < 2 ^ 8" using unsigned_less [of j] by simp
  hence "take_bit 256 (unat j) = unat j" by (intro take_bit_nat_eq_self) simp
  hence "unat (ucast j :: uint256) = unat j" by (simp add: unsigned_ucast_eq)
  hence "(ucast j :: uint256) < 256" using j by (simp add: word_less_nat_alt)
  moreover have "(ucast (ucast j :: uint256) :: uint8) = j" by (rule bit_word_eqI) (simp add: bit_ucast_iff)
  ultimately show ?thesis by simp
qed

text \<open>The blob provider accepts a batch exactly when its metadata, the encoding of a versioned hash and an
  index, names the nonzero hash of the blob attached at that index, and the commitment is that hash; the
  encoding of a hash and an index decodes to the two.\<close>

theorem blobDA_correct:
  "(bindR (BlobDA_computeCommitment batchData daMeta) (\<lambda>c. bindR (BlobDA_validateDA getBlobHash c daMeta) (\<lambda>_. Inr c)) = Inr h) =
     (\<exists>i. decodeBlobMeta daMeta = Inr (h, i) \<and> h \<noteq> 0 \<and> getBlobHash i = h) \<and>
   decodeBlobMeta (bytesOfWord k @ bytesOfWord (ucast j :: uint256)) = Inr (k, j)"
proof -
  have "(ucast j :: uint256) < 256"
    using ucast_uint8 [of j] by simp
  moreover have "calldataSlice (bytesOfWord k @ bytesOfWord (ucast j :: uint256)) 0 32 = bytesOfWord k"
    "calldataSlice (bytesOfWord k @ bytesOfWord (ucast j :: uint256)) 32 64 = bytesOfWord (ucast j :: uint256)"
    using slice_first [OF length_bytesOfWord] slice_second [OF length_bytesOfWord length_bytesOfWord] by simp_all
  ultimately have "decodeBlobMeta (bytesOfWord k @ bytesOfWord (ucast j :: uint256)) = Inr (k, j)"
    using ucast_uint8 [of j] by (simp add: decodeBlobMeta_def length_bytesOfWord wordOfBytes_bytesOfWord Let_def not_le)
  thus ?thesis
    by (cases "decodeBlobMeta daMeta") (auto simp: BlobDA_computeCommitment_def BlobDA_validateDA_def Let_def bindR_Inr_iff split: if_splits)
qed

lemma accumulate_bounded:
  "accumulate P ics xs v = Inr r \<Longrightarrow> list_all (\<lambda>x. x < SNARK_SCALAR_FIELD) (take (length ics) xs)"
  by (induction P ics xs v rule: accumulate.induct) (auto simp: bindR_Inr_iff split: if_splits)

lemma groth16_bounded:
  "Groth16_verifyProof P vk args = Inr b \<Longrightarrow> list_all (\<lambda>x. x < SNARK_SCALAR_FIELD) (take (length (tl (vkIC vk))) (argInputs args))"
  by (auto simp: Groth16_verifyProof_def bindR_Inr_iff dest: accumulate_bounded)

text \<open>C30: with the deployed Groth16 verifier, a batch is only ever committed from and to a state root below the
  scalar field: the roots are passed to the verifier unreduced, so a bridge whose genesis root is not
  below the field can never commit a proven batch.\<close>

theorem groth16_commit_bounds:
  assumes "verifyProofOf e (verifiers s 0) = Groth16_verifyProof P Groth16Verifier_verifyingKey" and "\<not> optimisticMode s"
    and "commitBatch e daId 0 batchData daMeta newRoot proof s = Inr s'"
  shows "latestStateRoot s < SNARK_SCALAR_FIELD \<and> newRoot < SNARK_SCALAR_FIELD \<and> latestStateRoot s' = newRoot"
proof -
  obtain c args where d: "decodeProof 0 proof (publicInputs (latestStateRoot s) newRoot c) = Inr args"
    and v: "Groth16_verifyProof P Groth16Verifier_verifyingKey args = Inr True" and r: "latestStateRoot s' = newRoot"
    by (rule commitBatch_cases [OF assms(3)]) (use assms(1,2) in auto)
  have "argInputs args = publicInputs (latestStateRoot s) newRoot c" using d by (auto simp: decodeProof_def split: if_splits)
  thus ?thesis using groth16_bounded [OF v] r by (simp add: Groth16Verifier_verifyingKey_def publicInputs_def)
qed

text \<open>Precompiles that accept everything.\<close>

definition trivialCurve :: precompiles where
  "trivialCurve = \<lparr> ecAdd = (\<lambda>xs. Some \<lparr> pX = 1, pY = 2 \<rparr>), ecMul = (\<lambda>xs. Some \<lparr> pX = 1, pY = 2 \<rparr>), ecPairing = (\<lambda>xs. Some 1) \<rparr>"

theorem groth16_commit_bounds_witness:
  "\<exists>s'. commitBatch ((envAt 3 5 5)\<lparr> verifyProofOf := (\<lambda>a. Groth16_verifyProof trivialCurve Groth16Verifier_verifyingKey) \<rparr>)
      0 0 [] [] 12 (replicate 256 0) readyBridge = Inr s' \<and> (12 :: uint256) < SNARK_SCALAR_FIELD"
proof -
  let ?e = "(envAt 3 5 5)\<lparr> verifyProofOf := (\<lambda>a. Groth16_verifyProof trivialCurve Groth16Verifier_verifyingKey) \<rparr>"
  have o: "\<not> optimisticMode readyBridge" by (simp add: readyBridge_def run_simps)
  have v: "verifyProofOf ?e (verifiers readyBridge 0) = Groth16_verifyProof trivialCurve Groth16Verifier_verifyingKey" by simp
  have b: "(7 :: uint256) < SNARK_SCALAR_FIELD" "(9 :: uint256) < SNARK_SCALAR_FIELD" "(12 :: uint256) < SNARK_SCALAR_FIELD"
    "(0 :: uint256) < SNARK_SCALAR_FIELD" by (simp_all add: SNARK_SCALAR_FIELD_def)
  have g: "Groth16_verifyProof trivialCurve Groth16Verifier_verifyingKey args = Inr True" if "argInputs args = [9, 12, 7, 0]" for args
    using b by (simp add: Groth16_verifyProof_def that Groth16Verifier_verifyingKey_def plusG1_def scalarMul_def pairing_def
        trivialCurve_def not_le)
  have i: "publicInputs 9 12 7 = [9, 12, 7, 0]" by (simp add: publicInputs_def mask_eq_exp_minus_1)
  obtain s' where "commitBatch ?e 0 0 [] [] 12 (replicate 256 0) readyBridge = Inr s'"
    using i by (simp add: readyBridge_def run_simps g)
  thus ?thesis using groth16_commit_bounds [OF v o] by blast
qed

text \<open>Negation of a curve point with reduced nonzero ordinate stays reduced, sums to the field prime with
  it and is its own inverse; the point at infinity is kept; with ordinate zero
  and another abscissa the result has the unreduced prime itself as its ordinate.\<close>

theorem negate_correct:
  assumes "unat (pY p) < unat PRIME_Q"
  shows "(if pY p = 0 then negate p = (if pX p = 0 then p else p\<lparr> pY := PRIME_Q \<rparr>)
    else unat (pY p) + unat (pY (negate p)) = unat PRIME_Q \<and> unat (pY (negate p)) < unat PRIME_Q \<and> negate (negate p) = p)"
proof (cases "pY p = 0")
  case True
  thus ?thesis by (simp add: negate_def)
next
  case False
  have lt: "pY p < PRIME_Q" using assms by (simp add: word_less_nat_alt)
  hence m: "pY p mod PRIME_Q = pY p" by (simp add: mod_word_less)
  have u: "unat (PRIME_Q - pY p) = unat PRIME_Q - unat (pY p)" using lt by (simp add: unat_sub less_imp_le)
  have pos: "0 < unat (pY p)" using False by (simp add: unat_gt_0)
  hence l: "unat (PRIME_Q - pY p) < unat PRIME_Q" using u assms by simp
  hence "PRIME_Q - pY p < PRIME_Q" by (simp add: word_less_nat_alt)
  hence m2: "(PRIME_Q - pY p) mod PRIME_Q = PRIME_Q - pY p" by (simp add: mod_word_less)
  have nz: "PRIME_Q - pY p \<noteq> 0" using u assms by (metis unat_0 diff_is_0_eq linorder_not_le)
  show ?thesis using False u l assms nz by (simp add: negate_def m m2)
qed

theorem negate_witness:
  "negate (negate \<lparr> pX = 1, pY = 2 \<rparr>) = \<lparr> pX = 1, pY = 2 \<rparr> \<and> unat (2 :: uint256) < unat PRIME_Q"
proof -
  have "unat (2 :: uint256) < unat PRIME_Q" by (simp add: PRIME_Q_def)
  thus ?thesis using negate_correct [of "\<lparr> pX = 1, pY = 2 \<rparr>"] by simp
qed

text \<open>The baseline token conserves the supply: a transfer succeeds exactly when the sender's balance covers
  the amount and the recipient's does not overflow, and then the total over every finite set of accounts
  with both parties is unchanged; a failed transfer has its reason.\<close>

theorem transferToken_conserves:
  assumes "finite A" and "from \<in> A" and "recipient \<in> A"
  shows "case transferToken from recipient amount balances of
      Inl r \<Rightarrow> (balances from < amount \<and> r = Require ''Insufficient balance'') \<or>
        (from \<noteq> recipient \<and> 2 ^ 256 \<le> unat (balances recipient) + unat amount \<and> r = Panic)
    | Inr balances' \<Rightarrow> amount \<le> balances from \<and> (\<Sum>a\<in>A. unat (balances' a)) = (\<Sum>a\<in>A. unat (balances a))"
proof (cases "balances from < amount")
  case False
  hence le: "amount \<le> balances from" by simp
  hence u: "unat (balances from - amount) + unat amount = unat (balances from)"
    by (simp add: unat_sub word_le_nat_alt)
  show ?thesis
  proof (cases "recipient = from")
    case True
    have "unat (balances from) < 2 ^ 256" using unsigned_less [of "balances from"] by simp
    thus ?thesis using True le u False by (simp add: transferToken_def checkedSub_def checkedAdd_def)
  next
    case False
    have split: "(\<Sum>a\<in>A. f a) = f from + (f recipient + (\<Sum>a\<in>A - {from} - {recipient}. f a))" for f :: "address \<Rightarrow> nat"
      using assms False by (subst sum.remove [of A "from"], simp, simp, subst sum.remove [of "A - {from}" recipient]) simp_all
    let ?b = "\<lambda>c. balances(from := balances from - amount, recipient := c)"
    have rest: "(\<Sum>a\<in>A - {from} - {recipient}. unat (?b c a)) = (\<Sum>a\<in>A - {from} - {recipient}. unat (balances a))" for c
      by (rule sum.cong) auto
    show ?thesis
    proof (cases "unat (balances recipient) + unat amount < 2 ^ 256")
      case True
      hence r: "checkedAdd (balances recipient) amount = Inr (balances recipient + amount)"
        and v: "unat (balances recipient + amount) = unat (balances recipient) + unat amount"
        by (simp_all add: checkedAdd_def unat_word_ariths)
      have "(\<Sum>a\<in>A. unat (?b (balances recipient + amount) a)) = (\<Sum>a\<in>A. unat (balances a))"
        unfolding split [of "\<lambda>a. unat (?b (balances recipient + amount) a)"] split [of "\<lambda>a. unat (balances a)"] rest
        using False u v by simp
      thus ?thesis using r le False \<open>\<not> balances from < amount\<close> by (simp add: transferToken_def checkedSub_def fun_upd_def [of balances])
    next
      case over: False
      thus ?thesis using le False \<open>\<not> balances from < amount\<close> by (simp add: transferToken_def checkedSub_def checkedAdd_def not_less)
    qed
  qed
qed (simp add: transferToken_def)

theorem transferToken_witness:
  "case transferToken 1 2 30 ((\<lambda>_. 0)(1 := 100)) of Inl _ \<Rightarrow> False | Inr b \<Rightarrow> (\<Sum>a\<in>{1, 2}. unat (b a)) = 100"
proof -
  obtain b where b: "transferToken 1 2 30 ((\<lambda>_. 0)(1 := 100)) = Inr b"
    by (simp add: transferToken_def checkedSub_def checkedAdd_def)
  show ?thesis using transferToken_conserves [of "{1, 2}" 1 2 "(\<lambda>_. 0)(1 := 100)" 30] by (simp add: b)
qed

end
