(* ===== verification/BridgeScripts.thy ===== *)
theory BridgeScripts
  imports BridgeProviders Utils
begin

text \<open>
  The Hardhat scripts that deploy and check the bridge (\<open>contracts/scripts\<close>), run against the contracts of
  the theories \<open>RollupBridge\<close> and \<open>BridgeProviders\<close>.  The world of a script is the chain, a map from
  addresses to contracts with their state, and the files.  A file holds text or the text of a JSON value;
  what \<open>JSON.stringify\<close> writes is what \<open>JSON.parse\<close> reads.  Each script is the effect of its \<open>main\<close>: an
  error is what reaches \<open>main().catch\<close>, which prints it and exits with code 1.

  Parameters are what the scripts call and the repository does not hold: the node and the addresses it
  gives to new contracts, the conversions of ethers between texts and addresses, hashes and integers, the
  curve precompiles, keccak, the Merkle proof library, path resolution and random bytes.
\<close>

section \<open>The chain and the files\<close>

datatype l1Contract =
    BridgeC address bridge
  | MockVerifierC MockVerifier
  | Groth16C
  | Plonky2C
  | Halo2C
  | CalldataC
  | BlobC
  | TestBlobC "uint8 \<Rightarrow> bytes32"
  | OffChainC
  | BaselineTokenC "address \<Rightarrow> uint256"

datatype fileContent = JsonFile val | TextFile string

record l1World =
  l1Contracts :: "address \<Rightarrow> l1Contract option"
  l1Txs :: nat
  diskFiles :: "string \<Rightarrow> fileContent option"

text \<open>\<open>nodeFailure n\<close> is the error of the node, if any, for the \<open>n\<close>th transaction; \<open>newAddress n\<close> is the address
  of the contract that this transaction creates; \<open>blockOf n\<close> its block number and timestamp.\<close>

record hardhat =
  account :: address
  envVars :: env
  networkName :: string
  networkChainId :: int
  nodeFailure :: "nat \<Rightarrow> jserror option"
  newAddress :: "nat \<Rightarrow> address"
  blockOf :: "nat \<Rightarrow> uint256 \<times> uint256"
  showAddress :: "address \<Rightarrow> string"
  parseAddress :: "string \<Rightarrow> address option"
  showHash :: "bytes32 \<Rightarrow> string"
  parseHash :: "string \<Rightarrow> bytes32 option"
  parseUint :: "string \<Rightarrow> uint256 option"
  resolvePath :: "string \<Rightarrow> string"
  scriptPath :: "string \<Rightarrow> string"
  randomBytes32 :: "nat \<Rightarrow> bytes32"
  curveOf :: precompiles
  keccakOf :: "bytes \<Rightarrow> bytes32"
  merkleOf :: "bytes32 list \<Rightarrow> bytes32 \<Rightarrow> bytes32 \<Rightarrow> bool"
  blobHashOf :: "nat \<Rightarrow> uint8 \<Rightarrow> bytes32"

type_synonym 'a script = "(l1World, 'a) eff"

text \<open>A call to an address without the function called reverts.\<close>

definition commitmentAt :: "hardhat \<Rightarrow> l1World \<Rightarrow> address \<Rightarrow> bytes \<Rightarrow> bytes \<Rightarrow> reverted + bytes32" where
  "commitmentAt H w a = (case l1Contracts w a of
       Some CalldataC \<Rightarrow> CalldataDA_computeCommitment (keccakOf H)
     | Some BlobC \<Rightarrow> BlobDA_computeCommitment
     | Some (TestBlobC m) \<Rightarrow> BlobDA_computeCommitment
     | Some OffChainC \<Rightarrow> OffChainDA_computeCommitment
     | _ \<Rightarrow> (\<lambda>batchData daMeta. Inl (Require '''')))"

definition validationAt :: "hardhat \<Rightarrow> l1World \<Rightarrow> address \<Rightarrow> bytes32 \<Rightarrow> bytes \<Rightarrow> reverted + unit" where
  "validationAt H w a = (case l1Contracts w a of
       Some CalldataC \<Rightarrow> CalldataDA_validateDA
     | Some BlobC \<Rightarrow> BlobDA_validateDA (blobHashOf H (l1Txs w))
     | Some (TestBlobC m) \<Rightarrow> BlobDA_validateDA (TestBlobDA_getBlobHash m (blobHashOf H (l1Txs w)))
     | Some OffChainC \<Rightarrow> OffChainDA_validateDA
     | _ \<Rightarrow> (\<lambda>commitment daMeta. Inl (Require '''')))"

definition modeAt :: "l1World \<Rightarrow> address \<Rightarrow> reverted + uint8" where
  "modeAt w a = (case l1Contracts w a of
       Some CalldataC \<Rightarrow> Inr 0 | Some BlobC \<Rightarrow> Inr 1 | Some (TestBlobC m) \<Rightarrow> Inr 1 | Some OffChainC \<Rightarrow> Inr 2
     | _ \<Rightarrow> Inl (Require ''''))"

definition verifierAt :: "hardhat \<Rightarrow> l1World \<Rightarrow> address \<Rightarrow> proofArgs \<Rightarrow> reverted + bool" where
  "verifierAt H w a = (case l1Contracts w a of
       Some (MockVerifierC m) \<Rightarrow> MockVerifier_verifyProof m
     | Some Groth16C \<Rightarrow> Groth16_verifyProof (curveOf H) Groth16Verifier_verifyingKey
     | Some Plonky2C \<Rightarrow> Plonky2Verifier_verifyProof
     | Some Halo2C \<Rightarrow> Halo2Verifier_verifyProof
     | _ \<Rightarrow> (\<lambda>args. Inl (Require '''')))"

definition envFor :: "hardhat \<Rightarrow> l1World \<Rightarrow> address \<Rightarrow> address \<Rightarrow> uint256 \<Rightarrow> callEnv" where
  "envFor H w from own amount = \<lparr> sender = from, msgValue = amount,
     blockNumber = fst (blockOf H (l1Txs w)), blockTimestamp = snd (blockOf H (l1Txs w)), bridgeOwner = own,
     computeCommitmentOf = commitmentAt H w, validateDAOf = validationAt H w, modeOf = modeAt w,
     verifyProofOf = verifierAt H w, merkleVerify = merkleOf H, keccak = keccakOf H \<rparr>"

text \<open>Sending a transaction and waiting for it.  A reverting transaction is an error of the node.\<close>

definition transact :: "hardhat \<Rightarrow> (l1World \<Rightarrow> reverted + l1World) \<Rightarrow> unit script" where
  "transact H f = (\<lambda>w. case nodeFailure H (l1Txs w) of
       Some err \<Rightarrow> (Inl err, w)
     | None \<Rightarrow> (case f w of
           Inl r \<Rightarrow> (Inl (ChainError ''execution reverted''), w)
         | Inr w' \<Rightarrow> (Inr (), w'\<lparr> l1Txs := Suc (l1Txs w) \<rparr>)))"

definition deployContract :: "hardhat \<Rightarrow> l1Contract \<Rightarrow> address script" where
  "deployContract H c = bindE (readE (\<lambda>w. newAddress H (l1Txs w))) (\<lambda>a.
     thenE (transact H (\<lambda>w. Inr (w\<lparr> l1Contracts := (l1Contracts w)(a \<mapsto> c) \<rparr>)))
     (returnE a))"

definition callBridge :: "hardhat \<Rightarrow> address \<Rightarrow> uint256 \<Rightarrow> address \<Rightarrow> call \<Rightarrow> unit script" where
  "callBridge H from amount a c = transact H (\<lambda>w. case l1Contracts w a of
       Some (BridgeC own b) \<Rightarrow> bindR (exec (envFor H w from own amount) c b)
         (\<lambda>b'. Inr (w\<lparr> l1Contracts := (l1Contracts w)(a \<mapsto> BridgeC own b') \<rparr>))
     | _ \<Rightarrow> Inl (Require ''''))"

definition setMockBlobHash :: "hardhat \<Rightarrow> address \<Rightarrow> uint8 \<Rightarrow> bytes32 \<Rightarrow> unit script" where
  "setMockBlobHash H a i h = transact H (\<lambda>w. case l1Contracts w a of
       Some (TestBlobC m) \<Rightarrow> Inr (w\<lparr> l1Contracts := (l1Contracts w)(a \<mapsto> TestBlobC (TestBlobDA_setMockBlobHash i h m)) \<rparr>)
     | _ \<Rightarrow> Inl (Require ''''))"

text \<open>A view call decodes the result of a contract; without the function there is nothing to decode.\<close>

definition viewBridge :: "address \<Rightarrow> (bridge \<Rightarrow> 'a) \<Rightarrow> 'a script" where
  "viewBridge a f = (\<lambda>w. (case l1Contracts w a of
       Some (BridgeC own b) \<Rightarrow> Inr (f b) | _ \<Rightarrow> Inl (ChainError ''could not decode result data''), w))"

definition writeFile :: "string \<Rightarrow> fileContent \<Rightarrow> unit script" where
  "writeFile p f = modifyE (\<lambda>w. w\<lparr> diskFiles := (diskFiles w)(p \<mapsto> f) \<rparr>)"

definition readFile :: "string \<Rightarrow> fileContent script" where
  "readFile p = bindE (readE (\<lambda>w. diskFiles w p)) (\<lambda>f. case f of
     None \<Rightarrow> throwE (Error (''ENOENT: no such file or directory, open '' @ p)) | Some x \<Rightarrow> returnE x)"

definition parseJson :: "fileContent \<Rightarrow> val script" where
  "parseJson f = (case f of JsonFile v \<Rightarrow> returnE v | TextFile s \<Rightarrow> throwE (Error ''SyntaxError''))"

definition envOr :: "hardhat \<Rightarrow> string \<Rightarrow> string \<Rightarrow> string" where
  "envOr H k d = (if truthyStr (envVars H k) then toStr (envVars H k) else d)"

definition zeroHash :: string where
  "zeroHash = ''0x0000000000000000000000000000000000000000000000000000000000000000''"

text \<open>Encoding a text as an argument of a contract call.\<close>

definition encodeArg :: "(string \<Rightarrow> 'a option) \<Rightarrow> string \<Rightarrow> 'a result" where
  "encodeArg p s = (case p s of None \<Rightarrow> Inl (TypeError (''invalid argument '' @ s)) | Some x \<Rightarrow> Inr x)"

section \<open>Deployment on a local node\<close>

definition localMockBlobHash :: string where
  "localMockBlobHash = ''0x0100000000000000000000000000000000000000000000000000000000000000''"

definition daEntry :: "int \<Rightarrow> string \<Rightarrow> val" where
  "daEntry i a = VObj [(''id'', VNum i), (''address'', VStr a)]"

text \<open>The record of a local deployment: bridge, verifier, calldata, blob and off-chain provider.\<close>

definition localDeployment :: "hardhat \<Rightarrow> string \<Rightarrow> string \<Rightarrow> string \<Rightarrow> string \<Rightarrow> string \<Rightarrow> val" where
  "localDeployment H bridgeAddress mockVerifierAddress calldataDAAddress testBlobDAAddress offchainDAAddress = VObj [
     (''network'', VStr (networkName H)),
     (''chainId'', VNum (networkChainId H)),
     (''deployer'', VStr (showAddress H (account H))),
     (''bridge'', VStr bridgeAddress),
     (''verifier'', VStr mockVerifierAddress),
     (''mockVerifier'', VStr mockVerifierAddress),
     (''calldataDA'', VStr calldataDAAddress),
     (''blobDA'', VStr testBlobDAAddress),
     (''testBlobDA'', VStr testBlobDAAddress),
     (''offchainDA'', VStr offchainDAAddress),
     (''genesisRoot'', VStr zeroHash),
     (''daProviders'', VObj [
        (''calldata'', daEntry 0 calldataDAAddress),
        (''blob'', daEntry 1 testBlobDAAddress),
        (''offchain'', daEntry 2 offchainDAAddress)]),
     (''mock_verifier'', VStr mockVerifierAddress),
     (''calldata_da'', VStr calldataDAAddress),
     (''test_blob_da'', VStr testBlobDAAddress),
     (''offchain_da'', VStr offchainDAAddress),
     (''genesis_root'', VStr zeroHash),
     (''local_mock_blob_hash'', VStr localMockBlobHash)]"

definition deployLocal :: "hardhat \<Rightarrow> unit script" where
  "deployLocal H =
     bindE (deployContract H (MockVerifierC newMockVerifier)) (\<lambda>mockVerifier.
     bindE (liftR (encodeArg (parseHash H) zeroHash)) (\<lambda>genesisRoot.
     bindE (deployContract H (BridgeC (account H) (newBridge mockVerifier genesisRoot 0))) (\<lambda>bridge.
     bindE (deployContract H CalldataC) (\<lambda>calldataDA.
     bindE (deployContract H (TestBlobC (\<lambda>_. 0))) (\<lambda>testBlobDA.
     bindE (liftR (encodeArg (parseHash H) localMockBlobHash)) (\<lambda>blobHash.
     thenE (setMockBlobHash H testBlobDA 0 blobHash)
     (bindE (deployContract H OffChainC) (\<lambda>offchainDA.
     thenE (callBridge H (account H) 0 bridge (SetDAProvider 0 calldataDA True))
     (thenE (callBridge H (account H) 0 bridge (SetDAProvider 1 testBlobDA True))
     (thenE (callBridge H (account H) 0 bridge (SetDAProvider 2 offchainDA True))
     (writeFile (resolvePath H (envOr H ''DEPLOYMENT_OUT'' ''deployments/hardhat-local.json''))
        (JsonFile (localDeployment H (showAddress H bridge) (showAddress H mockVerifier) (showAddress H calldataDA)
          (showAddress H testBlobDA) (showAddress H offchainDA))))))))))))))"

section \<open>Deployment on a test network\<close>

definition testNetDeployments :: "string \<Rightarrow> string \<Rightarrow> string \<Rightarrow> string \<Rightarrow> string \<Rightarrow> string \<Rightarrow> string \<Rightarrow> val" where
  "testNetDeployments verifierAddr calldataAddr blobAddr testBlobAddr bridgeAddr genesisRoot forceInclusionDelay = VObj [
     (''RealVerifier'', VStr verifierAddr),
     (''CalldataDA'', VStr calldataAddr),
     (''BlobDA'', VStr blobAddr),
     (''TestBlobDA'', VStr testBlobAddr),
     (''ZKRollupBridge'', VStr bridgeAddr),
     (''Config'', VObj [
        (''GenesisRoot'', VStr genesisRoot),
        (''ForceInclusionDelay'', VStr forceInclusionDelay)])]"

text \<open>\<open>main\<close> returns nothing; the model returns the address of the bridge that it prints.\<close>

definition deployTestNet :: "hardhat \<Rightarrow> address script" where
  "deployTestNet H = (
     let genesisRoot = envOr H ''GENESIS_ROOT'' zeroHash;
         forceInclusionDelay = envOr H ''FORCE_INCLUSION_DELAY'' ''50'' in
     bindE (if envVars H ''USE_MOCK_VERIFIER'' = Some ''true'' then deployContract H (MockVerifierC newMockVerifier)
            else deployContract H Groth16C) (\<lambda>verifierAddr.
     bindE (deployContract H Plonky2C) (\<lambda>plonky2Addr.
     bindE (deployContract H Halo2C) (\<lambda>halo2Addr.
     bindE (deployContract H CalldataC) (\<lambda>calldataAddr.
     bindE (deployContract H BlobC) (\<lambda>blobAddr.
     bindE (deployContract H (TestBlobC (\<lambda>_. 0))) (\<lambda>testBlobAddr.
     bindE (liftR (encodeArg (parseHash H) genesisRoot)) (\<lambda>root.
     bindE (liftR (encodeArg (parseUint H) forceInclusionDelay)) (\<lambda>delay.
     bindE (deployContract H (BridgeC (account H) (newBridge verifierAddr root delay))) (\<lambda>bridgeAddr.
     thenE (callBridge H (account H) 0 bridgeAddr (SetVerifier 1 plonky2Addr))
     (thenE (callBridge H (account H) 0 bridgeAddr (SetVerifier 2 halo2Addr))
     (thenE (callBridge H (account H) 0 bridgeAddr (SetDAProvider 0 calldataAddr True))
     (thenE (callBridge H (account H) 0 bridgeAddr (SetDAProvider 1 testBlobAddr True))
     (thenE (writeFile (scriptPath H ''../../deployments.json'')
        (JsonFile (testNetDeployments (showAddress H verifierAddr) (showAddress H calldataAddr) (showAddress H blobAddr)
          (showAddress H testBlobAddr) (showAddress H bridgeAddr) genesisRoot forceInclusionDelay)))
     (returnE bridgeAddr)))))))))))))))"

section \<open>Checking a running deployment\<close>

text \<open>\<open>BigInt\<close> of a text.\<close>

definition trimSpaces :: "string \<Rightarrow> string" where
  "trimSpaces s = rev (dropWhile isSpace (rev (dropWhile isSpace s)))"

definition BigInt :: "string \<Rightarrow> int result" where
  "BigInt t = (let s = trimSpaces t; neg = (take 1 s = ''-''); ds = (if neg \<or> take 1 s = ''+'' then drop 1 s else s) in
     if s = [] then Inr 0
     else if ds \<noteq> [] \<and> list_all isDigit ds then Inr ((if neg then -1 else 1) * int (digitsVal 10 0 ds))
     else if take 2 s \<in> {''0x'', ''0X''} \<and> drop 2 s \<noteq> [] \<and> list_all isHexDigit (drop 2 s) then Inr (int (digitsVal 16 0 (drop 2 s)))
     else Inl (Error ''SyntaxError''))"

fun requiredAddress :: "hardhat \<Rightarrow> val \<Rightarrow> string list \<Rightarrow> string list \<Rightarrow> string result" where
  "requiredAddress H deployment keys [] = Inl (Error (''Missing deployment address for '' @ joinWith ''/'' keys))"
| "requiredAddress H deployment keys (key # rest) = bindR (getProp deployment key) (\<lambda>v. case v of
       VStr s \<Rightarrow> (if parseAddress H s \<noteq> None then Inr s else requiredAddress H deployment keys rest)
     | _ \<Rightarrow> requiredAddress H deployment keys rest)"

definition requireCode :: "hardhat \<Rightarrow> string \<Rightarrow> string \<Rightarrow> unit script" where
  "requireCode H label address = bindE (liftR (encodeArg (parseAddress H) address)) (\<lambda>a.
     bindE (readE (\<lambda>w. l1Contracts w a)) (\<lambda>code.
     whenE (code = None) (throwE (Error (label @ '' has no contract code at '' @ address)))))"

definition checkProvider :: "hardhat \<Rightarrow> address \<Rightarrow> uint8 \<times> string \<times> string \<Rightarrow> unit script" where
  "checkProvider H bridge check = (case check of (i, label, expected) \<Rightarrow>
     bindE (viewBridge bridge (\<lambda>b. showAddress H (daProviders b i))) (\<lambda>actual.
     bindE (viewBridge bridge (\<lambda>b. daEnabled b i)) (\<lambda>enabled.
     whenE (map lowerChar actual \<noteq> map lowerChar expected \<or> \<not> enabled)
       (throwE (Error (''DA provider '' @ label @ '' not wired: actual='' @ actual @ '', expected='' @ expected @
          '', enabled='' @ (if enabled then ''true'' else ''false'')))))))"

definition verifyResult :: "hardhat \<Rightarrow> string \<Rightarrow> string \<Rightarrow> val \<Rightarrow> uint256 \<Rightarrow> string \<Rightarrow> string \<Rightarrow> string \<Rightarrow> string \<Rightarrow> bool \<Rightarrow> val" where
  "verifyResult H bridgeAddress latestRoot genesisRoot batchId calldataDAAddress blobDAAddress offchainDAAddress
       verifierAddress stateRootChanged = VObj [
     (''chainId'', VNum (networkChainId H)),
     (''bridge'', VStr bridgeAddress),
     (''latestStateRoot'', VStr latestRoot),
     (''genesisRoot'', genesisRoot),
     (''nextBatchId'', VStr (showNat (unat batchId))),
     (''daProviders'', VObj [
        (''calldata'', VStr calldataDAAddress),
        (''blob'', VStr blobDAAddress),
        (''offchain'', VStr offchainDAAddress)]),
     (''verifier'', VStr verifierAddress),
     (''stateRootChanged'', VBool stateRootChanged)]"

text \<open>The checks before the bridge is read: the chain and the addresses of the five contracts.\<close>

definition checkChainId :: "hardhat \<Rightarrow> val \<Rightarrow> unit result" where
  "checkChainId H deployment = bindR (getProp deployment ''chainId'') (\<lambda>c.
     if c \<noteq> VUndef \<and> c \<noteq> VNum (networkChainId H) then Inl (Error ''Chain id mismatch'') else Inr ())"

definition deploymentAddresses :: "hardhat \<Rightarrow> val \<Rightarrow> (string \<times> string \<times> string \<times> string \<times> string) result" where
  "deploymentAddresses H deployment = (
     let required = (\<lambda>keys. requiredAddress H deployment keys keys) in
     bindR (required [''bridge'']) (\<lambda>bridgeAddress.
     bindR (required [''verifier'', ''mockVerifier'', ''mock_verifier'']) (\<lambda>verifierAddress.
     bindR (required [''calldataDA'', ''calldata_da'']) (\<lambda>calldataDAAddress.
     bindR (required [''blobDA'', ''testBlobDA'', ''test_blob_da'']) (\<lambda>blobDAAddress.
     bindR (required [''offchainDA'', ''offchain_da'']) (\<lambda>offchainDAAddress.
     Inr (bridgeAddress, verifierAddress, calldataDAAddress, blobDAAddress, offchainDAAddress)))))))"

definition genesisRootOf :: "val \<Rightarrow> val result" where
  "genesisRootOf deployment = bindR (getProp deployment ''genesisRoot'') (\<lambda>a. if truthyVal a then Inr a
     else bindR (getProp deployment ''genesis_root'') (\<lambda>b. Inr (if truthyVal b then b else VStr zeroHash)))"

text \<open>The checks of the bridge, then of all contracts.  \<open>main\<close> prints the result; the model returns it.\<close>

definition inspectBridge :: "hardhat \<Rightarrow> val \<Rightarrow> address \<Rightarrow> string \<Rightarrow> string \<Rightarrow> string \<Rightarrow> string \<Rightarrow> string \<Rightarrow> val script" where
  "inspectBridge H deployment bridge bridgeAddress verifierAddress calldataDAAddress blobDAAddress offchainDAAddress =
     bindE (viewBridge bridge (\<lambda>b. showHash H (latestStateRoot b))) (\<lambda>latestStateRoot.
     bindE (viewBridge bridge nextBatchId) (\<lambda>nextBatchId.
     thenE (forE [(0, ''calldata'', calldataDAAddress), (1, ''blob'', blobDAAddress), (2, ''offchain'', offchainDAAddress)]
        (checkProvider H bridge))
     (bindE (viewBridge bridge (\<lambda>b. showAddress H (verifiers b 0))) (\<lambda>verifierOnBridge.
     thenE (whenE (map lowerChar verifierOnBridge \<noteq> map lowerChar verifierAddress)
        (throwE (Error (''Verifier 0 not wired: actual='' @ verifierOnBridge @ '', expected='' @ verifierAddress))))
     (bindE (liftR (BigInt (envOr H ''EXPECT_MIN_NEXT_BATCH_ID'' ''1''))) (\<lambda>minNextBatchId.
     thenE (whenE (uint nextBatchId < minNextBatchId)
        (throwE (Error (''Expected nextBatchId >= '' @ showInt minNextBatchId @ '', got '' @ showInt (uint nextBatchId)))))
     (bindE (liftR (genesisRootOf deployment)) (\<lambda>genesisRoot.
     bindE (liftR (toLowerCase genesisRoot)) (\<lambda>genesisLower.
     thenE (whenE (envVars H ''EXPECT_STATE_ROOT_CHANGED'' = Some ''1'' \<and> map lowerChar latestStateRoot = genesisLower)
        (throwE (Error ''State root did not change from genesis'')))
     (returnE (verifyResult H bridgeAddress latestStateRoot genesisRoot nextBatchId calldataDAAddress blobDAAddress
            offchainDAAddress verifierAddress (map lowerChar latestStateRoot \<noteq> genesisLower))))))))))))"

definition verifyContracts :: "hardhat \<Rightarrow> val \<Rightarrow> string \<Rightarrow> string \<Rightarrow> string \<Rightarrow> string \<Rightarrow> string \<Rightarrow> val script" where
  "verifyContracts H deployment bridgeAddress verifierAddress calldataDAAddress blobDAAddress offchainDAAddress =
     thenE (forE [(''ZKRollupBridge'', bridgeAddress), (''Verifier'', verifierAddress), (''CalldataDA'', calldataDAAddress),
        (''BlobDA'', blobDAAddress), (''OffChainDA'', offchainDAAddress)] (\<lambda>(label, a). requireCode H label a))
     (bindE (liftR (encodeArg (parseAddress H) bridgeAddress)) (\<lambda>bridge.
      inspectBridge H deployment bridge bridgeAddress verifierAddress calldataDAAddress blobDAAddress offchainDAAddress))"

definition verifyRuntime :: "hardhat \<Rightarrow> val script" where
  "verifyRuntime H =
     bindE (readFile (resolvePath H (envOr H ''DEPLOYMENT_FILE'' ''deployments/hardhat-local.json''))) (\<lambda>raw.
     bindE (parseJson raw) (\<lambda>deployment.
     thenE (liftR (checkChainId H deployment))
     (bindE (liftR (deploymentAddresses H deployment))
       (\<lambda>(bridgeAddress, verifierAddress, calldataDAAddress, blobDAAddress, offchainDAAddress).
     bindE (verifyContracts H deployment bridgeAddress verifierAddress calldataDAAddress blobDAAddress offchainDAAddress)
       (\<lambda>result.
     thenE (whenE (truthyStr (envVars H ''RUNTIME_VALIDATION_OUT''))
        (writeFile (resolvePath H (toStr (envVars H ''RUNTIME_VALIDATION_OUT''))) (JsonFile result)))
     (returnE result))))))"

section \<open>A mock batch and its check\<close>

text \<open>A member of the deployments inside a template, and as the address of a contract.\<close>

definition templateText :: "val \<Rightarrow> string" where
  "templateText v = (case v of VStr s \<Rightarrow> s | VNum n \<Rightarrow> showInt n | VBool b \<Rightarrow> (if b then ''true'' else ''false'')
     | VNull \<Rightarrow> ''null'' | VUndef \<Rightarrow> ''undefined'' | _ \<Rightarrow> ''[object Object]'')"

definition contractAt :: "hardhat \<Rightarrow> val \<Rightarrow> address result" where
  "contractAt H v = (case v of VStr s \<Rightarrow> encodeArg (parseAddress H) s | _ \<Rightarrow> Inl (TypeError ''invalid contract address''))"

definition newline :: string where
  "newline = [CHR 0x0A]"

definition quoted :: "string \<Rightarrow> string" where
  "quoted s = CHR 0x22 # s @ [CHR 0x22]"

definition submitterConfig :: "string \<Rightarrow> string \<Rightarrow> string \<Rightarrow> string" where
  "submitterConfig bridge newRoot blobVersionedHash = newline @
     ''network:'' @ newline @
     ''  rpc_url: '' @ quoted ''http://127.0.0.1:8545'' @ newline @
     ''  chain_id: 31337'' @ newline @ newline @
     ''contracts:'' @ newline @
     ''  bridge: '' @ quoted bridge @ newline @ newline @
     ''da:'' @ newline @
     ''  mode: '' @ quoted ''blob'' @ newline @
     ''  blob_binding: '' @ quoted ''mock'' @ '' # We use mock binding because we don'' @ [CHR 0x27] @ ''t have real blobs'' @ newline @
     ''  blob_index: 0'' @ newline @ newline @
     ''batch:'' @ newline @
     ''  data_file: '' @ quoted ''../submitter/test_data.txt'' @ newline @
     ''  new_root: '' @ quoted newRoot @ newline @
     ''  blob_versioned_hash: '' @ quoted blobVersionedHash @ newline @ newline @
     ''resilience:'' @ newline @
     ''  max_retries: 1'' @ newline @
     ''  circuit_breaker_threshold: 1'' @ newline"

definition generateMockBatch :: "hardhat \<Rightarrow> bool \<Rightarrow> unit script" where
  "generateMockBatch H submitterDirExists =
     bindE (readE (\<lambda>w. diskFiles w (scriptPath H ''../../deployments.json''))) (\<lambda>f.
     thenE (whenE (f = None) (throwE (Error ''Deployments not found. Run deploy-test-net.ts first.'')))
     (bindE (readFile (scriptPath H ''../../deployments.json'')) (\<lambda>raw.
     bindE (parseJson raw) (\<lambda>deployments.
     let blobVersionedHash = randomBytes32 H 0; newRoot = randomBytes32 H 1 in
     bindE (liftR (bindR (getProp deployments ''TestBlobDA'') (contractAt H))) (\<lambda>testBlobDA.
     thenE (setMockBlobHash H testBlobDA 0 blobVersionedHash)
     (bindE (liftR (getProp deployments ''ZKRollupBridge'')) (\<lambda>bridge.
     whenE submitterDirExists
       (thenE (writeFile (scriptPath H ''../../submitter/local_test.yaml'')
          (TextFile (submitterConfig (templateText bridge) (showHash H newRoot) (showHash H blobVersionedHash))))
       (writeFile (scriptPath H ''../../submitter/test_data.txt'') (TextFile ''Local Test Batch Data''))))))))))"

text \<open>The first match of \<open>/new_root: "(0x[0-9a-fA-F]+)"/\<close>.  A JSON text escapes its quotes and has none.\<close>

fun matchNewRoot :: "string \<Rightarrow> string option" where
  "matchNewRoot [] = None"
| "matchNewRoot (c # cs) = (let p = ''new_root: '' @ [CHR 0x22] @ ''0x''; r = drop (length p) (c # cs); ds = takeWhile isHexDigit r in
     if take (length p) (c # cs) = p \<and> ds \<noteq> [] \<and> take 1 (drop (length ds) r) = [CHR 0x22]
     then Some (''0x'' @ ds) else matchNewRoot cs)"

text \<open>The view functions of the bridge that return a hash; calling any other name is a \<open>TypeError\<close>.\<close>

definition hashViews :: "(string \<times> (bridge \<Rightarrow> bytes32)) list" where
  "hashViews = [(''latestStateRoot'', latestStateRoot), (''pendingStateRoot'', pendingStateRoot)]"

definition callHashView :: "hardhat \<Rightarrow> address \<Rightarrow> string \<Rightarrow> string script" where
  "callHashView H a name = (case map_of hashViews name of
       None \<Rightarrow> throwE (TypeError (''Bridge.'' @ name @ '' is not a function''))
     | Some f \<Rightarrow> viewBridge a (\<lambda>b. showHash H (f b)))"

definition verifyState :: "hardhat \<Rightarrow> unit script" where
  "verifyState H =
     bindE (readE (\<lambda>w. diskFiles w (scriptPath H ''../../deployments.json''))) (\<lambda>f.
     thenE (whenE (f = None) (throwE (Error ''Deployments not found.'')))
     (bindE (readFile (scriptPath H ''../../deployments.json'')) (\<lambda>raw.
     bindE (parseJson raw) (\<lambda>deployments.
     bindE (liftR (bindR (getProp deployments ''ZKRollupBridge'') (contractAt H))) (\<lambda>bridge.
     bindE (viewBridge bridge nextBatchId) (\<lambda>nextBatchId.
     bindE (callHashView H bridge ''stateRoot'') (\<lambda>stateRoot.
     bindE (readFile (scriptPath H ''../../submitter/local_test.yaml'')) (\<lambda>config.
     bindE (liftR (case (case config of TextFile t \<Rightarrow> matchNewRoot t | JsonFile v \<Rightarrow> None) of
         None \<Rightarrow> Inl (Error ''Could not parse expected root from config'') | Some r \<Rightarrow> Inr r)) (\<lambda>expectedRoot.
     whenE (stateRoot \<noteq> expectedRoot) (throwE (Error ''process.exit(1)'')))))))))))"

section \<open>Smaller scripts\<close>

definition deployBaseline :: "hardhat \<Rightarrow> unit script" where
  "deployBaseline H = bindE (deployContract H (BaselineTokenC (\<lambda>_. 0))) (\<lambda>token.
     writeFile (resolvePath H ''../baseline_addr.txt'') (TextFile (showAddress H token)))"

text \<open>The errors of an interface, with name and selector, that \<open>decode-error.ts\<close> prints.\<close>

definition decodeError :: "(string \<times> string) list \<Rightarrow> (string \<times> string) list" where
  "decodeError errors = filter (\<lambda>(name, selector). selector = ''0x90679ba2'') errors"

definition TARGET_CONTRACTS :: "(string \<times> string) list" where
  "TARGET_CONTRACTS = [
     (''bridge/ZKRollupBridge.sol/ZKRollupBridge.json'', ''ZKRollupBridge''),
     (''da/BlobDA.sol/BlobDA.json'', ''BlobDA''),
     (''da/CalldataDA.sol/CalldataDA.json'', ''CalldataDA''),
     (''verifiers/RealVerifier.sol/RealVerifier.json'', ''RealVerifier''),
     (''interfaces/IDAProvider.sol/IDAProvider.json'', ''IDAProvider''),
     (''interfaces/IVerifier.sol/IVerifier.json'', ''IVerifier'')]"

definition exportAbi :: "hardhat \<Rightarrow> string \<times> string \<Rightarrow> unit script" where
  "exportAbi H target = (case target of (contractPath, contractName) \<Rightarrow>
     bindE (readE (\<lambda>w. diskFiles w (scriptPath H (''../artifacts/contracts/'' @ contractPath)))) (\<lambda>f. case f of
       None \<Rightarrow> returnE ()
     | Some raw \<Rightarrow> bindE (parseJson raw) (\<lambda>artifact. bindE (liftR (getProp artifact ''abi'')) (\<lambda>abi.
         if abi = VUndef then throwE (TypeError ''The data argument must be of type string'')
         else writeFile (scriptPath H (''../docs/abis/'' @ contractName @ ''.json'')) (JsonFile abi)))))"

definition exportAbis :: "hardhat \<Rightarrow> unit script" where
  "exportAbis H = forE TARGET_CONTRACTS (exportAbi H)"

section \<open>Laws of the chain\<close>

lemma transact_ok:
  "nodeFailure H (l1Txs w) = None \<Longrightarrow> f w = Inr w' \<Longrightarrow> transact H f w = (Inr (), w'\<lparr> l1Txs := Suc (l1Txs w) \<rparr>)"
  by (simp add: transact_def)

lemma transact_success:
  assumes "transact H f w = (Inr u, w')"
  obtains w1 where "f w = Inr w1" and "w' = w1\<lparr> l1Txs := Suc (l1Txs w) \<rparr>"
  using assms by (auto simp: transact_def split: option.splits sum.splits)

lemma deployContract_ok:
  "nodeFailure H (l1Txs w) = None \<Longrightarrow> deployContract H c w = (Inr (newAddress H (l1Txs w)),
     w\<lparr> l1Contracts := (l1Contracts w)(newAddress H (l1Txs w) \<mapsto> c), l1Txs := Suc (l1Txs w) \<rparr>)"
  by (simp add: deployContract_def transact_ok thenE_Inr eff_simps)

lemma deployContract_success:
  assumes "deployContract H c w = (Inr a, w')"
  shows "a = newAddress H (l1Txs w)"
    and "w' = w\<lparr> l1Contracts := (l1Contracts w)(newAddress H (l1Txs w) \<mapsto> c), l1Txs := Suc (l1Txs w) \<rparr>"
  using assms by (auto simp: deployContract_def eff_simps elim!: bindE_success thenE_success transact_success)

lemma callBridge_ok:
  assumes "nodeFailure H (l1Txs w) = None" and "l1Contracts w a = Some (BridgeC own b)"
    and "exec (envFor H w from own amount) c b = Inr b'"
  shows "callBridge H from amount a c w =
    (Inr (), w\<lparr> l1Contracts := (l1Contracts w)(a \<mapsto> BridgeC own b'), l1Txs := Suc (l1Txs w) \<rparr>)"
  using assms by (simp add: callBridge_def transact_ok)

lemma callBridge_success:
  assumes "callBridge H from amount a c w = (Inr u, w')"
  obtains own b b' where "l1Contracts w a = Some (BridgeC own b)" and "exec (envFor H w from own amount) c b = Inr b'"
    and "w' = w\<lparr> l1Contracts := (l1Contracts w)(a \<mapsto> BridgeC own b'), l1Txs := Suc (l1Txs w) \<rparr>"
  using assms unfolding callBridge_def
  by (elim transact_success) (auto simp: bindR_Inr_iff split: option.splits l1Contract.splits)

lemma envFor_simps [simp]:
  "sender (envFor H w from own amount) = from" "msgValue (envFor H w from own amount) = amount"
  "bridgeOwner (envFor H w from own amount) = own" "computeCommitmentOf (envFor H w from own amount) = commitmentAt H w"
  "validateDAOf (envFor H w from own amount) = validationAt H w" "modeOf (envFor H w from own amount) = modeAt w"
  "verifyProofOf (envFor H w from own amount) = verifierAt H w" "merkleVerify (envFor H w from own amount) = merkleOf H"
  "keccak (envFor H w from own amount) = keccakOf H"
  by (simp_all add: envFor_def)

end
