(* ===== verification/BridgeDeployment.thy ===== *)
theory BridgeDeployment
  imports BridgeScripts
begin

text \<open>
  What the bridge scripts guarantee about the contracts they deploy: the local deployment passes the runtime
  check, a passed runtime check means a wired bridge, and the state in which the test network script leaves
  the bridge.
\<close>

section \<open>The runtime check\<close>

text \<open>Documented behaviour of ethers: the text of an address parses to it, and the texts of the two constant
  hashes are hashes.\<close>

definition texts_documented :: "hardhat \<Rightarrow> bool" where
  "texts_documented H = ((\<forall>a. parseAddress H (showAddress H a) = Some a) \<and> parseHash H zeroHash = Some 0 \<and>
     parseHash H localMockBlobHash \<noteq> None \<and> showHash H 0 = zeroHash)"

lemma requireCode_success:
  assumes "requireCode H label s w = (Inr u, w')"
  shows "\<exists>a c. parseAddress H s = Some a \<and> l1Contracts w a = Some c \<and> w' = w"
proof (cases "parseAddress H s")
  case None
  thus ?thesis using assms by (simp add: requireCode_def encodeArg_def eff_simps)
next
  case (Some a)
  thus ?thesis using assms by (cases "l1Contracts w a") (simp_all add: requireCode_def encodeArg_def eff_simps)
qed

lemma viewBridge_success:
  assumes "viewBridge a f w = (Inr x, w')"
  shows "\<exists>own b. l1Contracts w a = Some (BridgeC own b) \<and> x = f b \<and> w' = w"
proof (cases "l1Contracts w a")
  case None
  thus ?thesis using assms by (simp add: viewBridge_def)
next
  case (Some c)
  thus ?thesis using assms by (cases c) (simp_all add: viewBridge_def)
qed

lemma viewBridge_bridge [simp]:
  "l1Contracts w a = Some (BridgeC own b) \<Longrightarrow> viewBridge a f w = (Inr (f b), w)"
  by (simp add: viewBridge_def)

text \<open>A bridge with a provider registered and enabled under an identifier, up to the letter case of its text.\<close>

definition sameText :: "string \<Rightarrow> string \<Rightarrow> bool" where
  "sameText s t = (map lowerChar s = map lowerChar t)"

lemma checkProvider_success:
  assumes "checkProvider H a (i, label, expected) w = (Inr u, w')" and "l1Contracts w a = Some (BridgeC own b)"
  shows "daEnabled b i \<and> sameText (showAddress H (daProviders b i)) expected \<and> w' = w"
  using assms by (auto simp: checkProvider_def bindE_apply whenE_def sameText_def eff_simps split: if_splits)

definition hasCode :: "hardhat \<Rightarrow> l1World \<Rightarrow> string \<Rightarrow> bool" where
  "hasCode H w s = (case parseAddress H s of None \<Rightarrow> False | Some a \<Rightarrow> l1Contracts w a \<noteq> None)"

lemma readFile_keeps: "readFile p w = (r, w') \<Longrightarrow> w' = w"
  by (auto simp: readFile_def eff_simps split: option.splits)

lemma parseJson_keeps: "parseJson f w = (r, w') \<Longrightarrow> w' = w"
  by (auto simp: parseJson_def eff_simps split: fileContent.splits)

lemma liftR_success: "liftR r w = (Inr a, w') \<Longrightarrow> r = Inr a \<and> w' = w"
  by (simp add: liftR_def)

lemma whenE_throwE_success: "whenE c (throwE e) w = (Inr u, w') \<Longrightarrow> \<not> c \<and> w' = w"
  by (cases c) (simp_all add: eff_simps)

lemma requireCode_hasCode: "requireCode H label s w = (Inr u, w') \<Longrightarrow> hasCode H w s \<and> w' = w"
  using requireCode_success by (fastforce simp: hasCode_def)

lemma inspectBridge_success:
  assumes "inspectBridge H d a t v c bl oc w = (Inr r, w')"
  shows "\<exists>own b root changed. r = verifyResult H t (showHash H (latestStateRoot b)) root (nextBatchId b) c bl oc v changed \<and>
    l1Contracts w a = Some (BridgeC own b) \<and>
    list_all (\<lambda>(i, s). daEnabled b i \<and> sameText (showAddress H (daProviders b i)) s) [(0, c), (1, bl), (2, oc)] \<and>
    sameText (showAddress H (verifiers b 0)) v \<and> w' = w"
proof -
  from assms [unfolded inspectBridge_def] obtain x w1 where "viewBridge a (\<lambda>b. showHash H (latestStateRoot b)) w = (Inr x, w1)"
    by (rule bindE_success)
  then obtain own b where b: "l1Contracts w a = Some (BridgeC own b)" by (auto dest!: viewBridge_success)
  from assms have "(\<exists>root changed. r = verifyResult H t (showHash H (latestStateRoot b)) root (nextBatchId b) c bl oc v changed) \<and>
    list_all (\<lambda>(i, s). daEnabled b i \<and> sameText (showAddress H (daProviders b i)) s) [(0, c), (1, bl), (2, oc)] \<and>
    map lowerChar (showAddress H (verifiers b 0)) = map lowerChar v \<and> w' = w" unfolding inspectBridge_def
    by (auto simp: b eff_simps elim!: bindE_success thenE_success
        dest!: checkProvider_success [OF _ b] liftR_success whenE_throwE_success) (rule exI, rule exI, rule refl)+
  with b show ?thesis unfolding sameText_def by blast
qed

lemma verifyContracts_success:
  assumes "verifyContracts H d t v c bl oc w = (Inr r, w')"
  shows "list_all (hasCode H w) [t, v, c, bl, oc] \<and>
    (\<exists>a. parseAddress H t = Some a \<and> inspectBridge H d a t v c bl oc w = (Inr r, w'))"
  using assms unfolding verifyContracts_def
  by (auto elim!: bindE_success thenE_success dest!: requireCode_hasCode liftR_success simp: encodeArg_def eff_simps split: option.splits)

text \<open>C24: a passed runtime check means a wired bridge.  When \<open>verify-runtime.ts\<close> succeeds, the reported address
  holds a bridge whose latest root and next batch are the reported ones, every reported address has code,
  the three data availability providers are the ones reported and enabled, verifier 0 is the one reported,
  and the check itself has sent no transaction and changed no contract.\<close>

theorem verify_runtime_sound:
  "case verifyRuntime H w of (Inl _, _) \<Rightarrow> True | (Inr r, w') \<Rightarrow>
     (\<exists>a own b t v c bl oc root changed. r = verifyResult H t (showHash H (latestStateRoot b)) root (nextBatchId b) c bl oc v changed \<and>
        parseAddress H t = Some a \<and> l1Contracts w a = Some (BridgeC own b) \<and> list_all (hasCode H w) [t, v, c, bl, oc] \<and>
        list_all (\<lambda>(i, s). daEnabled b i \<and> sameText (showAddress H (daProviders b i)) s) [(0, c), (1, bl), (2, oc)] \<and>
        sameText (showAddress H (verifiers b 0)) v) \<and>
     l1Contracts w' = l1Contracts w \<and> l1Txs w' = l1Txs w"
proof (cases "verifyRuntime H w")
  case (Pair x w')
  show ?thesis
  proof (cases x)
    case (Inr r)
    from Pair [unfolded Inr verifyRuntime_def] obtain d t v c bl oc w1 where 1: "verifyContracts H d t v c bl oc w = (Inr r, w1)"
      and 2: "l1Contracts w' = l1Contracts w1" "l1Txs w' = l1Txs w1"
      by (auto simp: eff_simps whenE_def writeFile_def elim!: bindE_success thenE_success dest!: readFile_keeps parseJson_keeps liftR_success
          split: if_splits)
    from verifyContracts_success [OF 1] obtain a where 3: "list_all (hasCode H w) [t, v, c, bl, oc]" "parseAddress H t = Some a"
      and i: "inspectBridge H d a t v c bl oc w = (Inr r, w1)" by blast
    from inspectBridge_success [OF i] 2 3 show ?thesis unfolding Pair Inr prod.case sum.case by blast
  qed (simp add: Pair)
qed

section \<open>The local deployment\<close>

lemma bindE_deployContract:
  "nodeFailure H (l1Txs w) = None \<Longrightarrow> bindE (deployContract H c) f w = f (newAddress H (l1Txs w))
     (w\<lparr> l1Contracts := (l1Contracts w)(newAddress H (l1Txs w) \<mapsto> c), l1Txs := Suc (l1Txs w) \<rparr>)"
  by (simp add: deployContract_ok bindE_Inr)

lemma thenE_transact:
  "nodeFailure H (l1Txs w) = None \<Longrightarrow> f w = Inr w' \<Longrightarrow> thenE (transact H f) k w = k (w'\<lparr> l1Txs := Suc (l1Txs w) \<rparr>)"
  by (simp add: transact_ok thenE_Inr)

lemma exec_setDAProvider:
  "daProviders b i = 0 \<Longrightarrow> exec (envFor H w own own 0) (SetDAProvider i p True) b =
     Inr (emit [DAProviderSet i p True] (b\<lparr> daProviders := (daProviders b)(i := p), daEnabled := (daEnabled b)(i := True) \<rparr>))"
  by (simp add: nonPayable_def setDAProvider_def onlyOwner_def)

lemma exec_setVerifier:
  "exec (envFor H w own own 0) (SetVerifier i p) b = Inr (emit [VerifierSet i p] (b\<lparr> verifiers := (verifiers b)(i := p) \<rparr>))"
  by (simp add: nonPayable_def setVerifier_def onlyOwner_def)

lemma emit_simps [simp]:
  "daProviders (emit es b) = daProviders b" "daEnabled (emit es b) = daEnabled b" "verifiers (emit es b) = verifiers b"
  "latestStateRoot (emit es b) = latestStateRoot b" "nextBatchId (emit es b) = nextBatchId b"
  "sequencer (emit es b) = sequencer b" "frozen (emit es b) = frozen b" "forcedTxQueue (emit es b) = forcedTxQueue b"
  "optimisticMode (emit es b) = optimisticMode b" "forcedHead (emit es b) = forcedHead b"
  by (simp_all add: emit_def)

lemma newBridge_simps [simp]:
  "daProviders (newBridge v r d) = (\<lambda>_. 0)" "daEnabled (newBridge v r d) = (\<lambda>_. False)" "verifiers (newBridge v r d) = (\<lambda>_. 0)(0 := v)"
  "latestStateRoot (newBridge v r d) = r" "nextBatchId (newBridge v r d) = 1" "sequencer (newBridge v r d) = 0"
  "frozen (newBridge v r d) = False" "forcedTxQueue (newBridge v r d) = []" "optimisticMode (newBridge v r d) = False"
  "forcedHead (newBridge v r d) = 0"
  by (simp_all add: newBridge_def)

text \<open>The bridge that the local deployment leaves, from the addresses of its providers and its verifier.\<close>

definition localBridge :: "bridge \<Rightarrow> address \<Rightarrow> address \<Rightarrow> address \<Rightarrow> address \<Rightarrow> bool" where
  "localBridge b v c bl oc = (verifiers b 0 = v \<and> daProviders b 0 = c \<and> daProviders b 1 = bl \<and> daProviders b 2 = oc \<and>
     daEnabled b 0 \<and> daEnabled b 1 \<and> daEnabled b 2 \<and> latestStateRoot b = 0 \<and> nextBatchId b = 1)"

lemma deployLocal_result:
  assumes "texts_documented H" and "nodeFailure H = (\<lambda>_. None)" and "inj_on (newAddress H) {l1Txs w..<l1Txs w + 16}"
  shows "\<exists>w' a v c bl oc b m. deployLocal H w = (Inr (), w') \<and> l1Contracts w' a = Some (BridgeC (account H) b) \<and>
    l1Contracts w' v = Some (MockVerifierC newMockVerifier) \<and> l1Contracts w' c = Some CalldataC \<and>
    l1Contracts w' bl = Some (TestBlobC m) \<and> l1Contracts w' oc = Some OffChainC \<and> localBridge b v c bl oc \<and>
    diskFiles w' (resolvePath H (envOr H ''DEPLOYMENT_OUT'' ''deployments/hardhat-local.json'')) =
      Some (JsonFile (localDeployment H (showAddress H a) (showAddress H v) (showAddress H c) (showAddress H bl) (showAddress H oc)))"
proof -
  have z: "encodeArg (parseHash H) zeroHash = Inr 0" using assms(1) by (simp add: texts_documented_def encodeArg_def)
  obtain h where h: "encodeArg (parseHash H) localMockBlobHash = Inr h" using assms(1) by (auto simp: texts_documented_def encodeArg_def)
  let ?a = "\<lambda>k. newAddress H (l1Txs w + k)"
  have "\<exists>w'. deployLocal H w = (Inr (), w') \<and> (\<exists>b. l1Contracts w' (?a 1) = Some (BridgeC (account H) b) \<and> localBridge b (?a 0) (?a 2) (?a 3) (?a 5)) \<and>
    l1Contracts w' (?a 0) = Some (MockVerifierC newMockVerifier) \<and> l1Contracts w' (?a 2) = Some CalldataC \<and>
    (\<exists>m. l1Contracts w' (?a 3) = Some (TestBlobC m)) \<and> l1Contracts w' (?a 5) = Some OffChainC \<and>
    diskFiles w' (resolvePath H (envOr H ''DEPLOYMENT_OUT'' ''deployments/hardhat-local.json'')) =
      Some (JsonFile (localDeployment H (showAddress H (?a 1)) (showAddress H (?a 0)) (showAddress H (?a 2)) (showAddress H (?a 3)) (showAddress H (?a 5))))"
    by (simp add: deployLocal_def bindE_deployContract assms(2) eff_simps z h setMockBlobHash_def callBridge_def thenE_transact
        inj_on_eq_iff [OF assms(3)] exec_setDAProvider writeFile_def localBridge_def eval_nat_numeral del: exec.simps)
  thus ?thesis by blast
qed

text \<open>The runtime check on what the local deployment left.\<close>

lemma verifyRuntime_local:
  assumes docs: "texts_documented H" and w: "l1Contracts w a = Some (BridgeC own b)" "l1Contracts w v \<noteq> None" "l1Contracts w c \<noteq> None"
      "l1Contracts w bl \<noteq> None" "l1Contracts w oc \<noteq> None"
    and b: "localBridge b v c bl oc"
    and f: "diskFiles w (resolvePath H (envOr H ''DEPLOYMENT_FILE'' ''deployments/hardhat-local.json'')) =
      Some (JsonFile (localDeployment H (showAddress H a) (showAddress H v) (showAddress H c) (showAddress H bl) (showAddress H oc)))"
    and env: "envVars H ''EXPECT_MIN_NEXT_BATCH_ID'' = None" "envVars H ''EXPECT_STATE_ROOT_CHANGED'' = None"
  shows "\<exists>w'. verifyRuntime H w = (Inr (verifyResult H (showAddress H a) zeroHash (VStr zeroHash) 1
      (showAddress H c) (showAddress H bl) (showAddress H oc) (showAddress H v) False), w')"
proof -
  have p: "\<And>x. parseAddress H (showAddress H x) = Some x" "showHash H 0 = zeroHash" using docs by (simp_all add: texts_documented_def)
  let ?d = "localDeployment H (showAddress H a) (showAddress H v) (showAddress H c) (showAddress H bl) (showAddress H oc)"
  have z: "zeroHash \<noteq> []" by (simp add: zeroHash_def)
  have 1: "checkChainId H ?d = Inr ()" "genesisRootOf ?d = Inr (VStr zeroHash)"
    by (simp_all add: localDeployment_def checkChainId_def genesisRootOf_def getProp_def truthyVal_def z)
  have 2: "deploymentAddresses H ?d = Inr (showAddress H a, showAddress H v, showAddress H c, showAddress H bl, showAddress H oc)"
    by (simp add: localDeployment_def deploymentAddresses_def getProp_def p)
  have m: "BigInt (envOr H ''EXPECT_MIN_NEXT_BATCH_ID'' ''1'') = Inr 1"
    by (simp add: envOr_def env truthyStr_def BigInt_def trimSpaces_def isSpace_def isDigit_def digitVal_def Let_def)
  have 3: "verifyContracts H ?d (showAddress H a) (showAddress H v) (showAddress H c) (showAddress H bl) (showAddress H oc) w =
      (Inr (verifyResult H (showAddress H a) zeroHash (VStr zeroHash) 1
      (showAddress H c) (showAddress H bl) (showAddress H oc) (showAddress H v) False), w)"
    using w b by (auto simp add: verifyContracts_def inspectBridge_def requireCode_def encodeArg_def p eff_simps bindE_apply thenE_def
        checkProvider_def localBridge_def m 1 toLowerCase_def env)
  show ?thesis by (simp add: verifyRuntime_def readFile_def f parseJson_def eff_simps 1 2 3 bindE_apply thenE_def whenE_def writeFile_def)
qed

text \<open>C25: the local deployment passes its own runtime check.  On a node that accepts the transactions and gives
  new contracts new addresses, \<open>deploy-local.ts\<close> succeeds from every state of the chain and the disk, and
  \<open>verify-runtime.ts\<close> on the file it wrote succeeds and reports the first batch as the next one and an
  unchanged root.\<close>

theorem deploy_local_verifies:
  assumes "texts_documented H" and "nodeFailure H = (\<lambda>_. None)" and "inj_on (newAddress H) {l1Txs w..<l1Txs w + 16}"
    and "resolvePath H (envOr H ''DEPLOYMENT_FILE'' ''deployments/hardhat-local.json'') =
      resolvePath H (envOr H ''DEPLOYMENT_OUT'' ''deployments/hardhat-local.json'')"
    and "envVars H ''EXPECT_MIN_NEXT_BATCH_ID'' = None" and "envVars H ''EXPECT_STATE_ROOT_CHANGED'' = None"
  shows "\<exists>w' w'' r. deployLocal H w = (Inr (), w') \<and> verifyRuntime H w' = (Inr r, w'') \<and>
    getProp r ''nextBatchId'' = Inr (VStr ''1'') \<and> getProp r ''stateRootChanged'' = Inr (VBool False)"
proof -
  obtain w' a v c bl oc b m where d: "deployLocal H w = (Inr (), w')" and "l1Contracts w' a = Some (BridgeC (account H) b)"
    "l1Contracts w' v = Some (MockVerifierC newMockVerifier)" "l1Contracts w' c = Some CalldataC"
    "l1Contracts w' bl = Some (TestBlobC m)" "l1Contracts w' oc = Some OffChainC" "localBridge b v c bl oc"
    "diskFiles w' (resolvePath H (envOr H ''DEPLOYMENT_OUT'' ''deployments/hardhat-local.json'')) =
      Some (JsonFile (localDeployment H (showAddress H a) (showAddress H v) (showAddress H c) (showAddress H bl) (showAddress H oc)))"
    using deployLocal_result [OF assms(1-3)] by metis
  then obtain w'' where "verifyRuntime H w' = (Inr (verifyResult H (showAddress H a) zeroHash (VStr zeroHash) 1
      (showAddress H c) (showAddress H bl) (showAddress H oc) (showAddress H v) False), w'')"
    using verifyRuntime_local [OF assms(1), of w' a "account H" b v c bl oc] assms(4-6) by auto
  moreover have "showNat 1 = ''1''" by code_simp
  ultimately show ?thesis using d by (simp add: verifyResult_def getProp_def)
qed

text \<open>A Hardhat environment with a node that numbers the contracts it creates.\<close>

definition padHex :: "nat \<Rightarrow> nat \<Rightarrow> string" where
  "padHex n x = ''0x'' @ replicate (n - length (showBase 16 x)) CHR ''0'' @ showBase 16 x"

definition readHex :: "string \<Rightarrow> 'a::len word option" where
  "readHex s = (if take 2 s = ''0x'' then Some (of_nat (digitsVal 16 0 (drop 2 s))) else None)"

definition exampleHardhat :: hardhat where
  "exampleHardhat = \<lparr> account = 1, envVars = (\<lambda>_. None), networkName = ''hardhat'', networkChainId = 31337,
     nodeFailure = (\<lambda>_. None), newAddress = (\<lambda>n. of_nat (n + 2)), blockOf = (\<lambda>n. (of_nat n, of_nat n)),
     showAddress = (\<lambda>a. padHex 40 (unat a)), parseAddress = readHex, showHash = (\<lambda>h. padHex 64 (unat h)), parseHash = readHex,
     parseUint = (\<lambda>s. Some (of_nat (digitsVal 10 0 s))), resolvePath = (\<lambda>p. p), scriptPath = (\<lambda>p. p),
     randomBytes32 = (\<lambda>n. of_nat (n + 77)), curveOf = trivialCurve, keccakOf = (\<lambda>_. 7),
     merkleOf = (\<lambda>proof root leaf. proof = [] \<and> root = leaf), blobHashOf = (\<lambda>_ _. 0) \<rparr>"

definition emptyChain :: l1World where
  "emptyChain = \<lparr> l1Contracts = (\<lambda>_. None), l1Txs = 0, diskFiles = (\<lambda>_. None) \<rparr>"

lemma readHex_padHex [simp]: "readHex (padHex n (unat a)) = Some a"
proof -
  have "digitsVal 16 0 (replicate k CHR ''0'' @ s) = digitsVal 16 0 s" for k s
    by (induction k) (simp_all add: digitVal_def)
  thus ?thesis by (simp add: readHex_def padHex_def digitsVal_showBase)
qed

lemma exampleHardhat_documented: "texts_documented exampleHardhat"
proof -
  have z: "padHex 64 0 = zeroHash" by code_simp
  hence "parseHash exampleHardhat zeroHash = Some 0" using readHex_padHex [of 64 "0 :: bytes32"] by (simp add: exampleHardhat_def)
  moreover have "parseHash exampleHardhat localMockBlobHash \<noteq> None"
    by (simp add: exampleHardhat_def readHex_def localMockBlobHash_def)
  ultimately show ?thesis using z by (simp add: texts_documented_def) (simp add: exampleHardhat_def)
qed

lemma example_addresses: "inj_on (newAddress exampleHardhat) {n..<n + 16}" if "n < 1000"
proof (rule inj_onI)
  fix i j
  assume ij: "i \<in> {n..<n + 16}" "j \<in> {n..<n + 16}" "newAddress exampleHardhat i = newAddress exampleHardhat j"
  hence "take_bit 160 (i + 2) = take_bit 160 (j + 2)"
    by (simp only: exampleHardhat_def hardhat.select_convs word_of_nat_eq_iff) simp
  moreover have "i + 2 < 2 ^ 160" "j + 2 < 2 ^ 160" using ij(1,2) that by simp_all
  ultimately show "i = j" by (simp only: take_bit_nat_eq_self)
qed

lemma example_fields [simp]:
  "envVars exampleHardhat = (\<lambda>_. None)" "nodeFailure exampleHardhat = (\<lambda>_. None)" "resolvePath exampleHardhat = (\<lambda>p. p)"
  "scriptPath exampleHardhat = (\<lambda>p. p)" "account exampleHardhat = 1" "envOr exampleHardhat k d = d"
  by (simp_all add: exampleHardhat_def envOr_def truthyStr_def)

theorem deploy_local_verifies_witness:
  "\<exists>w' w'' r. deployLocal exampleHardhat emptyChain = (Inr (), w') \<and> verifyRuntime exampleHardhat w' = (Inr r, w'') \<and>
    getProp r ''nextBatchId'' = Inr (VStr ''1'') \<and> getProp r ''stateRootChanged'' = Inr (VBool False)"
  using deploy_local_verifies [of exampleHardhat emptyChain] example_addresses [of 0] exampleHardhat_documented
  by (simp add: emptyChain_def)

section \<open>The test network deployment\<close>

text \<open>A bridge at an address on which anyone commits any nonzero root: no sequencer, not frozen, an enabled calldata
  provider, and the Plonky2 stub as verifier 1.\<close>

definition openBridge :: "hardhat \<Rightarrow> l1World \<Rightarrow> address \<Rightarrow> bridge \<Rightarrow> bool" where
  "openBridge H w a b = (l1Contracts w a = Some (BridgeC (account H) b) \<and> sequencer b = 0 \<and> \<not> frozen b \<and> forcedTxQueue b = [] \<and>
     \<not> optimisticMode b \<and> \<not> entered b \<and> daEnabled b 0 \<and> daProviders b 0 \<noteq> 0 \<and> verifiers b 1 \<noteq> 0 \<and>
     l1Contracts w (daProviders b 0) = Some CalldataC \<and> l1Contracts w (verifiers b 1) = Some Plonky2C)"

lemma deployTestNet_opens:
  assumes "nodeFailure H = (\<lambda>_. None)" and "inj_on (newAddress H) {l1Txs w..<l1Txs w + 16}"
    and "0 \<notin> newAddress H ` {l1Txs w..<l1Txs w + 16}"
    and "parseHash H (envOr H ''GENESIS_ROOT'' zeroHash) = Some genesis" and "parseUint H (envOr H ''FORCE_INCLUSION_DELAY'' ''50'') = Some delay"
  shows "\<exists>a w' b. deployTestNet H w = (Inr a, w') \<and> openBridge H w' a b \<and> nextBatchId b = 1 \<and> balance b = 0 \<and> nullifiers b = (\<lambda>_. False) \<and>
    diskFiles w' (scriptPath H ''../../deployments.json'') = Some (JsonFile (testNetDeployments (showAddress H (newAddress H (l1Txs w)))
      (showAddress H (newAddress H (l1Txs w + 3))) (showAddress H (newAddress H (l1Txs w + 4))) (showAddress H (newAddress H (l1Txs w + 5)))
      (showAddress H a) (envOr H ''GENESIS_ROOT'' zeroHash) (envOr H ''FORCE_INCLUSION_DELAY'' ''50'')))"
proof -
  have nz: "newAddress H i \<noteq> 0" if "i \<in> {l1Txs w..<l1Txs w + 16}" for i using assms(3) that by (metis imageI)
  show ?thesis
    using nz [of "Suc (l1Txs w)"] nz [of "Suc (Suc (Suc (l1Txs w)))"]
    by (cases "envVars H ''USE_MOCK_VERIFIER'' = Some ''true''") (simp_all add: deployTestNet_def Let_def encodeArg_def assms(1,4,5) bindE_deployContract eff_simps callBridge_def thenE_transact
        inj_on_eq_iff [OF assms(2)] exec_setDAProvider exec_setVerifier writeFile_def openBridge_def newBridge_def emit_def eval_nat_numeral
        del: exec.simps)
qed

lemma openBridge_deposit:
  assumes "nodeFailure H = (\<lambda>_. None)" and "openBridge H w a b" and "amount \<noteq> 0"
  shows "\<exists>w' b'. callBridge H from amount a (Deposit recipient) w = (Inr (), w') \<and> openBridge H w' a b' \<and>
    balance b' = balance b + unat amount \<and> nullifiers b' = nullifiers b \<and> nextBatchId b' = nextBatchId b"
  using assms by (auto simp: openBridge_def callBridge_def transact_ok deposit_def emit_def)

lemma openBridge_commit:
  assumes "nodeFailure H = (\<lambda>_. None)" and "openBridge H w a b" and "newRoot \<noteq> 0" and "nextBatchId b = 1"
  shows "\<exists>w' b'. callBridge H from 0 a (CommitBatch 0 1 batchData daMeta newRoot []) w = (Inr (), w') \<and> openBridge H w' a b' \<and>
    latestStateRoot b' = newRoot \<and> balance b' = balance b \<and> nullifiers b' = nullifiers b"
proof -
  have "checkedAdd (1 :: uint256) 1 = Inr 2" by (simp add: checkedAdd_def)
  thus ?thesis using assms
    by (auto simp: openBridge_def callBridge_def transact_ok nonPayable_def commitBatch_def requireSequencer_def censored_def Let_def
        commitmentAt_def validationAt_def verifierAt_def modeAt_def CalldataDA_computeCommitment_def CalldataDA_validateDA_def
        decodeProof_def Plonky2Verifier_verifyProof_def finalizeBatch_def recordBatch_def emit_def)
qed

lemma openBridge_withdraw:
  assumes "nodeFailure H = (\<lambda>_. None)" and "openBridge H w a b" and "\<not> nullifiers b i" and "unat amount \<le> balance b"
    and "merkleOf H [] (latestStateRoot b) (keccakOf H (bytesOfWord recipient @ bytesOfWord amount @ bytesOfWord i))"
  shows "\<exists>w' b'. callBridge H from 0 a (Withdraw [] recipient amount i True []) w = (Inr (), w') \<and>
    l1Contracts w' a = Some (BridgeC (account H) b') \<and> balance b' = balance b - unat amount \<and> last (events b') = Withdrawal recipient amount i"
  using assms by (auto simp: openBridge_def callBridge_def transact_ok nonPayable_def withdraw_def withdrawalLeaf_def withdrawEnd_def
      withdrawStart_def emit_def)

text \<open>C8: the bridge that the test network script leaves pays anyone.  The script succeeds on a node that accepts its
  transactions; it registers the Plonky2 stub, which accepts every proof, and sets no sequencer.  So after any
  deposit an arbitrary account commits, with an empty proof, a root that is the leaf of its own withdrawal,
  and withdraws the whole deposit with the empty Merkle proof.\<close>

theorem test_net_bridge_drained:
  assumes "nodeFailure H = (\<lambda>_. None)" and "inj_on (newAddress H) {l1Txs w..<l1Txs w + 16}"
    and "0 \<notin> newAddress H ` {l1Txs w..<l1Txs w + 16}"
    and "parseHash H (envOr H ''GENESIS_ROOT'' zeroHash) = Some genesis" and "parseUint H (envOr H ''FORCE_INCLUSION_DELAY'' ''50'') = Some delay"
    and "leaf = keccakOf H (bytesOfWord thief @ bytesOfWord amount @ bytesOfWord i)" and "leaf \<noteq> 0" and "merkleOf H [] leaf leaf"
    and "amount \<noteq> 0"
  shows "\<exists>a w1 w2 w3 w4 b. deployTestNet H w = (Inr a, w1) \<and>
    callBridge H depositor amount a (Deposit depositor) w1 = (Inr (), w2) \<and>
    callBridge H thief 0 a (CommitBatch 0 1 [] [] leaf []) w2 = (Inr (), w3) \<and>
    callBridge H thief 0 a (Withdraw [] thief amount i True []) w3 = (Inr (), w4) \<and>
    l1Contracts w4 a = Some (BridgeC (account H) b) \<and> balance b = 0 \<and> last (events b) = Withdrawal thief amount i"
proof -
  obtain a w1 b1 where 1: "deployTestNet H w = (Inr a, w1)" "openBridge H w1 a b1" "nextBatchId b1 = 1" "balance b1 = 0" "nullifiers b1 = (\<lambda>_. False)"
    using deployTestNet_opens [OF assms(1-5)] by blast
  obtain w2 b2 where 2: "callBridge H depositor amount a (Deposit depositor) w1 = (Inr (), w2)" "openBridge H w2 a b2"
    "balance b2 = unat amount" "nullifiers b2 = (\<lambda>_. False)" "nextBatchId b2 = 1"
    using openBridge_deposit [OF assms(1) 1(2) assms(9), of depositor depositor] 1 by auto
  obtain w3 b3 where 3: "callBridge H thief 0 a (CommitBatch 0 1 [] [] leaf []) w2 = (Inr (), w3)" "openBridge H w3 a b3"
    "latestStateRoot b3 = leaf" "balance b3 = unat amount" "nullifiers b3 = (\<lambda>_. False)"
    using openBridge_commit [OF assms(1) 2(2) assms(7) 2(5), of thief "[]" "[]"] 2 by auto
  obtain w4 b4 where "callBridge H thief 0 a (Withdraw [] thief amount i True []) w3 = (Inr (), w4)"
    "l1Contracts w4 a = Some (BridgeC (account H) b4)" "balance b4 = 0" "last (events b4) = Withdrawal thief amount i"
    using openBridge_withdraw [OF assms(1) 3(2), of i amount thief thief] 3 assms(6,8) by auto
  with 1 2 3 show ?thesis by blast
qed

theorem test_net_bridge_drained_witness:
  "\<exists>a w1 w2 w3 w4 b. deployTestNet exampleHardhat emptyChain = (Inr a, w1) \<and>
    callBridge exampleHardhat 500 1000 a (Deposit 500) w1 = (Inr (), w2) \<and>
    callBridge exampleHardhat 666 0 a (CommitBatch 0 1 [] [] 7 []) w2 = (Inr (), w3) \<and>
    callBridge exampleHardhat 666 0 a (Withdraw [] 666 1000 3 True []) w3 = (Inr (), w4) \<and>
    l1Contracts w4 a = Some (BridgeC 1 b) \<and> balance b = 0 \<and> last (events b) = Withdrawal 666 1000 3"
proof -
  have z: "parseHash exampleHardhat zeroHash = Some 0" using exampleHardhat_documented by (simp add: texts_documented_def)
  have nz: "0 \<notin> newAddress exampleHardhat ` {0..<16}"
  proof
    assume "0 \<in> newAddress exampleHardhat ` {0..<16}"
    then obtain n where n: "n < 16" "newAddress exampleHardhat n = 0" by auto
    hence "\<exists>q. n + 2 = q * 2 ^ LENGTH(160)" by (simp only: exampleHardhat_def hardhat.select_convs of_nat_0)
    then obtain q where "n + 2 = q * 2 ^ LENGTH(160)" ..
    thus False using n(1) by (cases q) simp_all
  qed
  have "parseUint exampleHardhat ''50'' = Some (of_nat (digitsVal 10 0 ''50''))" "keccakOf exampleHardhat bs = 7" "merkleOf exampleHardhat [] 7 7" for bs
    by (simp_all add: exampleHardhat_def)
  thus ?thesis
    using test_net_bridge_drained [of exampleHardhat emptyChain 0 _ 7 666 1000 3 500] example_addresses [of 0] z nz
    by (simp add: emptyChain_def)
qed

end
