(* ===== verification/MockBatch.thy ===== *)
theory MockBatch
  imports BridgeScripts
begin

text \<open>
  What the scripts around a mock batch guarantee: the configuration that \<open>generate-mock-batch.ts\<close> writes and
  \<open>verify-state.ts\<close> reads, and the checks that no test network deployment passes.
\<close>

section \<open>Checking a mock batch\<close>

lemma verifyState_never_succeeds: "verifyState H w \<noteq> (Inr u, w')"
proof
  assume "verifyState H w = (Inr u, w')"
  moreover have "callHashView H a ''stateRoot'' = throwE (TypeError ''Bridge.stateRoot is not a function'')" for a
    by (simp add: callHashView_def hashViews_def)
  ultimately show False unfolding verifyState_def
    by (auto simp: eff_simps elim!: bindE_success thenE_success)
qed


text \<open>A text in which, even continued, no match begins.\<close>

fun unmatched :: "string \<Rightarrow> bool" where
  "unmatched [] = True"
| "unmatched (c # cs) = (take 3 (c # cs) \<noteq> take (length (take 3 (c # cs))) ''new'' \<and> unmatched cs)"

lemma matchNewRoot_skip:
  assumes "take 13 (c # cs) \<noteq> ''new_root: '' @ [CHR 0x22] @ ''0x''"
  shows "matchNewRoot (c # cs) = matchNewRoot cs"
proof -
  have "length (''new_root: '' @ [CHR 0x22] @ ''0x'') = 13" by simp
  thus ?thesis using assms by (simp only: matchNewRoot.simps Let_def simp_thms if_False)
qed

lemma matchNewRoot_unmatched: "unmatched xs \<Longrightarrow> matchNewRoot (xs @ ys) = matchNewRoot ys"
proof (induction xs)
  case (Cons c cs)
  have "take 3 (c # cs @ ys) \<noteq> ''new''"
  proof
    assume h: "take 3 (c # cs @ ys) = ''new''"
    hence "take (length (take 3 (c # cs))) (take 3 (c # cs @ ys)) = take (length (take 3 (c # cs))) ''new''" by simp
    moreover have "take (length (take 3 (c # cs))) (take 3 (c # cs @ ys)) = take 3 (c # cs)" by (simp add: min_def)
    ultimately show False using Cons.prems by simp
  qed
  moreover have "take 3 (c # cs @ ys) = take 3 (take 13 (c # cs @ ys))" by (simp only: take_take) simp
  moreover have "take 3 (''new_root: '' @ [CHR 0x22] @ ''0x'') = ''new''" by simp
  ultimately have "take 13 (c # cs @ ys) \<noteq> ''new_root: '' @ [CHR 0x22] @ ''0x''" by metis
  from matchNewRoot_skip [OF this] Cons show ?case by (simp del: matchNewRoot.simps)
qed simp

lemma unmatched_hex: "list_all isHexDigit ds \<Longrightarrow> unmatched ds"
  by (induction ds) (auto simp: isHexDigit_def digitVal_def)

lemma matchesHex_form:
  assumes "matchesHex n s"
  obtains ds where "s = ''0x'' @ ds" and "length ds = n" and "list_all isHexDigit ds"
proof
  show "s = ''0x'' @ drop 2 s" using assms by (metis append_take_drop_id matchesHex_def)
qed (use assms in \<open>auto simp: matchesHex_def\<close>)

text \<open>The expected root survives the trip through the configuration file.  From the text that
  \<open>generate-mock-batch.ts\<close> writes for a bridge address and two hashes in the usual hexadecimal form, the
  regular expression of \<open>verify-state.ts\<close> reads exactly the new root.\<close>

theorem mock_batch_config_roundtrip:
  assumes "matchesHex 40 bridge" and "matchesHex 64 newRoot"
  shows "matchNewRoot (submitterConfig bridge newRoot blobHash) = Some newRoot"
proof -
  obtain ds where b: "bridge = ''0x'' @ ds" "list_all isHexDigit ds" using assms(1) by (rule matchesHex_form)
  have u: "unmatched bridge" using b unmatched_hex by simp
  obtain rs where r: "newRoot = ''0x'' @ rs" "length rs = 64" "list_all isHexDigit rs" using assms(2) by (rule matchesHex_form)
  have tw: "takeWhile isHexDigit (rs @ CHR 0x22 # ys) = rs" for ys
    using r(3) by (simp add: list_all_iff takeWhile_append2 isHexDigit_def digitVal_def)
  have m: "matchNewRoot (''new_root: '' @ quoted newRoot @ ys) = Some newRoot" for ys
    using r tw by (cases rs) (simp_all add: quoted_def Let_def)
  let ?pre = "newline @ ''network:'' @ newline @ ''  rpc_url: '' @ quoted ''http://127.0.0.1:8545'' @ newline @
     ''  chain_id: 31337'' @ newline @ newline @ ''contracts:'' @ newline @ ''  bridge: '' @ [CHR 0x22]"
  let ?mid = "[CHR 0x22] @ newline @ newline @ ''da:'' @ newline @ ''  mode: '' @ quoted ''blob'' @ newline @
     ''  blob_binding: '' @ quoted ''mock'' @ '' # We use mock binding because we don'' @ [CHR 0x27] @ ''t have real blobs'' @ newline @
     ''  blob_index: 0'' @ newline @ newline @ ''batch:'' @ newline @
     ''  data_file: '' @ quoted ''../submitter/test_data.txt'' @ newline @ ''  ''"
  obtain rest where "submitterConfig bridge newRoot blobHash = ?pre @ bridge @ ?mid @ ''new_root: '' @ quoted newRoot @ rest"
    by (simp add: submitterConfig_def quoted_def)
  moreover have "unmatched ?pre" "unmatched ?mid" by code_simp+
  ultimately show ?thesis using u m by (simp only: matchNewRoot_unmatched)
qed

theorem mock_batch_config_witness:
  "matchNewRoot (submitterConfig (''0x'' @ replicate 40 CHR ''a'') (''0x'' @ replicate 64 CHR ''7'') ''0x01'') = Some (''0x'' @ replicate 64 CHR ''7'')"
proof -
  have "matchesHex 40 (''0x'' @ replicate 40 CHR ''a'')" "matchesHex 64 (''0x'' @ replicate 64 CHR ''7'')" by code_simp+
  thus ?thesis by (rule mock_batch_config_roundtrip)
qed

end
