(* ===== verification/TokenMigration.thy ===== *)
theory TokenMigration
  imports Utils
begin

text \<open>
  \<open>l1-contracts/scripts/token-migration.ts\<close>: collecting the tokens registered on the legacy bridge, from the L2
  API page by page or from the L1 logs in ranges of blocks, merging the two lists, and preparing the
  governance operations that migrate the tokens, a number of tokens per operation.

  The API, the logs, the balances and the ABI encoder are parameters.  The two loops that need not end are
  partial functions: \<open>None\<close> means that the loop runs forever.
\<close>

section \<open>Collecting tokens\<close>

text \<open>\<open>send offset limit\<close> is the answer of \<open>zks_getConfirmedTokens\<close>, as the L1 addresses of the tokens.\<close>

partial_function (option) loadConfirmedPages ::
  "(nat \<Rightarrow> nat \<Rightarrow> string list result) \<Rightarrow> nat \<Rightarrow> string list \<Rightarrow> string list result option"
where
  "loadConfirmedPages send offset acc = (case send offset 50 of
       Inl e \<Rightarrow> Some (Inl e)
     | Inr tokens \<Rightarrow> (if tokens = [] then Some (Inr acc) else loadConfirmedPages send (offset + 50) (acc @ tokens)))"

definition loadAllConfirmedTokensFromAPI :: "(nat \<Rightarrow> nat \<Rightarrow> string list result) \<Rightarrow> string list result option" where
  "loadAllConfirmedTokensFromAPI send = loadConfirmedPages send 0 []"

text \<open>The keys of an object that is used as a set, in the order in which they were first written.\<close>

definition addKeys :: "string list \<Rightarrow> string list \<Rightarrow> string list" where
  "addKeys ks new = foldl (\<lambda>acc k. if k \<in> set acc then acc else acc @ [k]) ks new"

text \<open>\<open>getLogs from to\<close> are the tokens of the deposit events in the blocks from \<open>from\<close> to \<open>to\<close>, both included.\<close>

function loadRanges :: "(nat \<Rightarrow> nat \<Rightarrow> string list result) \<Rightarrow> nat \<Rightarrow> nat \<Rightarrow> string list \<Rightarrow> string list result" where
  "loadRanges getLogs startBlock endBlock tokens =
     (if startBlock \<le> endBlock then
        bindR (getLogs startBlock (min (startBlock + 50000) endBlock)) (\<lambda>deposits.
          loadRanges getLogs (startBlock + 50000) endBlock (addKeys tokens deposits))
      else Inr tokens)"
  by pat_completeness auto
termination
  by (relation "measure (\<lambda>(getLogs, startBlock, endBlock, tokens). Suc endBlock - startBlock)") auto

declare loadRanges.simps [simp del]

definition loadAllConfirmedTokensFromL1 :: "(nat \<Rightarrow> nat \<Rightarrow> string list result) \<Rightarrow> nat \<Rightarrow> nat result \<Rightarrow> string list result" where
  "loadAllConfirmedTokensFromL1 getLogs startBlock getBlockNumber =
     bindR getBlockNumber (\<lambda>endBlock. loadRanges getLogs startBlock endBlock [])"

text \<open>\<open>get-confirmed-tokens\<close>: from the L1 when asked to, with a starting block that must be given.\<close>

definition getConfirmedTokens ::
  "(nat \<Rightarrow> nat \<Rightarrow> string list result) \<Rightarrow> (nat \<Rightarrow> nat \<Rightarrow> string list result) \<Rightarrow> nat result \<Rightarrow> bool \<Rightarrow> nat option \<Rightarrow> string list result option"
where
  "getConfirmedTokens send getLogs getBlockNumber useL1 startFromBlock =
     (if useL1 then Some (case startFromBlock of
          None \<Rightarrow> Inl (Error ''For L1 the starting block should be provided'')
        | Some block \<Rightarrow> loadAllConfirmedTokensFromL1 getLogs block getBlockNumber)
      else loadAllConfirmedTokensFromAPI send)"

text \<open>\<open>merge-confirmed-tokens\<close>; \<open>balanceOf\<close> is the balance of the bridge in a token.\<close>

definition mergeConfirmedTokens :: "(string \<Rightarrow> nat result) \<Rightarrow> string list \<Rightarrow> string list \<Rightarrow> string list result" where
  "mergeConfirmedTokens balanceOf fromL1 fromL2 = (
     let tokensFromL1 = map (map lowerChar) fromL1; tokensFromL2 = map (map lowerChar) fromL2;
         allTokens = addKeys (addKeys [] tokensFromL1) tokensFromL2 in
     foldR (\<lambda>token acc. bindR (balanceOf token) (\<lambda>balanceL1. Inr (if 0 < balanceL1 then acc @ [token] else acc))) allTokens [])"

section \<open>Preparing the migration\<close>

text \<open>The options of the command that are passed on, and the encoder of function calls.\<close>

record migration =
  sharedBridgeAddr :: string
  legacyBridgeAddr :: string
  eraChainAddr :: string
  eraChainId :: string
  gasPerToken :: int
  opDelay :: int
  encodeCall :: "string \<Rightarrow> val list \<Rightarrow> string result"

definition migrationCall :: "migration \<Rightarrow> string \<Rightarrow> val result" where
  "migrationCall M token = (
     let target = (if token = ETH_ADDRESS_IN_CONTRACTS then eraChainAddr M else legacyBridgeAddr M) in
     bindR (encodeCall M ''safeTransferFundsFromLegacy'' [VStr token, VStr target, VStr (eraChainId M), VNum (gasPerToken M)]) (\<lambda>callData.
     Inr (VObj [(''target'', VStr (sharedBridgeAddr M)), (''value'', VNum 0), (''data'', VStr callData)])))"

definition prepareGovernanceTokenMigrationCall :: "migration \<Rightarrow> string list \<Rightarrow> (string \<times> string) result" where
  "prepareGovernanceTokenMigrationCall M tokens =
     bindR (mapR (migrationCall M) tokens) (\<lambda>calls.
     let governanceOp = VObj [(''calls'', VList calls), (''predecessor'', VStr HashZero), (''salt'', VStr HashZero)] in
     bindR (encodeCall M ''scheduleTransparent'' [governanceOp, VNum (opDelay M)]) (\<lambda>scheduleCalldata.
     bindR (encodeCall M ''execute'' [governanceOp]) (\<lambda>executeCalldata.
     Inr (scheduleCalldata, executeCalldata))))"

text \<open>\<open>Array.prototype.slice\<close> with integer bounds, negative ones counted from the end; a bound that is no
  number is 0.\<close>

definition sliceBound :: "nat \<Rightarrow> jsnum \<Rightarrow> nat" where
  "sliceBound n x = (case x of NaN \<Rightarrow> 0 | Num i \<Rightarrow> (if i < 0 then nat (int n + i) else min n (nat i)))"

definition sliceN :: "'a list \<Rightarrow> jsnum \<Rightarrow> jsnum \<Rightarrow> 'a list" where
  "sliceN xs from to = take (sliceBound (length xs) to - sliceBound (length xs) from) (drop (sliceBound (length xs) from) xs)"

fun lessN :: "jsnum \<Rightarrow> int \<Rightarrow> bool" where
  "lessN NaN n = False"
| "lessN (Num i) n = (i < n)"

fun minN :: "jsnum \<Rightarrow> int \<Rightarrow> jsnum" where
  "minN NaN n = NaN"
| "minN (Num i) n = Num (min i n)"

text \<open>The loop over the tokens; \<open>step\<close> is the number of tokens per signature, not a number when the option is
  missing.\<close>

partial_function (option) migrationBatches ::
  "migration \<Rightarrow> jsnum \<Rightarrow> string list \<Rightarrow> jsnum \<Rightarrow> (string \<times> string) list \<Rightarrow> (string \<times> string) list result option"
where
  "migrationBatches M step allTokens i acc =
     (if lessN i (int (length allTokens)) then
        (case prepareGovernanceTokenMigrationCall M (sliceN allTokens i (minN (addN i step) (int (length allTokens)))) of
           Inl e \<Rightarrow> Some (Inl e)
         | Inr calldatas \<Rightarrow> migrationBatches M step allTokens (addN i step) (acc @ [calldatas]))
      else Some (Inr acc))"

definition prepareMigrationCalldata :: "migration \<Rightarrow> jsnum \<Rightarrow> string list \<Rightarrow> (string \<times> string) list result option" where
  "prepareMigrationCalldata M tokensPerSignature tokensList =
     migrationBatches M tokensPerSignature (tokensList @ [ETH_ADDRESS_IN_CONTRACTS]) (Num 0) []"

section \<open>Completeness of the collections\<close>

declare loadConfirmedPages.simps [simp del] migrationBatches.simps [simp del]

lemma loadConfirmedPages_all:
  "loadConfirmedPages (\<lambda>offset limit. Inr (take limit (drop offset tokens))) offset acc = Some (Inr (acc @ drop offset tokens))"
proof (induction "length tokens - offset" arbitrary: offset acc rule: less_induct)
  case less
  show ?case
  proof (cases "length tokens \<le> offset")
    case True
    thus ?thesis by (subst loadConfirmedPages.simps) simp
  next
    case False
    have "loadConfirmedPages (\<lambda>offset limit. Inr (take limit (drop offset tokens))) (offset + 50) (acc @ take 50 (drop offset tokens)) =
        Some (Inr (acc @ take 50 (drop offset tokens) @ drop (offset + 50) tokens))"
      using less [of "offset + 50"] False by simp
    also have "take 50 (drop offset tokens) @ drop (offset + 50) tokens = drop offset tokens"
      using append_take_drop_id [of 50 "drop offset tokens"] by (simp add: add.commute)
    finally show ?thesis using False by (subst loadConfirmedPages.simps) simp
  qed
qed

lemma loadConfirmedPages_returns:
  assumes "loadConfirmedPages send offset acc = Some r"
  shows "\<exists>n. send n 50 = Inr [] \<or> (\<exists>e. send n 50 = Inl e)"
  by (rule loadConfirmedPages.raw_induct [where P = "\<lambda>send offset acc r. \<exists>n. send n 50 = Inr [] \<or> (\<exists>e. send n 50 = Inl e)", OF _ assms])
    (auto split: sum.splits if_splits, metis)

lemma addKeys_props: "distinct ks \<Longrightarrow> distinct (addKeys ks new) \<and> set (addKeys ks new) = set ks \<union> set new"
  unfolding addKeys_def by (induction new arbitrary: ks) auto

lemma loadRanges_collects:
  assumes "distinct ts"
  shows "\<exists>r. loadRanges (\<lambda>a b. Inr (concat (map deposits [a..<Suc b]))) s e ts = Inr r \<and> distinct r \<and>
    set r = set ts \<union> (\<Union>b\<in>{s..e}. set (deposits b))"
  using assms
proof (induction "Suc e - s" arbitrary: s ts rule: less_induct)
  case less
  let ?g = "\<lambda>a b. Inr (concat (map deposits [a..<Suc b])) :: string list result"
  show ?case
  proof (cases "s \<le> e")
    case True
    let ?new = "concat (map deposits [s..<Suc (min (s + 50000) e)])"
    obtain r where r: "loadRanges ?g (s + 50000) e (addKeys ts ?new) = Inr r" "distinct r"
      "set r = set (addKeys ts ?new) \<union> (\<Union>b\<in>{s + 50000..e}. set (deposits b))"
      using less.hyps [of "s + 50000" "addKeys ts ?new", OF _ conjunct1 [OF addKeys_props [OF less.prems]]] True
      by (fastforce simp del: upt_Suc)
    have "{s..e} = {s..min (s + 50000) e} \<union> {s + 50000..e}" using True by auto
    hence "set r = set ts \<union> (\<Union>b\<in>{s..e}. set (deposits b))"
      using r(3) less.prems by (auto simp: addKeys_props less_Suc_eq_le simp del: upt_Suc)
    moreover have "loadRanges ?g s e ts = Inr r" using True r(1) by (subst loadRanges.simps) (simp del: upt_Suc)
    ultimately show ?thesis using r(2) by blast
  next
    case False
    thus ?thesis using less.prems by (subst loadRanges.simps) auto
  qed
qed

text \<open>C38: the collections of registered tokens are complete and end.  From an API that answers with pages of the list
  of tokens, the paging loop ends with exactly that list; from the logs, the loop over block ranges ends
  with every token deposited between the first and the last block, once each; an API that never answers
  with an empty page is asked forever.\<close>

theorem confirmed_tokens_complete:
  "loadAllConfirmedTokensFromAPI (\<lambda>offset limit. Inr (take limit (drop offset tokens))) = Some (Inr tokens) \<and>
   (case loadAllConfirmedTokensFromL1 (\<lambda>a b. Inr (concat (map deposits [a..<Suc b]))) startBlock (Inr endBlock) of
      Inl _ \<Rightarrow> False
    | Inr ts \<Rightarrow> distinct ts \<and> set ts = (\<Union>b\<in>{startBlock..endBlock}. set (deposits b))) \<and>
   loadAllConfirmedTokensFromAPI (\<lambda>offset limit. Inr (t # pageOf offset limit)) = None"
proof -
  obtain ts where "loadRanges (\<lambda>a b. Inr (concat (map deposits [a..<Suc b]))) startBlock endBlock [] = Inr ts" "distinct ts"
    "set ts = (\<Union>b\<in>{startBlock..endBlock}. set (deposits b))"
    using loadRanges_collects [of "[]" deposits startBlock endBlock] by auto
  moreover have "loadConfirmedPages (\<lambda>offset limit. Inr (t # pageOf offset limit)) 0 [] = None"
    using loadConfirmedPages_returns [of "\<lambda>offset limit. Inr (t # pageOf offset limit)" 0 "[]"]
    by (cases "loadConfirmedPages (\<lambda>offset limit. Inr (t # pageOf offset limit)) 0 []") auto
  ultimately show ?thesis
    by (simp add: loadAllConfirmedTokensFromAPI_def loadAllConfirmedTokensFromL1_def loadConfirmedPages_all del: upt_Suc)
qed

section \<open>Batches of the migration\<close>

text \<open>The reference: consecutive pieces of a list, each of the given size except a shorter last one.\<close>

fun chunksOf :: "nat \<Rightarrow> 'a list \<Rightarrow> 'a list list" where
  "chunksOf n xs = (if n = 0 \<or> xs = [] then [] else take n xs # chunksOf n (drop n xs))"

declare chunksOf.simps [simp del]

lemma chunksOf_concat: "0 < n \<Longrightarrow> concat (chunksOf n xs) = xs"
proof (induction n xs rule: chunksOf.induct)
  case (1 n xs)
  thus ?case by (subst chunksOf.simps) simp
qed

lemma chunksOf_sizes: "0 < n \<Longrightarrow> list_all (\<lambda>c. 0 < length c \<and> length c \<le> n) (chunksOf n xs)"
proof (induction n xs rule: chunksOf.induct)
  case (1 n xs)
  thus ?case by (subst chunksOf.simps) simp
qed

text \<open>The results of the batches after those already collected.\<close>

definition appendResults :: "'a list \<Rightarrow> 'a list result \<Rightarrow> 'a list result" where
  "appendResults acc r = bindR r (\<lambda>xs. Inr (acc @ xs))"

lemma slice_chunk:
  "i \<le> length xs \<Longrightarrow> sliceN xs (Num (int i)) (minN (Num (int (i + t))) (int (length xs))) = take t (drop i xs)"
  by (auto simp: sliceN_def sliceBound_def min_def not_le nat_int_add)

lemma migrationBatches_chunks:
  assumes "0 < t" and "length xs + t < 2 ^ 53"
  shows "i < length xs + t \<Longrightarrow> migrationBatches M (Num (int t)) xs (Num (int i)) acc =
    Some (appendResults acc (mapR (prepareGovernanceTokenMigrationCall M) (chunksOf t (drop i xs))))"
proof (induction "length xs - i" arbitrary: i acc rule: less_induct)
  case less
  show ?case
  proof (cases "i < length xs")
    case True
    have "int i + int t < 2 ^ 53" using True assms(2) by simp
    hence add: "addN (Num (int i)) (Num (int t)) = Num (int (i + t))" by simp
    let ?p = "prepareGovernanceTokenMigrationCall M (take t (drop i xs))"
    have unfold: "migrationBatches M (Num (int t)) xs (Num (int i)) acc =
        (case ?p of Inl e \<Rightarrow> Some (Inl e) | Inr c \<Rightarrow> migrationBatches M (Num (int t)) xs (Num (int (i + t))) (acc @ [c]))"
      using True by (subst migrationBatches.simps) (simp only: add slice_chunk lessN.simps of_nat_less_iff if_True less_imp_le)
    have chunks: "chunksOf t (drop i xs) = take t (drop i xs) # chunksOf t (drop (i + t) xs)"
      using True assms(1) by (subst chunksOf.simps) (simp add: add.commute)
    show ?thesis
    proof (cases ?p)
      case (Inr c)
      have "migrationBatches M (Num (int t)) xs (Num (int (i + t))) (acc @ [c]) =
          Some (appendResults (acc @ [c]) (mapR (prepareGovernanceTokenMigrationCall M) (chunksOf t (drop (i + t) xs))))"
        using less.hyps [of "i + t" "acc @ [c]"] True assms(1) by simp
      thus ?thesis using unfold Inr chunks
        by (cases "mapR (prepareGovernanceTokenMigrationCall M) (chunksOf t (drop (i + t) xs))") (simp_all add: appendResults_def)
    qed (simp add: unfold chunks appendResults_def)
  next
    case False
    thus ?thesis by (subst migrationBatches.simps, subst chunksOf.simps) (simp add: appendResults_def)
  qed
qed

lemma slice_empty: "sliceN xs (Num 0) (minN (Num 0) (int (length xs))) = []"
  by (simp add: sliceN_def sliceBound_def)

lemma migrationBatches_zero:
  assumes "migrationBatches M (Num 0) (x # xs) (Num 0) acc = Some r"
  shows "\<not> isOk (prepareGovernanceTokenMigrationCall M [])"
proof -
  let ?P = "\<lambda>N step ys i (acc :: (string \<times> string) list) (r :: (string \<times> string) list result).
      step = Num 0 \<and> i = Num 0 \<and> ys \<noteq> [] \<longrightarrow> \<not> isOk (prepareGovernanceTokenMigrationCall N [])"
  have "?P M (Num 0) (x # xs) (Num 0) acc r"
  proof (rule migrationBatches.raw_induct [where P = ?P, OF _ assms])
    fix f N step ys i acc r
    assume IH: "\<And>N step ys i acc r. f N step ys i acc = Some r \<Longrightarrow> ?P N step ys i acc r"
      and body: "(if lessN i (int (length ys)) then
        (case prepareGovernanceTokenMigrationCall N (sliceN ys i (minN (addN i step) (int (length ys)))) of
           Inl e \<Rightarrow> Some (Inl e) | Inr c \<Rightarrow> f N step ys (addN i step) (acc @ [c])) else Some (Inr acc)) = Some r"
    show "?P N step ys i acc r"
    proof
      assume h: "step = Num 0 \<and> i = Num 0 \<and> ys \<noteq> []"
      show "\<not> isOk (prepareGovernanceTokenMigrationCall N [])"
      proof (cases "prepareGovernanceTokenMigrationCall N []")
        case (Inr c)
        hence "f N (Num 0) ys (Num 0) (acc @ [c]) = Some r" using body h slice_empty [of ys] by simp
        thus ?thesis using IH h by blast
      qed simp
    qed
  qed
  thus ?thesis by simp
qed

lemma migrationBatches_error:
  assumes "prepareGovernanceTokenMigrationCall M [] = Inl e"
  shows "migrationBatches M (Num 0) (x # xs) (Num 0) acc = Some (Inl e)"
  using slice_empty [of "x # xs"] assms by (subst migrationBatches.simps) simp

text \<open>C13: the migration loop covers every token exactly once.  With a positive number of tokens per signature the
  loop ends, and its operations are those of the consecutive pieces, of at most that many tokens and none
  empty, of the list with the ether address appended, up to the first piece that cannot be encoded.
  With the number 0 the loop never ends, and with a missing number it prepares one operation that migrates
  nothing.\<close>

theorem migration_batches:
  assumes "0 < t" and "length tokensList + t + 1 < 2 ^ 53"
  shows "prepareMigrationCalldata M (Num (int t)) tokensList =
      Some (mapR (prepareGovernanceTokenMigrationCall M) (chunksOf t (tokensList @ [ETH_ADDRESS_IN_CONTRACTS]))) \<and>
    concat (chunksOf t (tokensList @ [ETH_ADDRESS_IN_CONTRACTS])) = tokensList @ [ETH_ADDRESS_IN_CONTRACTS] \<and>
    list_all (\<lambda>c. 0 < length c \<and> length c \<le> t) (chunksOf t (tokensList @ [ETH_ADDRESS_IN_CONTRACTS])) \<and>
    prepareMigrationCalldata M (Num 0) tokensList =
      (case prepareGovernanceTokenMigrationCall M [] of Inl e \<Rightarrow> Some (Inl e) | Inr _ \<Rightarrow> None) \<and>
    prepareMigrationCalldata M NaN tokensList = Some (mapR (prepareGovernanceTokenMigrationCall M) [[]])"
proof -
  let ?xs = "tokensList @ [ETH_ADDRESS_IN_CONTRACTS]"
  obtain y ys where y: "?xs = y # ys" by (cases ?xs) auto
  have id: "appendResults [] r = r" for r :: "'a list result" by (cases r) (simp_all add: appendResults_def)
  have 1: "prepareMigrationCalldata M (Num (int t)) tokensList = Some (mapR (prepareGovernanceTokenMigrationCall M) (chunksOf t ?xs))"
    using migrationBatches_chunks [of t ?xs 0 M "[]"] assms by (simp add: prepareMigrationCalldata_def id)
  have 2: "prepareMigrationCalldata M (Num 0) tokensList =
      (case prepareGovernanceTokenMigrationCall M [] of Inl e \<Rightarrow> Some (Inl e) | Inr _ \<Rightarrow> None)"
  proof (cases "prepareGovernanceTokenMigrationCall M []")
    case (Inr c)
    thus ?thesis using migrationBatches_zero [of M y ys "[]"]
      by (cases "migrationBatches M (Num 0) ?xs (Num 0) []") (simp_all add: prepareMigrationCalldata_def y)
  qed (simp add: prepareMigrationCalldata_def y migrationBatches_error)
  have 3: "migrationBatches M NaN zs NaN acc = Some (Inr acc)" for zs acc by (subst migrationBatches.simps) simp
  have "sliceN ?xs (Num 0) NaN = []" by (simp add: sliceN_def sliceBound_def)
  hence 4: "prepareMigrationCalldata M NaN tokensList = Some (mapR (prepareGovernanceTokenMigrationCall M) [[]])"
    unfolding prepareMigrationCalldata_def by (subst migrationBatches.simps) (simp add: 3 split: sum.split)
  from 1 2 4 show ?thesis using chunksOf_concat [OF assms(1), of ?xs] chunksOf_sizes [OF assms(1), of ?xs] by simp
qed

definition exampleMigration :: migration where
  "exampleMigration = \<lparr> sharedBridgeAddr = ''0x5'', legacyBridgeAddr = ''0x6'', eraChainAddr = ''0x7'', eraChainId = ''324'', gasPerToken = 100000,
     opDelay = 0, encodeCall = (\<lambda>name args. Inr name) \<rparr>"

theorem migration_batches_witness:
  "prepareMigrationCalldata exampleMigration (Num (int 2)) [''0xa'', ''0xb''] =
     Some (Inr [(''scheduleTransparent'', ''execute''), (''scheduleTransparent'', ''execute'')]) \<and>
   prepareMigrationCalldata exampleMigration (Num 0) [''0xa'', ''0xb''] = None"
proof -
  have p: "prepareGovernanceTokenMigrationCall exampleMigration ts = Inr (''scheduleTransparent'', ''execute'')" for ts
  proof -
    have "\<exists>cs. mapR (migrationCall exampleMigration) ts = Inr cs"
      by (induction ts) (auto simp: migrationCall_def exampleMigration_def)
    thus ?thesis by (auto simp: prepareGovernanceTokenMigrationCall_def exampleMigration_def Let_def)
  qed
  have "chunksOf 2 ([''0xa'', ''0xb''] @ [ETH_ADDRESS_IN_CONTRACTS]) = [[''0xa'', ''0xb''], [ETH_ADDRESS_IN_CONTRACTS]]"
    by (subst chunksOf.simps, subst chunksOf.simps, subst chunksOf.simps) simp
  thus ?thesis using migration_batches [of 2 "[''0xa'', ''0xb'']" exampleMigration] by (simp add: p)
qed

end
