(* ===== verification/StorageReader.thy ===== *)
theory StorageReader
  imports Utils
begin

text \<open>
  \<open>l1-contracts/scripts/read-variable.ts\<close>: reading the value of any variable of a contract from its storage, by the
  storage layout that the Solidity compiler describes.  A name such as \<open>balances[0x..].parts[3]\<close> is parsed into
  a path, which is followed from the slot of the variable through structs, arrays and mappings, and the
  value that the path ends in is read as a whole.

  The contract is fixed; \<open>storageAt\<close> answers for its slots with the 66 characters of a storage word.  The map
  that caches answers has \<open>BigNumber\<close> objects as keys and only saves repeated questions, so it is left out.
  The node, the hash function, the ABI coder and the layout are parameters.  A struct may contain an array of
  itself, so reading a whole variable takes as many levels of nesting as there is fuel; \<open>None\<close> means that it
  ran out.
\<close>

section \<open>Layout and reader\<close>

record layoutMember =
  mLabel :: string
  mSlot :: int
  mOffset :: int
  mType :: string

record typeInfo =
  tLabel :: string
  tEncoding :: string
  tBytes :: int
  tBase :: string
  tKey :: string
  tValue :: string
  tMembers :: "layoutMember list"

record reader =
  storageAt :: "int \<Rightarrow> string result"
  keccakUint :: "int \<Rightarrow> int result"
  keccakHex :: "string \<Rightarrow> int result"
  hexZeroPad32 :: "string \<Rightarrow> string result"
  decodeNumber :: "string \<Rightarrow> string \<Rightarrow> string result"
  utf8Text :: "string \<Rightarrow> string result"
  utf8Hex :: "string \<Rightarrow> string result"
  encodeAbi :: "string \<Rightarrow> val \<Rightarrow> string result"
  layoutTypes :: "string \<Rightarrow> typeInfo option"

definition typeOf :: "reader \<Rightarrow> string \<Rightarrow> typeInfo result" where
  "typeOf R type = (case layoutTypes R type of
     None \<Rightarrow> Inl (TypeError ''Cannot read properties of undefined'') | Some t \<Rightarrow> Inr t)"

text \<open>\<open>String.prototype.substr\<close>, \<open>parseInt(s, 16)\<close> of a hexadecimal text and \<open>parseInt(s, 10)\<close> of a decimal one.\<close>

definition substr :: "string \<Rightarrow> int \<Rightarrow> int \<Rightarrow> string" where
  "substr s from len = take (nat len) (drop (nat (if from < 0 then int (length s) + from else from)) s)"

definition parseHexInt :: "string \<Rightarrow> jsnum" where
  "parseHexInt s = (let ds = takeWhile isHexDigit (if take 2 s = ''0x'' then drop 2 s else s) in
     if ds = [] then NaN else Num (dbl (int (digitsVal 16 0 ds))))"

definition parseDecInt :: "string \<Rightarrow> jsnum" where
  "parseDecInt s = (let ds = takeWhile isDigit s in if ds = [] then NaN else Num (dbl (int (digitsVal 10 0 ds))))"

text \<open>Unary plus on a text: a decimal integer with an optional sign, a hexadecimal integer, or the empty text;
  fractions and exponents are not integers and count as no number.\<close>

definition numberOf :: "string \<Rightarrow> jsnum" where
  "numberOf s = (let neg = (take 1 s = ''-''); ds = (if neg then drop 1 s else s) in
     if s = [] then Num 0
     else if ds \<noteq> [] \<and> list_all isDigit ds then Num ((if neg then -1 else 1) * dbl (int (digitsVal 10 0 ds)))
     else if take 2 s = ''0x'' \<and> drop 2 s \<noteq> [] \<and> list_all isHexDigit (drop 2 s) then Num (dbl (int (digitsVal 16 0 (drop 2 s))))
     else NaN)"

section \<open>Primitive values\<close>

definition readBytes :: "reader \<Rightarrow> int \<Rightarrow> int \<Rightarrow> int \<Rightarrow> string result" where
  "readBytes R slot shift bytes = bindR (storageAt R slot) (\<lambda>data. Inr (''0x'' @ substr data (66 - bytes * 2 - shift * 2) (bytes * 2)))"

text \<open>The slots of a long value, and the text they make: the last one is cut to the remainder of the length.\<close>

definition dynamicSlots :: "reader \<Rightarrow> int \<Rightarrow> nat \<Rightarrow> string list result" where
  "dynamicSlots R firstSlot len = mapR (\<lambda>slotShift. storageAt R (firstSlot + int slotShift)) [0..<(len + 31) div 32]"

fun joinSlots :: "nat \<Rightarrow> string list \<Rightarrow> string" where
  "joinSlots lastLength [] = []"
| "joinSlots lastLength [d] = substr d 2 (int lastLength * 2)"
| "joinSlots lastLength (d # e # ds) = substr d 2 64 @ joinSlots lastLength (e # ds)"

definition readDynamicBytes :: "reader \<Rightarrow> int \<Rightarrow> string result" where
  "readDynamicBytes R slot = bindR (storageAt R slot) (\<lambda>data.
     case parseHexInt (substr data 64 2) of
       Num n \<Rightarrow> (if n mod 2 = 0 then Inr (''0x'' @ substr data 2 (2 * (n div 2)))
         else (case parseHexInt data of
             NaN \<Rightarrow> bindR (keccakUint R slot) (\<lambda>_. Inr ''0x'')
           | Num v \<Rightarrow> let len = nat ((v - 1) div 2) in
               bindR (keccakUint R slot) (\<lambda>firstSlot.
               bindR (dynamicSlots R firstSlot len) (\<lambda>slots.
               Inr (''0x'' @ joinSlots (len mod 32) slots)))))
     | NaN \<Rightarrow> bindR (keccakUint R slot) (\<lambda>_. Inr ''0x''))"

definition readString :: "reader \<Rightarrow> int \<Rightarrow> string result" where
  "readString R slot = bindR (readDynamicBytes R slot) (utf8Text R)"

text \<open>The width in bytes of a label \<open>intN\<close> or \<open>uintN\<close>, \<open>N\<close> a multiple of 8.\<close>

definition widthOf :: "string \<Rightarrow> int" where
  "widthOf label = int (digitsVal 10 0 (if take 3 label = ''int'' then drop 3 label else drop 4 label)) div 8"

definition readNumber :: "reader \<Rightarrow> int \<Rightarrow> int \<Rightarrow> string \<Rightarrow> string result" where
  "readNumber R slot shift label =
     bindR (readBytes R slot shift (widthOf label)) (\<lambda>data.
     bindR (hexZeroPad32 R data) (decodeNumber R label))"

definition readBoolean :: "reader \<Rightarrow> int \<Rightarrow> int \<Rightarrow> bool result" where
  "readBoolean R slot shift = bindR (readNumber R slot shift ''uint8'') (\<lambda>n. Inr (n \<noteq> ''0''))"

definition readAddress :: "reader \<Rightarrow> int \<Rightarrow> int \<Rightarrow> string result" where
  "readAddress R slot shift = readBytes R slot shift 20"

definition readEnum :: "reader \<Rightarrow> int \<Rightarrow> int \<Rightarrow> int \<Rightarrow> string result" where
  "readEnum R slot shift bytes = readNumber R slot shift (''uint'' @ showInt (bytes * 8))"

text \<open>A type that is none of these is read as \<open>undefined\<close>.\<close>

definition strVal :: "string result \<Rightarrow> val result" where
  "strVal r = bindR r (\<lambda>s. Inr (VStr s))"

definition readPrimitive :: "reader \<Rightarrow> int \<Rightarrow> int \<Rightarrow> string \<Rightarrow> val result" where
  "readPrimitive R slot shift type =
     (if take 5 type = ''t_int'' \<or> take 6 type = ''t_uint''
      then bindR (typeOf R type) (\<lambda>t. strVal (readNumber R slot shift (tLabel t)))
      else if type = ''t_bool'' then bindR (readBoolean R slot shift) (\<lambda>b. Inr (VBool b))
      else if type = ''t_address'' \<or> type = ''t_address_payable'' then strVal (readAddress R slot shift)
      else if type = ''t_bytes_storage'' then strVal (readDynamicBytes R slot)
      else if take 7 type = ''t_bytes'' then bindR (typeOf R type) (\<lambda>t. strVal (readBytes R slot shift (tBytes t)))
      else if type = ''t_string_storage'' then strVal (readString R slot)
      else if take 6 type = ''t_enum'' then bindR (typeOf R type) (\<lambda>t. strVal (readEnum R slot shift (tBytes t)))
      else Inr VUndef)"

section \<open>Arrays and structs\<close>

fun mapO :: "('a \<Rightarrow> 'b result option) \<Rightarrow> 'a list \<Rightarrow> 'b list result option" where
  "mapO f [] = Some (Inr [])"
| "mapO f (x # xs) = (case f x of None \<Rightarrow> None | Some (Inl e) \<Rightarrow> Some (Inl e)
     | Some (Inr y) \<Rightarrow> (case mapO f xs of None \<Rightarrow> None | Some (Inl e) \<Rightarrow> Some (Inl e) | Some (Inr ys) \<Rightarrow> Some (Inr (y # ys))))"

definition mapResult :: "('a \<Rightarrow> 'b) \<Rightarrow> 'a result option \<Rightarrow> 'b result option" where
  "mapResult f r = map_option (\<lambda>x. bindR x (\<lambda>a. Inr (f a))) r"

definition lastIndexOf :: "char \<Rightarrow> string \<Rightarrow> int" where
  "lastIndexOf c s = (if c \<in> set s then int (length s) - 1 - int (length (takeWhile (\<lambda>d. d \<noteq> c) (rev s))) else -1)"

definition substring :: "string \<Rightarrow> int \<Rightarrow> int \<Rightarrow> string" where
  "substring s a b = (let i = nat (min a b); j = nat (max a b) in take (j - i) (drop i s))"

definition isDynamic :: "typeInfo \<Rightarrow> bool" where
  "isDynamic t = (tEncoding t = ''dynamic_array'')"

definition arrayLength :: "reader \<Rightarrow> int \<Rightarrow> string \<Rightarrow> typeInfo \<Rightarrow> jsnum result" where
  "arrayLength R slot type t =
     (if isDynamic t then bindR (readNumber R slot 0 ''uint256'') (\<lambda>n. Inr (numberOf n))
      else Inr (parseDecInt (substring type (lastIndexOf CHR '')'' type + 1) (lastIndexOf CHR ''_'' type))))"

definition arrayStart :: "reader \<Rightarrow> int \<Rightarrow> typeInfo \<Rightarrow> int result" where
  "arrayStart R slot t = (if isDynamic t then keccakUint R slot else Inr slot)"

text \<open>The positions, slot and shift, of the elements: several to a slot when they are narrow, from a shift one
  width before the first; or whole slots.\<close>

fun packedPositions :: "nat \<Rightarrow> int \<Rightarrow> int \<Rightarrow> int \<Rightarrow> (int \<times> int) list" where
  "packedPositions 0 slot shift baseBytes = []"
| "packedPositions (Suc n) slot shift baseBytes =
     (if shift + baseBytes + baseBytes > 32 then (slot + 1, 0) # packedPositions n (slot + 1) 0 baseBytes
      else (slot, shift + baseBytes) # packedPositions n slot (shift + baseBytes) baseBytes)"

fun widePositions :: "nat \<Rightarrow> int \<Rightarrow> int \<Rightarrow> (int \<times> int) list" where
  "widePositions 0 slot baseBytes = []"
| "widePositions (Suc n) slot baseBytes = (slot, 0) # widePositions n (slot + baseBytes div 32) baseBytes"

text \<open>Adding a fraction to a \<open>BigNumber\<close> is an error.\<close>

definition arrayPositions :: "jsnum \<Rightarrow> int \<Rightarrow> int \<Rightarrow> (int \<times> int) list result" where
  "arrayPositions len slot baseBytes = (let n = (case len of NaN \<Rightarrow> 0 | Num k \<Rightarrow> nat k) in
     if baseBytes < 32 then Inr (packedPositions n slot (- baseBytes) baseBytes)
     else if 0 < n \<and> baseBytes mod 32 \<noteq> 0 then Inl (Error ''underflow'')
     else Inr (widePositions n slot baseBytes))"

definition arrayElements :: "reader \<Rightarrow> int \<Rightarrow> string \<Rightarrow> (string \<times> (int \<times> int) list) result" where
  "arrayElements R slot type =
     bindR (typeOf R type) (\<lambda>t.
     bindR (arrayLength R slot type t) (\<lambda>len.
     bindR (arrayStart R slot t) (\<lambda>start.
     bindR (typeOf R (tBase t)) (\<lambda>b.
     bindR (arrayPositions len start (tBytes b)) (\<lambda>ps. Inr (tBase t, ps))))))"

definition readArray :: "reader \<Rightarrow> (int \<Rightarrow> int \<Rightarrow> string \<Rightarrow> val result option) \<Rightarrow> int \<Rightarrow> string \<Rightarrow> val result option" where
  "readArray R readElement slot type = (case arrayElements R slot type of
       Inl e \<Rightarrow> Some (Inl e)
     | Inr (baseType, ps) \<Rightarrow> mapResult VList (mapO (\<lambda>(s, shift). readElement s shift baseType) ps))"

definition readStruct :: "reader \<Rightarrow> (int \<Rightarrow> int \<Rightarrow> string \<Rightarrow> val result option) \<Rightarrow> int \<Rightarrow> string \<Rightarrow> val result option" where
  "readStruct R readMember slot type = (case typeOf R type of
       Inl e \<Rightarrow> Some (Inl e)
     | Inr t \<Rightarrow> mapResult (\<lambda>vs. VObj (foldl (\<lambda>obj (k, v). objSet k v obj) [] (zip (map mLabel (tMembers t)) vs)))
         (mapO (\<lambda>m. readMember (slot + mSlot m) (mOffset m) (mType m)) (tMembers t)))"

fun readVariable :: "reader \<Rightarrow> nat \<Rightarrow> int \<Rightarrow> int \<Rightarrow> string \<Rightarrow> val result option" where
  "readVariable R 0 slot shift type = None"
| "readVariable R (Suc fuel) slot shift type =
     (if take 7 type = ''t_array'' then readArray R (readVariable R fuel) slot type
      else if take 8 type = ''t_struct'' then readStruct R (readVariable R fuel) slot type
      else Some (readPrimitive R slot shift type))"

section \<open>Following a path\<close>

definition partOfStruct :: "reader \<Rightarrow> int \<Rightarrow> string \<Rightarrow> string \<Rightarrow> (int \<times> int \<times> string) result" where
  "partOfStruct R slot type field = bindR (typeOf R type) (\<lambda>t.
     case find (\<lambda>m. mLabel m = field) (tMembers t) of
       None \<Rightarrow> Inl (Error ''Invalid field name of struct'')
     | Some m \<Rightarrow> Inr (slot + mSlot m, mOffset m, mType m))"

definition partOfArray :: "reader \<Rightarrow> int \<Rightarrow> string \<Rightarrow> string \<Rightarrow> (int \<times> int \<times> string) result" where
  "partOfArray R slot type param = bindR (typeOf R type) (\<lambda>t.
     bindR (arrayStart R slot t) (\<lambda>start.
     bindR (typeOf R (tBase t)) (\<lambda>b. let baseBytes = tBytes b in
     case numberOf param of
       NaN \<Rightarrow> Inl (Error ''invalid BigNumber value'')
     | Num i \<Rightarrow>
         if baseBytes < 32 then let inOne = 32 div baseBytes in
           Inr (start + i div inOne, baseBytes * (sgn i * (\<bar>i\<bar> mod inOne)), tBase t)
         else if (i * baseBytes) mod 32 \<noteq> 0 then Inl (Error ''underflow'')
         else Inr (start + (i * baseBytes) div 32, 0, tBase t))))"

definition padStart64 :: "string \<Rightarrow> string" where
  "padStart64 s = replicate (64 - length s) CHR ''0'' @ s"

definition encodeKey :: "reader \<Rightarrow> string \<Rightarrow> string \<Rightarrow> string result" where
  "encodeKey R key type =
     (if type = ''t_bool'' then encodeAbi R ''bool'' (VBool (\<not> (key = ''false'' \<or> key = ''0'')))
      else if type = ''t_address'' \<or> type = ''t_address_payable'' then
        (if length key = 42 then Inr (''0x'' @ padStart64 (drop 2 key)) else Inr (''0x'' @ padStart64 key))
      else if type = ''t_string_memory_ptr'' then utf8Hex R key
      else if type = ''t_bytes_memory_ptr'' then (if take 2 key = ''0x'' then Inr key else Inr (''0x'' @ key))
      else bindR (typeOf R type) (\<lambda>t. case numberOf key of
          NaN \<Rightarrow> Inl (Error ''invalid BigNumber value'') | Num i \<Rightarrow> encodeAbi R (tLabel t) (VNum i)))"

definition partOfMap :: "reader \<Rightarrow> int \<Rightarrow> string \<Rightarrow> string \<Rightarrow> (int \<times> int \<times> string) result" where
  "partOfMap R slot type key = bindR (typeOf R type) (\<lambda>t.
     bindR (encodeKey R key (tKey t)) (\<lambda>encodedKey.
     bindR (encodeAbi R ''uint'' (VNum slot)) (\<lambda>encodedSlot.
     bindR (keccakHex R (encodedKey @ drop 2 encodedSlot)) (\<lambda>s. Inr (s, 0, tValue t)))))"

text \<open>One step from a position to a part of it; a primitive value has no parts, and what is left of the path is
  ignored there.\<close>

fun readPath :: "reader \<Rightarrow> nat \<Rightarrow> int \<Rightarrow> int \<Rightarrow> string \<Rightarrow> string list \<Rightarrow> val result option" where
  "readPath R fuel slot shift type [] = readVariable R fuel slot shift type"
| "readPath R fuel slot shift type (p # ps) =
     (if take 7 type = ''t_array'' then
        (case partOfArray R slot type p of Inl e \<Rightarrow> Some (Inl e) | Inr (s, sh, ty) \<Rightarrow> readPath R fuel s sh ty ps)
      else if take 8 type = ''t_struct'' then
        (case partOfStruct R slot type p of Inl e \<Rightarrow> Some (Inl e) | Inr (s, sh, ty) \<Rightarrow> readPath R fuel s sh ty ps)
      else (case typeOf R type of
          Inl e \<Rightarrow> Some (Inl e)
        | Inr t \<Rightarrow>
            if tEncoding t = ''mapping'' then
              (case partOfMap R slot type p of Inl e \<Rightarrow> Some (Inl e) | Inr (s, sh, ty) \<Rightarrow> readPath R fuel s sh ty ps)
            else Some (readPrimitive R slot shift type)))"

text \<open>The parameters are an array from whose end \<open>pop\<close> takes the next step.\<close>

definition readPartOfVariable :: "reader \<Rightarrow> nat \<Rightarrow> int \<Rightarrow> int \<Rightarrow> string \<Rightarrow> string list \<Rightarrow> val result option" where
  "readPartOfVariable R fuel slot shift type params = readPath R fuel slot shift type (rev params)"

section \<open>Names\<close>

definition nameError :: jserror where
  "nameError = Error ''Field names, keys cannot contain square brackets or points''"

text \<open>The loop over the characters from the first point or bracket; the flag says that this is the first one.\<close>

fun parseSteps :: "bool \<Rightarrow> string list \<Rightarrow> string \<Rightarrow> bool \<Rightarrow> string \<Rightarrow> (string list \<times> string \<times> bool) result" where
  "parseSteps atFirst result str bracket [] = Inr (result, str, bracket)"
| "parseSteps atFirst result str bracket (c # cs) =
     (if c = CHR ''.'' then
        (if bracket then Inl nameError else parseSteps False (if atFirst then result else result @ [str]) [] bracket cs)
      else if c = CHR ''['' then
        (if bracket then Inl nameError else parseSteps False (if atFirst then result else result @ [str]) [] True cs)
      else if c = CHR '']'' then
        (if \<not> bracket then Inl nameError else parseSteps False result str False cs)
      else parseSteps False result (str @ [c]) bracket cs)"

definition plainChar :: "char \<Rightarrow> bool" where
  "plainChar c = (c \<noteq> CHR ''.'' \<and> c \<noteq> CHR ''['')"

definition parseName :: "string \<Rightarrow> string list result" where
  "parseName fullName = (let rest = dropWhile plainChar fullName in
     if rest = [] then Inr []
     else bindR (parseSteps True [] [] False rest) (\<lambda>(result, str, bracket).
       if bracket then Inl (Error ''Invalid name'') else Inr (rev (result @ [str]))))"

definition getVariableName :: "string \<Rightarrow> string" where
  "getVariableName fullName = takeWhile (\<lambda>c. c \<noteq> CHR ''.'') (takeWhile (\<lambda>c. c \<noteq> CHR ''['') fullName)"

text \<open>The value of a variable of a contract.  \<open>allContracts\<close> are the fully qualified names, \<open>layoutOf\<close> gives the
  variables of the storage layout; the last variable with the name is taken.\<close>

definition contractMap :: "string list \<Rightarrow> (string \<times> string) list" where
  "contractMap allContracts = foldl (\<lambda>m fullName. objSet (argOf (splitOn CHR '':'' fullName) 1) fullName m) [] allContracts"

definition getValue :: "string list \<Rightarrow> (string \<Rightarrow> layoutMember list result) \<Rightarrow> reader \<Rightarrow> nat \<Rightarrow> string \<Rightarrow> string \<Rightarrow> val result option" where
  "getValue allContracts layoutOf R fuel contractName name = (case map_of (contractMap allContracts) contractName of
       None \<Rightarrow> Some (Inl (Error ''Unknown contract name''))
     | Some fullName \<Rightarrow> (case layoutOf fullName of
           Inl e \<Rightarrow> Some (Inl e)
         | Inr storage \<Rightarrow> (case parseName name of
               Inl e \<Rightarrow> Some (Inl e)
             | Inr params \<Rightarrow> (case find (\<lambda>n. mLabel n = getVariableName name) (rev storage) of
                   None \<Rightarrow> Some (Inl (Error ''Invalid name''))
                 | Some variable \<Rightarrow> readPartOfVariable R fuel (mSlot variable) (mOffset variable) (mType variable) params))))"

section \<open>Parsing names\<close>

datatype pathStep = Field string | Index string

fun stepText :: "pathStep \<Rightarrow> string" where
  "stepText (Field f) = f"
| "stepText (Index k) = k"

fun showStep :: "pathStep \<Rightarrow> string" where
  "showStep (Field f) = CHR ''.'' # f"
| "showStep (Index k) = CHR ''['' # k @ '']''"

definition plainText :: "string \<Rightarrow> bool" where
  "plainText s = list_all (\<lambda>c. plainChar c \<and> c \<noteq> CHR '']'') s"

lemma parseSteps_text:
  "plainText s \<Longrightarrow> parseSteps False result str bracket (s @ cs) = parseSteps False result (str @ s) bracket cs"
  by (induction s arbitrary: str) (simp_all add: plainText_def plainChar_def)

lemma parseSteps_step:
  "plainText (stepText st) \<Longrightarrow> parseSteps atFirst result str False (showStep st @ cs) =
     parseSteps False (if atFirst then result else result @ [str]) (stepText st) False cs"
  by (cases st) (simp_all add: parseSteps_text)

lemma parseSteps_steps:
  "list_all (\<lambda>st. plainText (stepText st)) sts \<Longrightarrow> parseSteps False result str False (concat (map showStep sts) @ cs) =
     parseSteps False (result @ butlast (str # map stepText sts)) (last (str # map stepText sts)) False cs"
  by (induction sts arbitrary: result str) (simp_all add: parseSteps_step)

lemma dropWhile_plain: "plainText s \<Longrightarrow> dropWhile plainChar (s @ cs) = dropWhile plainChar cs"
  by (simp add: plainText_def list_all_iff dropWhile_append2)

lemma parseName_prefix:
  assumes "plainText name" and "list_all (\<lambda>st. plainText (stepText st)) (st # sts)"
  shows "parseName (name @ concat (map showStep (st # sts)) @ cs) =
    bindR (parseSteps False (butlast (map stepText (st # sts))) (last (map stepText (st # sts))) False cs)
      (\<lambda>(result, str, bracket). if bracket then Inl (Error ''Invalid name'') else Inr (rev (result @ [str])))"
proof -
  have "dropWhile plainChar (name @ concat (map showStep (st # sts)) @ cs) = showStep st @ concat (map showStep sts) @ cs"
    using assms(1) by (cases st) (simp_all add: dropWhile_plain plainChar_def)
  moreover have "parseSteps True [] [] False (showStep st @ concat (map showStep sts) @ cs) =
      parseSteps False (butlast (map stepText (st # sts))) (last (map stepText (st # sts))) False cs"
    using assms(2) by (simp add: parseSteps_step parseSteps_steps)
  ultimately show ?thesis by (cases st) (simp_all add: parseName_def Let_def)
qed

lemma parseName_open:
  assumes "plainText name" and "list_all (\<lambda>st. plainText (stepText st)) sts" and "plainText k"
  shows "parseName (name @ concat (map showStep sts) @ CHR ''['' # k @ cs) =
    bindR (parseSteps False (map stepText sts) k True cs)
      (\<lambda>(result, str, bracket). if bracket then Inl (Error ''Invalid name'') else Inr (rev (result @ [str])))"
proof (cases sts)
  case Nil
  have "dropWhile plainChar (name @ CHR ''['' # k @ cs) = CHR ''['' # k @ cs" using assms(1) by (simp add: dropWhile_plain plainChar_def)
  thus ?thesis using assms(3) by (simp add: Nil parseName_def parseSteps_text)
next
  case (Cons st sts')
  have "butlast (map stepText sts) @ [last (map stepText sts)] = map stepText sts" by (rule append_butlast_last_id) (simp add: Cons)
  thus ?thesis using parseName_prefix [OF assms(1), of st sts' "CHR ''['' # k @ cs"] assms(2,3) by (simp add: Cons parseSteps_text)
qed

lemma getVariableName_name:
  assumes "plainText name"
  shows "getVariableName (name @ concat (map showStep sts)) = name"
proof -
  have n: "takeWhile (\<lambda>c. c \<noteq> CHR ''['') name = name" "takeWhile (\<lambda>c. c \<noteq> CHR ''.'') name = name"
    "\<And>cs. takeWhile (\<lambda>c. c \<noteq> CHR ''['') (name @ cs) = name @ takeWhile (\<lambda>c. c \<noteq> CHR ''['') cs"
    "\<And>cs. takeWhile (\<lambda>c. c \<noteq> CHR ''.'') (name @ cs) = name @ takeWhile (\<lambda>c. c \<noteq> CHR ''.'') cs"
    using assms by (auto simp: plainText_def plainChar_def list_all_iff takeWhile_eq_all_conv takeWhile_append2)
  show ?thesis
  proof (cases sts)
    case (Cons st sts')
    thus ?thesis using n by (cases st) (simp_all add: getVariableName_def)
  qed (simp add: getVariableName_def n)
qed

text \<open>C39: a name parses to its path.  For a variable name and steps without points and brackets, fields written with
  a point and indexes or keys in brackets, the parameters are the texts of the steps in reverse order and the
  variable name is found again; a bracket that is not closed is an invalid name, and a point or a bracket
  inside brackets is refused.\<close>

theorem parseName_roundtrip:
  assumes "plainText name" and "list_all (\<lambda>st. plainText (stepText st)) sts" and "plainText k"
  shows "parseName (name @ concat (map showStep sts)) = Inr (rev (map stepText sts)) \<and>
    getVariableName (name @ concat (map showStep sts)) = name \<and>
    parseName (name @ concat (map showStep sts) @ CHR ''['' # k) = Inl (Error ''Invalid name'') \<and>
    parseName (name @ concat (map showStep sts) @ CHR ''['' # k @ CHR ''.'' # cs) = Inl nameError \<and>
    parseName (name @ concat (map showStep sts) @ CHR ''['' # k @ CHR ''['' # cs) = Inl nameError"
proof -
  have "parseName (name @ concat (map showStep sts)) = Inr (rev (map stepText sts))"
  proof (cases sts)
    case Nil
    thus ?thesis using dropWhile_plain [OF assms(1), of "[]"] by (simp add: parseName_def)
  next
    case (Cons st sts')
    have "butlast (map stepText sts) @ [last (map stepText sts)] = map stepText sts" by (rule append_butlast_last_id) (simp add: Cons)
    hence "rev (map stepText sts) = last (map stepText sts) # rev (butlast (map stepText sts))" by (metis rev_eq_Cons_iff rev_rev_ident)
    thus ?thesis using parseName_prefix [OF assms(1), of st sts' "[]"] assms(2) by (simp add: Cons)
  qed
  thus ?thesis using parseName_open [OF assms, of "[]"] parseName_open [OF assms, of "CHR ''.'' # cs"] parseName_open [OF assms, of "CHR ''['' # cs"]
    getVariableName_name [OF assms(1), of sts] by simp
qed

theorem parseName_roundtrip_witness:
  "parseName ''s.balances[0xab]'' = Inr [''0xab'', ''balances''] \<and> getVariableName ''s.balances[0xab]'' = ''s'' \<and>
   parseName ''s.balances[0xab][7'' = Inl (Error ''Invalid name'')"
  using parseName_roundtrip [of "''s''" "[Field ''balances'', Index ''0xab'']" "''7''"] by (simp add: plainText_def plainChar_def)

end
