(* ===== verification/StorageLaws.thy ===== *)
theory StorageLaws
  imports StorageReader
begin

text \<open>
  What the storage reader guarantees: dynamic bytes against the storage layout of Solidity, elements read by index
  against whole arrays, and the shape of the values read.
\<close>

section \<open>Dynamic bytes\<close>

text \<open>The text of bytes, and the value of bytes, most significant first.\<close>

definition hexByte :: "byte \<Rightarrow> string" where
  "hexByte b = [digitChar (unat b div 16), digitChar (unat b mod 16)]"

definition hexBytes :: "byte list \<Rightarrow> string" where
  "hexBytes bs = concat (map hexByte bs)"

definition bytesVal :: "byte list \<Rightarrow> nat" where
  "bytesVal bs = foldl (\<lambda>a b. a * 256 + unat b) 0 bs"

definition slotBytes :: "byte list \<Rightarrow> nat \<Rightarrow> byte list" where
  "slotBytes bs i = take 32 (drop (32 * i) (bs @ replicate 32 0))"

text \<open>The storage layout of Solidity for a dynamic byte array: a short one is in the slot itself, before a last byte
  with twice its length; of a long one the slot holds twice the length plus one, and the bytes are in
  consecutive slots from the hash of the slot.\<close>

definition holdsBytes :: "reader \<Rightarrow> int \<Rightarrow> byte list \<Rightarrow> bool" where
  "holdsBytes R slot bs =
     (if length bs < 32
      then storageAt R slot = Inr (''0x'' @ hexBytes (bs @ replicate (31 - length bs) 0 @ [of_nat (2 * length bs)]))
      else (\<exists>ws firstSlot. length ws = 32 \<and> bytesVal ws = 2 * length bs + 1 \<and> storageAt R slot = Inr (''0x'' @ hexBytes ws) \<and>
        keccakUint R slot = Inr firstSlot \<and>
        list_all (\<lambda>i. storageAt R (firstSlot + int i) = Inr (''0x'' @ hexBytes (slotBytes bs i))) [0..<(length bs + 31) div 32]))"

lemma length_hexBytes [simp]: "length (hexBytes bs) = 2 * length bs"
  by (induction bs) (simp_all add: hexBytes_def hexByte_def)

lemma hexBytes_append [simp]: "hexBytes (xs @ ys) = hexBytes xs @ hexBytes ys"
  by (simp add: hexBytes_def)

lemma take_hexBytes: "take (2 * k) (hexBytes bs) = hexBytes (take k bs)"
proof -
  have "hexBytes bs = hexBytes (take k bs) @ hexBytes (drop k bs)" by (simp flip: hexBytes_append)
  thus ?thesis by (cases "k \<le> length bs") (simp_all add: min_def)
qed

lemma drop_hexBytes: "drop (2 * k) (hexBytes bs) = hexBytes (drop k bs)"
proof -
  have "hexBytes bs = hexBytes (take k bs) @ hexBytes (drop k bs)" by (simp flip: hexBytes_append)
  thus ?thesis by (cases "k \<le> length bs") (simp_all add: min_def)
qed

lemma substr_hexBytes: "substr (''0x'' @ hexBytes bs) 2 (2 * int k) = hexBytes (take k bs)"
  by (simp add: substr_def take_hexBytes nat_mult_distrib)

lemma byte_digits: "unat (b :: byte) div 16 < 16" "unat b mod 16 < 16"
  using unsigned_less [of b, where ?'a = nat] by auto

lemma isHexDigit_hexBytes: "list_all isHexDigit (hexBytes bs)"
  using byte_digits by (induction bs) (simp_all add: hexBytes_def hexByte_def isHexDigit_def)

lemma digitsVal_hexBytes: "digitsVal 16 a (hexBytes bs) = foldl (\<lambda>a b. a * 256 + unat b) a bs"
proof (induction bs arbitrary: a)
  case (Cons b bs)
  have "16 * (16 * a + unat b div 16) + unat b mod 16 = a * 256 + unat b" by simp
  thus ?case using byte_digits [of b] Cons
    by (simp add: hexBytes_def hexByte_def digitsVal_append algebra_simps)
qed (simp add: hexBytes_def)

lemma parseHexInt_hexBytes:
  "bs \<noteq> [] \<Longrightarrow> parseHexInt (hexBytes bs) = Num (dbl (int (bytesVal bs)))"
  "bs \<noteq> [] \<Longrightarrow> parseHexInt (''0x'' @ hexBytes bs) = Num (dbl (int (bytesVal bs)))"
proof -
  assume "bs \<noteq> []"
  then obtain b bs' where b: "bs = b # bs'" by (cases bs) auto
  have tw: "takeWhile isHexDigit (hexBytes bs) = hexBytes bs" using isHexDigit_hexBytes by (simp add: takeWhile_eq_all_conv list_all_iff)
  have "hexBytes bs \<noteq> []" by (simp add: b hexBytes_def hexByte_def)
  moreover have "take 2 (hexBytes bs) \<noteq> ''0x''"
  proof
    assume "take 2 (hexBytes bs) = ''0x''"
    hence "CHR ''x'' \<in> set (hexBytes bs)" by (metis in_set_takeD list.set_intros)
    thus False using isHexDigit_hexBytes [of bs] by (auto simp: list_all_iff isHexDigit_def digitVal_def)
  qed
  ultimately show "parseHexInt (hexBytes bs) = Num (dbl (int (bytesVal bs)))"
    "parseHexInt (''0x'' @ hexBytes bs) = Num (dbl (int (bytesVal bs)))"
    using digitsVal_hexBytes [of 0 bs] by (simp_all add: parseHexInt_def bytesVal_def tw Let_def)
qed

lemma substr_last: "length bs = 31 \<Longrightarrow> substr (''0x'' @ hexBytes (bs @ [b])) 64 2 = hexBytes [b]"
  by (simp add: substr_def)

lemma concat_slots: "concat (map (slotBytes bs) [0..<n]) = take (32 * n) (bs @ replicate 32 0)"
proof (induction n)
  case (Suc n)
  have "take (32 * n) (bs @ replicate 32 0) @ slotBytes bs n = take (32 * n + 32) (bs @ replicate 32 0)"
    by (simp only: slotBytes_def take_add)
  thus ?case using Suc by (simp add: algebra_simps)
qed simp

lemma joinSlots_hexBytes:
  "xss \<noteq> [] \<Longrightarrow> list_all (\<lambda>xs. length xs = 32) xss \<Longrightarrow> joinSlots r (map (\<lambda>xs. ''0x'' @ hexBytes xs) xss) =
     hexBytes (concat (butlast xss) @ take r (last xss))"
proof (induction xss rule: induct_list012)
  case (2 x)
  thus ?case using substr_hexBytes [of x r] by (simp add: mult.commute)
next
  case (3 x y zs)
  thus ?case using substr_hexBytes [of x 32] by simp
qed simp

lemma readDynamicBytes_short:
  assumes "length bs < 32" and "holdsBytes R slot bs"
  shows "readDynamicBytes R slot = Inr (''0x'' @ hexBytes bs)"
proof -
  let ?ws = "bs @ replicate (31 - length bs) 0 @ [of_nat (2 * length bs)]"
  have data: "storageAt R slot = Inr (''0x'' @ hexBytes ?ws)" using assms by (simp add: holdsBytes_def)
  have "unat (of_nat (2 * length bs) :: byte) = 2 * length bs" using assms(1) by (simp add: unat_of_nat del: of_nat_mult)
  hence "parseHexInt (substr (''0x'' @ hexBytes ?ws) 64 2) = Num (2 * int (length bs))"
    using substr_last [of "bs @ replicate (31 - length bs) 0"] parseHexInt_hexBytes(1) [of "[of_nat (2 * length bs)]"] assms(1)
    by (simp add: bytesVal_def del: of_nat_mult hexBytes_append)
  thus ?thesis using data substr_hexBytes [of ?ws "length bs"] by (simp add: readDynamicBytes_def del: hexBytes_append)
qed

lemma readDynamicBytes_long:
  assumes "32 \<le> length bs" and "holdsBytes R slot bs" and "length bs < 2 ^ 52"
  shows "readDynamicBytes R slot = Inr (''0x'' @ hexBytes (if length bs mod 32 = 0 then take (length bs - 32) bs else bs))"
proof -
  let ?n = "(length bs + 31) div 32" and ?l = "length bs mod 32"
  obtain ws firstSlot where ws: "length ws = 32" "bytesVal ws = 2 * length bs + 1" "storageAt R slot = Inr (''0x'' @ hexBytes ws)"
      "keccakUint R slot = Inr firstSlot"
    and slots: "list_all (\<lambda>i. storageAt R (firstSlot + int i) = Inr (''0x'' @ hexBytes (slotBytes bs i))) [0..<?n]"
    using assms(1,2) by (auto simp: holdsBytes_def)
  obtain us u where u: "ws = us @ [u]" "length us = 31" using ws(1) by (cases ws rule: rev_cases) auto
  have "bytesVal ws = bytesVal us * 256 + unat u" by (simp add: u(1) bytesVal_def)
  moreover have "odd (bytesVal ws)" unfolding ws(2) by simp
  ultimately have "odd (unat u)" by simp
  hence "int (unat u) mod 2 \<noteq> 0" by presburger
  moreover have "dbl (int (unat u)) = int (unat u)" using unsigned_less [of u, where ?'a = int] by (intro dbl_exact) simp
  moreover have "parseHexInt (substr (''0x'' @ hexBytes ws) 64 2) = Num (dbl (int (unat u)))"
    using substr_last [OF u(2), of u] parseHexInt_hexBytes(1) [of "[u]"] by (simp add: u(1) bytesVal_def)
  ultimately obtain k where k: "parseHexInt (substr (''0x'' @ hexBytes ws) 64 2) = Num k" "k mod 2 \<noteq> 0" by metis
  have v: "parseHexInt (''0x'' @ hexBytes ws) = Num (2 * int (length bs) + 1)"
    using parseHexInt_hexBytes(2) [of ws] ws(1,2) assms(3) by (cases ws) (auto simp: add.commute)
  have "dynamicSlots R firstSlot (length bs) = Inr (map (\<lambda>i. ''0x'' @ hexBytes (slotBytes bs i)) [0..<?n])"
    unfolding dynamicSlots_def using slots by (intro mapR_total) (simp add: list_all_iff)
  hence read: "readDynamicBytes R slot = Inr (''0x'' @ joinSlots ?l (map (\<lambda>xs. ''0x'' @ hexBytes xs) (map (slotBytes bs) [0..<?n])))"
    using ws(3,4) k v by (simp add: readDynamicBytes_def comp_def Let_def)
  have n: "0 < ?n" using assms(1) by simp
  have "length (slotBytes bs i) = 32" if "i < ?n" for i
  proof -
    have "32 * (i + 1) \<le> 32 * ?n" "32 * ?n \<le> length bs + 31" using that by simp_all
    hence "32 * (i + 1) \<le> length bs + 31" by (rule order_trans)
    hence "32 * i < length bs" by simp
    thus ?thesis by (simp add: slotBytes_def)
  qed
  hence "joinSlots ?l (map (\<lambda>xs. ''0x'' @ hexBytes xs) (map (slotBytes bs) [0..<?n])) =
      hexBytes (concat (butlast (map (slotBytes bs) [0..<?n])) @ take ?l (last (map (slotBytes bs) [0..<?n])))"
    using n by (intro joinSlots_hexBytes) (auto simp: list_all_iff)
  also have "concat (butlast (map (slotBytes bs) [0..<?n])) @ take ?l (last (map (slotBytes bs) [0..<?n])) =
      take (32 * (?n - 1)) (bs @ replicate 32 0) @ take ?l (slotBytes bs (?n - 1))"
  proof -
    obtain m where "?n = Suc m" using n gr0_implies_Suc by blast
    thus ?thesis by (simp only:) (simp add: butlast_append concat_slots)
  qed
  also have "\<dots> = take (32 * (?n - 1) + ?l) (bs @ replicate 32 0)"
    by (simp only: slotBytes_def take_add take_take) simp
  also have "\<dots> = (if length bs mod 32 = 0 then take (length bs - 32) bs else bs)"
  proof (cases "length bs mod 32 = 0")
    case True
    then obtain q where "length bs = 32 * q" by auto
    hence "32 * (?n - 1) = length bs - 32" by simp
    thus ?thesis using True by simp
  next
    case False
    have "?n = length bs div 32 + (?l + 31) div 32"
      by (metis div_mult_mod_eq div_mult_self3 add.assoc zero_neq_numeral)
    moreover have "(?l + 31) div 32 = 1" using False mod_less_divisor [of 32 "length bs"] by simp
    ultimately have "32 * (?n - 1) + ?l = length bs" by simp
    thus ?thesis using False by simp
  qed
  finally show ?thesis using read by simp
qed

text \<open>C18: reading dynamic bytes.  When the storage holds a byte array in the layout of Solidity, the reader returns its
  bytes, except for a length of at least 32 that is a multiple of 32: then the last 32 bytes are missing,
  because the last slot is cut to the remainder of the length, which is 0.\<close>

theorem readDynamicBytes_correct:
  assumes "holdsBytes R slot bs" and "length bs < 2 ^ 52"
  shows "readDynamicBytes R slot =
    Inr (''0x'' @ hexBytes (if 32 \<le> length bs \<and> length bs mod 32 = 0 then take (length bs - 32) bs else bs))"
  using readDynamicBytes_short [OF _ assms(1)] readDynamicBytes_long [OF _ assms] by (cases "length bs < 32") auto

text \<open>A reader of a storage whose slot 0 holds an array of 64 bytes.\<close>

definition exampleReader :: reader where
  "exampleReader = \<lparr> storageAt = (\<lambda>s. Inr (''0x'' @ hexBytes (if s = 0 then replicate 31 0 @ [129] else replicate 32 7))),
     keccakUint = (\<lambda>_. Inr 100), keccakHex = (\<lambda>_. Inr 200), hexZeroPad32 = Inr, decodeNumber = (\<lambda>_ s. Inr ''2''), utf8Text = Inr, utf8Hex = Inr,
     encodeAbi = (\<lambda>_ _. Inr ''0x''), layoutTypes = (\<lambda>type.
       if type = ''t_array(t_uint8)2_storage'' then Some \<lparr> tLabel = ''uint8[2]'', tEncoding = ''inplace'', tBytes = 32, tBase = ''t_uint8'',
         tKey = [], tValue = [], tMembers = [] \<rparr>
       else if type = ''t_uint8'' then Some \<lparr> tLabel = ''uint8'', tEncoding = ''inplace'', tBytes = 1, tBase = [], tKey = [], tValue = [], tMembers = [] \<rparr>
       else None) \<rparr>"

theorem readDynamicBytes_witness:
  "readDynamicBytes exampleReader 0 = Inr (''0x'' @ hexBytes (replicate 32 7))"
proof -
  let ?ws = "replicate 31 0 @ [129] :: byte list" and ?bs = "replicate 64 7 :: byte list"
  have "length ?ws = 32" by simp
  moreover have "foldl (\<lambda>a b. a * 256 + unat b) 0 (replicate k (0 :: byte)) = 0" for k by (induction k) simp_all
  hence "bytesVal ?ws = 2 * length ?bs + 1" by (simp only: bytesVal_def foldl_append) simp
  moreover have "slotBytes ?bs 0 = replicate 32 7" "slotBytes ?bs 1 = replicate 32 7" by (simp_all add: slotBytes_def)
  ultimately have "\<exists>ws firstSlot. length ws = 32 \<and> bytesVal ws = 2 * length ?bs + 1 \<and> storageAt exampleReader 0 = Inr (''0x'' @ hexBytes ws) \<and>
      keccakUint exampleReader 0 = Inr firstSlot \<and>
      list_all (\<lambda>i. storageAt exampleReader (firstSlot + int i) = Inr (''0x'' @ hexBytes (slotBytes ?bs i))) [0..<(length ?bs + 31) div 32]"
    by (intro exI [of _ ?ws] exI [of _ 100]) (simp add: exampleReader_def numeral_2_eq_2)
  hence "holdsBytes exampleReader 0 ?bs" by (simp add: holdsBytes_def)
  thus ?thesis using readDynamicBytes_correct [of exampleReader 0 ?bs] by simp
qed

section \<open>Elements by index\<close>

lemma mapO_nth:
  "mapO f xs = Some (Inr ys) \<Longrightarrow> length ys = length xs \<and> (\<forall>i < length xs. f (xs ! i) = Some (Inr (ys ! i)))"
proof (induction xs arbitrary: ys)
  case (Cons x xs)
  from Cons.prems obtain y zs where y: "f x = Some (Inr y)" "mapO f xs = Some (Inr zs)" "ys = y # zs"
    by (auto split: option.splits sum.splits)
  from Cons.IH [OF y(2)] y(1,3) show ?case by (auto simp: nth_Cons split: nat.splits)
qed simp

lemma packed_step:
  fixes b :: int
  assumes "0 < b" and "b < 32"
  shows "(b * int r + b + b > 32) = (nat (32 div b) < r + 2)"
proof -
  let ?q = "32 div b"
  have d: "b * ?q + 32 mod b = 32" "0 \<le> 32 mod b" "32 mod b < b" using assms(1) by (simp_all only: mult_div_mod_eq) simp_all
  have "b * (?q + 1) = b * ?q + b" by (simp only: distrib_left mult_1_right)
  hence q: "b * ?q \<le> 32" "32 < b * (?q + 1)" using d by linarith+
  have "(32 < b * (int r + 2)) = (?q < int r + 2)"
  proof
    assume "32 < b * (int r + 2)"
    show "?q < int r + 2"
    proof (rule ccontr)
      assume "\<not> ?q < int r + 2"
      hence "b * (int r + 2) \<le> b * ?q" using assms(1) by simp
      thus False using q(1) \<open>32 < b * (int r + 2)\<close> by simp
    qed
  next
    assume "?q < int r + 2"
    hence "b * (?q + 1) \<le> b * (int r + 2)" using assms(1) by simp
    thus "32 < b * (int r + 2)" using q(2) by simp
  qed
  moreover have "int (nat (32 div b)) = 32 div b" using assms by (simp add: pos_imp_zdiv_nonneg_iff)
  ultimately show ?thesis by (simp add: algebra_simps) linarith
qed

lemma packedPositions_length [simp]: "length (packedPositions n slot shift b) = n"
  by (induction n arbitrary: slot shift) simp_all

lemma packedPositions_from:
  assumes "0 < b" and "b < 32" and "m = nat (32 div b)" and "i < n"
  shows "packedPositions n (slot + int (j div m)) (b * int (j mod m)) b ! i = (slot + int ((j + 1 + i) div m), b * int ((j + 1 + i) mod m))"
  using assms(4)
proof (induction n arbitrary: i j)
  case (Suc n)
  have m: "0 < m" using assms(1-3) by (simp add: pos_imp_zdiv_pos_iff)
  have r: "j mod m < m" using m by simp
  have c: "(b * int (j mod m) + b + b > 32) = (Suc (j mod m) = m)" using packed_step [OF assms(1,2), of "j mod m"] assms(3) r by auto
  have "packedPositions (Suc n) (slot + int (j div m)) (b * int (j mod m)) b =
      (slot + int (Suc j div m), b * int (Suc j mod m)) # packedPositions n (slot + int (Suc j div m)) (b * int (Suc j mod m)) b"
  proof (cases "Suc (j mod m) = m")
    case True
    hence "b * int (j mod m) + b + b > 32" using c by blast
    thus ?thesis using True by (simp add: mod_Suc div_Suc ac_simps)
  next
    case False
    hence "\<not> b * int (j mod m) + b + b > 32" using c by blast
    thus ?thesis using False by (simp add: mod_Suc div_Suc distrib_left ac_simps)
  qed
  thus ?case using Suc by (cases i) simp_all
qed simp

lemma packedPositions_nth:
  assumes "0 < b" and "b < 32" and "i < n"
  shows "packedPositions n slot (- b) b ! i = (slot + int i div (32 div b), b * (int i mod (32 div b)))"
proof -
  define m where "m = nat (32 div b)"
  have m: "int m = 32 div b" using assms(1,2) by (simp add: m_def pos_imp_zdiv_nonneg_iff)
  obtain k where k: "n = Suc k" using assms(3) by (cases n) auto
  have first: "packedPositions n slot (- b) b = (slot, 0) # packedPositions k slot 0 b" using assms(2) by (simp add: k)
  show ?thesis
  proof (cases i)
    case (Suc j)
    have "packedPositions k slot 0 b ! j = (slot + int ((1 + j) div m), b * int ((1 + j) mod m))"
      using packedPositions_from [OF assms(1,2) m_def, of j k slot 0] assms(3) k Suc by simp
    thus ?thesis by (simp add: first Suc m [symmetric] zdiv_int zmod_int)
  qed (simp add: first)
qed

lemma widePositions_length [simp]: "length (widePositions n slot b) = n"
  by (induction n arbitrary: slot) simp_all

lemma widePositions_nth: "i < n \<Longrightarrow> widePositions n slot b ! i = (slot + int i * (b div 32), 0)"
  by (induction n arbitrary: i slot) (auto simp: nth_Cons algebra_simps split: nat.splits)

lemma arrayPositions_nth:
  assumes "arrayPositions len slot b = Inr ps" and "0 < b" and "i < length ps"
  shows "ps ! i = (if b < 32 then (slot + int i div (32 div b), b * (int i mod (32 div b))) else (slot + (int i * b) div 32, 0))"
    and "32 \<le> b \<longrightarrow> (int i * b) mod 32 = 0"
proof -
  have n: "0 < length ps" using assms(3) by linarith
  have w: "\<not> b < 32 \<Longrightarrow> \<exists>q. b = 32 * q" using assms(1) n by (auto simp: arrayPositions_def Let_def split: if_splits)
  show "ps ! i = (if b < 32 then (slot + int i div (32 div b), b * (int i mod (32 div b))) else (slot + (int i * b) div 32, 0))"
  proof (cases "b < 32")
    case True
    thus ?thesis using assms packedPositions_nth [OF assms(2) True] by (auto simp: arrayPositions_def Let_def)
  next
    case False
    then obtain q where "b = 32 * q" using w by blast
    thus ?thesis using assms False by (auto simp: arrayPositions_def Let_def widePositions_nth split: if_splits)
  qed
  show "32 \<le> b \<longrightarrow> (int i * b) mod 32 = 0" using w by auto
qed

lemma numberOf_showNat: "i < 2 ^ 53 \<Longrightarrow> numberOf (showNat i) = Num (int i)"
proof -
  assume i: "i < 2 ^ 53"
  obtain c cs where c: "showNat i = c # cs" by (cases "showNat i") simp_all
  have d: "list_all isDigit (showNat i)" using showNat_isDigit [of _ i] by (simp add: list_all_iff)
  hence "c \<noteq> CHR ''-''" by (auto simp: c dest: isDigit_distinct)
  hence "take 1 (showNat i) \<noteq> ''-''" by (simp add: c)
  moreover have "dbl (int i) = int i" using i by (intro dbl_exact) simp
  ultimately show ?thesis using d by (simp add: numberOf_def Let_def digitsVal_showBase)
qed

lemma mapResult_success:
  assumes "mapResult f r = Some (Inr y)"
  obtains x where "r = Some (Inr x)" and "y = f x"
proof (cases r)
  case (Some s)
  show ?thesis using assms that Some by (cases s) (simp_all add: mapResult_def)
qed (use assms in \<open>simp add: mapResult_def\<close>)

lemma readArray_success:
  assumes "readArray R f slot type = Some (Inr (VList vs))"
  obtains base ps where "arrayElements R slot type = Inr (base, ps)" and "mapO (\<lambda>(s, sh). f s sh base) ps = Some (Inr vs)"
proof (cases "arrayElements R slot type")
  case (Inr x)
  obtain base ps where x: "x = (base, ps)" by (cases x)
  have "mapResult VList (mapO (\<lambda>(s, sh). f s sh base) ps) = Some (Inr (VList vs))" using assms by (simp add: readArray_def Inr x)
  then obtain us where "mapO (\<lambda>(s, sh). f s sh base) ps = Some (Inr us)" "VList vs = VList us" by (rule mapResult_success)
  thus ?thesis using that Inr x by simp
qed (use assms in \<open>simp add: readArray_def\<close>)

text \<open>C14: an element read by its index is the element of the array read as a whole.  For a static or dynamic array, of
  narrow elements packed several to a slot or of elements of whole slots, following an index in the array
  from the computed slot and shift gives the value that the loop over all elements puts at that index.\<close>

theorem array_element_by_index:
  assumes "take 7 type = ''t_array''" and "layoutTypes R type = Some t" and "layoutTypes R (tBase t) = Some b" and "0 < tBytes b"
    and "readVariable R (Suc fuel) slot shift type = Some (Inr (VList vs))" and "i < length vs" and "i < 2 ^ 53"
  shows "readPartOfVariable R fuel slot shift type [showNat i] = Some (Inr (vs ! i))"
proof -
  have "readArray R (readVariable R fuel) slot type = Some (Inr (VList vs))" using assms(1,5) by simp
  then obtain base ps where e: "arrayElements R slot type = Inr (base, ps)"
    and m: "mapO (\<lambda>(s, sh). readVariable R fuel s sh base) ps = Some (Inr vs)" by (rule readArray_success)
  from e obtain len start where base: "base = tBase t" and a: "arrayStart R slot t = Inr start" "arrayPositions len start (tBytes b) = Inr ps"
    using assms(2,3) by (auto simp: arrayElements_def typeOf_def bindR_Inr_iff)
  have i: "i < length ps" using mapO_nth [OF m] assms(6) by simp
  hence v: "(case ps ! i of (s, sh) \<Rightarrow> readVariable R fuel s sh (tBase t)) = Some (Inr (vs ! i))" using mapO_nth [OF m] base by simp
  have "sgn (int i) * (\<bar>int i\<bar> mod k) = int i mod k" for k by (cases i) simp_all
  hence "partOfArray R slot type (showNat i) = Inr (fst (ps ! i), snd (ps ! i), tBase t)"
    using arrayPositions_nth [OF a(2) assms(4) i] a(1) assms(2,3,7)
    by (simp add: partOfArray_def typeOf_def numberOf_showNat Let_def)
  thus ?thesis using assms(1) v by (simp add: readPartOfVariable_def split: prod.splits)
qed

definition exampleArray :: string where
  "exampleArray = ''t_array(t_uint8)2_storage''"

lemma exampleArray_read: "readVariable exampleReader 2 5 0 exampleArray = Some (Inr (VList [VStr ''2'', VStr ''2'']))"
proof -
  have n: "readNumber exampleReader slot shift label = Inr ''2''" for slot shift label
    by (simp add: readNumber_def readBytes_def exampleReader_def)
  obtain t b where t: "layoutTypes exampleReader exampleArray = Some t" "tBase t = ''t_uint8''" "\<not> isDynamic t"
    and b: "layoutTypes exampleReader ''t_uint8'' = Some b" "tBytes b = 1"
    by (simp add: exampleReader_def exampleArray_def isDynamic_def)
  have "substring exampleArray (lastIndexOf CHR '')'' exampleArray + 1) (lastIndexOf CHR ''_'' exampleArray) = ''2''" by code_simp
  hence l: "parseDecInt (substring exampleArray (lastIndexOf CHR '')'' exampleArray + 1) (lastIndexOf CHR ''_'' exampleArray)) = Num 2"
    by (simp add: parseDecInt_def isDigit_def digitVal_def)
  have "packedPositions 2 5 (- 1) 1 = [(5, 0), (5, 1)]" by (simp add: numeral_2_eq_2)
  hence "arrayElements exampleReader 5 exampleArray = Inr (''t_uint8'', [(5, 0), (5, 1)])"
    by (simp add: arrayElements_def typeOf_def t b arrayLength_def arrayStart_def l arrayPositions_def)
  moreover have "readVariable exampleReader (Suc 0) slot shift ''t_uint8'' = Some (Inr (VStr ''2''))" for slot shift
    by (simp add: readPrimitive_def typeOf_def b strVal_def n)
  moreover have "take 7 exampleArray = ''t_array''" by (simp add: exampleArray_def)
  ultimately show ?thesis by (simp add: numeral_2_eq_2 readArray_def mapResult_def)
qed

theorem array_element_witness: "readPartOfVariable exampleReader 1 5 0 exampleArray [showNat 1] = Some (Inr (VStr ''2''))"
proof -
  obtain t b where "layoutTypes exampleReader exampleArray = Some t" "tBase t = ''t_uint8''"
    "layoutTypes exampleReader ''t_uint8'' = Some b" "tBytes b = 1"
    by (simp add: exampleReader_def exampleArray_def)
  moreover have "take 7 exampleArray = ''t_array''" by (simp add: exampleArray_def)
  moreover have "readVariable exampleReader (Suc 1) 5 0 exampleArray = Some (Inr (VList [VStr ''2'', VStr ''2'']))"
    using exampleArray_read by (simp only: Suc_1)
  ultimately show ?thesis using array_element_by_index [of exampleArray exampleReader t b 1 5 0 "[VStr ''2'', VStr ''2'']" 1] by simp
qed

section \<open>The shape of a value\<close>

text \<open>The primitive types that are read as text.\<close>

definition textType :: "string \<Rightarrow> bool" where
  "textType type = (take 5 type = ''t_int'' \<or> take 6 type = ''t_uint'' \<or> type \<in> {''t_address'', ''t_address_payable'', ''t_string_storage''} \<or>
     take 7 type = ''t_bytes'' \<or> take 6 type = ''t_enum'')"

fun conforms :: "reader \<Rightarrow> nat \<Rightarrow> string \<Rightarrow> val \<Rightarrow> bool" where
  "conforms R 0 type v = False"
| "conforms R (Suc fuel) type v =
     (if take 7 type = ''t_array'' then
        (case (v, layoutTypes R type) of (VList vs, Some t) \<Rightarrow> list_all (conforms R fuel (tBase t)) vs | _ \<Rightarrow> False)
      else if take 8 type = ''t_struct'' then
        (case (v, layoutTypes R type) of
           (VObj obj, Some t) \<Rightarrow> list_all2 (\<lambda>m (k, x). k = mLabel m \<and> conforms R fuel (mType m) x) (tMembers t) obj
         | _ \<Rightarrow> False)
      else if type = ''t_bool'' then v \<in> {VBool True, VBool False}
      else if textType type then (case v of VStr s \<Rightarrow> True | _ \<Rightarrow> False)
      else v = VUndef)"

text \<open>A layout without recursive types: a rank that decreases from an array to its elements and from a struct to its
  members, whose labels are distinct.\<close>

definition ranked :: "reader \<Rightarrow> (string \<Rightarrow> nat) \<Rightarrow> bool" where
  "ranked R rank = (\<forall>type t. layoutTypes R type = Some t \<longrightarrow>
     (take 7 type = ''t_array'' \<longrightarrow> rank (tBase t) < rank type) \<and>
     (take 8 type = ''t_struct'' \<longrightarrow> list_all (\<lambda>m. rank (mType m) < rank type) (tMembers t)) \<and>
     distinct (map mLabel (tMembers t)))"

lemma mapO_total:
  assumes "\<And>x. x \<in> set xs \<Longrightarrow> \<exists>r. f x = Some r \<and> (case r of Inl _ \<Rightarrow> True | Inr y \<Rightarrow> P x y)"
  shows "\<exists>r. mapO f xs = Some r \<and> (case r of Inl _ \<Rightarrow> True | Inr ys \<Rightarrow> list_all2 P xs ys)"
  using assms
proof (induction xs)
  case (Cons x xs)
  obtain r where r: "f x = Some r" "case r of Inl _ \<Rightarrow> True | Inr y \<Rightarrow> P x y" using Cons.prems by fastforce
  obtain s where s: "mapO f xs = Some s" "case s of Inl _ \<Rightarrow> True | Inr ys \<Rightarrow> list_all2 P xs ys" using Cons by fastforce
  show ?case using r s by (cases r; cases s) auto
qed simp

lemma foldl_objSet:
  "distinct (map fst (obj @ kvs)) \<Longrightarrow> foldl (\<lambda>obj (k, v). objSet k v obj) obj kvs = obj @ kvs"
proof (induction kvs arbitrary: obj)
  case (Cons kv kvs)
  obtain k v where kv: "kv = (k, v)" by (cases kv)
  have "objSet k v obj = obj @ [(k, v)]" if "k \<notin> fst ` set obj" using that by (induction obj) auto
  thus ?case using Cons kv by simp
qed simp

lemma if_cases: "(c \<Longrightarrow> P x) \<Longrightarrow> (\<not> c \<Longrightarrow> P y) \<Longrightarrow> P (if c then x else y)"
  by simp

lemma readPrimitive_shape:
  assumes "take 7 type \<noteq> ''t_array''" and "take 8 type \<noteq> ''t_struct''"
  shows "case readPrimitive R slot shift type of Inl _ \<Rightarrow> True | Inr v \<Rightarrow> conforms R (Suc fuel) type v"
proof -
  let ?P = "\<lambda>r. case r of Inl _ \<Rightarrow> True | Inr v \<Rightarrow> conforms R (Suc fuel) type v"
  have s: "?P (bindR x (\<lambda>t. strVal (f t)))" "?P (strVal r)" if "textType type" for x :: "typeInfo result" and f r
  proof -
    have "type \<noteq> ''t_bool''" using that by (auto simp: textType_def)
    hence "?P (strVal q)" for q using assms that by (cases q) (simp_all add: strVal_def)
    thus "?P (bindR x (\<lambda>t. strVal (f t)))" "?P (strVal r)" by (cases x, simp_all)
  qed
  show ?thesis unfolding readPrimitive_def
    apply (rule if_cases [where P = ?P])
    subgoal by (rule s(1)) (auto simp: textType_def)
    apply (rule if_cases [where P = ?P])
    subgoal by (cases "readBoolean R slot shift") auto
    apply (rule if_cases [where P = ?P])
    subgoal by (rule s(2)) (auto simp: textType_def)
    apply (rule if_cases [where P = ?P])
    subgoal by (rule s(2)) (simp add: textType_def)
    apply (rule if_cases [where P = ?P])
    subgoal by (rule s(1)) (simp add: textType_def)
    apply (rule if_cases [where P = ?P])
    subgoal by (rule s(2)) (simp add: textType_def)
    apply (rule if_cases [where P = ?P])
    subgoal by (rule s(1)) (simp add: textType_def)
    subgoal using assms by (simp add: textType_def)
    done
qed

text \<open>C19: reading a variable returns a value of its type.  In a layout without recursive types, as many levels of fuel as
  the rank of the type are enough for the reader to return; when it returns a value, an array type gives a
  list of values of its base type, a struct type an object with exactly the labels of its members in their
  order and values of their types, a boolean a truth value, and the numbers, addresses, bytes, strings and
  enums a text; any other type, such as a contract, gives \<open>undefined\<close>.\<close>

theorem readVariable_typed:
  assumes "ranked R rank" and "rank type < fuel"
  shows "\<exists>r. readVariable R fuel slot shift type = Some r \<and> (case r of Inl _ \<Rightarrow> True | Inr v \<Rightarrow> conforms R fuel type v)"
  using assms(2)
proof (induction fuel arbitrary: slot shift type)
  case (Suc fuel)
  consider (arr) "take 7 type = ''t_array''" | (struct) "take 7 type \<noteq> ''t_array''" "take 8 type = ''t_struct''"
    | (prim) "take 7 type \<noteq> ''t_array''" "take 8 type \<noteq> ''t_struct''" by blast
  thus ?case
  proof cases
    case arr
    show ?thesis
    proof (cases "arrayElements R slot type")
      case (Inr x)
      obtain base ps where x: "x = (base, ps)" by (cases x)
      obtain t where t: "layoutTypes R type = Some t" "base = tBase t"
        using Inr x by (auto simp: arrayElements_def typeOf_def bindR_Inr_iff split: option.splits)
      have "rank base < fuel" using assms(1) Suc.prems t arr by (fastforce simp: ranked_def)
      hence "\<exists>r. (case p of (s, sh) \<Rightarrow> readVariable R fuel s sh base) = Some r \<and> (case r of Inl _ \<Rightarrow> True | Inr v \<Rightarrow> conforms R fuel base v)" for p
        using Suc.IH by (cases p) simp
      from mapO_total [of ps "\<lambda>(s, sh). readVariable R fuel s sh base" "\<lambda>p. conforms R fuel base", OF this] obtain r where r: "mapO (\<lambda>(s, sh). readVariable R fuel s sh base) ps = Some r"
        "case r of Inl _ \<Rightarrow> True | Inr vs \<Rightarrow> list_all2 (\<lambda>p. conforms R fuel base) ps vs" by blast
      show ?thesis using r arr t Inr x
        by (cases r) (auto simp: readArray_def mapResult_def list_all2_conv_all_nth list_all_length)
    qed (simp add: arr readArray_def)
  next
    case struct
    show ?thesis
    proof (cases "layoutTypes R type")
      case (Some t)
      have m: "m \<in> set (tMembers t) \<Longrightarrow> rank (mType m) < fuel" for m
        using assms(1) Suc.prems Some struct by (fastforce simp: ranked_def list_all_iff)
      have d: "distinct (map mLabel (tMembers t))" using assms(1) Some by (simp add: ranked_def)
      obtain r where r: "mapO (\<lambda>m. readVariable R fuel (slot + mSlot m) (mOffset m) (mType m)) (tMembers t) = Some r"
        "case r of Inl _ \<Rightarrow> True | Inr vs \<Rightarrow> list_all2 (\<lambda>m. conforms R fuel (mType m)) (tMembers t) vs"
        using mapO_total [of "tMembers t" "\<lambda>m. readVariable R fuel (slot + mSlot m) (mOffset m) (mType m)" "\<lambda>m. conforms R fuel (mType m)"]
          Suc.IH m by blast
      show ?thesis
      proof (cases r)
        case (Inr vs)
        have l: "length vs = length (tMembers t)" using r(2) Inr by (simp add: list_all2_conv_all_nth)
        hence "foldl (\<lambda>obj (k, v). objSet k v obj) [] (zip (map mLabel (tMembers t)) vs) = zip (map mLabel (tMembers t)) vs"
          using d foldl_objSet [of "[]" "zip (map mLabel (tMembers t)) vs"] by (simp add: map_fst_zip)
        thus ?thesis using r Inr l struct Some
          by (simp add: readStruct_def typeOf_def mapResult_def list_all2_conv_all_nth)
      qed (use r struct Some in \<open>simp add: readStruct_def typeOf_def mapResult_def\<close>)
    qed (simp add: struct readStruct_def typeOf_def)
  next
    case prim
    thus ?thesis using readPrimitive_shape [OF prim, where R = R and slot = slot and shift = shift and fuel = fuel] by (simp del: conforms.simps)
  qed
qed simp

theorem readVariable_typed_witness:
  "\<exists>r. readVariable exampleReader 2 5 0 exampleArray = Some r \<and> (case r of Inl _ \<Rightarrow> True | Inr v \<Rightarrow> conforms exampleReader 2 exampleArray v)"
proof -
  have "ranked exampleReader (\<lambda>type. if take 7 type = ''t_array'' then 1 else 0)"
    by (simp add: ranked_def exampleReader_def)
  thus ?thesis using readVariable_typed [of exampleReader "\<lambda>type. if take 7 type = ''t_array'' then 1 else 0" exampleArray 2] by simp
qed

end
