(* ===== verification/ErrorsLint.thy ===== *)
theory ErrorsLint
  imports JsValues "HOL-Library.Sorting_Algorithms"
begin

text \<open>
  \<open>scripts/errors-lint.ts\<close>: every custom error of the contracts carries its selector in a comment on the
  line above its declaration, the declarations of a file are sorted by name, no signature is declared
  twice, and every declared error is used.  With \<open>--fix\<close> the script inserts the comments and sorts, with
  \<open>--check\<close> it only looks.

  The regular expressions are deterministic matchers on character lists.  Parameters are
  \<open>ethers.utils.id\<close> and the collation of \<open>localeCompare\<close>, a comparator of the library (a total preorder).
  The disk is a tree; \<open>lstat\<close> does not follow links, so a directory walk ends.
\<close>

section \<open>Regular expressions\<close>

definition isWord :: "char \<Rightarrow> bool" where
  "isWord c = (let n = (of_char c :: nat) in
     48 \<le> n \<and> n \<le> 57 \<or> 65 \<le> n \<and> n \<le> 90 \<or> n = 95 \<or> 97 \<le> n \<and> n \<le> 122)"

definition newline :: char where
  "newline = CHR 0x0A"

definition carriageReturn :: char where
  "carriageReturn = CHR 0x0D"

definition trim :: "string \<Rightarrow> string" where
  "trim s = rev (dropWhile isSpace (rev (dropWhile isSpace s)))"

definition startsWithText :: "string \<Rightarrow> string \<Rightarrow> bool" where
  "startsWithText p s = (take (length p) s = p)"

definition endsWithText :: "string \<Rightarrow> string \<Rightarrow> bool" where
  "endsWithText p s = (take (length p) (rev s) = rev p)"

text \<open>\<open>/^\s*error\s+/\<close>.\<close>

definition isErrorLine :: "string \<Rightarrow> bool" where
  "isErrorLine line = (let r = dropWhile isSpace line in
     take 5 r = ''error'' \<and> (case drop 5 r of [] \<Rightarrow> False | c # _ \<Rightarrow> isSpace c))"

text \<open>\<open>/^\s*\/\/\s*0x[0-9a-fA-F]{8}/\<close>.\<close>

definition isSelectorLine :: "string \<Rightarrow> bool" where
  "isSelectorLine line = (let r = dropWhile isSpace line; t = dropWhile isSpace (drop 2 r) in
     take 2 r = ''//'' \<and> take 2 t = ''0x'' \<and> 10 \<le> length t \<and> list_all isHexDigit (take 8 (drop 2 t)))"

text \<open>A declaration ends at the first line that, trimmed, ends with \<open>);\<close>.\<close>

definition endsDecl :: "string \<Rightarrow> bool" where
  "endsDecl line = endsWithText '');'' (trim line)"

text \<open>\<open>/error\s+(\w+)/\<close>, anywhere in the line.\<close>

fun matchErrorName :: "string \<Rightarrow> string option" where
  "matchErrorName [] = None"
| "matchErrorName (c # cs) = (let r = drop 5 (c # cs); t = dropWhile isSpace r in
     if take 5 (c # cs) = ''error'' \<and> t \<noteq> r \<and> takeWhile isWord t \<noteq> [] then Some (takeWhile isWord t)
     else matchErrorName cs)"

text \<open>Repeated \<open>exec\<close> of a global expression: the captures of all matches, from left to right.  The
  matcher gives the capture and the length of a match at the start of a text.\<close>

fun execAll :: "(string \<Rightarrow> (string \<times> nat) option) \<Rightarrow> string \<Rightarrow> string list" where
  "execAll m [] = []"
| "execAll m (c # cs) = (case m (c # cs) of
     None \<Rightarrow> execAll m cs
   | Some (name, k) \<Rightarrow> name # execAll m (drop (k - 1) cs))"

text \<open>\<open>/enum\s+(\w+)\s*\{/\<close> and \<open>/revert\s+([A-Za-z0-9_]+)/\<close>.\<close>

definition matchEnum :: "string \<Rightarrow> (string \<times> nat) option" where
  "matchEnum s = (let r = drop 4 s; t = dropWhile isSpace r; name = takeWhile isWord t;
       u = dropWhile isSpace (dropWhile isWord t) in
     if take 4 s = ''enum'' \<and> t \<noteq> r \<and> name \<noteq> [] \<and> take 1 u = ''{'' then Some (name, length s - length u + 1) else None)"

definition matchRevert :: "string \<Rightarrow> (string \<times> nat) option" where
  "matchRevert s = (let r = drop 6 s; t = dropWhile isSpace r; name = takeWhile isWord t in
     if take 6 s = ''revert'' \<and> t \<noteq> r \<and> name \<noteq> [] then Some (name, length s - length (dropWhile isWord t)) else None)"

text \<open>\<open>/^\s*error\s+(\w+)\s*\(([\s\S]*?)\)\s*;\s*$/m\<close>: after the semicolon only white space up to the end
  of its line; the parameters are as short as possible.\<close>

definition closesSig :: "string \<Rightarrow> bool" where
  "closesSig s = (let u = dropWhile isSpace s; v = drop 1 u in take 1 u = '';'' \<and>
     (dropWhile isSpace v = [] \<or> (\<exists>c\<in>set (takeWhile isSpace v). c = newline \<or> c = carriageReturn)))"

fun lazyParams :: "string \<Rightarrow> string option" where
  "lazyParams [] = None"
| "lazyParams (c # cs) = (if c = CHR '')'' \<and> closesSig cs then Some []
     else map_option ((#) c) (lazyParams cs))"

definition matchSigHere :: "string \<Rightarrow> (string \<times> string) option" where
  "matchSigHere s = (let r = dropWhile isSpace s; t = drop 5 r; u = dropWhile isSpace t;
       name = takeWhile isWord u; v = dropWhile isSpace (dropWhile isWord u) in
     if take 5 r = ''error'' \<and> u \<noteq> t \<and> name \<noteq> [] \<and> take 1 v = ''(''
     then map_option (Pair name) (lazyParams (drop 1 v)) else None)"

text \<open>With the flag \<open>m\<close> the anchor matches at the start and after every line terminator.\<close>

fun matchSigFrom :: "string \<Rightarrow> (string \<times> string) option" where
  "matchSigFrom [] = None"
| "matchSigFrom (c # cs) = (if c = newline \<or> c = carriageReturn
     then (case matchSigHere cs of None \<Rightarrow> matchSigFrom cs | Some r \<Rightarrow> Some r) else matchSigFrom cs)"

definition matchSig :: "string \<Rightarrow> (string \<times> string) option" where
  "matchSig s = (case matchSigHere s of None \<Rightarrow> matchSigFrom s | Some r \<Rightarrow> Some r)"

text \<open>\<open>content.split(/\r?\n/)\<close>.\<close>

definition stripCR :: "string \<Rightarrow> string" where
  "stripCR l = (if l \<noteq> [] \<and> last l = carriageReturn then butlast l else l)"

definition splitLines :: "string \<Rightarrow> string list" where
  "splitLines s = (let ps = splitOn newline s in map stripCR (butlast ps) @ [last ps])"

section \<open>Sorting the declarations\<close>

text \<open>The inner loops that capture a declaration: the lines up to the one that ends it, and the rest.\<close>

fun takeDecl :: "string list \<Rightarrow> string list \<times> string list" where
  "takeDecl [] = ([], [])"
| "takeDecl (l # ls) = (if endsDecl l then ([l], ls) else (case takeDecl ls of (b, r) \<Rightarrow> (l # b, r)))"

lemma takeDecl_append: "takeDecl ls = (b, r) \<Longrightarrow> ls = b @ r"
  by (induction ls arbitrary: b r) (auto split: if_splits prod.splits)

lemma takeDecl_shorter: "takeDecl (l # ls) = (b, r) \<Longrightarrow> length r \<le> length ls"
  by (auto split: if_splits prod.splits dest: takeDecl_append)

text \<open>The main loop of \<open>sortErrorBlocks\<close>: the lines before the first declaration, the declarations with
  their selector lines, and all the other lines.\<close>

function sortLoop :: "bool \<Rightarrow> string list \<Rightarrow> string list \<times> string list list \<times> string list" where
  "sortLoop inBlock [] = ([], [], [])"
| "sortLoop inBlock (line # rest) =
     (if isSelectorLine line \<and> (case rest of [] \<Rightarrow> False | next # _ \<Rightarrow> isErrorLine next) then
        (case takeDecl rest of (block, rest') \<Rightarrow>
           (case sortLoop True rest' of (before, blocks, after) \<Rightarrow> (before, (line # block) # blocks, after)))
      else if isErrorLine line then
        (case takeDecl (line # rest) of (block, rest') \<Rightarrow>
           (case sortLoop True rest' of (before, blocks, after) \<Rightarrow> (before, block # blocks, after)))
      else (case sortLoop inBlock rest of (before, blocks, after) \<Rightarrow>
        if inBlock then (before, blocks, line # after) else (line # before, blocks, after)))"
  by pat_completeness auto

termination
  by (relation "measure (\<lambda>(_, ls). length ls)")
    (auto dest!: takeDecl_append [OF sym] takeDecl_append split: if_splits prod.splits)

definition blockName :: "string list \<Rightarrow> string result" where
  "blockName block = (case find isErrorLine block of
     None \<Rightarrow> Inl (TypeError ''Cannot read properties of undefined (reading match)'')
   | Some l \<Rightarrow> (case matchErrorName l of
       None \<Rightarrow> Inl (TypeError ''Cannot read properties of null (reading 1)'') | Some n \<Rightarrow> Inr n))"

text \<open>The comparison is only called when there are two blocks, and then on each of them.\<close>

definition sortBlocks :: "string comparator \<Rightarrow> string list list \<Rightarrow> string list list result" where
  "sortBlocks localeCompare blocks = (if length blocks < 2 then Inr blocks
     else bindR (mapR (\<lambda>b. bindR (blockName b) (\<lambda>n. Inr (n, b))) blocks) (\<lambda>named.
       Inr (map snd (Sorting_Algorithms.sort (key fst localeCompare) named))))"

definition sortErrorBlocks :: "string comparator \<Rightarrow> string list \<Rightarrow> string list result" where
  "sortErrorBlocks localeCompare lines = (case sortLoop False lines of (before, blocks, after) \<Rightarrow>
     bindR (sortBlocks localeCompare blocks) (\<lambda>sorted. Inr (before @ concat sorted @ after)))"

section \<open>Linting a file\<close>

type_synonym collected = "(string \<times> string \<times> string) list"

definition paramTypes :: "string list \<Rightarrow> string \<Rightarrow> string list" where
  "paramTypes enums params = map (\<lambda>t. if t \<in> set enums then ''uint8'' else t)
     (filter (\<lambda>t. t \<noteq> []) (map (\<lambda>p. takeWhile (\<lambda>c. \<not> isSpace c) (trim p)) (splitOn CHR '','' params)))"

text \<open>Name and signature of a captured declaration.\<close>

definition errorSig :: "string list \<Rightarrow> string list \<Rightarrow> (string \<times> string) option" where
  "errorSig enums block = map_option (\<lambda>(errName, params).
     (errName, errName @ ''('' @ joinWith '','' (paramTypes enums params) @ '')'')) (matchSig (joinWith [newline] block))"

definition selectorComment :: "(string \<Rightarrow> string) \<Rightarrow> string \<Rightarrow> string" where
  "selectorComment ethersId sig = ''// '' @ take 10 (ethersId sig)"

definition isComment :: "string \<Rightarrow> bool" where
  "isComment line = startsWithText ''//'' (trim line)"

text \<open>The comment above a declaration: it is there, or (only when fixing) a comment in its place is
  overwritten, or it is appended.  The flag says whether the output was modified.\<close>

definition placeSelector :: "bool \<Rightarrow> string \<Rightarrow> string \<Rightarrow> string list \<Rightarrow> (string list \<times> bool) result" where
  "placeSelector fix comment position output =
     (if output \<noteq> [] \<and> last output \<noteq> [] \<and> trim (last output) = comment then Inr (output, False)
      else if \<not> fix then Inl (Error (''Missing selector above '' @ position))
      else if output \<noteq> [] \<and> last output \<noteq> [] \<and> isComment (last output)
      then Inr (butlast output @ [comment], True)
      else Inr (output @ [comment], True))"

text \<open>The main loop of \<open>processFile\<close> from line \<open>i\<close> on.\<close>

function lintLoop ::
  "(string \<Rightarrow> string) \<Rightarrow> string \<Rightarrow> bool \<Rightarrow> string list \<Rightarrow> nat \<Rightarrow> string list \<Rightarrow> string list \<times> collected \<times> bool
   \<Rightarrow> (string list \<times> collected \<times> bool) result"
where
  "lintLoop ethersId filePath fix enums i [] st = Inr st"
| "lintLoop ethersId filePath fix enums i (line # rest) (output, collectedErrors, modified) =
     (if isErrorLine line then
        (case takeDecl (line # rest) of (blockLines, rest') \<Rightarrow>
           let position = filePath @ '':'' @ showNat (i + 1) in
           (case errorSig enums blockLines of
              None \<Rightarrow> Inl (Error (''Cannot parse error at '' @ position))
            | Some (errName, sig) \<Rightarrow>
                (case map_of collectedErrors sig of
                   Some (_, prev) \<Rightarrow> Inl (Error (''Error '' @ errName @ '' defined twice in '' @ prev @ '' and '' @ filePath))
                 | None \<Rightarrow>
                     bindR (placeSelector fix (selectorComment ethersId sig) position output) (\<lambda>(output', placed).
                       lintLoop ethersId filePath fix enums (i + length blockLines) rest'
                         (output' @ blockLines, objSet sig (errName, filePath) collectedErrors, modified \<or> placed)))))
      else lintLoop ethersId filePath fix enums (i + 1) rest (output @ [line], collectedErrors, modified))"
  by pat_completeness auto

termination
  by (relation "measure (\<lambda>(_, _, _, _, _, ls, _). length ls)")
    (auto dest!: takeDecl_append split: if_splits prod.splits)

definition enumNames :: "string \<Rightarrow> string list" where
  "enumNames content = execAll matchEnum content"

text \<open>\<open>processFile\<close> on the text of a file: the text afterwards, the returned flag and the collected
  errors.\<close>

definition lintText ::
  "(string \<Rightarrow> string) \<Rightarrow> string comparator \<Rightarrow> string \<Rightarrow> bool \<Rightarrow> collected \<Rightarrow> string \<Rightarrow> (string \<times> bool \<times> collected) result"
where
  "lintText ethersId localeCompare filePath fix collectedErrors content =
     bindR (lintLoop ethersId filePath fix (enumNames content) 0 (splitLines content) ([], collectedErrors, False))
       (\<lambda>(output, collected', modified).
          if fix \<and> modified
          then bindR (sortErrorBlocks localeCompare output) (\<lambda>sorted. Inr (joinWith [newline] sorted, True, collected'))
          else Inr (content, modified, collected'))"

section \<open>The disk\<close>

datatype fsnode = FileNode string | DirNode "(string \<times> fsnode) list"

record lintWorld =
  lintRoot :: fsnode
  lintCwd :: "string list"
  lintLog :: "string list"

text \<open>\<open>path.resolve\<close>: an absolute path as the list of its components.\<close>

definition resolveStep :: "string list \<Rightarrow> string \<Rightarrow> string list" where
  "resolveStep comps seg = (if seg = [] \<or> seg = ''.'' then comps else if seg = ''..'' then butlast comps else comps @ [seg])"

definition resolvePath :: "string list \<Rightarrow> string \<Rightarrow> string list" where
  "resolvePath cwd p = foldl resolveStep (if startsWithText ''/'' p then [] else cwd) (splitOn CHR ''/'' p)"

definition showPath :: "string list \<Rightarrow> string" where
  "showPath comps = (if comps = [] then ''/'' else concat (map (\<lambda>c. ''/'' @ c) comps))"

fun nodeAt :: "string list \<Rightarrow> fsnode \<Rightarrow> fsnode option" where
  "nodeAt [] n = Some n"
| "nodeAt (x # xs) (DirNode es) = (case map_of es x of None \<Rightarrow> None | Some n \<Rightarrow> nodeAt xs n)"
| "nodeAt (x # xs) (FileNode t) = None"

fun writeAt :: "string list \<Rightarrow> string \<Rightarrow> fsnode \<Rightarrow> fsnode" where
  "writeAt [] t n = FileNode t"
| "writeAt (x # xs) t (DirNode es) = (case map_of es x of None \<Rightarrow> DirNode es | Some n \<Rightarrow> DirNode (objSet x (writeAt xs t n) es))"
| "writeAt (x # xs) t (FileNode u) = FileNode u"

definition readSource :: "string list \<Rightarrow> (lintWorld, string) eff" where
  "readSource p = bindE (readE (\<lambda>w. nodeAt p (lintRoot w))) (\<lambda>n. case n of
     Some (FileNode t) \<Rightarrow> returnE t
   | Some (DirNode _) \<Rightarrow> throwE (Error ''EISDIR: illegal operation on a directory, read'')
   | None \<Rightarrow> throwE (Error (''ENOENT: no such file or directory, open '' @ showPath p)))"

definition consoleE :: "string \<Rightarrow> (lintWorld, unit) eff" where
  "consoleE s = modifyE (\<lambda>w. w\<lparr> lintLog := lintLog w @ [s] \<rparr>)"

definition processExit :: "(lintWorld, 'a) eff" where
  "processExit = throwE (Error ''process.exit(1)'')"

definition processFile ::
  "(string \<Rightarrow> string) \<Rightarrow> string comparator \<Rightarrow> string list \<Rightarrow> bool \<Rightarrow> collected \<Rightarrow> (lintWorld, bool \<times> collected) eff"
where
  "processFile ethersId localeCompare filePath fix collectedErrors =
     bindE (readSource filePath) (\<lambda>content.
     bindE (liftR (lintText ethersId localeCompare (showPath filePath) fix collectedErrors content)) (\<lambda>(content', modified, collected').
     thenE (whenE (fix \<and> modified) (modifyE (\<lambda>w. w\<lparr> lintRoot := writeAt filePath content' (lintRoot w) \<rparr>)))
       (returnE (modified, collected'))))"

text \<open>The names after \<open>revert\<close> in all Solidity files below a directory.\<close>

fun errorUsages :: "(string \<times> fsnode) list \<Rightarrow> string list" where
  "errorUsages [] = []"
| "errorUsages ((file, DirNode es) # rest) = errorUsages es @ errorUsages rest"
| "errorUsages ((file, FileNode fileContent) # rest) =
     (if endsWithText ''.sol'' file then execAll matchRevert fileContent else []) @ errorUsages rest"

definition collectErrorUsages :: "string list \<Rightarrow> fsnode \<Rightarrow> string list" where
  "collectErrorUsages absoluteDir disk = (case nodeAt absoluteDir disk of Some (DirNode es) \<Rightarrow> errorUsages es | _ \<Rightarrow> [])"

section \<open>The command\<close>

definition CONTRACTS_DIRECTORIES :: "(string \<times> string list) list" where
  "CONTRACTS_DIRECTORIES =
    [(''contracts'',
       [''common/L1ContractErrors.sol'', ''bridge/L1BridgeContractErrors.sol'', ''bridgehub/L1BridgehubErrors.sol'',
        ''state-transition/L1StateTransitionErrors.sol'', ''upgrades/ZkSyncUpgradeErrors.sol'']),
     (''deploy-scripts'', [''ZkSyncScriptErrors.sol'']),
     (''../l2-contracts/contracts'', [''errors/L2ContractErrors.sol'']),
     (''../system-contracts/contracts'', [''SystemContractErrors.sol'']),
     (''../da-contracts/contracts'', [''DAContractsErrors.sol''])]"

fun lintFiles ::
  "(string \<Rightarrow> string) \<Rightarrow> string comparator \<Rightarrow> bool \<Rightarrow> bool \<Rightarrow> string \<Rightarrow> string list \<Rightarrow> collected \<Rightarrow> bool
   \<Rightarrow> (lintWorld, collected \<times> bool) eff"
where
  "lintFiles ethersId localeCompare fix check contractsPath [] declaredErrors hasErrors = returnE (declaredErrors, hasErrors)"
| "lintFiles ethersId localeCompare fix check contractsPath (customErrorFile # rest) declaredErrors hasErrors =
     bindE (readE (\<lambda>w. resolvePath (lintCwd w) (contractsPath @ ''/'' @ customErrorFile))) (\<lambda>absolutePath.
     bindE (processFile ethersId localeCompare absolutePath fix declaredErrors) (\<lambda>(result, declared').
       lintFiles ethersId localeCompare fix check contractsPath rest declared' (hasErrors \<or> result \<and> check)))"

definition checkUsages :: "string \<Rightarrow> collected \<Rightarrow> (lintWorld, unit) eff" where
  "checkUsages contractsPath declaredErrors =
     bindE (readE (\<lambda>w. collectErrorUsages (resolvePath (lintCwd w) contractsPath) (lintRoot w))) (\<lambda>usedErrors.
     let unusedErrors = filter (\<lambda>(_, errorName, _). errorName \<notin> set usedErrors) declaredErrors in
     whenE (unusedErrors \<noteq> [])
       (thenE (forE unusedErrors (\<lambda>(errorSig', errorName, file).
           consoleE (''Error '' @ [CHR 0x22] @ errorSig' @ [CHR 0x22] @ '' from '' @ errorName @ '','' @ file @ '' is declared but never used.'')))
         processExit))"

definition lintDirectory ::
  "(string \<Rightarrow> string) \<Rightarrow> string comparator \<Rightarrow> bool \<Rightarrow> bool \<Rightarrow> string \<times> string list \<Rightarrow> bool \<Rightarrow> (lintWorld, bool) eff"
where
  "lintDirectory ethersId localeCompare fix check = (\<lambda>(contractsPath, errorsPaths) hasErrors.
     bindE (lintFiles ethersId localeCompare fix check contractsPath errorsPaths [] hasErrors) (\<lambda>(declaredErrors, hasErrors').
     thenE (whenE (check \<and> hasErrors') (thenE (consoleE ''Some errors were found.'') processExit))
     (thenE (whenE check (checkUsages contractsPath declaredErrors)) (returnE hasErrors'))))"

fun lintDirectories ::
  "(string \<Rightarrow> string) \<Rightarrow> string comparator \<Rightarrow> bool \<Rightarrow> bool \<Rightarrow> (string \<times> string list) list \<Rightarrow> bool \<Rightarrow> (lintWorld, bool) eff"
where
  "lintDirectories ethersId localeCompare fix check [] hasErrors = returnE hasErrors"
| "lintDirectories ethersId localeCompare fix check (d # ds) hasErrors =
     bindE (lintDirectory ethersId localeCompare fix check d hasErrors) (lintDirectories ethersId localeCompare fix check ds)"

definition errorsLint :: "(string \<Rightarrow> string) \<Rightarrow> string comparator \<Rightarrow> bool \<Rightarrow> bool \<Rightarrow> (lintWorld, unit) eff" where
  "errorsLint ethersId localeCompare fix check =
     (if \<not> fix \<and> \<not> check \<or> fix \<and> check
      then thenE (consoleE ''Error: You must provide either --fix or --check, but not both.'') processExit
      else bindE (lintDirectories ethersId localeCompare fix check CONTRACTS_DIRECTORIES False) (\<lambda>hasErrors.
        thenE (whenE (check \<and> \<not> hasErrors) (consoleE ''All files are correct.''))
          (whenE fix (consoleE ''All files have been processed and fixed.''))))"

end
