(* ===== verification/LintLaws.thy ===== *)
theory LintLaws
  imports ErrorsLint
begin

text \<open>
  Correctness of the error linter: what the check accepts, and that a fixed file passes the check.  The
  proofs see a linted file as a list of chunks, on which the loops of the script act structurally.
\<close>

section \<open>The declarations of a file\<close>

text \<open>Every declaration with the line above it.\<close>

function declsAbove :: "string option \<Rightarrow> string list \<Rightarrow> (string option \<times> string list) list" where
  "declsAbove prev [] = []"
| "declsAbove prev (line # rest) =
     (if isErrorLine line then (case takeDecl (line # rest) of (b, rest') \<Rightarrow> (prev, b) # declsAbove (Some (last b)) rest')
      else declsAbove (Some line) rest)"
  by pat_completeness auto

termination
  by (relation "measure (\<lambda>(_, ls). length ls)") (auto dest!: takeDecl_append split: if_splits prod.splits)

text \<open>Every declaration is closed, by a line that is not a comment.\<close>

definition tidyLines :: "string list \<Rightarrow> bool" where
  "tidyLines lines = list_all (\<lambda>(_, b). endsDecl (last b) \<and> \<not> isComment (last b)) (declsAbove None lines)"

definition closedDecl :: "string list \<Rightarrow> bool" where
  "closedDecl b = (b \<noteq> [] \<and> isErrorLine (hd b) \<and> endsDecl (last b) \<and> \<not> isComment (last b) \<and> list_all (\<lambda>l. \<not> endsDecl l) (butlast b))"

text \<open>A linted file is a list of chunks: lines outside declarations, and declarations below their
  selector lines.\<close>

datatype chunk = Line string | Block string "string list"

primrec chunkLines :: "chunk \<Rightarrow> string list" where
  "chunkLines (Line l) = [l]"
| "chunkLines (Block c b) = c # b"

primrec chunkOk :: "(string \<Rightarrow> string) \<Rightarrow> string list \<Rightarrow> chunk \<Rightarrow> bool" where
  "chunkOk ethersId enums (Line l) = (\<not> isErrorLine l)"
| "chunkOk ethersId enums (Block c b) = (isSelectorLine c \<and> closedDecl b \<and>
     (case errorSig enums b of None \<Rightarrow> False | Some (_, sig) \<Rightarrow> trim c = selectorComment ethersId sig))"

fun plainLines :: "chunk list \<Rightarrow> string list" where
  "plainLines [] = []"
| "plainLines (Line l # chs) = l # plainLines chs"
| "plainLines (Block c b # chs) = plainLines chs"

fun blocksOf :: "chunk list \<Rightarrow> (string \<times> string list) list" where
  "blocksOf [] = []"
| "blocksOf (Line l # chs) = blocksOf chs"
| "blocksOf (Block c b # chs) = (c, b) # blocksOf chs"

definition entryOf :: "string \<Rightarrow> string list \<Rightarrow> string list \<Rightarrow> string \<times> string \<times> string" where
  "entryOf filePath enums b = (case errorSig enums b of
     None \<Rightarrow> ([], [], filePath) | Some (errName, sig) \<Rightarrow> (sig, errName, filePath))"

definition entries :: "string \<Rightarrow> string list \<Rightarrow> chunk list \<Rightarrow> collected" where
  "entries filePath enums chs = map (\<lambda>(_, b). entryOf filePath enums b) (blocksOf chs)"

text \<open>The signatures of the chunks are new and pairwise different.\<close>

definition freshSigs :: "string \<Rightarrow> string list \<Rightarrow> collected \<Rightarrow> chunk list \<Rightarrow> bool" where
  "freshSigs filePath enums c chs = (let sigs = map fst (entries filePath enums chs) in
     distinct sigs \<and> set sigs \<inter> fst ` set c = {})"

lemma closedDecl_takeDecl: "closedDecl b \<Longrightarrow> takeDecl (b @ r) = (b, r)"
proof -
  have "b \<noteq> [] \<Longrightarrow> endsDecl (last b) \<Longrightarrow> list_all (\<lambda>l. \<not> endsDecl l) (butlast b) \<Longrightarrow> takeDecl (b @ r) = (b, r)"
    by (induction b) (auto split: if_splits)
  thus "closedDecl b \<Longrightarrow> takeDecl (b @ r) = (b, r)" by (simp add: closedDecl_def)
qed

lemma takeDecl_butlast: "takeDecl ls = (b, r) \<Longrightarrow> list_all (\<lambda>l. \<not> endsDecl l) (butlast b)"
  by (induction ls arbitrary: b r) (auto split: if_splits prod.splits)

lemma takeDecl_hd: "takeDecl (l # ls) = (b, r) \<Longrightarrow> b \<noteq> [] \<and> hd b = l"
  by (auto split: if_splits prod.splits)

lemma takeDecl_closed:
  "takeDecl (l # ls) = (b, r) \<Longrightarrow> isErrorLine l \<Longrightarrow> endsDecl (last b) \<Longrightarrow> \<not> isComment (last b) \<Longrightarrow> closedDecl b"
  using takeDecl_hd [of l ls b r] takeDecl_butlast [of "l # ls" b r] by (simp add: closedDecl_def)

lemma objSet_new: "map_of o' k = None \<Longrightarrow> objSet k v o' = o' @ [(k, v)]"
  by (induction k v o' rule: objSet.induct) (auto split: if_splits)

lemma entries_blocks: "entries filePath E chs = map (entryOf filePath E) (map snd (blocksOf chs))"
  by (simp add: entries_def case_prod_beta')

lemma chunks_append [simp]:
  "blocksOf (xs @ ys) = blocksOf xs @ blocksOf ys" "plainLines (xs @ ys) = plainLines xs @ plainLines ys"
  "entries p E (xs @ ys) = entries p E xs @ entries p E ys"
proof -
  show b: "blocksOf (xs @ ys) = blocksOf xs @ blocksOf ys" by (induction xs rule: blocksOf.induct) simp_all
  show "plainLines (xs @ ys) = plainLines xs @ plainLines ys" by (induction xs rule: plainLines.induct) simp_all
  show "entries p E (xs @ ys) = entries p E xs @ entries p E ys" by (simp add: entries_def b)
qed

lemma chunks_Line [simp]:
  "blocksOf (map Line ls) = []" "plainLines (map Line ls) = ls" "concat (map (chunkLines \<circ> Line) ls) = ls"
  by (induction ls) auto

lemma chunks_Block [simp]:
  "blocksOf (map (case_prod Block) bs) = bs" "plainLines (map (case_prod Block) bs) = []"
  "concat (map (chunkLines \<circ> case_prod Block) bs) = concat (map (case_prod (#)) bs)"
  by (induction bs) auto

section \<open>Selector lines\<close>

lemma trim_prefix: "\<exists>sp. dropWhile isSpace s = trim s @ sp"
  by (metis trim_def rev_append rev_rev_ident takeWhile_dropWhile_id)

lemma trim_id:
  assumes "s \<noteq> []" and "\<not> isSpace (hd s)" and "\<not> isSpace (last s)"
  shows "trim s = s"
proof -
  have "dropWhile isSpace s = s" and "dropWhile isSpace (rev s) = rev s"
    using assms by (simp_all add: dropWhile_eq_self_iff hd_rev)
  thus ?thesis by (simp add: trim_def)
qed

lemma isHexDigit_not_space: "isHexDigit c \<Longrightarrow> \<not> isSpace c"
  by (auto simp: isHexDigit_def digitVal_def isSpace_def Let_def)

lemma selectorComment_form:
  assumes "matchesHex 64 (ethersId sig)"
  obtains ds where "selectorComment ethersId sig = ''// 0x'' @ ds" "length ds = 8" "list_all isHexDigit ds"
proof -
  let ?h = "ethersId sig"
  have h: "?h = ''0x'' @ drop 2 ?h" and l: "length ?h = 66" and d: "list_all isHexDigit (drop 2 ?h)"
    using assms by (auto simp: matchesHex_def) (metis append_Cons append_Nil append_take_drop_id)
  have "take 10 ?h = ''0x'' @ take 8 (drop 2 ?h)" by (subst h) simp
  moreover have "list_all isHexDigit (take 8 (drop 2 ?h))" using d by (auto simp: list_all_iff dest: in_set_takeD)
  ultimately show thesis using l by (intro that [of "take 8 (drop 2 ?h)"]) (simp_all add: selectorComment_def)
qed

lemma isSelectorLine_trim:
  assumes "matchesHex 64 (ethersId sig)" and "trim l = selectorComment ethersId sig"
  shows "isSelectorLine l"
proof -
  from assms(1) obtain ds where ds: "selectorComment ethersId sig = ''// 0x'' @ ds" "length ds = 8" "list_all isHexDigit ds"
    by (rule selectorComment_form)
  obtain sp where "dropWhile isSpace l = (''// 0x'' @ ds) @ sp" using trim_prefix [of l] assms(2) ds(1) by auto
  thus ?thesis using ds(2,3) by (simp add: isSelectorLine_def Let_def isSpace_def)
qed

lemma trim_selectorComment:
  assumes "matchesHex 64 (ethersId sig)"
  shows "trim (selectorComment ethersId sig) = selectorComment ethersId sig"
proof -
  from assms obtain ds where ds: "selectorComment ethersId sig = ''// 0x'' @ ds" "length ds = 8" "list_all isHexDigit ds"
    by (rule selectorComment_form)
  hence "ds \<noteq> []" by auto
  moreover have "isHexDigit (last ds)" using ds(3) last_in_set [OF \<open>ds \<noteq> []\<close>] by (simp add: list_all_iff)
  ultimately show ?thesis using ds(1) by (intro trim_id) (simp_all add: isHexDigit_not_space, simp add: isSpace_def)
qed

lemma selector_isComment: "trim l = selectorComment ethersId sig \<Longrightarrow> isComment l"
  by (simp add: isComment_def startsWithText_def selectorComment_def)

lemma selector_not_error: "isSelectorLine l \<Longrightarrow> \<not> isErrorLine l"
  by (cases "dropWhile isSpace l") (simp_all add: isSelectorLine_def isErrorLine_def Let_def)

lemma newline_not_selector:
  assumes "matchesHex 64 (ethersId sig)"
  shows "newline \<notin> set (selectorComment ethersId sig) \<and> carriageReturn \<notin> set (selectorComment ethersId sig)"
proof -
  from assms obtain ds where ds: "selectorComment ethersId sig = ''// 0x'' @ ds" "list_all isHexDigit ds"
    by (rule selectorComment_form)
  have "\<And>c. c \<in> set ds \<Longrightarrow> c \<noteq> newline \<and> c \<noteq> carriageReturn"
    using ds(2) by (auto simp: list_all_iff isHexDigit_def digitVal_def newline_def carriageReturn_def Let_def)
  thus ?thesis using ds(1) by (auto simp: newline_def carriageReturn_def)
qed

section \<open>The loops on chunks\<close>

lemma check_chunks:
  assumes "list_all (chunkOk ethersId E) chs" and "freshSigs filePath E c chs"
  shows "lintLoop ethersId filePath fix E i (concat (map chunkLines chs)) (out, c, m) =
    Inr (out @ concat (map chunkLines chs), c @ entries filePath E chs, m)"
  using assms
proof (induction chs arbitrary: i out c)
  case Nil
  show ?case by (simp add: entries_def)
next
  case (Cons ch chs)
  show ?case
  proof (cases ch)
    case (Line l)
    with Cons show ?thesis by (simp add: entries_def freshSigs_def)
  next
    case (Block s b)
    have ok: "isSelectorLine s" "closedDecl b" using Cons.prems Block by simp_all
    obtain n sig where sig: "errorSig E b = Some (n, sig)" "trim s = selectorComment ethersId sig"
      using Cons.prems Block by (auto split: option.splits)
    obtain l b' where b: "b = l # b'" "isErrorLine l" using ok(2) by (cases b) (auto simp: closedDecl_def)
    have s: "s \<noteq> []" "\<not> isErrorLine s" using ok(1) by (auto simp: isSelectorLine_def selector_not_error)
    have fresh: "map_of c sig = None"
      using Cons.prems(2) Block sig(1)
      by (auto simp: freshSigs_def entries_def entryOf_def map_of_eq_None_iff)
    have take: "takeDecl (l # b' @ r) = (b, r)" for r using closedDecl_takeDecl [OF ok(2), of r] b(1) by simp
    have rest: "freshSigs filePath E (c @ [(sig, n, filePath)]) chs"
      using Cons.prems(2) Block sig(1) by (auto simp: freshSigs_def entries_def entryOf_def Let_def)
    have "lintLoop ethersId filePath fix E i (s # l # b' @ concat (map chunkLines chs)) (out, c, m) =
      lintLoop ethersId filePath fix E (i + 1 + length b) (concat (map chunkLines chs)) (out @ s # b, c @ [(sig, n, filePath)], m)"
      using s b sig fresh take by (simp del: takeDecl.simps add: objSet_new placeSelector_def)
    also have "\<dots> = Inr ((out @ s # b) @ concat (map chunkLines chs), (c @ [(sig, n, filePath)]) @ entries filePath E chs, m)"
      using Cons.IH [OF _ rest] Cons.prems(1) by simp
    finally show ?thesis using Block b sig(1) by (simp add: entries_def entryOf_def)
  qed
qed

lemma chunks_start: "list_all (chunkOk ethersId E) chs \<Longrightarrow> concat (map chunkLines chs) = x # xs \<Longrightarrow> \<not> isErrorLine x"
  by (cases chs; cases "hd chs") (auto simp: selector_not_error)

lemma sortLoop_chunks:
  "list_all (chunkOk ethersId E) chs \<Longrightarrow> \<exists>pre post. sortLoop inBlock (concat (map chunkLines chs)) =
     (pre, map (case_prod (#)) (blocksOf chs), post) \<and> mset (pre @ post) = mset (plainLines chs)"
proof (induction chs arbitrary: inBlock)
  case (Cons ch chs)
  have ok: "list_all (chunkOk ethersId E) chs" using Cons.prems by simp
  show ?case
  proof (cases ch)
    case (Line l)
    have "\<not> (case concat (map chunkLines chs) of [] \<Rightarrow> False | next # _ \<Rightarrow> isErrorLine next)"
      using chunks_start [OF ok] by (auto split: list.splits)
    moreover have "\<not> isErrorLine l" using Cons.prems Line by simp
    ultimately show ?thesis using Cons.IH [OF ok, of inBlock] Line by (cases inBlock) (auto simp del: concat_eq_Nil_conv)
  next
    case (Block c b)
    have b: "isSelectorLine c" "closedDecl b" using Cons.prems Block by simp_all
    then obtain l b' where l: "b = l # b'" "isErrorLine l" by (cases b) (auto simp: closedDecl_def)
    have take: "takeDecl (l # b' @ r) = (b, r)" for r using closedDecl_takeDecl [OF b(2), of r] l(1) by simp
    obtain pre post where "sortLoop True (concat (map chunkLines chs)) = (pre, map (case_prod (#)) (blocksOf chs), post)"
      "mset (pre @ post) = mset (plainLines chs)" using Cons.IH [OF ok, of True] by blast
    thus ?thesis using Block b(1) l take by (auto simp del: takeDecl.simps)
  qed
qed simp

lemma sortBlocks_mset:
  assumes "sortBlocks localeCompare blocks = Inr ss"
  shows "mset ss = mset blocks"
proof (cases "length blocks < 2")
  case True
  thus ?thesis using assms by (simp add: sortBlocks_def)
next
  case False
  then obtain named where named: "mapR (\<lambda>b. bindR (blockName b) (\<lambda>n. Inr (n, b))) blocks = Inr named"
    "ss = map snd (Sorting_Algorithms.sort (key fst localeCompare) named)"
    using assms by (auto simp: sortBlocks_def bindR_Inr_iff)
  have "map snd named = blocks" using named(1)
    by (induction blocks arbitrary: named) (auto simp: bindR_Inr_iff)
  thus ?thesis using named(2) by (metis mset_map mset_sort)
qed

lemma last_comment_Line:
  assumes "list_all (chunkOk ethersId E) chs" and "concat (map chunkLines chs) \<noteq> []" and "isComment (last (concat (map chunkLines chs)))"
  obtains chs0 l where "chs = chs0 @ [Line l]"
proof (cases chs rule: rev_cases)
  case (snoc chs0 ch)
  show thesis
  proof (cases ch)
    case (Block c b)
    hence "closedDecl b" using assms(1) snoc by simp
    thus thesis using assms(3) snoc Block by (auto simp: closedDecl_def)
  qed (use that snoc in simp)
qed (use assms(2) in simp)

lemma place_chunks:
  assumes hex: "matchesHex 64 (ethersId sig)" and ok: "list_all (chunkOk ethersId E) chs"
    and b: "closedDecl b" "errorSig E b = Some (n, sig)"
    and run: "placeSelector fix (selectorComment ethersId sig) pos (concat (map chunkLines chs)) = Inr (out', placed)"
  shows "\<exists>chs'. out' @ b = concat (map chunkLines chs') \<and> list_all (chunkOk ethersId E) chs' \<and>
      map snd (blocksOf chs') = map snd (blocksOf chs) @ [b] \<and> (\<not> placed \<longrightarrow> out' = concat (map chunkLines chs)) \<and>
      filter (\<lambda>l. \<not> isComment l) out' = filter (\<lambda>l. \<not> isComment l) (concat (map chunkLines chs)) \<and>
      set out' \<subseteq> set (concat (map chunkLines chs)) \<union> {selectorComment ethersId sig}"
proof -
  let ?c = "selectorComment ethersId sig" and ?o = "concat (map chunkLines chs)"
  have c: "isSelectorLine ?c" "isComment ?c" "trim ?c = ?c"
    using hex by (simp_all add: trim_selectorComment isSelectorLine_trim selector_isComment)
  show ?thesis
  proof (cases "?o \<noteq> [] \<and> isComment (last ?o)")
    case True
    then obtain chs0 l where l: "chs = chs0 @ [Line l]" using last_comment_Line [OF ok] by blast
    hence com: "isComment l" "l \<noteq> []" using True by (auto simp: isComment_def startsWithText_def trim_def)
    show ?thesis
    proof (cases "trim l = ?c")
      case True
      hence "out' = ?o" "\<not> placed" using run l com by (auto simp: placeSelector_def split: if_splits)
      moreover have "isSelectorLine l" using hex True by (rule isSelectorLine_trim)
      ultimately show ?thesis using l ok b True by (intro exI [of _ "chs0 @ [Block l b]"]) auto
    next
      case False
      hence "out' = concat (map chunkLines chs0) @ [?c]" "placed" using run l com
        by (auto simp: placeSelector_def split: if_splits)
      thus ?thesis using l ok b c com by (intro exI [of _ "chs0 @ [Block ?c b]"]) auto
    qed
  next
    case False
    hence "out' = ?o @ [?c]" "placed" using run selector_isComment [of "last ?o"] by (auto simp: placeSelector_def split: if_splits)
    thus ?thesis using ok b c by (intro exI [of _ "chs @ [Block ?c b]"]) auto
  qed
qed

text \<open>The loop of \<open>processFile\<close>, fixing or checking, from chunks to chunks.\<close>

lemma lintLoop_chunks:
  assumes "\<forall>sig. matchesHex 64 (ethersId sig)"
    and "list_all (\<lambda>(_, b). endsDecl (last b) \<and> \<not> isComment (last b)) (declsAbove prev lines)"
    and "list_all (chunkOk ethersId E) chs" and "freshSigs filePath E c0 chs"
    and "lintLoop ethersId filePath fix E i lines (concat (map chunkLines chs), c0 @ entries filePath E chs, m) = Inr (out, c, m')"
  shows "\<exists>chs'. out = concat (map chunkLines chs') \<and> list_all (chunkOk ethersId E) chs' \<and> freshSigs filePath E c0 chs' \<and>
    c = c0 @ entries filePath E chs' \<and> (\<not> m' \<longrightarrow> \<not> m \<and> out = concat (map chunkLines chs) @ lines) \<and>
    filter (\<lambda>l. \<not> isComment l) out = filter (\<lambda>l. \<not> isComment l) (concat (map chunkLines chs) @ lines) \<and>
    set out \<subseteq> set (concat (map chunkLines chs)) \<union> set lines \<union> range (selectorComment ethersId)"
  using assms(2-)
proof (induction prev lines arbitrary: i chs m rule: declsAbove.induct)
  case (1 prev)
  thus ?case by (intro exI [of _ chs]) auto
next
  case (2 prev line rest)
  show ?case
  proof (cases "isErrorLine line")
    case False
    have "list_all (chunkOk ethersId E) (chs @ [Line line])" "freshSigs filePath E c0 (chs @ [Line line])"
      using False 2(4,5) by (simp_all add: freshSigs_def entries_def)
    from 2(2) [OF False _ this, of "i + 1" m] 2(3,6) False show ?thesis by (simp add: entries_def)
  next
    case True
    obtain b rest' where take: "takeDecl (line # rest) = (b, rest')" by (cases "takeDecl (line # rest)")
    have decls: "endsDecl (last b)" "\<not> isComment (last b)"
      "list_all (\<lambda>(_, b). endsDecl (last b) \<and> \<not> isComment (last b)) (declsAbove (Some (last b)) rest')"
      using 2(3) True take by (simp_all del: takeDecl.simps)
    have closed: "closedDecl b" using take True decls(1,2) by (rule takeDecl_closed)
    let ?pos = "filePath @ '':'' @ showNat (i + 1)" and ?c = "c0 @ entries filePath E chs"
    obtain n sig where sig: "errorSig E b = Some (n, sig)" and new: "map_of ?c sig = None"
      using 2(6) True take by (auto simp del: takeDecl.simps map_of_append simp: Let_def split: option.splits)
    obtain out' placed where place: "placeSelector fix (selectorComment ethersId sig) ?pos (concat (map chunkLines chs)) = Inr (out', placed)"
      and run: "lintLoop ethersId filePath fix E (i + length b) rest' (out' @ b, ?c @ [(sig, n, filePath)], m \<or> placed) = Inr (out, c, m')"
      using 2(6) True take sig new by (auto simp del: takeDecl.simps map_of_append simp: Let_def objSet_new bindR_Inr_iff)
    from place_chunks [OF assms(1) [rule_format] 2(4) closed sig place] obtain chs' where
      chs': "out' @ b = concat (map chunkLines chs')" "list_all (chunkOk ethersId E) chs'"
        "map snd (blocksOf chs') = map snd (blocksOf chs) @ [b]" "\<not> placed \<longrightarrow> out' = concat (map chunkLines chs)"
        "filter (\<lambda>l. \<not> isComment l) out' = filter (\<lambda>l. \<not> isComment l) (concat (map chunkLines chs))"
        "set out' \<subseteq> set (concat (map chunkLines chs)) \<union> {selectorComment ethersId sig}" by blast
    have ent: "entries filePath E chs' = entries filePath E chs @ [(sig, n, filePath)]"
      by (simp add: entries_blocks chs'(3) entryOf_def sig del: map_map)
    have fresh: "freshSigs filePath E c0 chs'"
      using 2(5) new by (auto simp: freshSigs_def ent Let_def map_of_eq_None_iff)
    have rest: "line # rest = b @ rest'" using take by (rule takeDecl_append)
    have run': "lintLoop ethersId filePath fix E (i + length b) rest'
        (concat (map chunkLines chs'), c0 @ entries filePath E chs', m \<or> placed) = Inr (out, c, m')"
      using run ent chs'(1) by simp
    from 2(1) [OF True take [symmetric] decls(3) chs'(2) fresh run'] obtain chs'' where
      "out = concat (map chunkLines chs'')" "list_all (chunkOk ethersId E) chs''" "freshSigs filePath E c0 chs''"
      "c = c0 @ entries filePath E chs''" "\<not> m' \<longrightarrow> \<not> (m \<or> placed) \<and> out = (out' @ b) @ rest'"
      "filter (\<lambda>l. \<not> isComment l) out = filter (\<lambda>l. \<not> isComment l) ((out' @ b) @ rest')"
      "set out \<subseteq> set (out' @ b) \<union> set rest' \<union> range (selectorComment ethersId)"
      unfolding chs'(1) [symmetric] by blast
    thus ?thesis using chs'(4-6) rest by (intro exI [of _ chs'']) auto
  qed
qed

lemma lintLoop_nonempty:
  "lintLoop ethersId filePath fix E i lines (out0, c0, m0) = Inr (out, c, m) \<Longrightarrow> lines \<noteq> [] \<or> out0 \<noteq> [] \<Longrightarrow> out \<noteq> []"
proof (induction ethersId filePath "fix" E i lines "(out0, c0, m0)" arbitrary: out0 c0 m0 rule: lintLoop.induct)
  case (2 ethersId filePath fx E i line rest o1 c1 m1)
  thus ?case
    using takeDecl_hd [of line rest]
    by (auto simp del: takeDecl.simps simp: bindR_Inr_iff Let_def split: if_splits prod.splits option.splits) blast
qed simp

section \<open>Sorting keeps the chunks\<close>

definition declName :: "string list \<Rightarrow> string" where
  "declName b = (case matchErrorName (hd b) of None \<Rightarrow> [] | Some n \<Rightarrow> n)"

lemma sorted_key: "Sorting_Algorithms.sorted (key f cmp) xs \<Longrightarrow> Sorting_Algorithms.sorted cmp (map f xs)"
  by (induction xs rule: induct_list012) simp_all

lemma blockName_chunk:
  "isSelectorLine c \<Longrightarrow> closedDecl b \<Longrightarrow> blockName (c # b) = Inr n \<Longrightarrow> declName b = n"
  by (cases b) (auto simp: blockName_def declName_def closedDecl_def selector_not_error split: option.splits)

lemma sortBlocks_sorted:
  assumes "\<forall>(c, b)\<in>set bs. isSelectorLine c \<and> closedDecl b" and "sortBlocks localeCompare (map (case_prod (#)) bs) = Inr ss"
  shows "Sorting_Algorithms.sorted localeCompare (map (declName \<circ> tl) ss)"
proof (cases "length bs < 2")
  case True
  hence "length ss < 2" using assms(2) by (auto simp: sortBlocks_def)
  thus ?thesis by (cases ss; cases "tl ss") auto
next
  case False
  let ?S = "\<lambda>named. Sorting_Algorithms.sort (key fst localeCompare) named"
  obtain named where named: "mapR (\<lambda>b. bindR (blockName b) (\<lambda>n. Inr (n, b))) (map (case_prod (#)) bs) = Inr named"
    "ss = map snd (?S named)"
    using False assms(2) by (auto simp: sortBlocks_def bindR_Inr_iff)
  have name: "(n, b) \<in> set named \<Longrightarrow> declName (tl b) = n" for n b
    using named(1) assms(1)
    by (induction bs arbitrary: named) (auto simp: bindR_Inr_iff blockName_chunk)
  have "Sorting_Algorithms.sorted localeCompare (map fst (?S named))" by (rule sorted_key) simp
  moreover have "map (declName \<circ> tl) ss = map fst (?S named)"
    using name by (auto simp: named(2))
  ultimately show ?thesis by simp
qed

lemma chunks_mset: "mset chs = mset (map Line (plainLines chs)) + mset (map (case_prod Block) (blocksOf chs))"
  by (induction chs rule: blocksOf.induct) simp_all

lemma blocksOf_mset: "mset xs = mset ys \<Longrightarrow> mset (blocksOf xs) = mset (blocksOf ys)"
proof -
  have f: "blocksOf zs = List.map_filter (\<lambda>ch. case ch of Line _ \<Rightarrow> None | Block c b \<Rightarrow> Some (c, b)) zs" for zs
    by (induction zs rule: blocksOf.induct) (simp_all add: map_filter_simps)
  assume "mset xs = mset ys"
  thus ?thesis by (simp add: f List.map_filter_def mset_filter)
qed

lemma concat_mset: "mset xs = mset ys \<Longrightarrow> mset (concat (map f xs)) = mset (concat (map f ys))"
proof -
  have c: "mset (concat (map f zs)) = sum_mset (image_mset (\<lambda>z. mset (f z)) (mset zs))" for zs
    by (induction zs) simp_all
  assume "mset xs = mset ys"
  thus ?thesis by (simp add: c)
qed

lemma blocksOf_ok: "list_all (chunkOk ethersId E) chs \<Longrightarrow> \<forall>(c, b)\<in>set (blocksOf chs). isSelectorLine c \<and> closedDecl b"
  by (induction chs rule: blocksOf.induct) auto

lemma sort_chunks:
  assumes ok: "list_all (chunkOk ethersId E) chs" and run: "sortErrorBlocks localeCompare (concat (map chunkLines chs)) = Inr ls"
  obtains chs' where "ls = concat (map chunkLines chs')" "mset chs' = mset chs"
    "Sorting_Algorithms.sorted localeCompare (map (declName \<circ> snd) (blocksOf chs'))"
proof -
  obtain pre post where loop: "sortLoop False (concat (map chunkLines chs)) = (pre, map (case_prod (#)) (blocksOf chs), post)"
    "mset (pre @ post) = mset (plainLines chs)" using sortLoop_chunks [OF ok] by blast
  obtain ss where ss: "sortBlocks localeCompare (map (case_prod (#)) (blocksOf chs)) = Inr ss" "ls = pre @ concat ss @ post"
    using run loop by (auto simp: sortErrorBlocks_def bindR_Inr_iff)
  define bs where "bs = map (\<lambda>l. (hd l, tl l)) ss"
  have m: "mset ss = mset (map (case_prod (#)) (blocksOf chs))" using ss(1) by (rule sortBlocks_mset)
  have "\<forall>l\<in>set ss. l \<noteq> []" unfolding mset_eq_setD [OF m] by auto
  hence sb: "ss = map (case_prod (#)) bs" by (auto simp: bs_def intro!: map_idI [symmetric])
  have "mset bs = mset (map (\<lambda>l. (hd l, tl l)) (map (case_prod (#)) (blocksOf chs)))"
    unfolding bs_def by (metis m mset_map)
  also have "map (\<lambda>l. (hd l, tl l)) (map (case_prod (#)) (blocksOf chs)) = blocksOf chs" by (auto intro!: map_idI)
  finally have bm: "mset bs = mset (blocksOf chs)" .
  let ?chs = "map Line pre @ map (case_prod Block) bs @ map Line post"
  have "mset ?chs = mset chs" 
  proof -
    have "mset (plainLines chs) = mset pre + mset post" using loop(2) by simp
    thus ?thesis by (subst chunks_mset [of chs]) (simp add: bm)
  qed
  moreover have e: "map (declName \<circ> tl) ss = map (declName \<circ> snd) (blocksOf ?chs)" by (auto simp: sb)
  have "Sorting_Algorithms.sorted localeCompare (map (declName \<circ> snd) (blocksOf ?chs))"
    using sortBlocks_sorted [OF blocksOf_ok [OF ok] ss(1)] unfolding e .
  moreover have "ls = concat (map chunkLines ?chs)" by (simp add: ss(2) sb)
  ultimately show thesis by (intro that [of ?chs])
qed

section \<open>Fixing, then checking\<close>

lemma declsAbove_chunks:
  "list_all (chunkOk ethersId E) chs \<Longrightarrow> map snd (declsAbove prev (concat (map chunkLines chs))) = map snd (blocksOf chs)"
proof (induction chs arbitrary: prev)
  case (Cons ch chs)
  show ?case
  proof (cases ch)
    case (Line l)
    with Cons show ?thesis by simp
  next
    case (Block c b)
    have b: "isSelectorLine c" "closedDecl b" using Cons.prems Block by simp_all
    then obtain l b' where l: "b = l # b'" "isErrorLine l" by (cases b) (auto simp: closedDecl_def)
    have "takeDecl (l # b' @ r) = (b, r)" for r using closedDecl_takeDecl [OF b(2), of r] l(1) by simp
    thus ?thesis using Cons Block b(1) l by (simp del: takeDecl.simps add: selector_not_error)
  qed
qed simp

lemma splitOn_join: "ls \<noteq> [] \<Longrightarrow> \<forall>l\<in>set ls. c \<notin> set l \<Longrightarrow> splitOn c (joinWith [c] ls) = ls"
  by (induction "[c]" ls rule: joinWith.induct) simp_all

lemma splitOn_chars: "l \<in> set (splitOn c s) \<Longrightarrow> set l \<subseteq> set s - {c}"
proof (induction s arbitrary: l)
  case (Cons y s)
  obtain p ps where p: "splitOn c s = p # ps" by (cases "splitOn c s") auto
  have "set p \<subseteq> set s - {c}" and "l \<in> set ps \<Longrightarrow> set l \<subseteq> set s - {c}" using Cons.IH p by simp_all
  thus ?case using Cons.IH [of l] Cons.prems p by (auto split: if_splits)
qed simp

lemma splitLines_noCR: "carriageReturn \<notin> set s \<Longrightarrow> splitLines s = splitOn newline s"
proof -
  assume cr: "carriageReturn \<notin> set s"
  have "stripCR l = l" if "l \<in> set (butlast (splitOn newline s))" for l
  proof -
    have "carriageReturn \<notin> set l" using cr splitOn_chars [OF in_set_butlastD [OF that]] by blast
    hence "l = [] \<or> last l \<noteq> carriageReturn" by (metis last_in_set)
    thus ?thesis by (auto simp: stripCR_def)
  qed
  hence "map stripCR (butlast (splitOn newline s)) = butlast (splitOn newline s)" by (intro map_idI)
  thus ?thesis by (simp add: splitLines_def Let_def)
qed

lemma splitLines_join:
  assumes "ls \<noteq> []" and "\<forall>l\<in>set ls. newline \<notin> set l \<and> carriageReturn \<notin> set l"
  shows "splitLines (joinWith [newline] ls) = ls"
proof -
  have "set (joinWith [newline] ls) \<subseteq> insert newline (\<Union> (set ` set ls))"
    by (induction "[newline]" ls rule: joinWith.induct) auto
  hence "carriageReturn \<notin> set (joinWith [newline] ls)"
    using assms(2) by (auto simp: newline_def carriageReturn_def)
  thus ?thesis using assms by (simp add: splitLines_noCR splitOn_join)
qed

lemma errorSig_cong: "set E = set E' \<Longrightarrow> errorSig E = errorSig E'"
  by (simp add: errorSig_def paramTypes_def fun_eq_iff)

lemma chunkOk_cong: "set E = set E' \<Longrightarrow> chunkOk ethersId E ch = chunkOk ethersId E' ch"
  by (cases ch) (simp_all add: errorSig_cong [of E E'])

lemma entries_mset: "mset xs = mset ys \<Longrightarrow> mset (entries p E xs) = mset (entries p E ys)"
  using blocksOf_mset [of xs ys] by (simp add: entries_blocks)

lemma freshSigs_mset:
  assumes "mset xs = mset ys"
  shows "freshSigs p E c xs = freshSigs p E c ys"
proof -
  have m: "mset (map fst (entries p E xs)) = mset (map fst (entries p E ys))"
    using entries_mset [OF assms, of p E] by simp
  show ?thesis
    using mset_eq_imp_distinct_iff [OF m] mset_eq_setD [OF m] by (simp add: freshSigs_def Let_def del: set_map)
qed

text \<open>C11: fixing makes the check pass.  When \<open>--fix\<close> has processed a file, every declaration of which is
  closed by a line that is no comment, and moving the declarations has not changed the enums that the
  script sees, then \<open>--check\<close> on the text it left succeeds without a change and collects the same errors;
  the declarations are in the order of their names when the text was changed; and no line was lost or
  added other than comments.\<close>

theorem lint_fix_then_check:
  assumes hex: "\<forall>sig. matchesHex 64 (ethersId sig)"
    and body: "carriageReturn \<notin> set content" "tidyLines (splitLines content)"
    and run: "lintText ethersId localeCompare filePath True c0 content = Inr (content', m, c)"
    and enums: "set (enumNames content') = set (enumNames content)"
  shows "(\<exists>c'. lintText ethersId localeCompare filePath False c0 content' = Inr (content', False, c') \<and> map_of c' = map_of c) \<and>
    (if m then Sorting_Algorithms.sorted localeCompare (map (declName \<circ> snd) (declsAbove None (splitLines content')))
     else content' = content) \<and>
    filter_mset (\<lambda>l. \<not> isComment l) (mset (splitLines content')) = filter_mset (\<lambda>l. \<not> isComment l) (mset (splitLines content))"
proof -
  let ?E = "enumNames content" and ?L = "splitLines content"
  obtain out where loop: "lintLoop ethersId filePath True ?E 0 ?L ([], c0, False) = Inr (out, c, m)"
    and res: "if m then \<exists>ls. sortErrorBlocks localeCompare out = Inr ls \<and> content' = joinWith [newline] ls else content' = content"
    using run by (auto simp: lintText_def bindR_Inr_iff split: if_splits)
  have empty: "freshSigs filePath ?E c0 []" "entries filePath ?E [] = []" by (simp_all add: freshSigs_def entries_def)
  have "\<exists>chs. out = concat (map chunkLines chs) \<and> list_all (chunkOk ethersId ?E) chs \<and> freshSigs filePath ?E c0 chs \<and>
      c = c0 @ entries filePath ?E chs \<and> (\<not> m \<longrightarrow> out = ?L) \<and>
      filter (\<lambda>l. \<not> isComment l) out = filter (\<lambda>l. \<not> isComment l) ?L \<and>
      set out \<subseteq> set ?L \<union> range (selectorComment ethersId)"
    using lintLoop_chunks [OF hex body(2) [unfolded tidyLines_def], of ?E "[]" filePath c0 True 0 False out c m] loop empty
    by simp
  then obtain chs where chs: "out = concat (map chunkLines chs)" "list_all (chunkOk ethersId ?E) chs" "freshSigs filePath ?E c0 chs"
      "c = c0 @ entries filePath ?E chs" "\<not> m \<longrightarrow> out = ?L"
      "filter (\<lambda>l. \<not> isComment l) out = filter (\<lambda>l. \<not> isComment l) ?L"
      "set out \<subseteq> set ?L \<union> range (selectorComment ethersId)" by blast
  obtain chs' where chs': "splitLines content' = concat (map chunkLines chs')" "mset chs' = mset chs"
      "m \<Longrightarrow> Sorting_Algorithms.sorted localeCompare (map (declName \<circ> snd) (blocksOf chs'))"
  proof (cases m)
    case True
    then obtain ls where ls: "sortErrorBlocks localeCompare out = Inr ls" "content' = joinWith [newline] ls" using res by auto
    obtain chs1 where chs1: "ls = concat (map chunkLines chs1)" "mset chs1 = mset chs"
      "Sorting_Algorithms.sorted localeCompare (map (declName \<circ> snd) (blocksOf chs1))"
      using sort_chunks [OF chs(2)] ls(1) chs(1) by metis
    have ms: "mset ls = mset out" unfolding chs1(1) chs(1) using chs1(2) by (rule concat_mset)
    have clean: "\<forall>l\<in>set ls. newline \<notin> set l \<and> carriageReturn \<notin> set l"
    proof
      fix l assume "l \<in> set ls"
      hence "l \<in> set ?L \<union> range (selectorComment ethersId)" using mset_eq_setD [OF ms] chs(7) by blast
      thus "newline \<notin> set l \<and> carriageReturn \<notin> set l"
        using splitOn_chars [of l newline content] body(1) hex newline_not_selector
        by (auto simp: splitLines_noCR)
    qed
    have "ls \<noteq> []" using ms lintLoop_nonempty [OF loop] by (auto simp: splitLines_def Let_def)
    with ls(2) clean have "splitLines content' = ls" by (simp add: splitLines_join)
    thus thesis using that chs1 by simp
  next
    case False
    thus thesis using that [of chs] res chs(1,5) by simp
  qed
  let ?E' = "enumNames content'"
  have ok: "list_all (chunkOk ethersId ?E') chs'"
    using chs(2) chunkOk_cong [OF enums] mset_eq_setD [OF chs'(2)] by (simp add: list_all_iff)
  have ent: "entries filePath ?E' = entries filePath ?E" "freshSigs filePath ?E' = freshSigs filePath ?E"
    by (simp_all add: fun_eq_iff entries_def entryOf_def freshSigs_def errorSig_cong [OF enums])
  have fresh: "freshSigs filePath ?E' c0 chs'" using chs(3) freshSigs_mset [OF chs'(2)] by (simp add: ent)
  have chk: "lintText ethersId localeCompare filePath False c0 content' = Inr (content', False, c0 @ entries filePath ?E' chs')"
    using check_chunks [OF ok fresh, of False 0 "[]" False] by (simp add: lintText_def chs'(1))
  have "map_of (entries filePath ?E' chs') = map_of (entries filePath ?E chs)"
    using entries_mset [OF chs'(2), of filePath ?E] fresh chs(3)
    by (subst map_of_inject_set) (auto simp: ent freshSigs_def Let_def dest: mset_eq_setD)
  moreover have "mset (splitLines content') = mset out" unfolding chs'(1) chs(1) using chs'(2) by (rule concat_mset)
  ultimately show ?thesis using chk chs'(1,3) chs(4,6) res declsAbove_chunks [OF ok, of None]
    by (auto simp flip: mset_filter map_map)
qed

definition exampleId :: "string \<Rightarrow> string" where
  "exampleId s = ''0x'' @ replicate 64 (if length s < 5 then CHR ''a'' else CHR ''b'')"

definition exampleSource :: string where
  "exampleSource = joinWith [newline] [''enum Kind { A, B }'', ''// too big'', ''error Zed('', ''  uint256 a,'', ''  Kind k'', '');'',
     '''', ''error Ab();'']"

definition exampleFixed :: string where
  "exampleFixed = joinWith [newline] [''enum Kind { A, B }'', ''// 0xaaaaaaaa'', ''error Ab();'', ''// 0xbbbbbbbb'', ''error Zed('',
     ''  uint256 a,'', ''  Kind k'', '');'', '''']"

lemma matchesHex_exampleId: "matchesHex 64 (exampleId s)"
  by (simp add: matchesHex_def exampleId_def list_all_iff) (simp add: isHexDigit_def digitVal_def)

lemma exampleSource_fixed: "lintText exampleId (key length default) ''E.sol'' True [] exampleSource =
   Inr (exampleFixed, True, [(''Zed(uint256,uint8)'', ''Zed'', ''E.sol''), (''Ab()'', ''Ab'', ''E.sol'')])"
  by code_simp

lemma exampleSource_tidy: "carriageReturn \<notin> set exampleSource" "tidyLines (splitLines exampleSource)"
  "set (enumNames exampleFixed) = set (enumNames exampleSource)"
  by code_simp+

theorem lint_fix_then_check_witness:
  "(\<exists>c. lintText exampleId (key length default) ''E.sol'' True [] exampleSource = Inr (exampleFixed, True, c)) \<and>
   (\<exists>c'. lintText exampleId (key length default) ''E.sol'' False [] exampleFixed = Inr (exampleFixed, False, c')) \<and>
   Sorting_Algorithms.sorted (key length default) (map (declName \<circ> snd) (declsAbove None (splitLines exampleFixed)))"
  using lint_fix_then_check [OF allI [OF matchesHex_exampleId] exampleSource_tidy(1,2) exampleSource_fixed exampleSource_tidy(3)]
    exampleSource_fixed by auto

end
