(* ===== verification/LintCheck.thy ===== *)
theory LintCheck
  imports LintLaws
begin

text \<open>
  What the whole command \<open>errors-lint --check\<close> accepts: exactly the disks on which every error declaration
  of the configured files has its selector above it, no signature is declared twice in a directory, and
  every declared error is used.
\<close>

section \<open>A file\<close>

definition annotated :: "(string \<Rightarrow> string) \<Rightarrow> string list \<Rightarrow> string option \<times> string list \<Rightarrow> bool" where
  "annotated ethersId E = (\<lambda>(above, b). case (above, errorSig E b) of
     (Some l, Some (_, sig)) \<Rightarrow> trim l = selectorComment ethersId sig | _ \<Rightarrow> False)"

definition fileEntries :: "string \<Rightarrow> string list \<Rightarrow> (string option \<times> string list) list \<Rightarrow> collected" where
  "fileEntries filePath E ds = map (\<lambda>(_, b). entryOf filePath E b) ds"

definition newSigs :: "collected \<Rightarrow> collected \<Rightarrow> bool" where
  "newSigs c es = (distinct (map fst es) \<and> fst ` set es \<inter> fst ` set c = {})"

lemma newSigs_Cons: "newSigs c ((sig, v) # es) \<longleftrightarrow> map_of c sig = None \<and> newSigs (c @ [(sig, v)]) es"
  by (auto simp: newSigs_def map_of_eq_None_iff)

lemma newSigs_append: "newSigs c (es @ fs) \<longleftrightarrow> newSigs c es \<and> newSigs (c @ es) fs"
  by (auto simp: newSigs_def)

lemma placeSelector_check:
  "placeSelector False (selectorComment ethersId sig) pos out =
     (if out \<noteq> [] \<and> trim (last out) = selectorComment ethersId sig then Inr (out, False)
      else Inl (Error (''Missing selector above '' @ pos)))"
  by (auto simp: placeSelector_def selectorComment_def trim_def)

lemma lintLoop_check:
  "lintLoop ethersId filePath False E i lines (out, c, m) = Inr r \<longleftrightarrow>
     list_all (annotated ethersId E) (declsAbove prev lines) \<and> newSigs c (fileEntries filePath E (declsAbove prev lines)) \<and>
     r = (out @ lines, c @ fileEntries filePath E (declsAbove prev lines), m)"
  if "prev = (if out = [] then None else Some (last out))"
  using that
proof (induction prev lines arbitrary: i out c rule: declsAbove.induct)
  case (1 prev)
  show ?case by (auto simp: fileEntries_def newSigs_def)
next
  case (2 prev line rest)
  show ?case
  proof (cases "isErrorLine line")
    case False
    from 2(2) [OF False, of "out @ [line]" "i + 1" c] False show ?thesis by simp
  next
    case True
    obtain b rest' where take: "takeDecl (line # rest) = (b, rest')" by (cases "takeDecl (line # rest)")
    have b: "b \<noteq> []" "line # rest = b @ rest'" using take takeDecl_hd takeDecl_append by blast+
    show ?thesis
    proof (cases "errorSig E b")
      case None
      thus ?thesis using True take by (simp del: takeDecl.simps add: annotated_def split: option.splits)
    next
      case (Some ns)
      obtain n sig where sig: "errorSig E b = Some (n, sig)" using Some by (cases ns) simp
      have head: "lintLoop ethersId filePath False E i (line # rest) (out, c, m) =
        (case map_of c sig of Some (_, prev) \<Rightarrow> Inl (Error (''Error '' @ n @ '' defined twice in '' @ prev @ '' and '' @ filePath))
         | None \<Rightarrow> bindR (placeSelector False (selectorComment ethersId sig) (filePath @ '':'' @ showNat (i + 1)) out)
             (\<lambda>(output', placed). lintLoop ethersId filePath False E (i + length b) rest'
                (output' @ b, objSet sig (n, filePath) c, m \<or> placed)))"
        using True take sig by (cases "map_of c sig") (simp_all del: takeDecl.simps)
      have ds: "declsAbove prev (line # rest) = (prev, b) # declsAbove (Some (last b)) rest'"
        using True take by (simp del: takeDecl.simps)
      have ih: "lintLoop ethersId filePath False E (i + length b) rest' (out @ b, c @ [(sig, n, filePath)], m) = Inr r \<longleftrightarrow>
          list_all (annotated ethersId E) (declsAbove (Some (last b)) rest') \<and>
          newSigs (c @ [(sig, n, filePath)]) (fileEntries filePath E (declsAbove (Some (last b)) rest')) \<and>
          r = ((out @ b) @ rest', (c @ [(sig, n, filePath)]) @ fileEntries filePath E (declsAbove (Some (last b)) rest'), m)"
        using 2(1) [OF True take [symmetric], of "out @ b"] b(1) by simp
      have ann: "annotated ethersId E (prev, b) \<longleftrightarrow> out \<noteq> [] \<and> trim (last out) = selectorComment ethersId sig"
        using 2(3) sig by (simp add: annotated_def)
      have ent: "fileEntries filePath E ((prev, b) # ds) = (sig, n, filePath) # fileEntries filePath E ds" for ds
        by (simp add: fileEntries_def entryOf_def sig)
      show ?thesis
        unfolding head ds ent newSigs_Cons list.pred_inject(2) ann placeSelector_check
        using ih b(2) by (auto simp: objSet_new split: option.splits if_splits)
    qed
  qed
qed

definition declarations :: "string \<Rightarrow> (string option \<times> string list) list" where
  "declarations t = declsAbove None (splitLines t)"

lemma lintText_check:
  "lintText ethersId localeCompare filePath False c t = Inr r \<longleftrightarrow>
     list_all (annotated ethersId (enumNames t)) (declarations t) \<and> newSigs c (fileEntries filePath (enumNames t) (declarations t)) \<and>
     r = (t, False, c @ fileEntries filePath (enumNames t) (declarations t))"
  using lintLoop_check [of None "[]" ethersId filePath "enumNames t" 0 "splitLines t" c False]
  by (auto simp: lintText_def declarations_def bindR_Inr_iff)

section \<open>A directory and the command\<close>

text \<open>The text of a configured file and its declarations, as the world has them.\<close>

definition sourcePath :: "lintWorld \<Rightarrow> string \<Rightarrow> string \<Rightarrow> string list" where
  "sourcePath w dir f = resolvePath (lintCwd w) (dir @ ''/'' @ f)"

definition sourceText :: "lintWorld \<Rightarrow> string \<Rightarrow> string \<Rightarrow> string option" where
  "sourceText w dir f = (case nodeAt (sourcePath w dir f) (lintRoot w) of Some (FileNode t) \<Rightarrow> Some t | _ \<Rightarrow> None)"

definition usedErrors :: "lintWorld \<Rightarrow> string \<Rightarrow> string list" where
  "usedErrors w dir = collectErrorUsages (resolvePath (lintCwd w) dir) (lintRoot w)"

definition sourceSigs :: "lintWorld \<Rightarrow> string \<Rightarrow> string \<Rightarrow> collected" where
  "sourceSigs w dir f = (case sourceText w dir f of None \<Rightarrow> []
     | Some t \<Rightarrow> fileEntries (showPath (sourcePath w dir f)) (enumNames t) (declarations t))"

definition annotatedSource :: "(string \<Rightarrow> string) \<Rightarrow> lintWorld \<Rightarrow> string \<Rightarrow> string \<Rightarrow> bool" where
  "annotatedSource ethersId w dir f = (case sourceText w dir f of None \<Rightarrow> False
     | Some t \<Rightarrow> list_all (annotated ethersId (enumNames t)) (declarations t))"

lemma processFile_check:
  "processFile ethersId localeCompare (sourcePath w dir f) False c w = (Inr r, w') \<longleftrightarrow>
     w' = w \<and> annotatedSource ethersId w dir f \<and> newSigs c (sourceSigs w dir f) \<and> r = (False, c @ sourceSigs w dir f)"
proof (cases "sourceText w dir f")
  case None
  thus ?thesis
    by (auto simp: processFile_def readSource_def sourceText_def annotatedSource_def eff_simps bindE_apply
        split: option.splits fsnode.splits)
next
  case (Some t)
  let ?L = "lintText ethersId localeCompare (showPath (sourcePath w dir f)) False c t"
  have read: "readSource (sourcePath w dir f) w = (Inr t, w)"
    using Some by (auto simp: readSource_def sourceText_def eff_simps split: option.splits fsnode.splits)
  have "processFile ethersId localeCompare (sourcePath w dir f) False c w =
      (bindR ?L (\<lambda>(_, m, c'). Inr (m, c')), w)"
    by (cases ?L) (auto simp: processFile_def bindE_Inr [of "readSource (sourcePath w dir f)", OF read] eff_simps split: prod.splits)
  thus ?thesis
    using lintText_check [of ethersId localeCompare "showPath (sourcePath w dir f)" c t] Some
    by (auto simp: bindR_Inr_iff annotatedSource_def sourceSigs_def)
qed

lemma lintFiles_Cons:
  "lintFiles ethersId localeCompare False True dir (f # fs) c hasErrors w = (Inr r, w') \<longleftrightarrow>
    (\<exists>res c1 w1. processFile ethersId localeCompare (sourcePath w dir f) False c w = (Inr (res, c1), w1) \<and>
       lintFiles ethersId localeCompare False True dir fs c1 (hasErrors \<or> res) w1 = (Inr r, w'))"
  unfolding lintFiles.simps bindE_readE sourcePath_def [symmetric] bindE_Inr_iff by (simp only: split_paired_Ex prod.case simp_thms)

lemma lintFiles_check:
  "lintFiles ethersId localeCompare False True dir fs c hasErrors w = (Inr r, w') \<longleftrightarrow>
     w' = w \<and> list_all (annotatedSource ethersId w dir) fs \<and> newSigs c (concat (map (sourceSigs w dir) fs)) \<and>
     r = (c @ concat (map (sourceSigs w dir) fs), hasErrors)"
proof (induction fs arbitrary: c)
  case Nil
  show ?case by (auto simp: eff_simps newSigs_def)
next
  case (Cons f fs)
  show ?case
    unfolding lintFiles_Cons processFile_check
    by (simp add: Cons newSigs_append conj_commute conj_left_commute cong: conj_cong) blast
qed

definition directorySigs :: "lintWorld \<Rightarrow> string \<Rightarrow> string list \<Rightarrow> collected" where
  "directorySigs w dir fs = concat (map (sourceSigs w dir) fs)"

definition cleanDirectory :: "(string \<Rightarrow> string) \<Rightarrow> lintWorld \<Rightarrow> string \<times> string list \<Rightarrow> bool" where
  "cleanDirectory ethersId w = (\<lambda>(dir, fs). list_all (annotatedSource ethersId w dir) fs \<and>
     distinct (map fst (directorySigs w dir fs)) \<and>
     list_all (\<lambda>(_, name, _). name \<in> set (usedErrors w dir)) (directorySigs w dir fs))"

lemma processExit_fails: "thenE m processExit w \<noteq> (Inr r, w')"
  by (simp add: thenE_Inr_iff processExit_def eff_simps)

lemma whenE_exit: "whenE b (thenE m processExit) w = (Inr r, w') \<longleftrightarrow> \<not> b \<and> w' = w"
  by (cases b) (simp_all add: processExit_fails eff_simps eq_commute)

lemma checkUsages_check:
  "checkUsages dir es w = (Inr r, w') \<longleftrightarrow> w' = w \<and> list_all (\<lambda>(_, name, _). name \<in> set (usedErrors w dir)) es"
  unfolding checkUsages_def bindE_readE Let_def whenE_exit usedErrors_def [symmetric]
  by (auto simp: filter_empty_conv list_all_iff)

lemma lintDirectory_check:
  "lintDirectory ethersId localeCompare False True d False w = (Inr h, w') \<longleftrightarrow> \<not> h \<and> w' = w \<and> cleanDirectory ethersId w d"
proof (cases d)
  case (Pair dir fs)
  have new: "newSigs [] es \<longleftrightarrow> distinct (map fst es)" for es by (simp add: newSigs_def)
  show ?thesis
    unfolding lintDirectory_def Pair prod.case bindE_Inr_iff lintFiles_check
    by (simp add: thenE_Inr_iff whenE_exit checkUsages_check eff_simps cleanDirectory_def directorySigs_def new) blast
qed

lemma lintDirectories_check:
  "lintDirectories ethersId localeCompare False True ds False w = (Inr h, w') \<longleftrightarrow>
     \<not> h \<and> w' = w \<and> list_all (cleanDirectory ethersId w) ds"
proof (induction ds)
  case Nil
  show ?case by (auto simp: eff_simps)
next
  case (Cons d ds)
  have "lintDirectories ethersId localeCompare False True (d # ds) False w = (Inr h, w') \<longleftrightarrow>
    (\<exists>h1 w1. lintDirectory ethersId localeCompare False True d False w = (Inr h1, w1) \<and>
       lintDirectories ethersId localeCompare False True ds h1 w1 = (Inr h, w'))"
    by (simp add: bindE_Inr_iff)
  also have "\<dots> \<longleftrightarrow> cleanDirectory ethersId w d \<and> lintDirectories ethersId localeCompare False True ds False w = (Inr h, w')"
    unfolding lintDirectory_check by (metis (full_types))
  finally show ?case unfolding Cons by auto
qed

lemma annotated_eq:
  "annotated ethersId E = (\<lambda>(above, b). \<exists>l name sig.
     above = Some l \<and> errorSig E b = Some (name, sig) \<and> trim l = selectorComment ethersId sig)"
proof (rule ext, clarify)
  fix above :: "string option" and b
  show "annotated ethersId E (above, b) \<longleftrightarrow> (\<exists>l name sig.
      above = Some l \<and> errorSig E b = Some (name, sig) \<and> trim l = selectorComment ethersId sig)"
    by (cases above; cases "errorSig E b") (auto simp: annotated_def)
qed

lemma annotatedSource_iff:
  "annotatedSource ethersId w dir f \<longleftrightarrow> (\<exists>t. sourceText w dir f = Some t \<and> (\<forall>(above, b)\<in>set (declarations t).
     \<exists>l name sig. above = Some l \<and> errorSig (enumNames t) b = Some (name, sig) \<and> trim l = selectorComment ethersId sig))"
  by (cases "sourceText w dir f") (simp_all add: annotatedSource_def annotated_eq list_all_iff)

text \<open>C12: what the check accepts.  \<open>errors-lint --check\<close> succeeds exactly when every configured file exists,
  every error declaration in it parses and has the comment with the selector of its signature on the line
  above, no signature is declared twice in the files of a directory, and every declared name follows a
  \<open>revert\<close> in some Solidity file below the directory.  It then prints one line and changes nothing.\<close>

theorem errors_lint_check:
  "errorsLint ethersId localeCompare False True w = (Inr (), w') \<longleftrightarrow>
     w' = w\<lparr> lintLog := lintLog w @ [''All files are correct.''] \<rparr> \<and>
     (\<forall>(dir, fs)\<in>set CONTRACTS_DIRECTORIES.
        (\<forall>f\<in>set fs. \<exists>t. sourceText w dir f = Some t \<and> (\<forall>(above, b)\<in>set (declarations t). \<exists>l name sig.
           above = Some l \<and> errorSig (enumNames t) b = Some (name, sig) \<and> trim l = selectorComment ethersId sig)) \<and>
        distinct (map fst (directorySigs w dir fs)) \<and>
        (\<forall>(sig, name, file)\<in>set (directorySigs w dir fs). name \<in> set (usedErrors w dir)))"
proof -
  have "errorsLint ethersId localeCompare False True w = (Inr (), w') \<longleftrightarrow>
    w' = w\<lparr> lintLog := lintLog w @ [''All files are correct.''] \<rparr> \<and> list_all (cleanDirectory ethersId w) CONTRACTS_DIRECTORIES"
  proof -
    have one: "(\<exists>h w1. (\<not> h \<and> w1 = w \<and> A) \<and> P h w1) \<longleftrightarrow> P False w \<and> A" for A :: bool and P
      by (auto intro: exI [of _ False])
    have "errorsLint ethersId localeCompare False True w = (Inr (), w') \<longleftrightarrow>
      (\<exists>h w1. lintDirectories ethersId localeCompare False True CONTRACTS_DIRECTORIES False w = (Inr h, w1) \<and>
         thenE (whenE (\<not> h) (consoleE ''All files are correct.'')) (returnE ()) w1 = (Inr (), w'))"
      by (simp add: errorsLint_def bindE_Inr_iff)
    also have "\<dots> \<longleftrightarrow> thenE (consoleE ''All files are correct.'') (returnE ()) w = (Inr (), w') \<and>
        list_all (cleanDirectory ethersId w) CONTRACTS_DIRECTORIES"
      unfolding lintDirectories_check by (subst one) simp
    finally show ?thesis by (simp add: consoleE_def eff_simps eq_commute)
  qed
  thus ?thesis unfolding cleanDirectory_def list_all_iff annotatedSource_iff .
qed

definition exampleDisk :: lintWorld where
  "exampleDisk = \<lparr> lintRoot = DirNode
     [(''l1'', DirNode
        [(''contracts'', DirNode
           [(''common'', DirNode [(''L1ContractErrors.sol'', FileNode exampleFixed)]),
            (''bridge'', DirNode [(''L1BridgeContractErrors.sol'', FileNode [])]),
            (''bridgehub'', DirNode [(''L1BridgehubErrors.sol'', FileNode [])]),
            (''state-transition'', DirNode [(''L1StateTransitionErrors.sol'', FileNode [])]),
            (''upgrades'', DirNode [(''ZkSyncUpgradeErrors.sol'', FileNode [])]),
            (''Use.sol'', FileNode ''revert Ab(); revert Zed(1, k);'')]),
         (''deploy-scripts'', DirNode [(''ZkSyncScriptErrors.sol'', FileNode [])])]),
      (''l2-contracts'', DirNode [(''contracts'', DirNode [(''errors'', DirNode [(''L2ContractErrors.sol'', FileNode [])])])]),
      (''system-contracts'', DirNode [(''contracts'', DirNode [(''SystemContractErrors.sol'', FileNode [])])]),
      (''da-contracts'', DirNode [(''contracts'', DirNode [(''DAContractsErrors.sol'', FileNode [])])])],
     lintCwd = [''l1''], lintLog = [] \<rparr>"

lemma exampleDisk_checked:
  "errorsLint exampleId (key length default) False True exampleDisk =
     (Inr (), exampleDisk\<lparr> lintLog := lintLog exampleDisk @ [''All files are correct.''] \<rparr>)"
  by code_simp

theorem errors_lint_check_witness:
  "errorsLint exampleId (key length default) False True exampleDisk =
     (Inr (), exampleDisk\<lparr> lintLog := lintLog exampleDisk @ [''All files are correct.''] \<rparr>) \<and>
   list_all (\<lambda>(dir, fs). distinct (map fst (directorySigs exampleDisk dir fs)) \<and>
      list_all (\<lambda>(sig, name, file). name \<in> set (usedErrors exampleDisk dir)) (directorySigs exampleDisk dir fs)) CONTRACTS_DIRECTORIES"
  using exampleDisk_checked iffD1 [OF errors_lint_check exampleDisk_checked] by (auto simp: list_all_iff case_prod_beta')

end
