(* ===== verification/TokenDeployment.thy ===== *)
theory TokenDeployment
  imports ChainRegistration
begin

text \<open>
  \<open>src.ts/deploy-token.ts\<close> and the two commands of \<open>scripts/deploy-erc20.ts\<close>: test tokens are deployed, one
  contract per description, and minted to the deployer's wallet and to the wallets of the given mnemonics.

  Parameters are the pending transaction count of a wallet, the address that a mnemonic and a derivation
  path give, and, as everywhere, the ethers package and the node.
\<close>

section \<open>Descriptions\<close>

definition DEFAULT_ERC20 :: string where
  "DEFAULT_ERC20 = ''TestnetERC20Token''"

record TokenDescription =
  tkAddress :: "string option"
  tkName :: string
  tkSymbol :: string
  tkDecimals :: val
  tkImplementation :: "string option"
  tkContract :: "pending option"

definition isZKMode :: "env \<Rightarrow> bool" where
  "isZKMode env = (env ''CONTRACTS_BASE_NETWORK_ZKSYNC'' = Some ''true'')"

text \<open>\<open>parseEther\<close> of a whole number.\<close>

definition parseEther :: "int \<Rightarrow> int" where
  "parseEther n = n * 10 ^ 18"

section \<open>Deployment in one go\<close>

text \<open>\<open>deployContractWithArgs\<close> of \<open>deploy-utils-zk.ts\<close>: the transaction carries the artifact's bytecode and
  the encoded constructor arguments.\<close>

definition deployContractWithArgsZk :: "'s ctx \<Rightarrow> string \<Rightarrow> val list \<Rightarrow> txOpts \<Rightarrow> ('s world, pending) eff" where
  "deployContractWithArgsZk C contractName args ethTxOptions =
     bindE (liftR (cZkArtifact C contractName)) (\<lambda>(bytecode, _).
     bindE (liftR (cZkEncodeDeploy C contractName args)) (\<lambda>encodedArgs.
       createE C (bytecode @ drop 2 encodedArgs) ethTxOptions))"

definition chosenImplementation :: "TokenDescription \<Rightarrow> string" where
  "chosenImplementation token = (if truthyStr (tkImplementation token) then toStr (tkImplementation token) else DEFAULT_ERC20)"

definition deployTokenContract :: "'s ctx \<Rightarrow> TokenDescription \<Rightarrow> int \<Rightarrow> ('s world, TokenDescription) eff" where
  "deployTokenContract C token n =
     (let implementation = chosenImplementation token;
          args = (if implementation \<noteq> ''WETH9'' then [VStr (tkName token), VStr (tkSymbol token), tkDecimals token] else []) in
      bindE (readE (\<lambda>w. isZKMode (procEnv w))) (\<lambda>zk.
      bindE (if zk then deployContractWithArgsZk C implementation args (noOpts\<lparr> nonce := Some n \<rparr>)
             else deployContractWithArgs C implementation args (noOpts\<lparr> gasLimit := Some 5000000, nonce := Some n \<rparr>))
        (\<lambda>contract. returnE (token\<lparr> tkImplementation := Some implementation, tkContract := Some contract \<rparr>))))"

fun deployTokenLoop :: "'s ctx \<Rightarrow> TokenDescription list \<Rightarrow> int \<Rightarrow> ('s world, TokenDescription list \<times> int) eff" where
  "deployTokenLoop C [] n = returnE ([], n)"
| "deployTokenLoop C (token # tokens) n =
     bindE (deployTokenContract C token n) (\<lambda>token'.
     bindE (deployTokenLoop C tokens (n + 1)) (\<lambda>(tokens', n'). returnE (token' # tokens', n')))"

definition waitContract :: "'s ctx \<Rightarrow> TokenDescription \<Rightarrow> ('s world, unit) eff" where
  "waitContract C token = (case tkContract token of
     None \<Rightarrow> throwE (TypeError ''Cannot read properties of undefined (reading deployTransaction)'')
   | Some p \<Rightarrow> thenE (waitE C p) (returnE ()))"

text \<open>\<open>deployContracts\<close> mutates the descriptions it is given: they are returned with the next nonce.\<close>

definition deployContracts ::
  "'s ctx \<Rightarrow> ('s \<Rightarrow> string \<Rightarrow> int result) \<Rightarrow> TokenDescription list \<Rightarrow> ('s world, TokenDescription list \<times> int) eff"
where
  "deployContracts C pendingCount tokens =
     bindE (readE (\<lambda>w. pendingCount (chain w) (deployWallet (self w)))) (\<lambda>r. bindE (liftR r) (\<lambda>n.
     bindE (deployTokenLoop C tokens n) (\<lambda>(tokens', n').
       thenE (forE tokens' (waitContract C)) (returnE (tokens', n')))))"

section \<open>Minting\<close>

type_synonym mnemonics = "string \<Rightarrow> string \<Rightarrow> string result"

definition getTestAddresses :: "mnemonics \<Rightarrow> string \<Rightarrow> string list result" where
  "getTestAddresses fromMnemonic mnemonic = mapR (\<lambda>i. fromMnemonic mnemonic (''m/44'/60'/0'/0/'' @ showNat i)) [0..<10]"

definition unwrapToken :: "TokenDescription \<Rightarrow> TokenDescription result" where
  "unwrapToken token = (case tkContract token of
     None \<Rightarrow> Inl (TypeError ''Cannot read properties of undefined (reading address)'')
   | Some p \<Rightarrow> Inr (token\<lparr> tkAddress := Some (pendingCreates p), tkContract := None,
       tkImplementation := (if truthyStr (tkImplementation token) then None else tkImplementation token) \<rparr>))"

definition mintAmount :: int where
  "mintAmount = parseEther 300000000000000000000"

fun mintTo :: "'s ctx \<Rightarrow> string \<Rightarrow> string list \<Rightarrow> int \<Rightarrow> ('s world, pending list \<times> int) eff" where
  "mintTo C contract [] n = returnE ([], n)"
| "mintTo C contract (address # rest) n =
     bindE (invokeE C contract ''mint'' [VStr address, VNum mintAmount] (noOpts\<lparr> nonce := Some n \<rparr>)) (\<lambda>tx.
     bindE (mintTo C contract rest (n + 1)) (\<lambda>(txs, n'). returnE (tx # txs, n')))"

fun mintLoop ::
  "'s ctx \<Rightarrow> string list \<Rightarrow> TokenDescription list \<Rightarrow> int \<Rightarrow> ('s world, TokenDescription list \<times> pending list) eff"
where
  "mintLoop C targets [] n = returnE ([], [])"
| "mintLoop C targets (token # tokens) n =
     bindE (if tkImplementation token \<noteq> Some ''WETH9''
            then (case tkContract token of
                None \<Rightarrow> throwE (TypeError ''Cannot read properties of undefined (reading mint)'')
              | Some p \<Rightarrow> mintTo C (pendingCreates p) targets n)
            else returnE ([], n)) (\<lambda>(txs, n').
     bindE (liftR (unwrapToken token)) (\<lambda>result.
     bindE (mintLoop C targets tokens n') (\<lambda>(results, txs'). returnE (result # results, txs @ txs'))))"

definition mintTokens ::
  "'s ctx \<Rightarrow> mnemonics \<Rightarrow> TokenDescription list \<Rightarrow> int \<Rightarrow> string list \<Rightarrow> ('s world, TokenDescription list) eff"
where
  "mintTokens C fromMnemonic tokens n mnemonics =
     bindE (liftR (mapR (getTestAddresses fromMnemonic) mnemonics)) (\<lambda>addressArrays.
     bindE (selfE deployWallet) (\<lambda>wallet.
     bindE (mintLoop C (wallet # concat addressArrays) tokens n) (\<lambda>(results, promises).
       thenE (forE promises (\<lambda>p. thenE (waitE C p) (returnE ()))) (returnE results))))"

text \<open>\<open>deploy-erc20 add-multi\<close>.\<close>

definition addMulti ::
  "'s ctx \<Rightarrow> ('s \<Rightarrow> string \<Rightarrow> int result) \<Rightarrow> mnemonics \<Rightarrow> TokenDescription list \<Rightarrow> string list \<Rightarrow> ('s world, TokenDescription list) eff"
where
  "addMulti C pendingCount fromMnemonic tokens mnemonics =
     bindE (deployContracts C pendingCount tokens) (\<lambda>(tokens', n). mintTokens C fromMnemonic tokens' n mnemonics)"

section \<open>Deployment one by one\<close>

text \<open>The condition of the source reads \<open>(token.implementation || token.symbol != "WETH") ? ... : ...\<close>.\<close>

definition tokenImplementation :: "TokenDescription \<Rightarrow> string" where
  "tokenImplementation token = (if truthyStr (tkImplementation token) \<or> tkSymbol token \<noteq> ''WETH'' then DEFAULT_ERC20 else ''WETH9'')"

definition mintTestToken :: "'s ctx \<Rightarrow> string \<Rightarrow> string \<Rightarrow> ('s world, unit) eff" where
  "mintTestToken C contract address =
     thenE (invokeE C contract ''mint'' [VStr address, VNum (parseEther 3000000000000)] noOpts) (returnE ())"

definition deployToken ::
  "'s ctx \<Rightarrow> mnemonics \<Rightarrow> string \<Rightarrow> bool \<Rightarrow> TokenDescription \<Rightarrow> ('s world, TokenDescription) eff"
where
  "deployToken C fromMnemonic mnemonic mint token =
     bindE (readE (\<lambda>w. toStr (procEnv w ''CHAIN_ETH_NETWORK''))) (\<lambda>network.
     let args = (if tkSymbol token \<noteq> ''WETH''
       then [VStr (tkName token @ '' ('' @ network @ '')''), VStr (tkSymbol token), tkDecimals token] else []) in
     bindE (deployContractWithArgs C (tokenImplementation token) args (noOpts\<lparr> gasLimit := Some 3000000 \<rparr>)) (\<lambda>erc20.
     bindE (waitE C erc20) (\<lambda>_.
     bindE (selfE deployWallet) (\<lambda>wallet.
     thenE (whenE (tkSymbol token \<noteq> ''WETH'' \<and> mint) (mintTestToken C (pendingCreates erc20) wallet))
     (thenE (whenE mint (forE [0..<10] (\<lambda>i.
        bindE (if mnemonic \<noteq> [] then liftR (fromMnemonic mnemonic (''m/44'/60'/0'/0/'' @ showNat i)) else returnE wallet)
          (\<lambda>testWalletAddress. whenE (tkSymbol token \<noteq> ''WETH'') (mintTestToken C (pendingCreates erc20) testWalletAddress)))))
     (returnE (token\<lparr> tkAddress := Some (pendingCreates erc20) \<rparr>)))))))"

definition deployTokens ::
  "'s ctx \<Rightarrow> mnemonics \<Rightarrow> TokenDescription list \<Rightarrow> string \<Rightarrow> bool \<Rightarrow> ('s world, TokenDescription list) eff"
where
  "deployTokens C fromMnemonic tokens mnemonic mint = mapE (deployToken C fromMnemonic mnemonic mint) tokens"

text \<open>\<open>deploy-erc20 add\<close>.\<close>

definition addToken ::
  "'s ctx \<Rightarrow> mnemonics \<Rightarrow> string \<Rightarrow> string \<Rightarrow> string \<Rightarrow> val \<Rightarrow> string option \<Rightarrow> ('s world, TokenDescription list) eff"
where
  "addToken C fromMnemonic mnemonic name symbol decimals implementation =
     deployTokens C fromMnemonic [\<lparr> tkAddress = None, tkName = name, tkSymbol = symbol, tkDecimals = decimals,
       tkImplementation = implementation, tkContract = None \<rparr>] mnemonic True"

section \<open>The transactions\<close>

text \<open>From \<open>w\<close> to \<open>w'\<close> exactly \<open>ts\<close> were handed to the node, and the script's own state is the same.\<close>

definition sends :: "'s world \<Rightarrow> tx list \<Rightarrow> 's world \<Rightarrow> bool" where
  "sends w ts w' \<longleftrightarrow> sent w' = sent w @ ts \<and> self w' = self w \<and> procEnv w' = procEnv w"

lemma sends_trans: "sends w ts w' \<Longrightarrow> sends w' us w'' \<Longrightarrow> sends w (ts @ us) w''"
  by (simp add: sends_def)

lemma sends_refl: "sends w [] w"
  by (simp add: sends_def)

lemma createE_sends:
  "createE C code o' w = (r, w') \<Longrightarrow> sends w [\<lparr> txFrom = deployWallet (self w), txKind = Create code, txOptions = o' \<rparr>] w'"
  by (auto simp: createE_def selfE_def submitE_def bindE_apply eff_simps sends_def split: prod.splits)

lemma invokeE_sends:
  "invokeE C a m vs o' w = (r, w') \<Longrightarrow> sends w [\<lparr> txFrom = deployWallet (self w), txKind = Invoke a m vs, txOptions = o' \<rparr>] w'"
  by (auto simp: invokeE_def selfE_def submitE_def bindE_apply eff_simps sends_def split: prod.splits)

lemma waitE_sends: "waitE C p w = (r, w') \<Longrightarrow> sends w [] w'"
  by (auto simp: waitE_def sends_def split: prod.splits)

lemma forE_wait_sends:
  assumes "\<And>x w r w'. x \<in> set xs \<Longrightarrow> f x w = (r, w') \<Longrightarrow> sends w [] w'" and "forE xs f w = (r, w')"
  shows "sends w [] w'"
  using assms
proof (induction xs arbitrary: w)
  case Nil
  thus ?case by (simp add: eff_simps sends_def)
next
  case (Cons x xs)
  obtain r1 w1 where x: "f x w = (r1, w1)" by fastforce
  have s: "sends w [] w1" using Cons.prems(1) [OF _ x] by simp
  show ?case
  proof (cases r1)
    case (Inl e)
    thus ?thesis using Cons.prems(2) x s by (simp add: thenE_Inl)
  next
    case (Inr a)
    hence "forE xs f w1 = (r, w')" using Cons.prems(2) x by (simp add: thenE_Inr)
    hence "sends w1 [] w'" using Cons.IH Cons.prems(1) by (meson list.set_intros(2))
    thus ?thesis using s sends_trans by fastforce
  qed
qed

text \<open>Consecutive explicit nonces from \<open>n\<close> on.\<close>

definition consecutive :: "int \<Rightarrow> tx list \<Rightarrow> bool" where
  "consecutive n ts \<longleftrightarrow> map (\<lambda>t. nonce (txOptions t)) ts = map (\<lambda>i. Some (n + int i)) [0..<length ts]"

lemma consecutive_Cons: "consecutive n (t # ts) \<longleftrightarrow> nonce (txOptions t) = Some n \<and> consecutive (n + 1) ts"
  by (simp add: consecutive_def upt_conv_Cons map_Suc_upt [symmetric] o_def algebra_simps del: upt_Suc map_Suc_upt)

lemma consecutive_Nil [simp]: "consecutive n []"
  by (simp add: consecutive_def)

lemma consecutive_append: "consecutive n (ts @ us) \<longleftrightarrow> consecutive n ts \<and> consecutive (n + int (length ts)) us"
  by (induction ts arbitrary: n) (simp_all add: consecutive_Cons algebra_simps)

definition mintTx :: "string \<Rightarrow> string \<Rightarrow> string \<Rightarrow> int \<Rightarrow> tx" where
  "mintTx wallet contract address n = \<lparr> txFrom = wallet, txKind = Invoke contract ''mint'' [VStr address, VNum mintAmount],
     txOptions = noOpts\<lparr> nonce := Some n \<rparr> \<rparr>"

fun mintTxs :: "string \<Rightarrow> (string \<times> string) list \<Rightarrow> int \<Rightarrow> tx list" where
  "mintTxs wallet [] n = []"
| "mintTxs wallet ((contract, address) # jobs) n = mintTx wallet contract address n # mintTxs wallet jobs (n + 1)"

lemma mintTxs_append: "mintTxs wallet (js @ ks) n = mintTxs wallet js n @ mintTxs wallet ks (n + int (length js))"
  by (induction wallet js n rule: mintTxs.induct) (simp_all add: algebra_simps)

lemma mintTxs_consecutive: "consecutive n (mintTxs wallet jobs n)"
  by (induction wallet jobs n rule: mintTxs.induct) (simp_all add: consecutive_Cons mintTx_def)

definition minted :: "TokenDescription \<Rightarrow> bool" where
  "minted token \<longleftrightarrow> tkImplementation token \<noteq> Some ''WETH9''"

text \<open>Every minted token to every target, in order.\<close>

definition mintJobs :: "string list \<Rightarrow> TokenDescription list \<Rightarrow> TokenDescription list \<Rightarrow> (string \<times> string) list" where
  "mintJobs targets tokens results = concat (map2 (\<lambda>token result.
     if minted token then map (Pair (toStr (tkAddress result))) targets else []) tokens results)"

lemma deployTokenContract_sends:
  assumes "deployTokenContract C token n w = (Inr token', w')"
  obtains code opt c where
    "sends w [\<lparr> txFrom = deployWallet (self w), txKind = Create code, txOptions = opt \<rparr>] w'" "nonce opt = Some n"
    "token' = token\<lparr> tkImplementation := Some (chosenImplementation token), tkContract := Some c \<rparr>"
proof (cases "isZKMode (procEnv w)")
  case True
  thus thesis using assms that
    by (fastforce simp: deployTokenContract_def Let_def deployContractWithArgsZk_def eff_simps bindE_Inr_iff
        dest!: createE_sends split: prod.splits)
next
  case False
  thus thesis using assms that
    by (fastforce simp: deployTokenContract_def Let_def deployContractWithArgs_def eff_simps bindE_Inr_iff dest!: createE_sends)
qed

text \<open>A description after its deployment.\<close>

definition deployedAs :: "TokenDescription \<Rightarrow> TokenDescription \<Rightarrow> bool" where
  "deployedAs token token' \<longleftrightarrow>
     (\<exists>c. token' = token\<lparr> tkImplementation := Some (chosenImplementation token), tkContract := Some c \<rparr>)"

lemma deployTokenLoop_sends:
  "deployTokenLoop C tokens n w = (Inr (tokens', n'), w') \<Longrightarrow> n' = n + int (length tokens) \<and> list_all2 deployedAs tokens tokens' \<and>
     (\<exists>ts. sends w ts w' \<and> length ts = length tokens \<and> consecutive n ts \<and> (\<forall>t\<in>set ts. \<exists>code. txKind t = Create code))"
proof (induction tokens arbitrary: n w tokens')
  case Nil
  thus ?case by (auto simp: eff_simps sends_refl intro!: exI [of _ "[]"])
next
  case (Cons token tokens)
  from Cons.prems obtain token1 w1 rest where head: "deployTokenContract C token n w = (Inr token1, w1)"
    and tail: "deployTokenLoop C tokens (n + 1) w1 = (Inr (rest, n'), w')" and eq: "tokens' = token1 # rest"
    by (auto simp: bindE_Inr_iff eff_simps split: prod.splits)
  from head obtain code opt c where h: "sends w [\<lparr> txFrom = deployWallet (self w), txKind = Create code, txOptions = opt \<rparr>] w1"
    "nonce opt = Some n" "deployedAs token token1"
    by (rule deployTokenContract_sends) (auto simp: deployedAs_def)
  from Cons.IH [OF tail] obtain ts where t: "n' = n + 1 + int (length tokens)" "list_all2 deployedAs tokens rest"
    "sends w1 ts w'" "length ts = length tokens" "consecutive (n + 1) ts" "\<forall>t\<in>set ts. \<exists>code. txKind t = Create code" by blast
  show ?case
    using h t eq sends_trans [OF h(1) t(3)]
    by (intro conjI exI [of _ "\<lparr> txFrom = deployWallet (self w), txKind = Create code, txOptions = opt \<rparr> # ts"])
      (simp_all add: consecutive_Cons)
qed

lemma mintTo_sends:
  "mintTo C contract targets n w = (Inr (txs, n'), w') \<Longrightarrow> n' = n + int (length targets) \<and>
     sends w (mintTxs (deployWallet (self w)) (map (Pair contract) targets) n) w'"
proof (induction targets arbitrary: n w txs)
  case Nil
  thus ?case by (simp add: eff_simps sends_refl)
next
  case (Cons a as)
  from Cons.prems obtain p w1 txs1 where "invokeE C contract ''mint'' [VStr a, VNum mintAmount] (noOpts\<lparr> nonce := Some n \<rparr>) w = (Inr p, w1)"
    and tail: "mintTo C contract as (n + 1) w1 = (Inr (txs1, n'), w')"
    by (auto simp: bindE_Inr_iff eff_simps split: prod.splits)
  hence h: "sends w [mintTx (deployWallet (self w)) contract a n] w1" unfolding mintTx_def by (intro invokeE_sends)
  hence "self w1 = self w" by (simp add: sends_def)
  with Cons.IH [OF tail] h show ?case
    using sends_trans [OF h, of "mintTxs (deployWallet (self w)) (map (Pair contract) as) (n + 1)" w'] by simp
qed

text \<open>A description as it is reported, and as \<open>unwrapToken\<close> leaves it in general.\<close>

definition resultOf :: "TokenDescription \<Rightarrow> TokenDescription \<Rightarrow> bool" where
  "resultOf token result \<longleftrightarrow> (\<exists>a. result = token\<lparr> tkAddress := Some a, tkContract := None, tkImplementation := None \<rparr>)"

definition unwrapsTo :: "TokenDescription \<Rightarrow> TokenDescription \<Rightarrow> bool" where
  "unwrapsTo token result \<longleftrightarrow> (\<exists>a. result = token\<lparr> tkAddress := Some a, tkContract := None,
     tkImplementation := (if truthyStr (tkImplementation token) then None else tkImplementation token) \<rparr>)"

lemma mintLoop_sends:
  "mintLoop C targets tokens n w = (Inr (results, txs), w') \<Longrightarrow> list_all2 unwrapsTo tokens results \<and>
     sends w (mintTxs (deployWallet (self w)) (mintJobs targets tokens results) n) w'"
proof (induction tokens arbitrary: n w results txs)
  case Nil
  thus ?case by (simp add: eff_simps sends_refl mintJobs_def)
next
  case (Cons token tokens)
  let ?m = "if tkImplementation token \<noteq> Some ''WETH9''
            then (case tkContract token of
                None \<Rightarrow> throwE (TypeError ''Cannot read properties of undefined (reading mint)'')
              | Some p \<Rightarrow> mintTo C (pendingCreates p) targets n)
            else returnE ([], n)"
  from Cons.prems obtain txs1 n1 w1 r rs txs2 where m: "?m w = (Inr (txs1, n1), w1)" and r: "unwrapToken token = Inr r"
    and tail: "mintLoop C targets tokens n1 w1 = (Inr (rs, txs2), w')" and eq: "results = r # rs"
    by (auto simp: bindE_Inr_iff eff_simps split: prod.splits)
  obtain p where p: "tkContract token = Some p" "tkAddress r = Some (pendingCreates p)" "unwrapsTo token r"
  proof (cases "tkContract token")
    case (Some q)
    have "unwrapsTo token r" unfolding unwrapsTo_def using r Some by (intro exI [of _ "pendingCreates q"]) (auto simp: unwrapToken_def)
    thus thesis using that [of q] r Some by (auto simp: unwrapToken_def)
  qed (use r in \<open>simp add: unwrapToken_def\<close>)
  let ?js = "if minted token then map (Pair (pendingCreates p)) targets else []"
  have h: "n1 = n + int (length ?js) \<and> sends w (mintTxs (deployWallet (self w)) ?js n) w1"
    using m p mintTo_sends [of C "pendingCreates p" targets n w txs1 n1 w1]
    by (auto simp: minted_def eff_simps sends_refl split: if_splits)
  hence "self w1 = self w" by (simp add: sends_def)
  moreover have "mintJobs targets (token # tokens) results = ?js @ mintJobs targets tokens rs"
    by (simp add: mintJobs_def eq p(2) toStr_def)
  ultimately show ?case
    using Cons.IH [OF tail] h eq p(3) sends_trans [of w "mintTxs (deployWallet (self w)) ?js n" w1]
    by (auto simp: mintTxs_append)
qed

lemma mintJobs_deployed:
  "list_all2 deployedAs tokens tokens' \<Longrightarrow> mintJobs targets tokens' results =
     mintJobs targets (map (\<lambda>t. t\<lparr> tkImplementation := Some (chosenImplementation t) \<rparr>) tokens) results"
proof (induction tokens tokens' arbitrary: results rule: list_all2_induct)
  case (Cons t ts t' ts')
  thus ?case by (cases results) (auto simp: mintJobs_def minted_def deployedAs_def)
qed (simp add: mintJobs_def)

lemma chosen_truthy: "truthyStr (Some (chosenImplementation token))"
  by (cases "tkImplementation token") (auto simp: chosenImplementation_def DEFAULT_ERC20_def truthyStr_def toStr_def)

lemma resultOf_deployed:
  "list_all2 deployedAs tokens tokens' \<Longrightarrow> list_all2 unwrapsTo tokens' results \<Longrightarrow> list_all2 resultOf tokens results"
  by (rule list_all2_trans [of deployedAs unwrapsTo])
    (auto simp: deployedAs_def resultOf_def unwrapsTo_def chosen_truthy)

lemma deployContracts_sends:
  assumes "deployContracts C pendingCount tokens w = (Inr (tokens', n'), w')"
  obtains n ts where "pendingCount (chain w) (deployWallet (self w)) = Inr n" "n' = n + int (length tokens)"
    "list_all2 deployedAs tokens tokens'" "sends w ts w'" "length ts = length tokens" "consecutive n ts"
    "\<forall>t\<in>set ts. \<exists>code. txKind t = Create code"
proof -
  from assms obtain n w1 where n: "pendingCount (chain w) (deployWallet (self w)) = Inr n"
    and loop: "deployTokenLoop C tokens n w = (Inr (tokens', n'), w1)" and wt: "forE tokens' (waitContract C) w1 = (Inr (), w')"
    by (auto simp: deployContracts_def bindE_Inr_iff thenE_Inr_iff eff_simps split: prod.splits)
  have "sends v [] v'" if "waitContract C x v = (r, v')" for x r v v'
    using that by (auto simp: waitContract_def thenE_def bindE_apply eff_simps sends_refl dest: waitE_sends
        split: option.splits prod.splits sum.splits)
  hence "sends w1 [] w'" using forE_wait_sends [OF _ wt] by blast
  thus thesis using that n deployTokenLoop_sends [OF loop] sends_trans by (metis append_Nil2)
qed

text \<open>C20: the transactions of a token deployment.  A normal return of \<open>add-multi\<close> has sent one contract
  creation per description and then one mint to the wallet and to the ten wallets of every mnemonic for
  each token that is not \<open>WETH9\<close>, at the address reported for that token, all with consecutive nonces
  from the wallet's pending count on; the reported descriptions are the given ones with the addresses
  filled in.\<close>

theorem add_multi_transactions:
  assumes "addMulti C pendingCount fromMnemonic tokens mnemonics w = (Inr results, w')"
  shows "\<exists>n tss creates mints. pendingCount (chain w) (deployWallet (self w)) = Inr n \<and>
    mapR (getTestAddresses fromMnemonic) mnemonics = Inr tss \<and>
    mints = mintTxs (deployWallet (self w)) (mintJobs (deployWallet (self w) # concat tss)
      (map (\<lambda>t. t\<lparr> tkImplementation := Some (chosenImplementation t) \<rparr>) tokens) results) (n + int (length tokens)) \<and>
    sent w' = sent w @ creates @ mints \<and> consecutive n (creates @ mints) \<and>
    length creates = length tokens \<and> (\<forall>t\<in>set creates. \<exists>code. txKind t = Create code) \<and>
    list_all2 resultOf tokens results"
proof -
  from assms obtain tokens' n' w1 where dep: "deployContracts C pendingCount tokens w = (Inr (tokens', n'), w1)"
    and mint: "mintTokens C fromMnemonic tokens' n' mnemonics w1 = (Inr results, w')"
    by (auto simp: addMulti_def bindE_Inr_iff split: prod.splits)
  from dep obtain n ts where d: "pendingCount (chain w) (deployWallet (self w)) = Inr n" "n' = n + int (length tokens)"
    "list_all2 deployedAs tokens tokens'" "sends w ts w1" "length ts = length tokens" "consecutive n ts"
    "\<forall>t\<in>set ts. \<exists>code. txKind t = Create code" by (rule deployContracts_sends)
  have wal: "deployWallet (self w1) = deployWallet (self w)" using d(4) by (simp add: sends_def)
  from mint obtain tss ps w2 where m: "mapR (getTestAddresses fromMnemonic) mnemonics = Inr tss"
    "mintLoop C (deployWallet (self w) # concat tss) tokens' n' w1 = (Inr (results, ps), w2)"
    "forE ps (\<lambda>p. thenE (waitE C p) (returnE ())) w2 = (Inr (), w')"
    by (auto simp: mintTokens_def bindE_Inr_iff thenE_Inr_iff eff_simps selfE_def wal split: prod.splits)
  have "sends v [] v'" if "thenE (waitE C p) (returnE ()) v = (r, v')" for p r v v'
    using that by (auto simp: thenE_def bindE_apply eff_simps dest: waitE_sends split: prod.splits sum.splits)
  hence "sends w2 [] w'" using forE_wait_sends [OF _ m(3)] by blast
  with mintLoop_sends [OF m(2)] d(4) show ?thesis
    using d m(1) mintTxs_consecutive resultOf_deployed [OF d(3)] wal
    by (auto simp: sends_def consecutive_append mintJobs_deployed [OF d(3)])
qed

definition exampleTokens :: "TokenDescription list" where
  "exampleTokens = [\<lparr> tkAddress = None, tkName = ''DAI'', tkSymbol = ''DAI'', tkDecimals = VNum 18, tkImplementation = None, tkContract = None \<rparr>,
     \<lparr> tkAddress = None, tkName = ''Wrapped'', tkSymbol = ''WETH'', tkDecimals = VNum 18, tkImplementation = Some ''WETH9'', tkContract = None \<rparr>]"

theorem add_multi_witness:
  "\<exists>results w'. addMulti exampleCtx (\<lambda>_ _. Inr 5) (\<lambda>_ _. Inr ''0x04'') exampleTokens [] (exampleWorld (\<lambda>_. None)) = (Inr results, w') \<and>
     consecutive 5 (sent w') \<and> list_all2 resultOf exampleTokens results"
proof -
  have ex: "\<exists>results w'. addMulti exampleCtx (\<lambda>_ _. Inr 5) (\<lambda>_ _. Inr ''0x04'') exampleTokens [] (exampleWorld (\<lambda>_. None)) = (Inr results, w')"
    by (simp add: addMulti_def deployContracts_def exampleTokens_def deployTokenContract_def chosenImplementation_def truthyStr_def
        toStr_def isZKMode_def deployContractWithArgs_def createE_def submitE_def waitE_def waitContract_def mintTokens_def
        selfE_def unwrapToken_def invokeE_def bindE_apply thenE_def eff_simps example_simps Let_def exampleCtx_def plainEthers_def exampleNet_def)
  then obtain results w' where run: "addMulti exampleCtx (\<lambda>_ _. Inr 5) (\<lambda>_ _. Inr ''0x04'') exampleTokens [] (exampleWorld (\<lambda>_. None)) = (Inr results, w')"
    by blast
  from add_multi_transactions [OF run] run show ?thesis by (auto simp: example_simps)
qed

end
