(* ===== verification/UpgradeSystem.thy ===== *)
theory UpgradeSystem
  imports TokenDeployment
begin

text \<open>
  The tool \<open>upgrade-system\<close> (\<open>upgrade-system/facets.ts\<close>, \<open>verifier.ts\<close> and \<open>utils.ts\<close>): it deploys new facets or a
  new verifier through the create2 factory and prepares the facet cuts of an upgrade.

  Options of the command line are texts or missing.  The wallet is the one of the world; the fee data of
  the provider are a parameter.  A command returns what it prints as JSON, with the files it writes.
\<close>

section \<open>Fees and nonces\<close>

record feeData =
  lastBaseFeePerGas :: "int option"
  feeGasPrice :: "int option"
  feeMaxPriority :: "int option"

text \<open>\<open>div\<close> of a \<open>BigNumber\<close> rounds down for the nonnegative fees.\<close>

definition insertGasPrice :: "feeData result \<Rightarrow> txOpts \<Rightarrow> txOpts result" where
  "insertGasPrice l1FeeData overrides =
     (if gasPrice overrides = None \<and> maxFeePerGas overrides = None then
        bindR l1FeeData (\<lambda>d.
          case (if lastBaseFeePerGas d \<noteq> None then lastBaseFeePerGas d else feeGasPrice d) of
            None \<Rightarrow> Inl (TypeError ''Cannot read properties of null (reading mul)'')
          | Some baseFee \<Rightarrow> (case feeMaxPriority d of
              None \<Rightarrow> Inl (Error ''invalid BigNumber value'')
            | Some priority \<Rightarrow> Inr (overrides\<lparr> maxFeePerGas := Some (baseFee * 3 div 2 + priority),
                maxPriorityFeePerGas := Some priority \<rparr>)))
      else Inr overrides)"

text \<open>The member \<open>nonce\<close> of the options is a number when it was read from the node and a text when it was
  given with \<open>--nonce\<close>; \<open>+= 1\<close> adds in the first case and appends in the second.\<close>

datatype nonceVal = NumNonce int | TextNonce string

fun addOne :: "nonceVal \<Rightarrow> nonceVal" where
  "addOne (NumNonce n) = NumNonce (n + 1)"
| "addOne (TextNonce s) = TextNonce (s @ ''1'')"

fun nonceNumber :: "ethers \<Rightarrow> nonceVal \<Rightarrow> int result" where
  "nonceNumber E (NumNonce n) = Inr n"
| "nonceNumber E (TextNonce s) = e_bnFrom E s"

section \<open>Facets\<close>

text \<open>The nonce is only converted when a transaction is sent.\<close>

definition deployFacetCut ::
  "'s ctx \<Rightarrow> string \<Rightarrow> string \<Rightarrow> txOpts \<Rightarrow> nonceVal \<Rightarrow> string option \<Rightarrow> ('s world, string \<times> string) eff"
where
  "deployFacetCut C name create2Address ethTxOptions nonce' create2Salt =
     (let salt = (case create2Salt of None \<Rightarrow> HashZero | Some s \<Rightarrow> s); opts = ethTxOptions\<lparr> gasLimit := Some 10000000 \<rparr> in
      case nonceNumber (cE C) nonce' of
        Inr n \<Rightarrow> deployViaCreate2EVM C name [] salt (opts\<lparr> nonce := Some n \<rparr>) create2Address None
      | Inl e \<Rightarrow>
          bindE (liftR (bindR (e_deployData (cE C) name []) (\<lambda>code. create2Expected C create2Address code salt))) (\<lambda>expectedAddress.
          bindE (getCodeE C expectedAddress) (\<lambda>code.
          if codeLength code > 0 then returnE (expectedAddress, HashZero) else throwE e)))"

type_synonym deployedFacets = "(string \<times> string \<times> string) list"

fun deployFacetLoop ::
  "'s ctx \<Rightarrow> string \<Rightarrow> txOpts \<Rightarrow> string option \<Rightarrow> string list \<Rightarrow> nonceVal \<Rightarrow> deployedFacets \<Rightarrow> ('s world, deployedFacets) eff"
where
  "deployFacetLoop C create2Address ethTxOptions create2Salt [] nonce' deployedFacets = returnE deployedFacets"
| "deployFacetLoop C create2Address ethTxOptions create2Salt (name # names) nonce' deployedFacets =
     bindE (deployFacetCut C name create2Address ethTxOptions nonce' create2Salt) (\<lambda>(address, txHash).
       deployFacetLoop C create2Address ethTxOptions create2Salt names (addOne nonce') (objSet name (address, txHash) deployedFacets))"

definition startNonce :: "'s ctx \<Rightarrow> string option \<Rightarrow> ('s world, nonceVal) eff" where
  "startNonce C nonce' = (if truthyStr nonce' then returnE (TextNonce (toStr nonce'))
     else bindE (getTransactionCountE C) (\<lambda>n. returnE (NumNonce n)))"

definition writtenFiles :: "string option \<Rightarrow> 'a \<Rightarrow> (string \<times> 'a) list" where
  "writtenFiles file x = (if truthyStr file then [(toStr file, x)] else [])"

definition deployFacetCuts ::
  "'s ctx \<Rightarrow> ('s \<Rightarrow> feeData result) \<Rightarrow> string list \<Rightarrow> string \<Rightarrow> string option \<Rightarrow> string option \<Rightarrow> string option \<Rightarrow> string option
   \<Rightarrow> ('s world, deployedFacets \<times> (string \<times> deployedFacets) list) eff"
where
  "deployFacetCuts C getFeeData names create2Address file nonce' gasPrice' create2Salt =
     bindE (startNonce C nonce') (\<lambda>start.
     bindE (if truthyStr gasPrice' then returnE noOpts
            else bindE (readE (\<lambda>w. getFeeData (chain w))) (\<lambda>d. liftR (insertGasPrice d noOpts))) (\<lambda>ethTxOptions.
     bindE (deployFacetLoop C create2Address ethTxOptions create2Salt names start []) (\<lambda>deployedFacets.
       returnE (deployedFacets, writtenFiles file deployedFacets))))"

text \<open>The command \<open>facets deploy\<close>: the facets named by its flags, in the order of the code.\<close>

definition facetsToDeploy :: "bool \<Rightarrow> bool \<Rightarrow> bool \<Rightarrow> bool \<Rightarrow> string list" where
  "facetsToDeploy executor admin getters mailbox =
     (if executor then [''ExecutorFacet''] else []) @ (if admin then [''AdminFacet''] else []) @
     (if getters then [''GettersFacet''] else []) @ (if mailbox then [''MailboxFacet''] else [])"

definition facetsDeploy ::
  "'s ctx \<Rightarrow> ('s \<Rightarrow> feeData result) \<Rightarrow> bool \<Rightarrow> bool \<Rightarrow> bool \<Rightarrow> bool \<Rightarrow> string \<Rightarrow> string option \<Rightarrow> string option \<Rightarrow> string option
   \<Rightarrow> string option \<Rightarrow> ('s world, deployedFacets \<times> (string \<times> deployedFacets) list) eff"
where
  "facetsDeploy C getFeeData executor admin getters mailbox create2Address file nonce' gasPrice' create2Salt =
     deployFacetCuts C getFeeData (facetsToDeploy executor admin getters mailbox) create2Address file nonce' gasPrice' create2Salt"

text \<open>The command \<open>facets generate-facet-cuts\<close>.\<close>

definition getUpgradeAddedFacetCuts ::
  "getContractAt \<Rightarrow> (string \<Rightarrow> (string \<times> string list) list result) \<Rightarrow> (string \<Rightarrow> string result) \<Rightarrow> string \<Rightarrow> string option \<Rightarrow>
   string option \<Rightarrow> string option \<Rightarrow> string option \<Rightarrow> string option \<Rightarrow> (FacetCut list \<times> (string \<times> FacetCut list) list) result"
where
  "getUpgradeAddedFacetCuts gca facetsOf getName zkSyncAddress gettersAddress mailboxAddress executorAddress adminAddress file =
     bindR (getFacetCutsForUpgrade gca facetsOf getName zkSyncAddress adminAddress gettersAddress mailboxAddress executorAddress None)
       (\<lambda>facetCuts. Inr (facetCuts, writtenFiles file facetCuts))"

section \<open>Verifier\<close>

text \<open>A given nonce or gas price only switches the default off; it is not used.\<close>

definition deployVerifierCommand ::
  "'s ctx \<Rightarrow> ('s \<Rightarrow> feeData result) \<Rightarrow> string \<Rightarrow> string option \<Rightarrow> string option \<Rightarrow> string option \<Rightarrow> string option
   \<Rightarrow> ('s world, (string \<times> string) \<times> (string \<times> string \<times> string) list) eff"
where
  "deployVerifierCommand C getFeeData create2Address nonce' gasPrice' file create2Salt =
     bindE (if truthyStr nonce' then returnE noOpts
            else bindE (getTransactionCountE C) (\<lambda>n. returnE (noOpts\<lparr> nonce := Some n \<rparr>))) (\<lambda>o1.
     bindE (if truthyStr gasPrice' then returnE o1
            else bindE (readE (\<lambda>w. getFeeData (chain w))) (\<lambda>d. liftR (insertGasPrice d o1))) (\<lambda>o2.
     bindE (deployViaCreate2EVM C ''Verifier'' [] (case create2Salt of None \<Rightarrow> HashZero | Some s \<Rightarrow> s)
              (o2\<lparr> gasLimit := Some 10000000 \<rparr>) create2Address None) (\<lambda>deployed.
       returnE (deployed, writtenFiles file deployed))))"

section \<open>Which nonces are used\<close>

fun nonceAt :: "nonceVal \<Rightarrow> nat \<Rightarrow> nonceVal" where
  "nonceAt (NumNonce n) i = NumNonce (n + int i)"
| "nonceAt (TextNonce s) i = TextNonce (s @ replicate i CHR ''1'')"

lemma nonceAt_0 [simp]: "nonceAt v 0 = v"
  by (cases v) simp_all

lemma nonceAt_addOne: "nonceAt (addOne v) i = nonceAt v (Suc i)"
  by (cases v) simp_all

definition saltOf :: "string option \<Rightarrow> string" where
  "saltOf create2Salt = (case create2Salt of None \<Rightarrow> HashZero | Some s \<Rightarrow> s)"

text \<open>The transactions of one facet: none, or one call of the factory.\<close>

definition facetTxs :: "'s ctx \<Rightarrow> string \<Rightarrow> string \<Rightarrow> txOpts \<Rightarrow> string option \<Rightarrow> string \<Rightarrow> nonceVal \<Rightarrow> tx list \<Rightarrow> bool" where
  "facetTxs C wallet factory opts create2Salt name v ts \<longleftrightarrow> ts = [] \<or>
     (\<exists>code n. e_deployData (cE C) name [] = Inr code \<and> nonceNumber (cE C) v = Inr n \<and>
        ts = [factoryDeployTx wallet factory code (saltOf create2Salt) (opts\<lparr> gasLimit := Some 10000000, nonce := Some n \<rparr>)])"

lemma deployBytecodeViaCreate2_sends:
  assumes "deployBytecodeViaCreate2 C name code salt opt factory w = (Inr r, w')"
  shows "sends w [] w' \<or> sends w [factoryDeployTx (deployWallet (self w)) factory code salt opt] w'"
proof -
  let ?deploy = "bindE (invokeE C factory ''deploy'' [VStr code, VStr salt] opt)"
  from assms obtain a where "create2Expected C factory code salt = Inr a" and
    run: "(if codeLength (n_getCode (cN C) (chain w) a) > 0 then returnE (a, HashZero)
       else ?deploy (\<lambda>tx. bindE (waitE C tx) (\<lambda>receipt. bindE (getCodeE C a) (\<lambda>after.
         if codeLength after = 0 then throwE (Error (''Failed to deploy '' @ name @ '' bytecode via create2 factory''))
         else returnE (a, pendingHash tx))))) w = (Inr r, w')"
    by (auto simp: deployBytecodeViaCreate2_def bindE_Inr_iff [of "liftR x" for x] bindE_Inr_iff [of "getCodeE C a" for a] getCodeE_def eff_simps)
  show ?thesis
  proof (cases "codeLength (n_getCode (cN C) (chain w) a) > 0")
    case True
    thus ?thesis using run by (simp add: eff_simps sends_refl)
  next
    case False
    with run obtain p w1 where p: "invokeE C factory ''deploy'' [VStr code, VStr salt] opt w = (Inr p, w1)"
      and k: "bindE (waitE C p) (\<lambda>receipt. bindE (getCodeE C a) (\<lambda>after.
         if codeLength after = 0 then throwE (Error (''Failed to deploy '' @ name @ '' bytecode via create2 factory''))
         else returnE (a, pendingHash p))) w1 = (Inr r, w')" by (auto elim: bindE_success)
    from k obtain rc w2 where q: "waitE C p w1 = (Inr rc, w2)" and "w2 = w'"
      by (auto simp: bindE_Inr_iff getCodeE_def eff_simps split: if_splits)
    thus ?thesis using sends_trans [OF invokeE_sends [OF p] waitE_sends [OF q]] by (simp add: factoryDeployTx_def)
  qed
qed

lemma deployViaCreate2EVM_sends:
  assumes "deployViaCreate2EVM C name [] salt opt factory None w = (Inr r, w')"
  shows "sends w [] w' \<or> (\<exists>code. e_deployData (cE C) name [] = Inr code \<and>
    sends w [factoryDeployTx (deployWallet (self w)) factory code salt opt] w')"
proof -
  from assms obtain code where "e_deployData (cE C) name [] = Inr code"
    "deployBytecodeViaCreate2 C name code salt opt factory w = (Inr r, w')"
    by (auto simp: deployViaCreate2EVM_def truthyStr_def bindE_Inr_iff eff_simps)
  thus ?thesis using deployBytecodeViaCreate2_sends by blast
qed

lemma deployFacetCut_sends:
  assumes "deployFacetCut C name factory opts v create2Salt w = (Inr r, w')"
  shows "\<exists>ts. facetTxs C (deployWallet (self w)) factory opts create2Salt name v ts \<and> sends w ts w'"
proof (cases "nonceNumber (cE C) v")
  case (Inl e)
  hence "w' = w" using assms
    by (auto simp: deployFacetCut_def Let_def bindE_Inr_iff eff_simps getCodeE_def split: if_splits)
  thus ?thesis by (auto simp: facetTxs_def sends_refl intro: exI [of _ "[]"])
next
  case (Inr n)
  thus ?thesis using assms deployViaCreate2EVM_sends [of C name "saltOf create2Salt" "opts\<lparr> gasLimit := Some 10000000, nonce := Some n \<rparr>" factory w r w']
    by (auto simp: deployFacetCut_def Let_def facetTxs_def saltOf_def)
qed

lemma deployFacetLoop_sends:
  "deployFacetLoop C factory opts create2Salt names v acc w = (Inr facets, w') \<Longrightarrow>
     \<exists>tss. length tss = length names \<and> sends w (concat tss) w' \<and>
       (\<forall>i<length names. facetTxs C (deployWallet (self w)) factory opts create2Salt (names ! i) (nonceAt v i) (tss ! i))"
proof (induction names arbitrary: v acc w)
  case Nil
  thus ?case by (simp add: eff_simps sends_refl)
next
  case (Cons name names)
  from Cons.prems obtain r w1 acc1 where head: "deployFacetCut C name factory opts v create2Salt w = (Inr r, w1)"
    and tail: "deployFacetLoop C factory opts create2Salt names (addOne v) acc1 w1 = (Inr facets, w')"
    by (auto simp: bindE_Inr_iff split: prod.splits)
  from deployFacetCut_sends [OF head] obtain ts where
    ts: "facetTxs C (deployWallet (self w)) factory opts create2Salt name v ts" "sends w ts w1" by blast
  from Cons.IH [OF tail] obtain tss where tss: "length tss = length names" "sends w1 (concat tss) w'"
    "\<forall>i<length names. facetTxs C (deployWallet (self w1)) factory opts create2Salt (names ! i) (nonceAt (addOne v) i) (tss ! i)" by blast
  have "self w1 = self w" using ts(2) by (simp add: sends_def)
  moreover have "sends w (concat (ts # tss)) w'" using sends_trans [OF ts(2) tss(2)] by simp
  ultimately show ?case using ts(1) tss
    by (intro exI [of _ "ts # tss"]) (auto simp: nonceAt_addOne less_Suc_eq_0_disj)
qed

lemma startNonce_run:
  "startNonce C nonce' w = (Inr start, w1) \<Longrightarrow> w1 = w \<and> (if truthyStr nonce' then start = TextNonce (toStr nonce')
     else \<exists>n. n_nonce (cN C) (chain w) (deployWallet (self w)) = Inr n \<and> start = NumNonce n)"
  by (auto simp: startNonce_def getTransactionCountE_def selfE_def bindE_Inr_iff eff_simps split: if_splits)

lemma feeOptions_run:
  assumes "(if g then returnE noOpts else bindE (readE (\<lambda>w. getFeeData (chain w))) (\<lambda>d. liftR (insertGasPrice d noOpts))) w = (Inr opts, w1)"
  shows "w1 = w \<and> gasPrice opts = None"
  using assms
  by (auto simp: insertGasPrice_def noOpts_def bindE_Inr_iff bindR_Inr_iff eff_simps split: if_splits option.splits)

text \<open>C21: nonces of a facet deployment.  A normal return of \<open>facets deploy\<close> has sent, for each facet in order,
  at most one call of the create2 factory (none when the facet is already there).  Without \<open>--nonce\<close> the
  call for the facet with index \<open>i\<close> has the wallet's transaction count plus \<open>i\<close>, also when earlier facets were
  skipped.  With \<open>--nonce s\<close> it has the number spelled by \<open>s\<close> followed by \<open>i\<close> digits 1, so only the first
  facet gets the given nonce.  A given gas price is never used.\<close>

theorem facet_nonces:
  assumes "deployFacetCuts C getFeeData names factory file nonce' gasPrice' create2Salt w = (Inr r, w')"
  shows "\<exists>start opts tss. length tss = length names \<and> sent w' = sent w @ concat tss \<and> gasPrice opts = None \<and>
    (if truthyStr nonce' then start = TextNonce (toStr nonce')
     else \<exists>n. n_nonce (cN C) (chain w) (deployWallet (self w)) = Inr n \<and> start = NumNonce n) \<and>
    (\<forall>i<length names. tss ! i = [] \<or> (\<exists>code n. e_deployData (cE C) (names ! i) [] = Inr code \<and>
       (case start of NumNonce k \<Rightarrow> n = k + int i | TextNonce s \<Rightarrow> e_bnFrom (cE C) (s @ replicate i CHR ''1'') = Inr n) \<and>
       tss ! i = [factoryDeployTx (deployWallet (self w)) factory code (saltOf create2Salt)
         (opts\<lparr> gasLimit := Some 10000000, nonce := Some n \<rparr>)]))"
proof -
  let ?fees = "if truthyStr gasPrice' then returnE noOpts
    else bindE (readE (\<lambda>w. getFeeData (chain w))) (\<lambda>d. liftR (insertGasPrice d noOpts))"
  from assms obtain start w1 opts w2 facets where s: "startNonce C nonce' w = (Inr start, w1)" and f: "?fees w1 = (Inr opts, w2)"
    and loop: "deployFacetLoop C factory opts create2Salt names start [] w2 = (Inr facets, w')"
    unfolding deployFacetCuts_def by (auto simp: eff_simps elim!: bindE_success)
  have w: "w2 = w" "gasPrice opts = None"
    using startNonce_run [OF s] feeOptions_run [OF f] by simp_all
  from deployFacetLoop_sends [OF loop] obtain tss where "length tss = length names" "sends w (concat tss) w'"
    "\<forall>i<length names. facetTxs C (deployWallet (self w)) factory opts create2Salt (names ! i) (nonceAt start i) (tss ! i)"
    unfolding w(1) by blast
  thus ?thesis using startNonce_run [OF s] w(2)
    by (intro exI [of _ start] exI [of _ opts] exI [of _ tss]) (cases start; auto simp: facetTxs_def sends_def split: if_splits)
qed

lemma all_less_two: "(\<forall>i<Suc (Suc 0). P i) \<longleftrightarrow> P 0 \<and> P (Suc 0)"
  by (auto simp: less_Suc_eq)

theorem facet_nonces_witness:
  "\<exists>r w'. deployFacetCuts exampleCtx (\<lambda>_. Inl (Error ''no fees'')) (facetsToDeploy True True False False) ''0x0a'' None None (Some ''1'') None
      (exampleWorld (\<lambda>_. None)) = (Inr r, w') \<and>
     (\<exists>tss. length tss = 2 \<and> sent w' = concat tss \<and> (list_all (\<lambda>t. nonce (txOptions t) = Some 5) (tss ! 0)) \<and>
       (list_all (\<lambda>t. nonce (txOptions t) = Some 6) (tss ! 1)))"
proof -
  let ?run = "deployFacetCuts exampleCtx (\<lambda>_. Inl (Error ''no fees'')) (facetsToDeploy True True False False) ''0x0a'' None None (Some ''1'') None
    (exampleWorld (\<lambda>_. None))"
  have e: "create2Expected exampleCtx f c s = Inr ADDRESS_ONE" "e_deployData (cE exampleCtx) n [] = Inr ''0x''"
    "n_nonce (cN exampleCtx) ch a = Inr 5" for f c s n ch a
    by (simp_all add: create2Expected_def exampleCtx_def plainEthers_def exampleNet_def)
  have "\<exists>r w'. ?run = (Inr r, w')"
    by (simp add: deployFacetCuts_def startNonce_def getTransactionCountE_def truthyStr_def facetsToDeploy_def deployFacetCut_def
        deployViaCreate2EVM_def deployBytecodeViaCreate2_def e bindE_apply eff_simps getCodeE_def invokeE_def selfE_def submitE_def
        waitE_def example_simps codeLength_def Let_def)
  then obtain r w' where run: "?run = (Inr r, w')" by blast
  have "\<exists>opts tss. length tss = Suc (Suc 0) \<and> sent w' = concat tss \<and> (\<forall>i<Suc (Suc 0). tss ! i = [] \<or>
     tss ! i = [factoryDeployTx ''0x03'' ''0x0a'' ''0x'' (saltOf None) (opts\<lparr> gasLimit := Some 10000000, nonce := Some (5 + int i) \<rparr>)])"
    using facet_nonces [OF run] by (simp add: facetsToDeploy_def truthyStr_def example_simps e) blast
  then obtain opts tss where t: "length tss = Suc (Suc 0)" "sent w' = concat tss"
    "tss ! 0 = [] \<or> tss ! 0 = [factoryDeployTx ''0x03'' ''0x0a'' ''0x'' (saltOf None) (opts\<lparr> gasLimit := Some 10000000, nonce := Some (5 + int 0) \<rparr>)]"
    "tss ! Suc 0 = [] \<or> tss ! Suc 0 = [factoryDeployTx ''0x03'' ''0x0a'' ''0x'' (saltOf None) (opts\<lparr> gasLimit := Some 10000000, nonce := Some (5 + int (Suc 0)) \<rparr>)]"
    unfolding all_less_two by blast
  have "list_all (\<lambda>t. nonce (txOptions t) = Some 5) (tss ! 0)" "list_all (\<lambda>t. nonce (txOptions t) = Some 6) (tss ! 1)"
    using t(3,4) by (auto simp: factoryDeployTx_def)
  moreover have "length tss = 2" using t(1) by simp
  ultimately have "\<exists>tss. length tss = 2 \<and> sent w' = concat tss \<and> (list_all (\<lambda>t. nonce (txOptions t) = Some 5) (tss ! 0)) \<and>
       (list_all (\<lambda>t. nonce (txOptions t) = Some 6) (tss ! 1))" using t(2) by blast
  thus ?thesis using run by blast
qed

end
