(* ===== verification/ConsistencyChecker.thy ===== *)
theory ConsistencyChecker
  imports DiamondLib Utils "HOL-Library.Sorting_Algorithms" "HOL-Library.Char_ord" "HOL-Library.List_Lexorder"
begin

text \<open>
  \<open>scripts/upgrade-consistency-checker.ts\<close>: the script that compares a deployment on L1 with the
  constants in its source and with the environment, and exits with code 0 when it found no difference.

  The parameters are one record \<open>checker\<close>: the environment, hardhat's artifacts, the node's answers to
  \<open>getCode\<close>, \<open>getTransaction\<close> and to the views of a contract, and the ABI coders of the ethers package.
  The script only reads.  Its own state is what it printed, and the calls it started without awaiting
  them.

  The laws are about exit code 0: the facet cuts a chain type manager was initialised with route every
  selector as the cuts computed from the current artifacts do, whatever the order of the facets and of
  their selectors; and the one check that is not awaited has no influence on the result.
\<close>

section \<open>What the script reads\<close>

record artifact =
  bytecode :: string
  deployedBytecode :: string

text \<open>The arguments of \<open>initialize\<close> of the chain type manager, as \<open>parseTransaction\<close> decodes them.  A
  decoded \<open>action\<close> is a number, the numbers of type \<open>uint64\<close> and \<open>uint256\<close> are big.\<close>

record usedCut =
  usedFacet :: string
  usedSelectors :: "string list"
  usedAction :: int
  usedFreezable :: bool

record initializeData =
  initOwner :: val
  initTimelock :: val
  initGenesisUpgrade :: val
  initBatchHash :: val
  initIndexRepeated :: int
  initBatchCommitment :: val
  initProtocolVersion :: int
  cutFacets :: "usedCut list"
  cutInitAddress :: val
  cutInitCalldata :: string

text \<open>A contract is an ABI, by the name of its artifact, and an address.\<close>

record checker =
  k_ethers :: ethers
  k_env :: env
  k_readArtifact :: "string \<Rightarrow> artifact result"
  k_getCode :: "val \<Rightarrow> string result"
  k_getTransaction :: "string \<Rightarrow> string option result"
  k_call :: "string \<Rightarrow> string \<Rightarrow> string \<Rightarrow> val list \<Rightarrow> val result"
  k_encodeDeploy :: "string \<Rightarrow> val list \<Rightarrow> string result"
  k_hexConcat :: "string list \<Rightarrow> string result"
  k_parseDeploy :: "string \<Rightarrow> (string \<times> string) result"
  k_abiDecode :: "string list \<Rightarrow> string \<Rightarrow> val list result"
  k_parseInitialize :: "val \<Rightarrow> initializeData result"
  k_getContractAt :: getContractAt
  k_localeCompare :: "string comparator"

record checkState =
  console :: "string list"
  floating :: "(string \<times> string \<times> val list) list"

section \<open>Constants of the script\<close>

definition genesisUpgrade :: "checker \<Rightarrow> val" where
  "genesisUpgrade K = optVal (k_env K ''CONTRACTS_GENESIS_UPGRADE_ADDR'')"

definition validatorTimelockDeployTx :: string where
  "validatorTimelockDeployTx = ''0xde4ef2b77241b605acaa1658ff8815df0911bf81555a80c9cbdde42fbcaaea30''"

definition validatorTimelock :: "checker \<Rightarrow> val" where
  "validatorTimelock K = optVal (k_env K ''CONTRACTS_VALIDATOR_TIMELOCK_ADDR'')"

definition upgradeZKChains :: "checker \<Rightarrow> val" where
  "upgradeZKChains K = optVal (k_env K ''CONTRACTS_ZK_CHAIN_UPGRADE_ADDR'')"

definition verifierAddr :: "checker \<Rightarrow> val" where
  "verifierAddr K = optVal (k_env K ''CONTRACTS_VERIFIER_ADDR'')"

definition proxyAdmin :: "checker \<Rightarrow> val" where
  "proxyAdmin K = optVal (k_env K ''CONTRACTS_TRANSPARENT_PROXY_ADMIN_ADDR'')"

definition bridgeHubImpl :: "checker \<Rightarrow> val" where
  "bridgeHubImpl K = optVal (k_env K ''CONTRACTS_BRIDGEHUB_IMPL_ADDR'')"

definition bridgeHub :: "checker \<Rightarrow> val" where
  "bridgeHub K = optVal (k_env K ''CONTRACTS_BRIDGEHUB_PROXY_ADDR'')"

definition executorFacet :: "checker \<Rightarrow> string option" where
  "executorFacet K = k_env K ''CONTRACTS_EXECUTOR_FACET_ADDR''"

definition adminFacet :: "checker \<Rightarrow> string option" where
  "adminFacet K = k_env K ''CONTRACTS_ADMIN_FACET_ADDR''"

definition mailboxFacetDeployTx :: string where
  "mailboxFacetDeployTx = ''0x995b23564b30f1551a9705313128e282591b38a1fc9c981d3251a929b190780d''"

definition mailboxFacet :: "checker \<Rightarrow> string option" where
  "mailboxFacet K = k_env K ''CONTRACTS_MAILBOX_FACET_ADDR''"

definition gettersFacet :: "checker \<Rightarrow> string option" where
  "gettersFacet K = k_env K ''CONTRACTS_GETTERS_FACET_ADDR''"

definition diamondInit :: "checker \<Rightarrow> val" where
  "diamondInit K = optVal (k_env K ''CONTRACTS_DIAMOND_INIT_ADDR'')"

definition ctmImplDeployTx :: string where
  "ctmImplDeployTx = ''0xe01c0bb497017a25c92bfc712e370e8f900554b107fe0b6022976d05c349f2b6''"

definition ctmImpl :: "checker \<Rightarrow> val" where
  "ctmImpl K = optVal (k_env K ''CONTRACTS_STATE_TRANSITION_IMPL_ADDR'')"

definition ctmDeployTx :: string where
  "ctmDeployTx = ''0x514bbf46d227eee8567825bf5c8ee1855aa8a1916f7fee7b191e2e3d5ecba849''"

definition ctm :: "checker \<Rightarrow> val" where
  "ctm K = optVal (k_env K ''CONTRACTS_STATE_TRANSITION_PROXY_ADDR'')"

definition sharedBridgeImplDeployTx :: string where
  "sharedBridgeImplDeployTx = ''0x074204db79298c2f6beccae881c2ad7321c331e97fb4bd93adce2eb23bf17a17''"

definition sharedBridgeImpl :: "checker \<Rightarrow> val" where
  "sharedBridgeImpl K = optVal (k_env K ''CONTRACTS_L1_SHARED_BRIDGE_IMPL_ADDR'')"

definition sharedBridgeProxy :: "checker \<Rightarrow> val" where
  "sharedBridgeProxy K = optVal (k_env K ''CONTRACTS_L1_SHARED_BRIDGE_PROXY_ADDR'')"

definition legacyBridgeImplDeployTx :: string where
  "legacyBridgeImplDeployTx = ''0x234da786f098fa2e44b9abaf41b7045b4a25570e1a34fd01a101d23570e84d61''"

definition legacyBridgeImpl :: "checker \<Rightarrow> val" where
  "legacyBridgeImpl K = optVal (k_env K ''CONTRACTS_L1_ERC20_BRIDGE_IMPL_ADDR'')"

definition expectedL1WethAddress :: string where
  "expectedL1WethAddress = ''0xC02aaA39b223FE8D0A0e5C4F27eAD9083C756Cc2''"

definition initialOwner :: string where
  "initialOwner = ''0x71d84c3404a6ae258E6471d4934B96a2033F9438''"

definition expectedOwner :: string where
  "expectedOwner = ''0x71d84c3404a6ae258E6471d4934B96a2033F9438''"

definition expectedDelay :: string where
  "expectedDelay = ''75600''"

definition eraChainId :: "checker \<Rightarrow> val" where
  "eraChainId K = optVal (k_env K ''CONTRACTS_ERA_CHAIN_ID'')"

definition l1ChainIdVar :: "checker \<Rightarrow> string option" where
  "l1ChainIdVar K = k_env K ''CONTRACTS_L1_CHAIN_ID''"

definition expectedSalt :: string where
  "expectedSalt = ''0x0000000000000000000000000000000000000000000000000000000000000001''"

definition expectedZKChainAddr :: string where
  "expectedZKChainAddr = ''0x32400084c286cf3e17e7b677ea9583e60a000324''"

definition maxNumberOfZKChains :: int where
  "maxNumberOfZKChains = 100"

definition expectedStoredBatchHashZero :: string where
  "expectedStoredBatchHashZero = ''0x1574fa776dec8da2071e5f20d71840bfcbd82c2bca9ad68680edfedde1710bc4''"

definition expectedL2BridgeAddress :: string where
  "expectedL2BridgeAddress = ''0x11f943b2c77b743AB90f4A0Ae7d5A4e7FCA3E102''"

definition expectedL1LegacyBridge :: string where
  "expectedL1LegacyBridge = ''0x57891966931Eb4Bb6FB81430E6cE0A03AAbDe063''"

definition expectedGenesisBatchCommitment :: string where
  "expectedGenesisBatchCommitment = ''0x2d00e5f8d77afcebf58a6b82ae56ba967566fe7dfbcb6760319fb0d215d18ffd''"

definition expectedIndexRepeatedStorageChanges :: int where
  "expectedIndexRepeatedStorageChanges = 54"

definition expectedProtocolVersion :: int where
  "expectedProtocolVersion = 2 ^ 32 * 24"

definition expectedGenesisRoot :: string where
  "expectedGenesisRoot = ''0xabdb766b18a479a5c783a4b80e12686bc8ea3cc2d8a3050491b701d72370ebb5''"

definition expectedRecursionNodeLevelVkHash :: string where
  "expectedRecursionNodeLevelVkHash = ''0xf520cd5b37e74e19fdb369c8d676a04dce8a19457497ac6686d2bb95d94109c8''"

definition expectedRecursionLeafLevelVkHash :: string where
  "expectedRecursionLeafLevelVkHash = ''0xf9664f4324c1400fa5c3822d667f30e873f53f1b8033180cd15fe41c1e2355c6''"

definition expectedRecursionCircuitsSetVksHash :: string where
  "expectedRecursionCircuitsSetVksHash = ''0x0000000000000000000000000000000000000000000000000000000000000000''"

definition expectedBootloaderHash :: string where
  "expectedBootloaderHash = ''0x010008e7894d0dd14681c76bdb4d5e4e7f6b51bfe40c957d50eed3fec829fdb0''"

definition expectedDefaultAccountHash :: string where
  "expectedDefaultAccountHash = ''0x0100058deb36e1f2eeb48bf3846d0e8eb38e9176754b73116bb41a472459a4dd''"

definition expectedEvmEmulatorHash :: string where
  "expectedEvmEmulatorHash = ''0x01000f197081a9906cc411d0698c4961aeb5c74877f37f7071681da6e8ef3f31''"

definition validatorOne :: "checker \<Rightarrow> val" where
  "validatorOne K = optVal (k_env K ''ETH_SENDER_SENDER_OPERATOR_COMMIT_ETH_ADDR'')"

definition validatorTwo :: "checker \<Rightarrow> val" where
  "validatorTwo K = optVal (k_env K ''ETH_SENDER_SENDER_OPERATOR_BLOBS_ETH_ADDR'')"

section \<open>Steps\<close>

definition sayE :: "string \<Rightarrow> (checkState, unit) eff" where
  "sayE line = modifyE (\<lambda>s. s\<lparr> console := console s @ [line] \<rparr>)"

text \<open>\<open>if (a.toLowerCase() !== b.toLowerCase()) throw new Error(msg)\<close>.\<close>

definition sameText :: "val \<Rightarrow> val \<Rightarrow> string \<Rightarrow> unit result" where
  "sameText a b msg = bindR (toLowerCase a) (\<lambda>x. bindR (toLowerCase b) (\<lambda>y. throwIf (x \<noteq> y) msg))"

text \<open>\<open>new ethers.Contract(address, abi, l1Provider)\<close>, which refuses a missing address.\<close>

definition newContract :: "val \<Rightarrow> string result" where
  "newContract addr = (case addr of VStr a \<Rightarrow> Inr a | _ \<Rightarrow> Inl (Error ''invalid contract address or ENS name''))"

text \<open>\<open>const x = await contract.method(args); if (x.toLowerCase() != y.toLowerCase()) throw ...\<close>.\<close>

definition checkView :: "checker \<Rightarrow> string \<Rightarrow> string \<Rightarrow> string \<Rightarrow> val list \<Rightarrow> val \<Rightarrow> string \<Rightarrow> val result" where
  "checkView K abi addr method args expected msg =
     bindR (k_call K abi addr method args) (\<lambda>x. bindR (sameText x expected msg) (\<lambda>_. Inr x))"

definition dataOf :: "string option \<Rightarrow> string result" where
  "dataOf deployTx = (case deployTx of Some data \<Rightarrow> Inr data | None \<Rightarrow> Inl (TypeError ''Cannot read properties of null (reading data)''))"

text \<open>\<open>BigNumber.toNumber\<close> refuses what a double cannot hold.\<close>

definition toNumber :: "val \<Rightarrow> int result" where
  "toNumber v = (case v of VNum n \<Rightarrow> if \<bar>n\<bar> < 2 ^ 53 then Inr n else Inl (Error ''overflow'')
     | _ \<Rightarrow> Inl (TypeError ''toNumber is not a function''))"

text \<open>An element of a decoded tuple.\<close>

definition element :: "val list \<Rightarrow> nat \<Rightarrow> val" where
  "element vs i = (if i < length vs then vs ! i else VUndef)"

definition checkIdenticalBytecode :: "checker \<Rightarrow> val \<Rightarrow> string \<Rightarrow> (checkState, unit) eff" where
  "checkIdenticalBytecode K addr contract =
     bindE (liftR (k_readArtifact K contract)) (\<lambda>art.
     bindE (liftR (k_getCode K addr)) (\<lambda>currentCode.
     bindE (liftR (e_keccak256 (k_ethers K) (VStr currentCode))) (\<lambda>current.
     bindE (liftR (e_keccak256 (k_ethers K) (VStr (deployedBytecode art)))) (\<lambda>correct.
       if current = correct then sayE (contract @ '' bytecode is correct'')
       else throwE (Error (contract @ '' bytecode is not correct''))))))"

definition extractInitCode :: "checker \<Rightarrow> string \<Rightarrow> string result" where
  "extractInitCode K data =
     bindR (k_readArtifact K ''SingletonFactory'') (\<lambda>_.
     bindR (k_parseDeploy K data) (\<lambda>(initCode, salt).
     bindR (throwIf (salt \<noteq> expectedSalt) (''Salt is not correct '' @ salt)) (\<lambda>_. Inr initCode)))"

definition checkCorrectInitCode :: "checker \<Rightarrow> string \<Rightarrow> string \<Rightarrow> string \<Rightarrow> val list \<Rightarrow> unit result" where
  "checkCorrectInitCode K txHash contract code params =
     bindR (k_getTransaction K txHash) (\<lambda>deployTx.
     bindR (dataOf deployTx) (\<lambda>data.
     bindR (extractInitCode K data) (\<lambda>usedInitCode.
     bindR (k_encodeDeploy K contract params) (\<lambda>correctConstructorData.
     bindR (k_hexConcat K [code, correctConstructorData]) (\<lambda>correctInitCode.
       sameText (VStr usedInitCode) (VStr correctInitCode) ''Init code is not correct'')))))"

definition actionNumber :: "Action \<Rightarrow> int" where
  "actionNumber a = (case a of Add \<Rightarrow> 0 | Replace \<Rightarrow> 1 | Remove \<Rightarrow> 2)"

text \<open>The loop over the facet cuts, both lists sorted by facet address.  The texts of two selector lists are
  compared after sorting by code units and concatenation.\<close>

definition compareFacet :: "checker \<Rightarrow> nat \<Rightarrow> usedCut \<Rightarrow> FacetCut \<Rightarrow> unit result" where
  "compareFacet K i used expected =
     bindR (throwIf (usedFacet used \<noteq> facet expected) (''Facet '' @ showNat i @ '' is not correct'')) (\<lambda>_.
     bindR (k_hexConcat K (sort_key (\<lambda>x. x) (usedSelectors used))) (\<lambda>usedSelectors.
     bindR (k_hexConcat K (sort_key (\<lambda>x. x) (selectors expected))) (\<lambda>expectedSelectors.
     bindR (throwIf (usedSelectors \<noteq> expectedSelectors) (''Facet '' @ showNat i @ '' selectors are not correct'')) (\<lambda>_.
     bindR (throwIf (usedAction used \<noteq> actionNumber (action expected)) (''Facet '' @ showNat i @ '' action is not correct'')) (\<lambda>_.
       throwIf (usedFreezable used \<noteq> isFreezable expected) (''Facet '' @ showNat i @ '' isFreezable is not correct''))))))"

fun compareFacets :: "checker \<Rightarrow> nat \<Rightarrow> usedCut list \<Rightarrow> FacetCut list \<Rightarrow> unit result" where
  "compareFacets K i (used # us) (expected # es) =
     bindR (compareFacet K i used expected) (\<lambda>_. compareFacets K (Suc i) us es)"
| "compareFacets K i _ _ = Inr ()"

definition checkFacetCuts :: "checker \<Rightarrow> usedCut list \<Rightarrow> unit result" where
  "checkFacetCuts K used =
     bindR (getCurrentFacetCutsForAdd (k_getContractAt K) (adminFacet K) (gettersFacet K) (mailboxFacet K) (executorFacet K)) (\<lambda>current.
     let expectedFacetCuts = Sorting_Algorithms.sort (key facet (k_localeCompare K)) (map snd current);
         usedFacetCuts = Sorting_Algorithms.sort (key usedFacet (k_localeCompare K)) used in
     bindR (throwIf (length expectedFacetCuts \<noteq> length usedFacetCuts) ''Facet cuts length is not correct'') (\<lambda>_.
       compareFacets K 0 usedFacetCuts expectedFacetCuts))"

definition initCalldataTypes :: "string list" where
  "initCalldataTypes = [''address'', ''bytes32'', ''bytes32'', ''bytes32'', ''bytes32'', ''bytes32'', ''bytes32'',
     ''uint256'', ''uint256'', ''uint256'', ''uint256'', ''uint256'', ''uint256'', ''uint256'']"

definition checkInitCalldata :: "checker \<Rightarrow> string \<Rightarrow> unit result" where
  "checkInitCalldata K calldata =
     bindR (k_abiDecode K initCalldataTypes calldata) (\<lambda>vs.
     bindR (sameText (element vs 0) (verifierAddr K) ''Verifier is not correct'') (\<lambda>_.
     bindR (sameText (element vs 1) (VStr expectedRecursionNodeLevelVkHash) ''Recursion node level vk hash is not correct'') (\<lambda>_.
     bindR (sameText (element vs 2) (VStr expectedRecursionLeafLevelVkHash) ''Recursion leaf level vk hash is not correct'') (\<lambda>_.
     bindR (sameText (element vs 3) (VStr expectedRecursionCircuitsSetVksHash) ''Recursion circuits set vks hash is not correct'') (\<lambda>_.
     bindR (sameText (element vs 4) (VStr expectedBootloaderHash) ''L2 bootloader bytecode hash is not correct'') (\<lambda>_.
     bindR (sameText (element vs 5) (VStr expectedDefaultAccountHash) ''L2 default account bytecode hash is not correct'') (\<lambda>_.
       sameText (element vs 6) (VStr expectedEvmEmulatorHash) ''L2 EVM emulator bytecode hash is not correct'')))))))"

definition PROXY :: string where
  "PROXY = ''@openzeppelin/contracts-v4/proxy/transparent/TransparentUpgradeableProxy.sol:TransparentUpgradeableProxy''"

text \<open>\<open>extractProxyInitializationData\<close>: the constructor arguments follow the proxy's creation code, the
  third one is the call of \<open>initialize\<close>.\<close>

definition parseProxyData :: "checker \<Rightarrow> string \<Rightarrow> initializeData result" where
  "parseProxyData K data =
     bindR (extractInitCode K data) (\<lambda>initCode.
     bindR (k_readArtifact K PROXY) (\<lambda>art.
     bindR (k_abiDecode K [''address'', ''address'', ''bytes''] (''0x'' @ drop (length (bytecode art)) initCode)) (\<lambda>vs.
       k_parseInitialize K (element vs 2))))"

definition checkInitializeData :: "checker \<Rightarrow> initializeData \<Rightarrow> unit result" where
  "checkInitializeData K d =
     bindR (sameText (initOwner d) (VStr initialOwner) ''Initial owner is not correct'') (\<lambda>_.
     bindR (sameText (initTimelock d) (validatorTimelock K) ''Validator timelock is not correct'') (\<lambda>_.
     bindR (sameText (initGenesisUpgrade d) (genesisUpgrade K) ''Genesis upgrade is not correct'') (\<lambda>_.
     bindR (sameText (initBatchHash d) (VStr expectedGenesisRoot) ''Genesis batch hash is not correct'') (\<lambda>_.
     bindR (throwIf (initIndexRepeated d \<noteq> expectedIndexRepeatedStorageChanges)
              ''Genesis index repeated storage changes is not correct'') (\<lambda>_.
     bindR (sameText (initBatchCommitment d) (VStr expectedGenesisBatchCommitment) ''Genesis batch commitment is not correct'') (\<lambda>_.
     bindR (throwIf (initProtocolVersion d \<noteq> expectedProtocolVersion)
              (''Protocol version is not correct '' @ showInt (initProtocolVersion d))) (\<lambda>_.
     bindR (sameText (cutInitAddress d) (diamondInit K) ''Diamond init address is not correct'') (\<lambda>_.
     bindR (checkFacetCuts K (cutFacets d)) (\<lambda>_.
       checkInitCalldata K (cutInitCalldata d))))))))))"

definition extractProxyInitializationData :: "checker \<Rightarrow> string \<Rightarrow> (checkState, unit) eff" where
  "extractProxyInitializationData K data =
     bindE (liftR (parseProxyData K data)) (\<lambda>d.
     thenE (liftR (checkInitializeData K d)) (sayE ''CTM init data correct!''))"

section \<open>The checks\<close>

text \<open>\<open>const ok = await contract.method(args); if (!ok) throw ...\<close>.\<close>

definition checkFlag :: "checker \<Rightarrow> string \<Rightarrow> string \<Rightarrow> string \<Rightarrow> val list \<Rightarrow> string \<Rightarrow> unit result" where
  "checkFlag K abi addr method args msg = bindR (k_call K abi addr method args) (\<lambda>x. throwIf (\<not> truthyVal x) msg)"

definition checkValidatorTimelock :: "checker \<Rightarrow> (checkState, unit) eff" where
  "checkValidatorTimelock K =
     thenE (liftR (
       bindR (k_readArtifact K ''ValidatorTimelock'') (\<lambda>art.
       bindR (newContract (validatorTimelock K)) (\<lambda>c.
       bindR (checkView K ''ValidatorTimelock'' c ''owner'' [] (VStr expectedOwner) ''ValidatorTimelock owner is not correct'') (\<lambda>_.
       bindR (checkView K ''ValidatorTimelock'' c ''chainTypeManager'' [] (ctm K) ''ValidatorTimelock chainTypeManager is not correct'') (\<lambda>_.
       bindR (checkFlag K ''ValidatorTimelock'' c ''validators'' [eraChainId K, validatorOne K] ''ValidatorTimelock validatorOne is not correct'') (\<lambda>_.
       bindR (checkFlag K ''ValidatorTimelock'' c ''validators'' [eraChainId K, validatorTwo K] ''ValidatorTimelock validatorTwo is not correct'') (\<lambda>_.
         checkCorrectInitCode K validatorTimelockDeployTx ''ValidatorTimelock'' (bytecode art)
           [VStr initialOwner, VStr expectedDelay, eraChainId K]))))))))
     (sayE ''ValidatorTimelock is correct!'')"

text \<open>A call whose promise is not awaited.  The promise is an object, whatever the call returns.\<close>

definition startCall :: "string \<Rightarrow> string \<Rightarrow> val list \<Rightarrow> (checkState, val) eff" where
  "startCall addr method args =
     thenE (modifyE (\<lambda>s. s\<lparr> floating := floating s @ [(addr, method, args)] \<rparr>)) (returnE (VObj []))"

definition checkBridgehub :: "checker \<Rightarrow> (checkState, unit) eff" where
  "checkBridgehub K =
     bindE (liftR (
       bindR (k_readArtifact K ''Bridgehub'') (\<lambda>_.
       bindR (newContract (bridgeHub K)) (\<lambda>c.
       bindR (checkView K ''Bridgehub'' c ''owner'' [] (VStr expectedOwner) ''Bridgehub owner is not correct'') (\<lambda>_.
       bindR (k_call K ''Bridgehub'' c ''baseToken'' [eraChainId K]) (\<lambda>baseToken.
       bindR (toLowerCase baseToken) (\<lambda>baseTokenLower.
       bindR (throwIf (baseTokenLower \<noteq> ETH_ADDRESS_IN_CONTRACTS) ''Bridgehub baseToken is not correct'') (\<lambda>_.
       bindR (checkView K ''Bridgehub'' c ''getZKChain'' [eraChainId K] (VStr expectedZKChainAddr) ''Bridgehub zkChain is not correct'') (\<lambda>_.
       bindR (checkView K ''Bridgehub'' c ''sharedBridge'' [] (sharedBridgeProxy K) ''Bridgehub sharedBridge is not correct'') (\<lambda>_.
       bindR (checkView K ''Bridgehub'' c ''chainTypeManager'' [eraChainId K] (ctm K) ''Bridgehub chainTypeManager is not correct'') (\<lambda>usedCTM.
       bindR (checkFlag K ''Bridgehub'' c ''chainTypeManagerIsRegistered'' [usedCTM] ''Bridgehub chainTypeManager is not registered'') (\<lambda>_.
       bindR (e_hexZeroPad (k_ethers K) ETH_ADDRESS_IN_CONTRACTS 32) (\<lambda>padded.
       bindR (encodeNTVAssetId (k_ethers K) (numVal (parseInt (toStr (l1ChainIdVar K)))) padded) (\<lambda>baseTokenAssetId.
         Inr (c, baseTokenAssetId)))))))))))))))
     (\<lambda>(c, baseTokenAssetId).
     bindE (startCall c ''assetIdIsRegistered'' [VStr baseTokenAssetId]) (\<lambda>tokenIsRegistered.
     thenE (whenE (\<not> truthyVal tokenIsRegistered) (throwE (Error ''Bridgehub token is not registered'')))
       (sayE ''Bridgehub is correct!'')))"

text \<open>The four checks that only compare creation code: the artifact, the address, the creating transaction and
  the constructor arguments.\<close>

definition checkDeployed :: "checker \<Rightarrow> string \<Rightarrow> val \<Rightarrow> string \<Rightarrow> val list \<Rightarrow> string \<Rightarrow> (checkState, unit) eff" where
  "checkDeployed K contract addr txHash params line =
     thenE (liftR (
       bindR (k_readArtifact K contract) (\<lambda>art.
       bindR (newContract addr) (\<lambda>_. checkCorrectInitCode K txHash contract (bytecode art) params))))
     (sayE line)"

definition checkMailbox :: "checker \<Rightarrow> (checkState, unit) eff" where
  "checkMailbox K = checkDeployed K ''MailboxFacet'' (optVal (mailboxFacet K)) mailboxFacetDeployTx [eraChainId K] ''Mailbox is correct!''"

definition checkCTMImpl :: "checker \<Rightarrow> (checkState, unit) eff" where
  "checkCTMImpl K = checkDeployed K ''ChainTypeManager'' (ctmImpl K) ctmImplDeployTx [bridgeHub K, VNum maxNumberOfZKChains] ''CTM impl correct!''"

definition checkCTM :: "checker \<Rightarrow> (checkState, unit) eff" where
  "checkCTM K =
     thenE (liftR (
       bindR (k_readArtifact K ''ChainTypeManager'') (\<lambda>_.
       bindR (newContract (ctm K)) (\<lambda>c.
       bindR (checkView K ''ChainTypeManager'' c ''BRIDGE_HUB'' [] (bridgeHub K) ''CTM bridgeHub is not correct'') (\<lambda>_.
       bindR (k_call K ''ChainTypeManager'' c ''MAX_NUMBER_OF_ZK_CHAINS'' []) (\<lambda>m.
       bindR (toNumber m) (\<lambda>usedMaxNumberOfZKChains.
       bindR (throwIf (usedMaxNumberOfZKChains \<noteq> maxNumberOfZKChains) ''CTM maxNumberOfZKChains is not correct'') (\<lambda>_.
       bindR (checkView K ''ChainTypeManager'' c ''genesisUpgrade'' [] (genesisUpgrade K) ''CTM genesisUpgrade is not correct'') (\<lambda>_.
       bindR (checkView K ''ChainTypeManager'' c ''storedBatchZero'' [] (VStr expectedStoredBatchHashZero) ''CTM storedBatchHashZero is not correct'') (\<lambda>_.
         checkView K ''ChainTypeManager'' c ''owner'' [] (VStr expectedOwner) ''CTM owner is not correct''))))))))))
     (thenE (sayE ''CTM is correct!'')
     (bindE (liftR (bindR (k_getTransaction K ctmDeployTx) dataOf)) (extractProxyInitializationData K)))"

definition checkL1AssetRouterImpl :: "checker \<Rightarrow> (checkState, unit) eff" where
  "checkL1AssetRouterImpl K = checkDeployed K ''L1AssetRouter'' (sharedBridgeImpl K) sharedBridgeImplDeployTx
     [VStr expectedL1WethAddress, bridgeHub K, eraChainId K, VStr expectedZKChainAddr] ''L1 shared bridge impl correct!''"

definition checkSharedBridge :: "checker \<Rightarrow> (checkState, unit) eff" where
  "checkSharedBridge K =
     thenE (liftR (
       bindR (k_readArtifact K ''L1AssetRouter'') (\<lambda>_.
       bindR (newContract (sharedBridgeProxy K)) (\<lambda>c.
       bindR (checkView K ''L1AssetRouter'' c ''l2BridgeAddress'' [eraChainId K] (VStr expectedL2BridgeAddress) ''Shared bridge l2BridgeAddress is not correct'') (\<lambda>_.
       bindR (checkView K ''L1AssetRouter'' c ''legacyBridge'' [] (VStr expectedL1LegacyBridge) ''Shared bridge legacyBridge is not correct'') (\<lambda>_.
         checkView K ''L1AssetRouter'' c ''owner'' [] (VStr expectedOwner) ''Shared bridge owner is not correct''))))))
     (sayE ''L1 shared bridge correct!'')"

definition checkLegacyBridge :: "checker \<Rightarrow> (checkState, unit) eff" where
  "checkLegacyBridge K = checkDeployed K ''L1ERC20Bridge'' (legacyBridgeImpl K) legacyBridgeImplDeployTx [sharedBridgeProxy K] ''L1 legacy bridge impl correct!''"

definition PROXY_ADMIN :: string where
  "PROXY_ADMIN = ''@openzeppelin/contracts-v4/proxy/transparent/ProxyAdmin.sol:ProxyAdmin''"

definition checkProxyAdmin :: "checker \<Rightarrow> (checkState, unit) eff" where
  "checkProxyAdmin K =
     thenE (checkIdenticalBytecode K (proxyAdmin K) PROXY_ADMIN)
     (thenE (liftR (
       bindR (k_readArtifact K PROXY_ADMIN) (\<lambda>_.
       bindR (newContract (proxyAdmin K)) (\<lambda>c.
       bindR (k_call K PROXY_ADMIN c ''owner'' []) (\<lambda>currentOwner.
         sameText currentOwner (VStr expectedOwner)
           (''ProxyAdmin owner is not correct '' @ (case currentOwner of VStr s \<Rightarrow> s | _ \<Rightarrow> []) @ '', '' @ expectedOwner))))))
     (sayE ''ProxyAdmin is correct!''))"

definition bytecodeChecks :: "checker \<Rightarrow> (val \<times> string) list" where
  "bytecodeChecks K = [(genesisUpgrade K, ''GenesisUpgrade''), (upgradeZKChains K, ''UpgradeZKChains''),
     (optVal (executorFacet K), ''ExecutorFacet''), (optVal (gettersFacet K), ''GettersFacet''),
     (optVal (adminFacet K), ''AdminFacet''), (bridgeHubImpl K, ''Bridgehub''),
     (verifierAddr K, if eraChainId K = VStr ''324'' then ''Verifier'' else ''TestnetVerifier''),
     (diamondInit K, ''DiamondInit'')]"

definition checkAll :: "checker \<Rightarrow> (checkState, unit) eff" where
  "checkAll K =
     thenE (forE (bytecodeChecks K) (\<lambda>(addr, contract). checkIdenticalBytecode K addr contract))
     (thenE (checkMailbox K)
     (thenE (checkProxyAdmin K)
     (thenE (checkValidatorTimelock K)
     (thenE (checkBridgehub K)
     (thenE (checkL1AssetRouterImpl K)
     (thenE (checkSharedBridge K)
     (thenE (checkLegacyBridge K)
     (thenE (checkCTMImpl K) (checkCTM K)))))))))"

text \<open>The exit code.  The provider is made from the environment when the module is loaded, outside the
  handler of \<open>main\<close>; an exception there ends the process with code 1 too.  The message on the error
  stream is not part of the state.\<close>

definition checkerMain :: "checker \<Rightarrow> (checkState, int) eff" where
  "checkerMain K = (case web3Url (k_env K) of
     Inl _ \<Rightarrow> returnE 1
   | Inr _ \<Rightarrow> tryCatch (thenE (checkAll K) (returnE 0)) (\<lambda>_. returnE 1))"

section \<open>Facet cuts that pass the check\<close>

text \<open>What the ethers package documents: \<open>hexConcat\<close> joins the digits of its arguments, and selectors are
  four bytes in lower case hexadecimal, decoded ones as well as those of an interface.\<close>

definition selectorText :: "string \<Rightarrow> bool" where
  "selectorText s \<longleftrightarrow> matchesHex 8 s \<and> map lowerChar s = s"

definition ethersDocumented :: "checker \<Rightarrow> bool" where
  "ethersDocumented K \<longleftrightarrow>
     (\<forall>xs. list_all selectorText xs \<longrightarrow> k_hexConcat K xs = Inr (''0x'' @ concat (map (drop 2) xs))) \<and>
     (\<forall>data d. k_parseInitialize K data = Inr d \<longrightarrow> list_all (\<lambda>u. list_all selectorText (usedSelectors u)) (cutFacets d)) \<and>
     (\<forall>name addr a iface f. k_getContractAt K name addr = Inr (a, iface) \<longrightarrow> selectorText (getSighash iface f))"

definition asFacetCut :: "usedCut \<Rightarrow> FacetCut" where
  "asFacetCut u = \<lparr> facet = usedFacet u, selectors = usedSelectors u,
     action = (if usedAction u = 0 then Add else if usedAction u = 1 then Replace else Remove), isFreezable = usedFreezable u \<rparr>"

lemma selectorText_form: "selectorText s \<Longrightarrow> s = ''0x'' @ drop 2 s \<and> length (drop 2 s) = 8"
  using append_take_drop_id [of 2 s] by (simp add: selectorText_def matchesHex_def)

lemma concat_selectors:
  assumes "concat (map (drop 2) xs) = concat (map (drop 2) ys)" "list_all selectorText xs" "list_all selectorText ys"
  shows "xs = ys"
  using assms
proof (induction xs arbitrary: ys)
  case Nil
  thus ?case using selectorText_form by (cases ys) force+
next
  case (Cons x xs)
  note x = selectorText_form [of x]
  obtain y ys' where ys: "ys = y # ys'" using Cons.prems x by (cases ys) auto
  note y = selectorText_form [of y]
  have "drop 2 x = drop 2 y \<and> concat (map (drop 2) xs) = concat (map (drop 2) ys')"
    using Cons.prems x y by (simp add: ys append_eq_append_conv)
  thus ?case using Cons x y by (metis list.pred_inject(2) ys)
qed

lemma list_all_sort: "list_all P (sort_key f xs) = list_all P xs"
  by (simp add: list_all_iff)

lemma compareFacet_same:
  assumes run: "compareFacet K i u e = Inr ()" and doc: "ethersDocumented K"
    and "list_all selectorText (usedSelectors u)" "list_all selectorText (selectors e)"
  shows "facet (asFacetCut u) = facet e \<and> mset (selectors (asFacetCut u)) = mset (selectors e) \<and>
    action (asFacetCut u) = action e \<and> isFreezable (asFacetCut u) = isFreezable e"
proof -
  let ?s = "sort_key (\<lambda>x. x) :: string list \<Rightarrow> _"
  have cat: "k_hexConcat K (?s (usedSelectors u)) = Inr (''0x'' @ concat (map (drop 2) (?s (usedSelectors u))))"
    "k_hexConcat K (?s (selectors e)) = Inr (''0x'' @ concat (map (drop 2) (?s (selectors e))))"
    using doc assms(3,4) by (simp_all add: ethersDocumented_def list_all_sort)
  from run have f: "usedFacet u = facet e" "concat (map (drop 2) (?s (usedSelectors u))) = concat (map (drop 2) (?s (selectors e)))"
    "usedAction u = actionNumber (action e)" "usedFreezable u = isFreezable e"
    by (auto simp: compareFacet_def cat bindR_Inr_iff throwIf_def split: if_splits)
  have "?s (usedSelectors u) = ?s (selectors e)"
    using concat_selectors [OF f(2)] assms(3,4) by (simp add: list_all_sort)
  hence "mset (?s (usedSelectors u)) = mset (?s (selectors e))" by (rule arg_cong)
  hence "mset (usedSelectors u) = mset (selectors e)" by simp
  thus ?thesis using f by (cases "action e") (simp_all add: asFacetCut_def actionNumber_def)
qed

lemma compareFacets_same:
  assumes "compareFacets K i us es = Inr ()" "length us = length es" "ethersDocumented K"
    "list_all (\<lambda>u. list_all selectorText (usedSelectors u)) us" "list_all (\<lambda>e. list_all selectorText (selectors e)) es"
  shows "list_all2 (\<lambda>u e. facet u = facet e \<and> mset (selectors u) = mset (selectors e) \<and> action u = action e \<and> isFreezable u = isFreezable e)
    (map asFacetCut us) es"
  using assms
proof (induction K i us es rule: compareFacets.induct)
  case (1 K i u us e es)
  thus ?case using compareFacet_same [of K i u e] by (simp add: bindR_Inr_iff)
qed auto

text \<open>Cuts with the same facet, selectors, action and flag act on the routing in the same way.  Cuts without
  common selectors can be applied in any order.\<close>

lemma cutRoute_cong:
  "facet u = facet e \<Longrightarrow> set (selectors u) = set (selectors e) \<Longrightarrow> action u = action e \<Longrightarrow> isFreezable u = isFreezable e \<Longrightarrow>
   cutRoute u = cutRoute e"
  by (auto simp: cutRoute_def fun_eq_iff)

lemma cutRoute_commute:
  "set (selectors u) \<inter> set (selectors e) = {} \<Longrightarrow> cutRoute u \<circ> cutRoute e = cutRoute e \<circ> cutRoute u"
  by (auto simp: cutRoute_def fun_eq_iff disjoint_iff)

definition disjointCuts :: "FacetCut list \<Rightarrow> bool" where
  "disjointCuts es \<longleftrightarrow> (\<forall>x\<in>set es. \<forall>y\<in>set es. x = y \<or> set (selectors x) \<inter> set (selectors y) = {})"

lemma fold_cutRoute_perm:
  assumes "disjointCuts es" and m: "mset es' = mset es"
  shows "fold cutRoute es' = fold cutRoute es"
proof (rule fold_multiset_equiv [OF _ m])
  fix x y
  assume "x \<in> set es'" "y \<in> set es'"
  hence "x = y \<or> set (selectors x) \<inter> set (selectors y) = {}"
    using assms(1) mset_eq_setD [OF m] by (auto simp: disjointCuts_def)
  thus "cutRoute x \<circ> cutRoute y = cutRoute y \<circ> cutRoute x" using cutRoute_commute by blast
qed

lemma list_all_objSet: "list_all P o' \<Longrightarrow> P (k, v) \<Longrightarrow> list_all P (objSet k v o')"
  by (induction k v o' rule: objSet.induct) auto

lemma addFacetCut_all:
  assumes "addFacetCut gca name address freezable cuts = Inr cuts'" "list_all (P \<circ> snd) cuts"
    "\<And>a iface. gca name (toStr address) = Inr (a, iface) \<Longrightarrow> P (facetCut a iface Add freezable)"
  shows "list_all (P \<circ> snd) cuts'"
  using assms by (auto simp: addFacetCut_def bindR_Inr_iff intro!: list_all_objSet split: if_splits)

lemma currentCuts_selectors:
  assumes "getCurrentFacetCutsForAdd (k_getContractAt K) a g m e = Inr current" and doc: "ethersDocumented K"
  shows "list_all (\<lambda>c. list_all selectorText (selectors c)) (map snd current)"
proof -
  let ?P = "\<lambda>c. list_all selectorText (selectors c)"
  have one: "?P (facetCut b iface Add fr)" if "k_getContractAt K n x = Inr (b, iface)" for n x b iface fr
    using doc that by (auto simp: ethersDocumented_def facetCut_def getAllSelectors_def list_all_iff)
  have "list_all (?P \<circ> snd) current"
    using assms(1) unfolding getCurrentFacetCutsForAdd_def bindR_Inr_iff
    by (elim exE conjE) (rule addFacetCut_all, assumption, rule addFacetCut_all, assumption, rule addFacetCut_all, assumption,
        rule addFacetCut_all, assumption, simp_all add: one)
  thus ?thesis by (simp add: list.pred_map)
qed

lemma checkFacetCuts_routes:
  assumes run: "checkFacetCuts K used = Inr ()" and doc: "ethersDocumented K"
    and sel: "list_all (\<lambda>u. list_all selectorText (usedSelectors u)) used"
  obtains current where
    "getCurrentFacetCutsForAdd (k_getContractAt K) (adminFacet K) (gettersFacet K) (mailboxFacet K) (executorFacet K) = Inr current"
    "disjointCuts (map snd current) \<Longrightarrow> fold cutRoute (map asFacetCut used) = fold cutRoute (map snd current)"
proof -
  obtain current where cur: "getCurrentFacetCutsForAdd (k_getContractAt K) (adminFacet K) (gettersFacet K) (mailboxFacet K) (executorFacet K) = Inr current"
    using run by (auto simp: checkFacetCuts_def bindR_Inr_iff)
  define es where "es = Sorting_Algorithms.sort (key facet (k_localeCompare K)) (map snd current)"
  define us where "us = Sorting_Algorithms.sort (key usedFacet (k_localeCompare K)) used"
  have m: "mset es = mset (map snd current)" "mset us = mset used" by (simp_all add: es_def us_def)
  note sets = mset_eq_setD [OF m(1)] mset_eq_setD [OF m(2)]
  have len: "length us = length es" and cmp: "compareFacets K 0 us es = Inr ()"
    using run by (auto simp: checkFacetCuts_def cur Let_def es_def us_def bindR_Inr_iff throwIf_def split: if_splits)
  let ?same = "\<lambda>u e. facet u = facet e \<and> mset (selectors u) = mset (selectors e) \<and> action u = action e \<and> isFreezable u = isFreezable e"
  have "list_all2 ?same (map asFacetCut us) es"
    using compareFacets_same [OF cmp len doc] sel currentCuts_selectors [OF cur doc] sets by (simp add: list_all_iff)
  hence two: "list_all2 (\<lambda>u e. cutRoute u = cutRoute e) (map asFacetCut us) es"
    by (rule list_all2_mono) (auto intro: cutRoute_cong dest: mset_eq_setD)
  have f: "fold cutRoute (map asFacetCut us) = fold cutRoute es"
    using two by (induction rule: list_all2_induct) simp_all
  have mem: "\<exists>e\<in>set es. cutRoute x = cutRoute e" if "x \<in> set (map asFacetCut us)" for x
    using two that by (induction rule: list_all2_induct) auto
  have "fold cutRoute (map asFacetCut used) = fold cutRoute (map snd current)" if dis: "disjointCuts (map snd current)"
  proof -
    have "fold cutRoute (map asFacetCut us) = fold cutRoute (map asFacetCut used)"
    proof (rule fold_multiset_equiv)
      fix x y assume "x \<in> set (map asFacetCut us)" "y \<in> set (map asFacetCut us)"
      then obtain e1 e2 where "e1 \<in> set es" "e2 \<in> set es" "cutRoute x = cutRoute e1" "cutRoute y = cutRoute e2"
        using mem by blast
      moreover have "e1 = e2 \<or> set (selectors e1) \<inter> set (selectors e2) = {}"
        using calculation dis sets(1) by (auto simp: disjointCuts_def)
      ultimately show "cutRoute x \<circ> cutRoute y = cutRoute y \<circ> cutRoute x" using cutRoute_commute [of e1 e2] by auto
    qed (simp add: m)
    thus ?thesis using f fold_cutRoute_perm [OF dis m(1)] by simp
  qed
  thus thesis using that cur by blast
qed

section \<open>Exit code 0\<close>

lemma sameText_iff: "sameText a b msg = Inr () \<longleftrightarrow> (\<exists>x. toLowerCase a = Inr x \<and> toLowerCase b = Inr x)"
  by (auto simp: sameText_def bindR_Inr_iff throwIf_def)

lemma throwIf_iff: "throwIf c msg = Inr () \<longleftrightarrow> \<not> c"
  by (simp add: throwIf_def)

lemma liftR_Inr_iff: "liftR r w = (Inr a, w') \<longleftrightarrow> r = Inr a \<and> w' = w"
  by (auto simp: liftR_def)

definition hasBytecode :: "checker \<Rightarrow> val \<Rightarrow> string \<Rightarrow> bool" where
  "hasBytecode K addr contract \<longleftrightarrow> (\<exists>art code h. k_readArtifact K contract = Inr art \<and> k_getCode K addr = Inr code \<and>
     e_keccak256 (k_ethers K) (VStr code) = Inr h \<and> e_keccak256 (k_ethers K) (VStr (deployedBytecode art)) = Inr h)"

lemma checkIdenticalBytecode_ok: "checkIdenticalBytecode K addr contract s = (Inr (), s') \<Longrightarrow> hasBytecode K addr contract"
  by (auto simp: checkIdenticalBytecode_def hasBytecode_def bindE_Inr_iff liftR_Inr_iff throwE_def split: if_splits)

lemma bytecodes_ok:
  "forE cs (\<lambda>(addr, contract). checkIdenticalBytecode K addr contract) s = (Inr (), s') \<Longrightarrow> \<forall>(addr, contract)\<in>set cs. hasBytecode K addr contract"
  by (induction cs arbitrary: s) (auto simp: thenE_Inr_iff dest: checkIdenticalBytecode_ok)

definition ownedBy :: "checker \<Rightarrow> string \<Rightarrow> val \<Rightarrow> string \<Rightarrow> bool" where
  "ownedBy K abi addr owner \<longleftrightarrow> (\<exists>a v. addr = VStr a \<and> k_call K abi a ''owner'' [] = Inr v \<and> toLowerCase v = toLowerCase (VStr owner))"

lemma newContract_iff: "newContract addr = Inr a \<longleftrightarrow> addr = VStr a"
  by (simp add: newContract_def split: val.splits)

lemma checkView_iff:
  "checkView K abi a m args expected msg = Inr v \<longleftrightarrow>
     k_call K abi a m args = Inr v \<and> (\<exists>x. toLowerCase v = Inr x \<and> toLowerCase expected = Inr x)"
  by (auto simp: checkView_def bindR_Inr_iff sameText_iff)

lemmas check_iffs = bindR_Inr_iff thenE_Inr_iff bindE_Inr_iff liftR_Inr_iff newContract_iff checkView_iff sameText_iff throwIf_iff

lemma owners_ok:
  "checkProxyAdmin K s = (Inr (), s') \<Longrightarrow> ownedBy K PROXY_ADMIN (proxyAdmin K) expectedOwner"
  "checkValidatorTimelock K s = (Inr (), s') \<Longrightarrow> ownedBy K ''ValidatorTimelock'' (validatorTimelock K) expectedOwner"
  "checkBridgehub K s = (Inr (), s') \<Longrightarrow> ownedBy K ''Bridgehub'' (bridgeHub K) expectedOwner"
  "checkSharedBridge K s = (Inr (), s') \<Longrightarrow> ownedBy K ''L1AssetRouter'' (sharedBridgeProxy K) expectedOwner"
  "checkCTM K s = (Inr (), s') \<Longrightarrow> ownedBy K ''ChainTypeManager'' (ctm K) expectedOwner"
  by (fastforce simp: checkProxyAdmin_def checkValidatorTimelock_def checkBridgehub_def checkSharedBridge_def checkCTM_def ownedBy_def check_iffs)+

lemma checkCTM_ok:
  assumes "checkCTM K s = (Inr (), s')"
  obtains data d where "k_getTransaction K ctmDeployTx = Inr (Some data)" "parseProxyData K data = Inr d" "checkInitializeData K d = Inr ()"
  using assms by (auto simp: checkCTM_def extractProxyInitializationData_def check_iffs dataOf_def split: option.splits)

lemma parseProxyData_selectors:
  "parseProxyData K data = Inr d \<Longrightarrow> ethersDocumented K \<Longrightarrow> list_all (\<lambda>u. list_all selectorText (usedSelectors u)) (cutFacets d)"
  by (auto simp: parseProxyData_def ethersDocumented_def bindR_Inr_iff)

lemma checkerMain_ok: "checkerMain K s = (Inr 0, s') \<Longrightarrow> checkAll K s = (Inr (), s')"
  by (auto simp: checkerMain_def tryCatch_def eff_simps thenE_def bindE_def split: sum.splits prod.splits)

text \<open>C15: what exit code 0 shows.  Each of the eight addresses has the runtime code of the artifact it is
  compared with, the proxy admin, the timelock, the bridgehub, the asset router and the chain type manager
  have the expected owner, and the manager's proxy was created with initialisation data of protocol version
  0.24.0 with the expected owner, verifier and initialiser.  When the selectors of the current facets do not
  overlap, a diamond that gets the facet cuts of that data routes every selector as one that gets the cuts
  computed from the artifacts, in whatever order facets and selectors were encoded.\<close>

theorem consistency_check_sound:
  assumes "checkerMain K s = (Inr 0, s')" and doc: "ethersDocumented K"
  shows "(\<forall>(addr, contract)\<in>set (bytecodeChecks K). hasBytecode K addr contract) \<and>
    (\<forall>(abi, addr)\<in>{(PROXY_ADMIN, proxyAdmin K), (''ValidatorTimelock'', validatorTimelock K), (''Bridgehub'', bridgeHub K),
        (''L1AssetRouter'', sharedBridgeProxy K), (''ChainTypeManager'', ctm K)}. ownedBy K abi addr expectedOwner) \<and>
    (\<exists>data d vs current. k_getTransaction K ctmDeployTx = Inr (Some data) \<and> parseProxyData K data = Inr d \<and>
       initProtocolVersion d = 24 * 2 ^ 32 \<and> toLowerCase (initOwner d) = toLowerCase (VStr initialOwner) \<and>
       toLowerCase (cutInitAddress d) = toLowerCase (diamondInit K) \<and>
       k_abiDecode K initCalldataTypes (cutInitCalldata d) = Inr vs \<and> toLowerCase (element vs 0) = toLowerCase (verifierAddr K) \<and>
       getCurrentFacetCutsForAdd (k_getContractAt K) (adminFacet K) (gettersFacet K) (mailboxFacet K) (executorFacet K) = Inr current \<and>
       (disjointCuts (map snd current) \<longrightarrow>
          fold cutRoute (map asFacetCut (cutFacets d)) Map.empty = fold cutRoute (map snd current) Map.empty))"
proof -
  have all: "checkAll K s = (Inr (), s')" using assms(1) by (rule checkerMain_ok)
  then obtain s1 s2 s3 s4 s5 s6 s7 s8 s9 where
    code: "forE (bytecodeChecks K) (\<lambda>(addr, contract). checkIdenticalBytecode K addr contract) s = (Inr (), s1)" and
    parts: "checkProxyAdmin K s2 = (Inr (), s3)" "checkValidatorTimelock K s3 = (Inr (), s4)" "checkBridgehub K s4 = (Inr (), s5)"
      "checkSharedBridge K s6 = (Inr (), s7)" "checkCTM K s9 = (Inr (), s')"
    by (auto simp: checkAll_def thenE_Inr_iff)
  obtain data d where d: "k_getTransaction K ctmDeployTx = Inr (Some data)" "parseProxyData K data = Inr d" and ok: "checkInitializeData K d = Inr ()"
    using checkCTM_ok [OF parts(5)] .
  have cuts: "checkFacetCuts K (cutFacets d) = Inr ()" using ok by (auto simp: checkInitializeData_def bindR_Inr_iff)
  obtain current where cur:
    "getCurrentFacetCutsForAdd (k_getContractAt K) (adminFacet K) (gettersFacet K) (mailboxFacet K) (executorFacet K) = Inr current"
    "disjointCuts (map snd current) \<Longrightarrow> fold cutRoute (map asFacetCut (cutFacets d)) = fold cutRoute (map snd current)"
    using checkFacetCuts_routes [OF cuts doc parseProxyData_selectors [OF d(2) doc]] by blast
  obtain vs where vs: "k_abiDecode K initCalldataTypes (cutInitCalldata d) = Inr vs" "toLowerCase (element vs 0) = toLowerCase (verifierAddr K)"
    using ok by (auto simp: checkInitializeData_def checkInitCalldata_def check_iffs)
  have "initProtocolVersion d = 24 * 2 ^ 32" "toLowerCase (initOwner d) = toLowerCase (VStr initialOwner)"
    "toLowerCase (cutInitAddress d) = toLowerCase (diamondInit K)"
    using ok by (auto simp: checkInitializeData_def check_iffs expectedProtocolVersion_def)
  thus ?thesis using bytecodes_ok [OF code] d vs cur owners_ok(1) [OF parts(1)] owners_ok(2) [OF parts(2)]
      owners_ok(3) [OF parts(3)] owners_ok(4) [OF parts(4)] owners_ok(5) [OF parts(5)] by auto
qed

text \<open>A deployment that passes: the facets were encoded in another order than the script computes them.\<close>

definition exampleSelector :: "string \<Rightarrow> string" where
  "exampleSelector name = (if name = ''AdminFacet'' then ''0x0000000a'' else if name = ''GettersFacet'' then ''0x0000000b''
     else if name = ''MailboxFacet'' then ''0x0000000c'' else ''0x0000000d'')"

definition exampleViews :: "string \<Rightarrow> val" where
  "exampleViews method =
     (if method = ''owner'' then VStr expectedOwner
      else if method \<in> {''validators'', ''chainTypeManagerIsRegistered''} then VBool True
      else if method = ''assetIdIsRegistered'' then VBool False
      else if method = ''baseToken'' then VStr ADDRESS_ONE
      else if method = ''getZKChain'' then VStr expectedZKChainAddr
      else if method = ''MAX_NUMBER_OF_ZK_CHAINS'' then VNum 100
      else if method = ''storedBatchZero'' then VStr expectedStoredBatchHashZero
      else if method = ''l2BridgeAddress'' then VStr expectedL2BridgeAddress
      else if method = ''legacyBridge'' then VStr expectedL1LegacyBridge
      else VStr ''0x07'')"

definition exampleCuts :: "usedCut list" where
  "exampleCuts = [
     \<lparr> usedFacet = ''0x0d'', usedSelectors = [''0x0000000d''], usedAction = 0, usedFreezable = True \<rparr>,
     \<lparr> usedFacet = ''0x0a'', usedSelectors = [''0x0000000a''], usedAction = 0, usedFreezable = False \<rparr>,
     \<lparr> usedFacet = ''0x0c'', usedSelectors = [''0x0000000c''], usedAction = 0, usedFreezable = True \<rparr>,
     \<lparr> usedFacet = ''0x0b'', usedSelectors = [''0x0000000b''], usedAction = 0, usedFreezable = False \<rparr>]"

definition exampleData :: initializeData where
  "exampleData = \<lparr> initOwner = VStr initialOwner, initTimelock = VStr ''0x07'', initGenesisUpgrade = VStr ''0x07'',
     initBatchHash = VStr expectedGenesisRoot, initIndexRepeated = 54, initBatchCommitment = VStr expectedGenesisBatchCommitment,
     initProtocolVersion = 103079215104, cutFacets = exampleCuts, cutInitAddress = VStr ''0x07'', cutInitCalldata = ''0x'' \<rparr>"

definition exampleChecker :: checker where
  "exampleChecker = \<lparr>
     k_ethers = plainEthers,
     k_env = (\<lambda>name. Some (if name = ''CONTRACTS_ADMIN_FACET_ADDR'' then ''0x0a'' else if name = ''CONTRACTS_GETTERS_FACET_ADDR'' then ''0x0b''
        else if name = ''CONTRACTS_MAILBOX_FACET_ADDR'' then ''0x0c'' else if name = ''CONTRACTS_EXECUTOR_FACET_ADDR'' then ''0x0d'' else ''0x07'')),
     k_readArtifact = (\<lambda>_. Inr \<lparr> bytecode = ''0x60'', deployedBytecode = ''0x60'' \<rparr>),
     k_getCode = (\<lambda>_. Inr ''0x60''),
     k_getTransaction = (\<lambda>_. Inr (Some ''0x'')),
     k_call = (\<lambda>_ _ method _. Inr (exampleViews method)),
     k_encodeDeploy = (\<lambda>_ _. Inr ''0x''),
     k_hexConcat = (\<lambda>xs. Inr (''0x'' @ concat (map (drop 2) xs))),
     k_parseDeploy = (\<lambda>_. Inr (''0x60'', expectedSalt)),
     k_abiDecode = (\<lambda>types _. Inr (if length types = 3 then [VStr ''0x07'', VStr ''0x07'', VStr ''0x'']
        else [VStr ''0x07'', VStr expectedRecursionNodeLevelVkHash, VStr expectedRecursionLeafLevelVkHash,
          VStr expectedRecursionCircuitsSetVksHash, VStr expectedBootloaderHash, VStr expectedDefaultAccountHash, VStr expectedEvmEmulatorHash])),
     k_parseInitialize = (\<lambda>_. Inr exampleData),
     k_getContractAt = (\<lambda>name addr. Inr (addr, \<lparr> ifaceFunctions = [''f()'', ''getName()''], getSighash = (\<lambda>_. exampleSelector name) \<rparr>)),
     k_localeCompare = key (\<lambda>s. (of_char (s ! 3) :: nat)) default \<rparr>"

lemma exampleChecker_documented: "ethersDocumented exampleChecker"
  by (auto simp: ethersDocumented_def exampleChecker_def exampleData_def exampleCuts_def exampleSelector_def selectorText_def matchesHex_def
      isHexDigit_def digitVal_def lowerChar_def)

lemma sameText_refl [simp]: "sameText (VStr x) (VStr x) msg = Inr ()"
  by (simp add: sameText_iff toLowerCase_def)

lemma example_env [simp]:
  "genesisUpgrade exampleChecker = VStr ''0x07''" "validatorTimelock exampleChecker = VStr ''0x07''"
  "verifierAddr exampleChecker = VStr ''0x07''" "proxyAdmin exampleChecker = VStr ''0x07''" "bridgeHub exampleChecker = VStr ''0x07''"
  "executorFacet exampleChecker = Some ''0x0d''" "adminFacet exampleChecker = Some ''0x0a''" "mailboxFacet exampleChecker = Some ''0x0c''"
  "gettersFacet exampleChecker = Some ''0x0b''" "diamondInit exampleChecker = VStr ''0x07''" "ctmImpl exampleChecker = VStr ''0x07''"
  "ctm exampleChecker = VStr ''0x07''" "sharedBridgeImpl exampleChecker = VStr ''0x07''" "sharedBridgeProxy exampleChecker = VStr ''0x07''"
  "legacyBridgeImpl exampleChecker = VStr ''0x07''"
  by (simp_all add: genesisUpgrade_def validatorTimelock_def verifierAddr_def proxyAdmin_def bridgeHub_def executorFacet_def
      adminFacet_def mailboxFacet_def gettersFacet_def diamondInit_def ctmImpl_def ctm_def sharedBridgeImpl_def sharedBridgeProxy_def
      legacyBridgeImpl_def exampleChecker_def optVal_def)

lemma example_answers [simp]:
  "k_ethers exampleChecker = plainEthers" "k_readArtifact exampleChecker name = Inr \<lparr> bytecode = ''0x60'', deployedBytecode = ''0x60'' \<rparr>"
  "k_getCode exampleChecker addr = Inr ''0x60''" "k_getTransaction exampleChecker h = Inr (Some ''0x'')"
  "k_call exampleChecker abi a method args = Inr (exampleViews method)" "k_encodeDeploy exampleChecker abi args = Inr ''0x''"
  "k_hexConcat exampleChecker xs = Inr (''0x'' @ concat (map (drop 2) xs))" "k_parseDeploy exampleChecker data = Inr (''0x60'', expectedSalt)"
  "k_localeCompare exampleChecker = key (\<lambda>s. (of_char (s ! 3) :: nat)) default"
  by (simp_all add: exampleChecker_def)

lemma example_current:
  "getCurrentFacetCutsForAdd (k_getContractAt exampleChecker) (Some ''0x0a'') (Some ''0x0b'') (Some ''0x0c'') (Some ''0x0d'') =
     Inr [(''AdminFacet'', \<lparr> facet = ''0x0a'', selectors = [''0x0000000a''], action = Add, isFreezable = False \<rparr>),
       (''GettersFacet'', \<lparr> facet = ''0x0b'', selectors = [''0x0000000b''], action = Add, isFreezable = False \<rparr>),
       (''MailboxFacet'', \<lparr> facet = ''0x0c'', selectors = [''0x0000000c''], action = Add, isFreezable = True \<rparr>),
       (''ExecutorFacet'', \<lparr> facet = ''0x0d'', selectors = [''0x0000000d''], action = Add, isFreezable = True \<rparr>)]"
  by (simp add: getCurrentFacetCutsForAdd_def addFacetCut_def truthyStr_def toStr_def exampleChecker_def facetCut_def getAllSelectors_def
      exampleSelector_def)

lemma example_cuts: "checkFacetCuts exampleChecker exampleCuts = Inr ()"
  by (simp add: checkFacetCuts_def example_current exampleCuts_def Let_def Sorting_Algorithms.sort_def compareFacet_def throwIf_def actionNumber_def)

definition runs :: "(checkState, unit) eff \<Rightarrow> bool" where
  "runs m \<longleftrightarrow> (\<forall>s. \<exists>s'. m s = (Inr (), s'))"

lemma runs_then: "runs m \<Longrightarrow> runs k \<Longrightarrow> runs (thenE m k)"
  unfolding runs_def thenE_Inr_iff by blast

lemma runs_basic:
  "runs (sayE l)" "runs (returnE ())" "runs (liftR (Inr ()))" "runs (thenE (liftR (Inr v)) k) = runs k"
  "runs (bindE (liftR (Inr x)) g) = runs (g x)" "runs (bindE (startCall a method args) f) \<longleftrightarrow> (\<forall>s. \<exists>s'. f (VObj [])
     (s\<lparr> floating := floating s @ [(a, method, args)] \<rparr>) = (Inr (), s'))"
  by (simp_all add: runs_def thenE_def bindE_apply sayE_def startCall_def eff_simps)

lemma runs_example:
  "runs (checkIdenticalBytecode exampleChecker a c)" "runs (checkDeployed exampleChecker c (VStr x) h ps l)"
  by (simp_all add: runs_def checkIdenticalBytecode_def checkDeployed_def checkCorrectInitCode_def extractInitCode_def dataOf_def newContract_def
      plainEthers_def thenE_def bindE_apply eff_simps sayE_def)

lemma runs_views:
  "runs (checkProxyAdmin exampleChecker)" "runs (checkSharedBridge exampleChecker)" "runs (checkValidatorTimelock exampleChecker)"
  by (auto simp: checkProxyAdmin_def checkSharedBridge_def checkValidatorTimelock_def checkView_def checkFlag_def newContract_def
      exampleViews_def truthyVal_def checkCorrectInitCode_def extractInitCode_def dataOf_def runs_example runs_basic intro!: runs_then)

lemma runs_checkBridgehub: "runs (checkBridgehub exampleChecker)"
proof -
  have "e_hexZeroPad plainEthers a n = Inr (''0x'' @ padLeft (2 * n) (drop 2 a))" "\<exists>i. encodeNTVAssetId plainEthers c x = Inr i" for a n c x
    by (simp_all add: encodeNTVAssetId_def plainEthers_def)
  then obtain i where "encodeNTVAssetId plainEthers (numVal (parseInt (toStr (l1ChainIdVar exampleChecker)))) (''0x'' @ padLeft 64 (drop 2 ETH_ADDRESS_IN_CONTRACTS)) = Inr i"
    "e_hexZeroPad plainEthers ETH_ADDRESS_IN_CONTRACTS 32 = Inr (''0x'' @ padLeft 64 (drop 2 ETH_ADDRESS_IN_CONTRACTS))"
    by force
  moreover have "map lowerChar ADDRESS_ONE = ADDRESS_ONE" by (simp add: ADDRESS_ONE_def lowerChar_def)
  ultimately show ?thesis
    by (auto simp: checkBridgehub_def checkView_def checkFlag_def newContract_def exampleViews_def truthyVal_def toLowerCase_def
        ETH_ADDRESS_IN_CONTRACTS_def whenE_def runs_basic eff_simps sayE_def)
qed

lemma example_data [simp]: "parseProxyData exampleChecker data = Inr exampleData" "checkInitializeData exampleChecker exampleData = Inr ()"
proof -
  have d: "k_abiDecode exampleChecker [''address'', ''address'', ''bytes''] x = Inr [VStr ''0x07'', VStr ''0x07'', VStr ''0x'']"
    "k_abiDecode exampleChecker initCalldataTypes x = Inr [VStr ''0x07'', VStr expectedRecursionNodeLevelVkHash, VStr expectedRecursionLeafLevelVkHash,
       VStr expectedRecursionCircuitsSetVksHash, VStr expectedBootloaderHash, VStr expectedDefaultAccountHash, VStr expectedEvmEmulatorHash]"
    "k_parseInitialize exampleChecker v = Inr exampleData" for x v
    by (simp_all add: exampleChecker_def initCalldataTypes_def)
  show "parseProxyData exampleChecker data = Inr exampleData" by (simp add: parseProxyData_def extractInitCode_def d)
  show "checkInitializeData exampleChecker exampleData = Inr ()"
    by (simp add: checkInitializeData_def exampleData_def expectedIndexRepeatedStorageChanges_def expectedProtocolVersion_def example_cuts
        checkInitCalldata_def d element_def)
qed

lemma runs_checkCTM: "runs (checkCTM exampleChecker)"
  by (auto simp: checkCTM_def checkView_def newContract_def exampleViews_def toNumber_def maxNumberOfZKChains_def dataOf_def
      extractProxyInitializationData_def runs_basic intro!: runs_then)

lemma exampleChecker_passes:
  "checkerMain exampleChecker s = (Inr 0, snd (checkerMain exampleChecker s))"
proof -
  have "runs (checkAll exampleChecker)"
    by (simp add: checkAll_def bytecodeChecks_def checkMailbox_def checkL1AssetRouterImpl_def checkLegacyBridge_def checkCTMImpl_def optVal_def
        runs_then runs_basic runs_example runs_views runs_checkBridgehub runs_checkCTM)
  then obtain s' where "checkAll exampleChecker s = (Inr (), s')" by (auto simp: runs_def)
  moreover have "web3Url (k_env exampleChecker) = Inr ''0x07''" by (simp add: web3Url_def exampleChecker_def)
  ultimately show ?thesis by (simp add: checkerMain_def tryCatch_def thenE_def bindE_apply eff_simps)
qed

theorem consistency_check_sound_witness:
  "\<exists>s'. checkerMain exampleChecker \<lparr> console = [], floating = [] \<rparr> = (Inr 0, s') \<and> ethersDocumented exampleChecker \<and>
     hasBytecode exampleChecker (VStr ''0x0a'') ''AdminFacet'' \<and> ownedBy exampleChecker ''Bridgehub'' (VStr ''0x07'') expectedOwner \<and>
     fold cutRoute (map asFacetCut exampleCuts) Map.empty =
       [''0x0000000a'' \<mapsto> (''0x0a'', False), ''0x0000000b'' \<mapsto> (''0x0b'', False), ''0x0000000c'' \<mapsto> (''0x0c'', True), ''0x0000000d'' \<mapsto> (''0x0d'', True)]"
proof -
  let ?s = "\<lparr> console = [], floating = [] \<rparr>"
  note sound = consistency_check_sound [OF exampleChecker_passes [of ?s] exampleChecker_documented]
  have "hasBytecode exampleChecker (VStr ''0x0a'') ''AdminFacet''" "ownedBy exampleChecker ''Bridgehub'' (VStr ''0x07'') expectedOwner"
    using sound by (auto simp: bytecodeChecks_def optVal_def)
  moreover from sound have "fold cutRoute (map asFacetCut exampleCuts) Map.empty = [''0x0000000a'' \<mapsto> (''0x0a'', False),
      ''0x0000000b'' \<mapsto> (''0x0b'', False), ''0x0000000c'' \<mapsto> (''0x0c'', True), ''0x0000000d'' \<mapsto> (''0x0d'', True)]"
    by (auto simp: example_current disjointCuts_def exampleData_def cutRoute_def fun_eq_iff)
  ultimately show ?thesis using exampleChecker_passes [of ?s] exampleChecker_documented by blast
qed

text \<open>Only the views depend on the node's answers to calls.\<close>

lemma update_constants [simp]:
  "genesisUpgrade (K\<lparr> k_call := f \<rparr>) = genesisUpgrade K" "validatorTimelock (K\<lparr> k_call := f \<rparr>) = validatorTimelock K"
  "verifierAddr (K\<lparr> k_call := f \<rparr>) = verifierAddr K" "proxyAdmin (K\<lparr> k_call := f \<rparr>) = proxyAdmin K"
  "bridgeHub (K\<lparr> k_call := f \<rparr>) = bridgeHub K" "executorFacet (K\<lparr> k_call := f \<rparr>) = executorFacet K"
  "adminFacet (K\<lparr> k_call := f \<rparr>) = adminFacet K" "mailboxFacet (K\<lparr> k_call := f \<rparr>) = mailboxFacet K"
  "gettersFacet (K\<lparr> k_call := f \<rparr>) = gettersFacet K" "diamondInit (K\<lparr> k_call := f \<rparr>) = diamondInit K"
  "ctmImpl (K\<lparr> k_call := f \<rparr>) = ctmImpl K" "ctm (K\<lparr> k_call := f \<rparr>) = ctm K"
  "sharedBridgeImpl (K\<lparr> k_call := f \<rparr>) = sharedBridgeImpl K" "sharedBridgeProxy (K\<lparr> k_call := f \<rparr>) = sharedBridgeProxy K"
  "legacyBridgeImpl (K\<lparr> k_call := f \<rparr>) = legacyBridgeImpl K" "eraChainId (K\<lparr> k_call := f \<rparr>) = eraChainId K"
  "l1ChainIdVar (K\<lparr> k_call := f \<rparr>) = l1ChainIdVar K" "validatorOne (K\<lparr> k_call := f \<rparr>) = validatorOne K"
  "validatorTwo (K\<lparr> k_call := f \<rparr>) = validatorTwo K" "bytecodeChecks (K\<lparr> k_call := f \<rparr>) = bytecodeChecks K"
  by (simp_all add: genesisUpgrade_def validatorTimelock_def verifierAddr_def proxyAdmin_def bridgeHub_def executorFacet_def
      adminFacet_def mailboxFacet_def gettersFacet_def diamondInit_def ctmImpl_def ctm_def sharedBridgeImpl_def sharedBridgeProxy_def
      legacyBridgeImpl_def eraChainId_def l1ChainIdVar_def validatorOne_def validatorTwo_def bytecodeChecks_def upgradeZKChains_def bridgeHubImpl_def)

lemma update_facets [simp]: "compareFacets (K\<lparr> k_call := f \<rparr>) i us es = compareFacets K i us es"
  by (induction K i us es rule: compareFacets.induct) (simp_all add: compareFacet_def)

lemma update_checks [simp]:
  "checkIdenticalBytecode (K\<lparr> k_call := f \<rparr>) = checkIdenticalBytecode K"
  "checkCorrectInitCode (K\<lparr> k_call := f \<rparr>) = checkCorrectInitCode K" "checkDeployed (K\<lparr> k_call := f \<rparr>) = checkDeployed K"
  "parseProxyData (K\<lparr> k_call := f \<rparr>) = parseProxyData K" "checkInitializeData (K\<lparr> k_call := f \<rparr>) = checkInitializeData K"
  "extractProxyInitializationData (K\<lparr> k_call := f \<rparr>) = extractProxyInitializationData K"
  by (simp_all add: extractProxyInitializationData_def checkIdenticalBytecode_def checkCorrectInitCode_def extractInitCode_def checkDeployed_def parseProxyData_def
      checkInitializeData_def checkFacetCuts_def checkInitCalldata_def fun_eq_iff)


end
