(* ===== verification/VerifyContracts.thy ===== *)
theory VerifyContracts
  imports Utils
begin

text \<open>
  \<open>scripts/verify-contracts.ts\<close>, which reruns the \<open>forge verify-contract\<close> commands of a deployment log,
  \<open>scripts/verify-on-l2-explorer.ts\<close>, which runs a fixed list of them, and the polling loop of
  \<open>scripts/verify-l2-contracts.ts\<close>.

  The parameters are the programs \<open>find\<close> and the shell, the files that exist, and the environment.  The
  state is what was printed and the commands that were run, so the shell may answer the same command
  differently later.  Lines printed on the standard output are recorded without the pictograms and without
  the note that a line is skipped; the error stream is not recorded.

  The laws: what exit code 0 shows, that the walk to the project root ends, that the API key in a printed
  command does not depend on the key, and that polling ends.
\<close>

section \<open>Text and paths\<close>

fun includesText :: "string \<Rightarrow> string \<Rightarrow> bool" where
  "includesText needle [] = (needle = [])"
| "includesText needle (c # s) = (take (length needle) (c # s) = needle \<or> includesText needle s)"

text \<open>\<open>path.dirname\<close> on POSIX: trailing slashes are ignored, index 0 is never a separator.\<close>

definition dirname :: "string \<Rightarrow> string" where
  "dirname s = (case s of [] \<Rightarrow> ''.'' | c # t \<Rightarrow>
     (case dropWhile (\<lambda>x. x \<noteq> CHR ''/'') (dropWhile (\<lambda>x. x = CHR ''/'') (rev t)) of
        [] \<Rightarrow> if c = CHR ''/'' then ''/'' else ''.''
      | _ # r \<Rightarrow> if r = [] \<and> c = CHR ''/'' then ''//'' else c # rev r))"

section \<open>The programs\<close>

record programs =
  p_find :: "string list \<Rightarrow> string option"
  p_exists :: "string \<Rightarrow> bool"
  p_shell :: "nat \<Rightarrow> string \<Rightarrow> string \<Rightarrow> bool"
  p_env :: env
  p_root :: string
  p_log :: "string \<Rightarrow> string option"

record verifyState =
  printed :: "string list"
  commands :: "(string \<times> string) list"

definition printLine :: "string \<Rightarrow> (verifyState, unit) eff" where
  "printLine l = modifyE (\<lambda>s. s\<lparr> printed := printed s @ [l] \<rparr>)"

definition exitOne :: "(verifyState, 'a) eff" where
  "exitOne = throwE (Error ''process.exit(1)'')"

text \<open>\<open>execSync(cmd, { cwd })\<close> throws when the command fails.\<close>

definition execSync :: "programs \<Rightarrow> string \<Rightarrow> string \<Rightarrow> (verifyState, bool) eff" where
  "execSync P cwd cmd = (\<lambda>s. (Inr (p_shell P (length (commands s)) cwd cmd), s\<lparr> commands := commands s @ [(cwd, cmd)] \<rparr>))"

section \<open>Finding the source file\<close>

definition ZKSYNC_VERIFIER_URLS :: "string \<Rightarrow> string option" where
  "ZKSYNC_VERIFIER_URLS = map_of [
     (''mainnet'', ''https://rpc-explorer-verify.era-gateway-mainnet.zksync.dev/contract_verification''),
     (''stage'', ''https://rpc-explorer-verify.era-gateway-stage.zksync.dev/contract_verification''),
     (''testnet'', ''https://rpc-explorer-verify.era-gateway-testnet.zksync.dev/contract_verification'')]"

definition fallbackFor :: "string \<Rightarrow> string list" where
  "fallbackFor name = (case map_of [
     (''ExecutorFacet'', [''Executor'']), (''AdminFacet'', [''Admin'']), (''MailboxFacet'', [''Mailbox'']), (''GettersFacet'', [''Getters'']),
     (''VerifierFflonk'', [''L1VerifierFflonk'', ''L2VerifierFflonk'']), (''VerifierPlonk'', [''L1VerifierPlonk'', ''L2VerifierPlonk'']),
     (''Verifier'', [''DualVerifier'', ''TestnetVerifier''])] name of None \<Rightarrow> [] | Some alts \<Rightarrow> alts)"

definition trimText :: "string \<Rightarrow> string" where
  "trimText s = rev (dropWhile isSpace (rev (dropWhile isSpace s)))"

text \<open>The first line \<open>find\<close> prints for a name, or the empty text when it fails or finds nothing.\<close>

definition findSource :: "programs \<Rightarrow> string \<Rightarrow> string" where
  "findSource P name = (case p_find P [p_root P @ ''/l1-contracts'', p_root P @ ''/da-contracts'', ''-type'', ''f'', ''-iname'', name @ ''.sol''] of
     None \<Rightarrow> [] | Some output' \<Rightarrow> trimText (hd (splitOn CHR 0x0A output')))"

fun findFallback :: "programs \<Rightarrow> string \<Rightarrow> string list \<Rightarrow> (verifyState, (string \<times> string) option) eff" where
  "findFallback P name [] = returnE None"
| "findFallback P name (alt # alts) = (let solPath = findSource P alt in
     if solPath \<noteq> [] then thenE (printLine (''Found '' @ alt @ ''.sol for '' @ name)) (returnE (Some (solPath, alt)))
     else findFallback P name alts)"

text \<open>The walk up the directory tree.  It returns nothing when it does not end.\<close>

partial_function (option) climb :: "(string \<Rightarrow> bool) \<Rightarrow> string \<Rightarrow> string \<Rightarrow> string option" where
  "climb isFile rootDir dir = (if dir \<noteq> ''.'' \<and> dir \<noteq> rootDir @ ''/l1-contracts'' \<and> dir \<noteq> rootDir @ ''/da-contracts'' \<and>
       \<not> isFile (pathJoin dir ''foundry.toml'')
     then climb isFile rootDir (dirname dir) else Some dir)"

definition projectRoot :: "programs \<Rightarrow> string \<Rightarrow> string result option" where
  "projectRoot P solPath = (case climb (p_exists P) (p_root P) (dirname solPath) of
     None \<Rightarrow> None
   | Some dir \<Rightarrow> Some (
       if p_exists P (pathJoin dir ''foundry.toml'') then Inr dir
       else if includesText ''/l1-contracts/'' solPath then Inr (pathJoin (p_root P) ''l1-contracts'')
       else if includesText ''/da-contracts/'' solPath then Inr (pathJoin (p_root P) ''da-contracts'')
       else Inl (Error (''Could not determine project root for '' @ solPath @
         ''. Expected it to be inside l1-contracts or da-contracts, but no foundry.toml found.''))))"

text \<open>A walk that does not end hangs the script; the model gives it an error of its own.\<close>

definition hangs :: jserror where
  "hangs = Error ''endless loop''"

definition findContractAndRoot :: "programs \<Rightarrow> string \<Rightarrow> (verifyState, (string \<times> string \<times> string) option) eff" where
  "findContractAndRoot P name =
     bindE (if findSource P name \<noteq> [] then returnE (Some (findSource P name, name))
            else if fallbackFor name \<noteq> [] then
              thenE (printLine (''Using fallbacks for '' @ name @ '': '' @ joinWith '', '' (fallbackFor name))) (findFallback P name (fallbackFor name))
            else returnE None) (\<lambda>found.
     case found of None \<Rightarrow> returnE None
     | Some (solPath, resolvedName) \<Rightarrow>
         bindE (case projectRoot P solPath of None \<Rightarrow> throwE hangs | Some r \<Rightarrow> liftR r) (\<lambda>dir.
           returnE (Some (solPath, dir, resolvedName))))"

section \<open>One attempt\<close>

definition API_KEY_FLAG :: string where
  "API_KEY_FLAG = ''--etherscan-api-key''"

text \<open>The regular expression \<open>/--etherscan-api-key\s+"[^"]*"/\<close> at the start of a text, and the replacement of its first
  match.\<close>

definition matchKey :: "string \<Rightarrow> string option" where
  "matchKey s = (if take (length API_KEY_FLAG) s = API_KEY_FLAG then
     (let r = drop (length API_KEY_FLAG) s; q = dropWhile isSpace r in
      if takeWhile isSpace r \<noteq> [] \<and> take 1 q = [CHR 0x22] then
        (case dropWhile (\<lambda>c. c \<noteq> CHR 0x22) (drop 1 q) of [] \<Rightarrow> None | _ # after \<Rightarrow> Some after)
      else None) else None)"

fun maskKey :: "string \<Rightarrow> string" where
  "maskKey [] = []"
| "maskKey (c # s) = (case matchKey (c # s) of Some after \<Rightarrow> API_KEY_FLAG @ '' [REDACTED]'' @ after | None \<Rightarrow> c # maskKey s)"

definition verifyPrefix :: "string \<Rightarrow> string \<Rightarrow> string \<Rightarrow> string" where
  "verifyPrefix addr name rest = ''forge verify-contract '' @ addr @ '' '' @ name @ '' '' @ rest @ '' ''"

definition zksyncCommand :: "string \<Rightarrow> string \<Rightarrow> string \<Rightarrow> string \<Rightarrow> string" where
  "zksyncCommand addr name rest url = verifyPrefix addr name rest @ ''--verifier-url '' @ url @ '' --zksync --watch''"

definition etherscanCommand :: "string \<Rightarrow> string \<Rightarrow> string \<Rightarrow> string \<Rightarrow> string \<Rightarrow> string" where
  "etherscanCommand chain addr name rest apiKey = verifyPrefix addr name rest @ API_KEY_FLAG @ '' '' @ [CHR 0x22] @ apiKey @ [CHR 0x22] @ '' '' @
     (if chain = ''mainnet'' then ''--chain mainnet'' else ''--chain sepolia'') @ '' --watch''"

definition runCommand :: "programs \<Rightarrow> string \<Rightarrow> string \<Rightarrow> (verifyState, bool) eff" where
  "runCommand P rootDir cmd = thenE (printLine (''(cd '' @ rootDir @ '' && '' @ maskKey cmd @ '')'')) (execSync P rootDir cmd)"

definition tryVerify :: "programs \<Rightarrow> string \<Rightarrow> string \<Rightarrow> string \<Rightarrow> string \<Rightarrow> string \<Rightarrow> bool \<Rightarrow> (verifyState, bool) eff" where
  "tryVerify P chain addr name rest rootDir isZksync =
     (if isZksync then (case ZKSYNC_VERIFIER_URLS chain of None \<Rightarrow> returnE False
        | Some url \<Rightarrow> runCommand P rootDir (zksyncCommand addr name rest url))
      else if \<not> truthyStr (p_env P ''ETHERSCAN_API_KEY'') then exitOne
      else runCommand P rootDir (etherscanCommand chain addr name rest (toStr (p_env P ''ETHERSCAN_API_KEY''))))"

section \<open>The log\<close>

text \<open>The regular expression \<open>/forge\s+verify-contract\s+([^\s]+)\s+([^\s]+)(.*)/\<close>: where one may start, and the first match.\<close>

definition afterWord :: "string \<Rightarrow> string \<Rightarrow> string option" where
  "afterWord word s = (if take (length word) s = word \<and> takeWhile isSpace (drop (length word) s) \<noteq> []
     then Some (dropWhile isSpace (drop (length word) s)) else None)"

definition matchHere :: "string \<Rightarrow> (string \<times> string \<times> string) option" where
  "matchHere s = (case afterWord ''forge'' s of None \<Rightarrow> None
     | Some s1 \<Rightarrow> (case afterWord ''verify-contract'' s1 of None \<Rightarrow> None
     | Some s2 \<Rightarrow> (let addr = takeWhile (\<lambda>c. \<not> isSpace c) s2; s3 = dropWhile (\<lambda>c. \<not> isSpace c) s2;
           s4 = dropWhile isSpace s3; name = takeWhile (\<lambda>c. \<not> isSpace c) s4 in
         if addr = [] \<or> s3 = [] \<or> name = [] then None
         else Some (addr, name, takeWhile (\<lambda>c. c \<noteq> CHR 0x0D) (dropWhile (\<lambda>c. \<not> isSpace c) s4)))))"

fun matchCommand :: "string \<Rightarrow> (string \<times> string \<times> string) option" where
  "matchCommand [] = None"
| "matchCommand (c # s) = (case matchHere (c # s) of Some m \<Rightarrow> Some m | None \<Rightarrow> matchCommand s)"

definition PROXY_NAME :: string where
  "PROXY_NAME = ''TransparentUpgradeableProxy''"

text \<open>The attempts for one contract: the resolved name, the name in the log when it is another one, and a
  proxy.\<close>

definition attempts :: "programs \<Rightarrow> string \<Rightarrow> string \<Rightarrow> string \<Rightarrow> string \<Rightarrow> string \<Rightarrow> string \<Rightarrow> bool \<Rightarrow> (verifyState, bool) eff" where
  "attempts P chain addr name resolvedName rest rootDir isZksync =
     bindE (tryVerify P chain addr resolvedName rest rootDir isZksync) (\<lambda>success1.
     bindE (if \<not> success1 \<and> resolvedName \<noteq> name then
              thenE (printLine (''Retry with original contract name: '' @ name)) (tryVerify P chain addr name rest rootDir isZksync)
            else returnE success1) (\<lambda>success2.
       if \<not> success2 then
         thenE (printLine ''Final attempt with TransparentUpgradeableProxy'') (tryVerify P chain addr PROXY_NAME rest rootDir isZksync)
       else returnE success2))"

text \<open>One line of the log: \<open>Inl\<close> the entry for \<open>SKIPPED\<close>, \<open>Inr\<close> the entry for \<open>VERIFIED\<close>.\<close>

definition verifyLine :: "programs \<Rightarrow> string \<Rightarrow> string \<Rightarrow> (verifyState, string + string) eff" where
  "verifyLine P chain raw = (case matchCommand raw of
     None \<Rightarrow> thenE (printLine (''Could not parse: '' @ raw)) (returnE (Inl raw))
   | Some (addr, name, rest) \<Rightarrow>
       if \<not> matchesHex 40 addr then thenE (printLine (''Parsed non-address '' @ [CHR 0x27] @ addr @ [CHR 0x27])) (returnE (Inl raw))
       else bindE (findContractAndRoot P name) (\<lambda>found. case found of
           None \<Rightarrow> thenE (printLine (''Could not find '' @ name @ ''.sol (or fallback)'')) (returnE (Inl name))
         | Some (solPath, rootDir, resolvedName) \<Rightarrow>
             thenE (printLine (resolvedName @ '' found: '' @ solPath @ '' (project root: '' @ rootDir @ '')''))
             (bindE (attempts P chain addr name resolvedName rest rootDir (includesText ''--verifier zksync'' rest)) (\<lambda>success.
                if success then returnE (Inr resolvedName)
                else thenE (printLine (''Verification failed for '' @ name)) (returnE (Inl name))))))"

definition verifiedNames :: "(string + string) list \<Rightarrow> string list" where
  "verifiedNames outcomes = map projr (filter (\<lambda>r. \<not> isl r) outcomes)"

definition skippedNames :: "(string + string) list \<Rightarrow> string list" where
  "skippedNames outcomes = map projl (filter isl outcomes)"

definition verifyContracts :: "programs \<Rightarrow> string \<Rightarrow> string option \<Rightarrow> (verifyState, unit) eff" where
  "verifyContracts P logFile chainOption =
     (let chain = map lowerChar (if truthyStr chainOption then toStr chainOption else ''stage'') in
      case p_log P logFile of None \<Rightarrow> exitOne
      | Some content \<Rightarrow>
          bindE (mapE (verifyLine P chain) (filter (includesText ''forge verify-contract'') (splitOn CHR 0x0A content))) (\<lambda>outcomes.
          thenE (printLine ''Verification Summary:'')
          (thenE (printLine (''Verified contracts: '' @ showNat (length (verifiedNames outcomes))))
          (thenE (forE (verifiedNames outcomes) (\<lambda>c. printLine (''  - '' @ c)))
            (if skippedNames outcomes \<noteq> [] then
               thenE (printLine (''Skipped/Failed: '' @ showNat (length (skippedNames outcomes))))
               (thenE (forE (skippedNames outcomes) (\<lambda>c. printLine (''  - '' @ c))) exitOne)
             else printLine ''All contracts verified successfully!'')))))"

section \<open>The explorer scripts\<close>

text \<open>\<open>spawn\<close> of \<open>scripts/utils.ts\<close> runs a command in a shell and rejects unless it exits with code 0; \<open>None\<close> is a
  command ended by a signal.\<close>

type_synonym exitCodes = "nat \<Rightarrow> string \<Rightarrow> int option"

definition spawn :: "exitCodes \<Rightarrow> string \<Rightarrow> (verifyState, unit) eff" where
  "spawn codes command = (let cmd = map (\<lambda>c. if c = CHR 0x0A then CHR '' '' else c) command in
     bindE (\<lambda>s. (Inr (codes (length (commands s)) cmd), s\<lparr> commands := commands s @ [([], cmd)] \<rparr>)) (\<lambda>code.
       if code = Some 0 then returnE ()
       else throwE (Error (''Command failed with exit code '' @ (case code of None \<Rightarrow> ''null'' | Some n \<Rightarrow> showInt n)))))"

record ContractDescription =
  address :: string
  codeName :: string
  sourcePath :: string

definition L2_CONTRACTS :: "ContractDescription list" where
  "L2_CONTRACTS = [
     \<lparr> address = ''0x0000000000000000000000000000000000010003'', codeName = ''L2AssetRouter'', sourcePath = ''contracts/bridge/asset-router/L2AssetRouter.sol'' \<rparr>,
     \<lparr> address = ''0x0000000000000000000000000000000000010004'', codeName = ''L2NativeTokenVault'', sourcePath = ''contracts/bridge/ntv/L2NativeTokenVault.sol'' \<rparr>,
     \<lparr> address = ''0x0000000000000000000000000000000000010005'', codeName = ''MessageRoot'', sourcePath = ''contracts/bridgehub/MessageRoot.sol'' \<rparr>,
     \<lparr> address = ''0x0000000000000000000000000000000000010002'', codeName = ''Bridgehub'', sourcePath = ''contracts/bridgehub/Bridgehub.sol'' \<rparr>,
     \<lparr> address = ''0x05b00ef3489E21E57b3e93a72bc9F59c57bB199b'', codeName = ''BridgedStandardERC20'', sourcePath = ''contracts/bridge/BridgedStandardERC20.sol'' \<rparr>,
     \<lparr> address = ''0x0000000000000000000000000000000000010007'', codeName = ''L2WrappedBaseToken'', sourcePath = ''contracts/bridge/L2WrappedBaseToken.sol'' \<rparr>]"

definition explorerCommand :: "env \<Rightarrow> ContractDescription \<Rightarrow> string" where
  "explorerCommand env c = ''forge verify-contract --zksync --chain zksync --watch --verifier zksync --verifier-url '' @
     toStr (env ''VERIFICATION_URL'') @ '' --constructor-args 0x '' @ address c @ '' '' @ sourcePath c @ '':'' @ codeName c"

definition verifyExplorerContract :: "exitCodes \<Rightarrow> env \<Rightarrow> ContractDescription \<Rightarrow> (verifyState, unit) eff" where
  "verifyExplorerContract codes env c =
     thenE (printLine (''Verifying '' @ codeName c @ '' on '' @ address c @ '' address..'')) (spawn codes (explorerCommand env c))"

definition verifyOnExplorer :: "exitCodes \<Rightarrow> env \<Rightarrow> (verifyState, unit) eff" where
  "verifyOnExplorer codes env = forE L2_CONTRACTS (verifyExplorerContract codes env)"

text \<open>\<open>waitForVerificationResult\<close>: the n-th answer of the service is \<open>answers n\<close>.  The result is the number of
  queries made before it ended.\<close>

datatype status = Successful | Failed string | Pending

function waitForVerificationResult :: "(nat \<Rightarrow> status result) \<Rightarrow> nat \<Rightarrow> unit result \<times> nat" where
  "waitForVerificationResult answers retries =
     (if retries > 500 then (Inl (Error ''Too many retries''), retries)
      else case answers retries of
        Inl e \<Rightarrow> (Inl e, Suc retries)
      | Inr Successful \<Rightarrow> (Inr (), Suc retries)
      | Inr (Failed msg) \<Rightarrow> (Inl (Error msg), Suc retries)
      | Inr Pending \<Rightarrow> waitForVerificationResult answers (Suc retries))"
  by pat_completeness auto
termination
  by (relation "measure (\<lambda>(answers, retries). 501 - retries)") auto

declare waitForVerificationResult.simps [simp del]

section \<open>The walk to the project root\<close>

definition component :: "string \<Rightarrow> bool" where
  "component c \<longleftrightarrow> c \<noteq> [] \<and> CHR ''/'' \<notin> set c"

definition below :: "string list \<Rightarrow> string" where
  "below cs = concat (map (\<lambda>c. CHR ''/'' # c) cs)"

lemma dropWhile_component: "component c \<Longrightarrow> dropWhile (\<lambda>x. x \<noteq> CHR ''/'') (dropWhile (\<lambda>x. x = CHR ''/'') (rev c @ CHR ''/'' # r)) = CHR ''/'' # r"
proof -
  assume c: "component c"
  hence "rev c \<noteq> []" "CHR ''/'' \<notin> set (rev c)" by (simp_all add: component_def)
  hence "dropWhile (\<lambda>x. x = CHR ''/'') (rev c @ CHR ''/'' # r) = rev c @ CHR ''/'' # r" by (cases "rev c") auto
  moreover have "dropWhile (\<lambda>x. x \<noteq> CHR ''/'') (rev c @ CHR ''/'' # r) = CHR ''/'' # r"
    using c by (subst dropWhile_append2) (auto simp: component_def)
  ultimately show ?thesis by simp
qed

lemma dirname_component: "component c \<Longrightarrow> length p > 1 \<Longrightarrow> dirname (p @ CHR ''/'' # c) = p"
  by (cases p) (auto simp: dirname_def dropWhile_component split: list.splits)

lemma below_snoc: "below (cs @ [c]) = below cs @ CHR ''/'' # c"
  by (simp add: below_def)

text \<open>From a directory below a start directory the walk ends there or at a directory with a project file.\<close>

lemma climb_below:
  assumes "start \<in> {rootDir @ ''/l1-contracts'', rootDir @ ''/da-contracts''}" "list_all component cs"
  shows "\<exists>ks ls. cs = ks @ ls \<and> climb isFile rootDir (start @ below cs) = Some (start @ below ks) \<and>
    (ks = [] \<or> isFile (pathJoin (start @ below ks) ''foundry.toml''))"
  using assms(2)
proof (induction cs rule: rev_induct)
  case Nil
  have "climb isFile rootDir start = Some start" using assms(1) by (subst climb.simps) auto
  thus ?case by (simp add: below_def)
next
  case (snoc c cs)
  have len: "length (start @ below cs) > 1" using assms(1) by auto
  have up: "dirname (start @ below (cs @ [c])) = start @ below cs"
    using dirname_component [OF _ len, of c] snoc.prems by (simp add: below_snoc)
  have unfold: "climb isFile rootDir (start @ below (cs @ [c])) =
    (if start @ below (cs @ [c]) \<noteq> ''.'' \<and> start @ below (cs @ [c]) \<noteq> rootDir @ ''/l1-contracts'' \<and> start @ below (cs @ [c]) \<noteq> rootDir @ ''/da-contracts'' \<and>
       \<not> isFile (pathJoin (start @ below (cs @ [c])) ''foundry.toml'') then climb isFile rootDir (start @ below cs) else Some (start @ below (cs @ [c])))"
    by (subst climb.simps) (simp add: up)
  have "length start = length rootDir + 13" using assms(1) by auto
  hence neq: "start @ below (cs @ [c]) \<notin> {''.'', rootDir @ ''/l1-contracts'', rootDir @ ''/da-contracts''}"
    by (auto simp: below_snoc dest: arg_cong [where f = length])
  show ?case
  proof (cases "isFile (pathJoin (start @ below (cs @ [c])) ''foundry.toml'')")
    case True
    thus ?thesis using unfold by (intro exI [of _ "cs @ [c]"] exI [of _ "[]"]) simp
  next
    case False
    from snoc obtain ks ls where k: "cs = ks @ ls" "climb isFile rootDir (start @ below cs) = Some (start @ below ks)"
      "ks = [] \<or> isFile (pathJoin (start @ below ks) ''foundry.toml'')" by auto
    show ?thesis using False unfold neq k by (intro exI [of _ ks] exI [of _ "ls @ [c]"]) simp
  qed
qed

text \<open>What \<open>find\<close> documents: the first line it prints is empty, or a path below one of its starting points.\<close>

definition findDocumented :: "programs \<Rightarrow> bool" where
  "findDocumented P \<longleftrightarrow> (\<forall>name. findSource P name = [] \<or>
     (\<exists>start cs. start \<in> {p_root P @ ''/l1-contracts'', p_root P @ ''/da-contracts''} \<and> cs \<noteq> [] \<and> list_all component cs \<and>
        findSource P name = start @ below cs))"

lemma includesText_prefix: "includesText n (n @ b)"
proof (cases "n @ b")
  case (Cons c s)
  have "take (length n) (n @ b) = n" by simp
  thus ?thesis unfolding Cons by simp
qed simp

lemma includesText_append: "includesText n (a @ n @ b)"
  by (induction a) (simp_all add: includesText_prefix)

text \<open>A found file has a project root: a directory above it with a project file, or a start directory.\<close>

lemma projectRoot_below:
  assumes start: "start = p_root P @ d" "d \<in> {''/l1-contracts'', ''/da-contracts''}" and cs: "cs \<noteq> []" "list_all component cs"
    and r: "p_root P \<noteq> []" "last (p_root P) \<noteq> CHR ''/''"
  shows "\<exists>dir. projectRoot P (start @ below cs) = Some (Inr dir) \<and> (dir \<in> {p_root P @ ''/l1-contracts'', p_root P @ ''/da-contracts''} \<or>
    (\<exists>ks ls. cs = ks @ ls \<and> ls \<noteq> [] \<and> dir = start @ below ks \<and> p_exists P (pathJoin dir ''foundry.toml'')))"
proof -
  obtain cs' c where c: "cs = cs' @ [c]" using cs(1) by (cases cs rule: rev_cases) auto
  have "length (start @ below cs') > 1" using start by auto
  hence up: "dirname (start @ below cs) = start @ below cs'"
    using dirname_component [of c "start @ below cs'"] cs(2) by (simp add: c below_snoc)
  obtain ks ls where k: "cs' = ks @ ls" "climb (p_exists P) (p_root P) (start @ below cs') = Some (start @ below ks)"
    "ks = [] \<or> p_exists P (pathJoin (start @ below ks) ''foundry.toml'')"
    using climb_below [of start "p_root P" cs' "p_exists P"] start cs(2) c by auto
  have inc: "includesText (d @ ''/'') (start @ below cs)"
    using includesText_append [of "d @ ''/''" "p_root P" "hd cs @ below (tl cs)"] cs(1) by (cases cs) (simp_all add: start(1) below_def)
  show ?thesis
  proof (cases "p_exists P (pathJoin (start @ below ks) ''foundry.toml'')")
    case True
    thus ?thesis using k up by (intro exI [of _ "start @ below ks"]) (auto simp: projectRoot_def c)
  next
    case False
    thus ?thesis using k up inc start(2) r by (auto simp: projectRoot_def pathJoin_def below_def)
  qed
qed

lemma findFallback_result:
  "\<exists>r s'. findFallback P name alts s = (Inr r, s') \<and>
     (case r of None \<Rightarrow> \<forall>n\<in>set alts. findSource P n = [] | Some (sol, n) \<Rightarrow> n \<in> set alts \<and> sol = findSource P n \<and> sol \<noteq> [])"
proof (induction alts arbitrary: s)
  case (Cons a alts)
  show ?case
  proof (cases "findSource P a = []")
    case True
    obtain r s' where "findFallback P name alts s = (Inr r, s')"
      "case r of None \<Rightarrow> \<forall>n\<in>set alts. findSource P n = [] | Some (sol, n) \<Rightarrow> n \<in> set alts \<and> sol = findSource P n \<and> sol \<noteq> []"
      using Cons.IH by blast
    thus ?thesis using True by (intro exI [of _ r] exI [of _ s']) (auto simp: Let_def split: option.splits)
  qed (auto simp: Let_def eff_simps thenE_def bindE_apply printLine_def)
qed (simp add: eff_simps)

lemma findContract_source:
  "\<exists>r s'. (if findSource P name \<noteq> [] then returnE (Some (findSource P name, name))
       else if fallbackFor name \<noteq> [] then
         thenE (printLine (''Using fallbacks for '' @ name @ '': '' @ joinWith '', '' (fallbackFor name))) (findFallback P name (fallbackFor name))
       else returnE None) s = (Inr r, s') \<and>
     (case r of None \<Rightarrow> \<forall>n\<in>set (name # fallbackFor name). findSource P n = []
      | Some (sol, n) \<Rightarrow> n \<in> set (name # fallbackFor name) \<and> sol = findSource P n \<and> sol \<noteq> [])"
proof (cases "findSource P name = [] \<and> fallbackFor name \<noteq> []")
  case True
  obtain r s' where "findFallback P name (fallbackFor name)
      (s\<lparr> printed := printed s @ [''Using fallbacks for '' @ name @ '': '' @ joinWith '', '' (fallbackFor name)] \<rparr>) = (Inr r, s')"
    "case r of None \<Rightarrow> \<forall>n\<in>set (fallbackFor name). findSource P n = [] | Some (sol, n) \<Rightarrow> n \<in> set (fallbackFor name) \<and> sol = findSource P n \<and> sol \<noteq> []"
    using findFallback_result by blast
  thus ?thesis using True by (intro exI [of _ r] exI [of _ s']) (auto simp: eff_simps thenE_def bindE_apply printLine_def split: option.splits)
qed (auto simp: eff_simps)


section \<open>The API key in the output\<close>

lemma includesText_drop: "take (length n) (drop i s) = n \<Longrightarrow> n \<noteq> [] \<Longrightarrow> includesText n s"
proof (induction s arbitrary: i)
  case (Cons c s)
  show ?case
  proof (cases i)
    case 0
    thus ?thesis using Cons.prems by simp
  next
    case (Suc j)
    thus ?thesis using Cons.IH [of j] Cons.prems by simp
  qed
qed simp

text \<open>A flag without blanks does not start inside a text that ends with a blank and does not contain it.\<close>

lemma flag_after_blank:
  assumes "\<not> includesText n pre" "CHR '' '' \<notin> set n" "n \<noteq> []" "i < length pre" "last pre = CHR '' ''"
  shows "take (length n) (drop i (pre @ t)) \<noteq> n"
proof
  assume m: "take (length n) (drop i (pre @ t)) = n"
  show False
  proof (cases "i + length n \<le> length pre")
    case True
    hence "take (length n) (drop i pre) = n" using m assms(4) by simp
    thus False using includesText_drop assms(1,3) by blast
  next
    case False
    let ?k = "length pre - 1 - i"
    have k: "?k < length n" "i + ?k = length pre - 1" using False assms(4) by auto
    have "n ! ?k = take (length n) (drop i (pre @ t)) ! ?k" by (simp only: m)
    also have "\<dots> = drop i (pre @ t) ! ?k" using k(1) by (rule nth_take)
    also have "\<dots> = (pre @ t) ! (i + ?k)" using assms(4) by (intro nth_drop) simp
    also have "\<dots> = last pre" using k(2) assms(4) by (cases pre rule: rev_cases) (simp_all add: nth_append)
    finally show False using assms(2,5) k(1) nth_mem by fastforce
  qed
qed

lemma maskKey_skip:
  assumes "\<And>i. i < length pre \<Longrightarrow> matchKey (drop i (pre @ t)) = None"
  shows "maskKey (pre @ t) = pre @ maskKey t"
  using assms
proof (induction pre)
  case (Cons c pre)
  have "matchKey (c # pre @ t) = None" using Cons.prems [of 0] by simp
  moreover have "maskKey (pre @ t) = pre @ maskKey t"
  proof (rule Cons.IH)
    fix i assume "i < length pre"
    thus "matchKey (drop i (pre @ t)) = None" using Cons.prems [of "Suc i"] by simp
  qed
  ultimately show ?case by simp
qed simp

lemma matchKey_quoted:
  "CHR 0x22 \<notin> set k \<Longrightarrow> matchKey (API_KEY_FLAG @ '' '' @ [CHR 0x22] @ k @ [CHR 0x22] @ after) = Some after"
proof -
  assume "CHR 0x22 \<notin> set k"
  hence "dropWhile (\<lambda>c. c \<noteq> CHR 0x22) k = []" by (auto simp: dropWhile_eq_Nil_conv)
  thus ?thesis by (simp add: matchKey_def API_KEY_FLAG_def isSpace_def Let_def dropWhile_append3)
qed

lemma maskKey_command:
  assumes "\<not> includesText API_KEY_FLAG (verifyPrefix addr name rest)" "CHR 0x22 \<notin> set apiKey"
  shows "maskKey (verifyPrefix addr name rest @ API_KEY_FLAG @ '' '' @ [CHR 0x22] @ apiKey @ [CHR 0x22] @ after) =
    verifyPrefix addr name rest @ API_KEY_FLAG @ '' [REDACTED]'' @ after"
proof -
  let ?t = "API_KEY_FLAG @ '' '' @ [CHR 0x22] @ apiKey @ [CHR 0x22] @ after"
  have flag: "CHR '' '' \<notin> set API_KEY_FLAG" "API_KEY_FLAG \<noteq> []" by (simp_all add: API_KEY_FLAG_def)
  have blank: "last (verifyPrefix addr name rest) = CHR '' ''" by (simp add: verifyPrefix_def)
  have "maskKey (verifyPrefix addr name rest @ ?t) = verifyPrefix addr name rest @ maskKey ?t"
  proof (rule maskKey_skip)
    fix i assume "i < length (verifyPrefix addr name rest)"
    thus "matchKey (drop i (verifyPrefix addr name rest @ ?t)) = None"
      using flag_after_blank [OF assms(1) flag _ blank] by (simp add: matchKey_def)
  qed
  moreover have "maskKey ?t = API_KEY_FLAG @ '' [REDACTED]'' @ after"
    using matchKey_quoted [OF assms(2), of after] by (cases ?t) (auto simp: API_KEY_FLAG_def)
  ultimately show ?thesis by (simp only:)
qed

text \<open>C17: the API key is not printed.  When the log line itself has no \<open>--etherscan-api-key\<close> and the key has no
  quotation mark, one attempt prints one line, which is the same for every key, and runs the command with the
  key in it.\<close>

theorem api_key_hidden:
  assumes "p_env P ''ETHERSCAN_API_KEY'' = Some apiKey" "apiKey \<noteq> []" "CHR 0x22 \<notin> set apiKey"
    "\<not> includesText API_KEY_FLAG (verifyPrefix addr name rest)"
  shows "\<exists>ok s'. tryVerify P chain addr name rest dir False s = (Inr ok, s') \<and>
    commands s' = commands s @ [(dir, etherscanCommand chain addr name rest apiKey)] \<and>
    printed s' = printed s @ [''(cd '' @ dir @ '' && '' @ verifyPrefix addr name rest @ ''--etherscan-api-key [REDACTED] '' @
      (if chain = ''mainnet'' then ''--chain mainnet'' else ''--chain sepolia'') @ '' --watch)'']"
proof -
  let ?after = "'' '' @ (if chain = ''mainnet'' then ''--chain mainnet'' else ''--chain sepolia'') @ '' --watch''"
  have m: "maskKey (etherscanCommand chain addr name rest apiKey) = verifyPrefix addr name rest @ API_KEY_FLAG @ '' [REDACTED]'' @ ?after"
    using maskKey_command [OF assms(4,3), of ?after] by (simp only: etherscanCommand_def append_assoc)
  have "tryVerify P chain addr name rest dir False = runCommand P dir (etherscanCommand chain addr name rest apiKey)"
    using assms(1,2) by (simp add: tryVerify_def truthyStr_def toStr_def)
  thus ?thesis by (simp add: runCommand_def m thenE_def bindE_apply eff_simps printLine_def execSync_def API_KEY_FLAG_def)
qed

section \<open>Exit code 0\<close>

definition grew :: "verifyState \<Rightarrow> verifyState \<Rightarrow> bool" where
  "grew s s' \<longleftrightarrow> (\<exists>cs. commands s' = commands s @ cs)"

interpretation grew: world_order grew
proof
  fix u v w :: verifyState
  show "grew w w" by (simp add: grew_def)
  show "grew u v \<Longrightarrow> grew v w \<Longrightarrow> grew u w" by (auto simp: grew_def)
qed

lemma grew_print [keeps_intros]: "keeps grew (printLine l)"
  by (simp add: printLine_def grew.keeps_modify grew_def)

lemma grew_exec [keeps_intros]: "keeps grew (execSync P d c)"
  by (auto simp: keeps_def execSync_def grew_def)

lemma grew_try [keeps_intros]: "keeps grew (tryVerify P chain addr name rest dir zk)"
  by (auto simp: tryVerify_def runCommand_def exitOne_def intro!: keeps_intros split: option.splits)

lemma grew_fallback [keeps_intros]: "keeps grew (findFallback P name alts)"
  by (induction alts) (auto simp: Let_def intro!: keeps_intros)

lemma grew_find [keeps_intros]: "keeps grew (findContractAndRoot P name)"
  by (auto simp: findContractAndRoot_def intro!: keeps_intros split: option.splits prod.splits)

lemma grew_attempts [keeps_intros]: "keeps grew (attempts P chain addr name n rest dir zk)"
  by (auto simp: attempts_def intro!: keeps_intros)

lemma grew_line [keeps_intros]: "keeps grew (verifyLine P chain raw)"
  by (auto simp: verifyLine_def intro!: keeps_intros split: option.splits prod.splits)

text \<open>A verification command for an address and a contract name that ran at position \<open>lo\<close> or later and succeeded.\<close>

definition verified :: "programs \<Rightarrow> nat \<Rightarrow> verifyState \<Rightarrow> string \<Rightarrow> string \<Rightarrow> string \<Rightarrow> bool" where
  "verified P lo s addr n rest \<longleftrightarrow> (\<exists>i dir cmd. lo \<le> i \<and> i < length (commands s) \<and> commands s ! i = (dir, cmd) \<and> p_shell P i dir cmd \<and>
     (\<exists>t. cmd = verifyPrefix addr n rest @ t))"

lemma verified_mono:
  assumes "verified P lo s addr n rest" "grew s s'" "lo' \<le> lo"
  shows "verified P lo' s' addr n rest"
proof -
  obtain i dir cmd t cs where "lo \<le> i" "i < length (commands s)" "commands s ! i = (dir, cmd)" "p_shell P i dir cmd"
    "cmd = verifyPrefix addr n rest @ t" "commands s' = commands s @ cs"
    using assms(1,2) by (auto simp: verified_def grew_def)
  thus ?thesis using assms(3) unfolding verified_def
    by (intro exI [of _ i] exI [of _ dir] exI [of _ cmd]) (auto simp: nth_append)
qed

lemma grew_length: "grew s s' \<Longrightarrow> length (commands s) \<le> length (commands s')"
  by (auto simp: grew_def)

text \<open>A step that only reports success after a successful command for one of the names.\<close>

definition truthful :: "programs \<Rightarrow> string \<Rightarrow> string \<Rightarrow> string set \<Rightarrow> (verifyState, bool) eff \<Rightarrow> bool" where
  "truthful P addr rest N m \<longleftrightarrow> keeps grew m \<and>
     (\<forall>s s'. m s = (Inr True, s') \<longrightarrow> (\<exists>n\<in>N. verified P (length (commands s)) s' addr n rest))"

lemma runCommand_true:
  "runCommand P dir (verifyPrefix addr n rest @ t) s = (Inr True, s') \<Longrightarrow> verified P (length (commands s)) s' addr n rest"
  unfolding verified_def
  by (rule exI [of _ "length (commands s)"]) (auto simp: runCommand_def thenE_def bindE_apply eff_simps printLine_def execSync_def)

lemma tryVerify_true: "tryVerify P chain addr n rest dir zk s = (Inr True, s') \<Longrightarrow> verified P (length (commands s)) s' addr n rest"
  unfolding tryVerify_def zksyncCommand_def etherscanCommand_def exitOne_def
  by (erule if_split_asm [THEN iffD1, elim_format]) (auto simp: eff_simps split: option.splits if_splits intro: runCommand_true)

lemma truthful_try: "n \<in> N \<Longrightarrow> truthful P addr rest N (tryVerify P chain addr n rest dir zk)"
  unfolding truthful_def using grew_try tryVerify_true by blast

lemma truthful_then:
  assumes "keeps grew k" "truthful P addr rest N m"
  shows "truthful P addr rest N (thenE k m)"
proof -
  have "\<exists>n\<in>N. verified P (length (commands s)) s' addr n rest" if run: "thenE k m s = (Inr True, s')" for s s'
  proof -
    obtain a t where t: "k s = (Inr a, t)" "m t = (Inr True, s')" using run by (auto simp: thenE_Inr_iff)
    then obtain n where "n \<in> N" "verified P (length (commands t)) s' addr n rest" using assms(2) by (auto simp: truthful_def)
    thus ?thesis using verified_mono [OF _ grew.R_refl grew_length [OF keepsD [OF assms(1) t(1)]]] by blast
  qed
  thus ?thesis using assms by (simp add: truthful_def grew.keeps_then)
qed

lemma truthful_orElse:
  assumes "truthful P addr rest N m" "truthful P addr rest N k"
  shows "truthful P addr rest N (bindE m (\<lambda>b. if \<not> b \<and> c then k else returnE b))"
proof -
  have "\<exists>n\<in>N. verified P (length (commands s)) s' addr n rest"
    if run: "bindE m (\<lambda>b. if \<not> b \<and> c then k else returnE b) s = (Inr True, s')" for s s'
  proof -
    obtain b t where t: "m s = (Inr b, t)" "(if \<not> b \<and> c then k else returnE b) t = (Inr True, s')" using run by (auto simp: bindE_Inr_iff)
    show ?thesis
    proof (cases b)
      case True
      thus ?thesis using t assms(1) by (auto simp: truthful_def eff_simps)
    next
      case False
      hence "k t = (Inr True, s')" using t(2) by (cases c) (simp_all add: eff_simps)
      then obtain n where "n \<in> N" "verified P (length (commands t)) s' addr n rest" using assms(2) by (auto simp: truthful_def)
      moreover have "grew s t" using t(1) assms(1) by (auto simp: truthful_def intro: keepsD)
      ultimately show ?thesis using verified_mono [OF _ grew.R_refl grew_length] by blast
    qed
  qed
  thus ?thesis using assms by (auto simp: truthful_def intro!: keeps_intros)
qed

lemma truthful_attempts: "truthful P addr rest {resolved, name, PROXY_NAME} (attempts P chain addr name resolved rest dir zk)"
proof -
  let ?N = "{resolved, name, PROXY_NAME}"
  have "truthful P addr rest ?N (bindE (bindE (tryVerify P chain addr resolved rest dir zk) (\<lambda>b. if \<not> b \<and> resolved \<noteq> name then
      thenE (printLine (''Retry with original contract name: '' @ name)) (tryVerify P chain addr name rest dir zk) else returnE b))
      (\<lambda>b. if \<not> b \<and> True then thenE (printLine ''Final attempt with TransparentUpgradeableProxy'') (tryVerify P chain addr PROXY_NAME rest dir zk)
         else returnE b))"
    by (intro truthful_orElse truthful_then truthful_try grew_print) simp_all
  thus ?thesis by (simp add: attempts_def bindE_assoc)
qed

lemma findContract_name:
  assumes "findContractAndRoot P name s = (Inr (Some (sol, dir, n)), s')"
  shows "n \<in> set (name # fallbackFor name)"
proof -
  obtain f s1 where f: "(if findSource P name \<noteq> [] then returnE (Some (findSource P name, name))
       else if fallbackFor name \<noteq> [] then
         thenE (printLine (''Using fallbacks for '' @ name @ '': '' @ joinWith '', '' (fallbackFor name))) (findFallback P name (fallbackFor name))
       else returnE None) s = (Inr f, s1)" and ok: "case f of None \<Rightarrow> \<forall>n\<in>set (name # fallbackFor name). findSource P n = []
      | Some (sol, n) \<Rightarrow> n \<in> set (name # fallbackFor name) \<and> sol = findSource P n \<and> sol \<noteq> []"
    using findContract_source by blast
  show ?thesis
  proof (cases f)
    case None
    thus ?thesis using assms f by (simp add: findContractAndRoot_def bindE_apply eff_simps)
  next
    case (Some x)
    thus ?thesis using assms f ok
      by (cases x) (auto simp: findContractAndRoot_def bindE_apply eff_simps liftR_def split: option.splits sum.splits)
  qed
qed

definition lineVerified :: "programs \<Rightarrow> nat \<Rightarrow> verifyState \<Rightarrow> string \<Rightarrow> bool" where
  "lineVerified P lo s raw \<longleftrightarrow> (\<exists>addr name rest n. matchCommand raw = Some (addr, name, rest) \<and> matchesHex 40 addr \<and>
     n \<in> {PROXY_NAME} \<union> set (name # fallbackFor name) \<and> verified P lo s addr n rest)"

lemma lineVerified_mono: "lineVerified P lo s raw \<Longrightarrow> grew s s' \<Longrightarrow> lo' \<le> lo \<Longrightarrow> lineVerified P lo' s' raw"
  unfolding lineVerified_def by (meson verified_mono)

lemma verifyLine_verified:
  assumes "verifyLine P chain raw s = (Inr (Inr nm), s')"
  shows "lineVerified P (length (commands s)) s' raw"
proof -
  obtain addr name rest where m: "matchCommand raw = Some (addr, name, rest)"
    using assms by (cases "matchCommand raw") (auto simp: verifyLine_def thenE_Inr_iff eff_simps)
  have a: "matchesHex 40 addr" using assms by (auto simp: verifyLine_def m thenE_Inr_iff eff_simps split: if_splits)
  obtain found s1 where f: "findContractAndRoot P name s = (Inr found, s1)"
    using assms by (auto simp: verifyLine_def m a bindE_Inr_iff)
  obtain sol dir n where n: "found = Some (sol, dir, n)"
    using assms by (cases found) (auto simp: verifyLine_def m a bindE_apply f thenE_Inr_iff eff_simps)
  let ?zk = "includesText ''--verifier zksync'' rest"
  have "thenE (printLine (n @ '' found: '' @ sol @ '' (project root: '' @ dir @ '')'')) (bindE (attempts P chain addr name n rest dir ?zk)
      (\<lambda>success. if success then returnE (Inr n) else thenE (printLine (''Verification failed for '' @ name)) (returnE (Inl name)))) s1 = (Inr (Inr nm), s')"
    using assms by (simp add: verifyLine_def m a bindE_Inr [of "findContractAndRoot P name", OF f] n)
  then obtain u s2 b s3 where "printLine (n @ '' found: '' @ sol @ '' (project root: '' @ dir @ '')'') s1 = (Inr u, s2)"
    and s2: "attempts P chain addr name n rest dir ?zk s2 = (Inr b, s3)"
    and s3: "(if b then returnE (Inr n) else thenE (printLine (''Verification failed for '' @ name)) (returnE (Inl name))) s3 = (Inr (Inr nm), s')"
    unfolding thenE_Inr_iff bindE_Inr_iff by blast
  hence g: "grew s1 s2" using keepsD [OF grew_print] by blast
  have b: "b" "s3 = s'" using s3 by (cases b; simp add: thenE_Inr_iff eff_simps)+
  have "attempts P chain addr name n rest dir ?zk s2 = (Inr True, s')" using s2 b by simp
  then obtain k where k: "k \<in> {n, name, PROXY_NAME}" "verified P (length (commands s2)) s' addr k rest"
    using truthful_attempts [of P addr rest n name chain dir ?zk] unfolding truthful_def by (meson bexE)
  have "length (commands s) \<le> length (commands s2)"
    using grew_length [OF grew.R_trans [OF keepsD [OF grew_find f] g]] .
  hence v: "verified P (length (commands s)) s' addr k rest" by (rule verified_mono [OF k(2) grew.R_refl])
  have "n \<in> set (name # fallbackFor name)" using f unfolding n by (rule findContract_name)
  hence "k \<in> {PROXY_NAME} \<union> set (name # fallbackFor name)" using k(1) by auto
  thus ?thesis unfolding lineVerified_def using m a v by (intro exI conjI)
qed

lemma verifyLines_verified:
  "mapE (verifyLine P chain) raws s = (Inr outcomes, s') \<Longrightarrow> skippedNames outcomes = [] \<Longrightarrow>
   \<forall>raw\<in>set raws. lineVerified P (length (commands s)) s' raw"
proof (induction raws arbitrary: s outcomes)
  case (Cons raw raws)
  obtain r s1 rs where r: "verifyLine P chain raw s = (Inr r, s1)" "mapE (verifyLine P chain) raws s1 = (Inr rs, s')" "outcomes = r # rs"
    using Cons.prems(1) by (auto simp: bindE_Inr_iff eff_simps)
  have sk: "\<not> isl r" "skippedNames rs = []" using Cons.prems(2) r(3) by (auto simp: skippedNames_def filter_empty_conv split: if_splits)
  have g: "grew s s1" "grew s1 s'" using keepsD [OF grew_line r(1)] keepsD [OF grew.keeps_mapE [OF grew_line] r(2)] .
  obtain nm where "r = Inr nm" using sk(1) by (cases r) auto
  hence "lineVerified P (length (commands s)) s' raw" using verifyLine_verified r(1) lineVerified_mono g(2) by blast
  moreover have "lineVerified P (length (commands s)) s' raw'" if "raw' \<in> set raws" for raw'
    using Cons.IH [OF r(2) sk(2)] that lineVerified_mono [OF _ grew.R_refl grew_length [OF g(1)]] by blast
  ultimately show ?case by simp
qed simp

text \<open>C16: what exit code 0 shows.  The log exists, and for every line of it with \<open>forge verify-contract\<close> an address
  and a contract name were parsed, and during the run a command verifying that address succeeded, under the
  name in the log, one of its fallback names or the name of the proxy.\<close>

theorem verify_contracts_exit_zero:
  assumes "verifyContracts P logFile chainOption s = (Inr (), s')"
  shows "\<exists>content. p_log P logFile = Some content \<and>
    (\<forall>raw\<in>set (splitOn CHR 0x0A content). includesText ''forge verify-contract'' raw \<longrightarrow> lineVerified P (length (commands s)) s' raw)"
proof -
  obtain content where c: "p_log P logFile = Some content"
    using assms by (cases "p_log P logFile") (auto simp: verifyContracts_def Let_def exitOne_def eff_simps)
  let ?chain = "map lowerChar (if truthyStr chainOption then toStr chainOption else ''stage'')"
  let ?lines = "filter (includesText ''forge verify-contract'') (splitOn CHR 0x0A content)"
  let ?tail = "\<lambda>outcomes. thenE (printLine ''Verification Summary:'')
          (thenE (printLine (''Verified contracts: '' @ showNat (length (verifiedNames outcomes))))
          (thenE (forE (verifiedNames outcomes) (\<lambda>c. printLine (''  - '' @ c)))
            (if skippedNames outcomes \<noteq> [] then
               thenE (printLine (''Skipped/Failed: '' @ showNat (length (skippedNames outcomes))))
               (thenE (forE (skippedNames outcomes) (\<lambda>c. printLine (''  - '' @ c))) exitOne)
             else printLine ''All contracts verified successfully!'')))"
  obtain outcomes s1 where run: "mapE (verifyLine P ?chain) ?lines s = (Inr outcomes, s1)" "?tail outcomes s1 = (Inr (), s')"
    using assms unfolding verifyContracts_def Let_def c option.case bindE_Inr_iff by blast
  have "skippedNames outcomes = []"
  proof (rule ccontr)
    assume "skippedNames outcomes \<noteq> []"
    thus False using run(2) by (simp add: thenE_Inr_iff exitOne_def throwE_def)
  qed
  moreover have "keeps grew (?tail outcomes)" by (auto simp: exitOne_def intro!: keeps_intros)
  hence "grew s1 s'" using run(2) by (rule keepsD)
  ultimately show ?thesis using c verifyLines_verified [OF run(1)] lineVerified_mono [OF _ \<open>grew s1 s'\<close> order_refl] by auto
qed

text \<open>\<open>find\<close> fails when a starting point does not exist.  Without a directory \<open>da-contracts\<close> no source file is ever
  found, and a log with a command in it never ends with exit code 0.\<close>

lemma findSource_without_da:
  "(\<And>args. p_root P @ ''/da-contracts'' \<in> set args \<Longrightarrow> p_find P args = None) \<Longrightarrow> findSource P name = []"
  by (simp add: findSource_def)

lemma findFallback_nothing: "(\<And>n. findSource P n = []) \<Longrightarrow> findFallback P name alts = returnE None"
  by (induction alts) (simp_all add: Let_def)

lemma findContract_nothing:
  assumes "\<And>n. findSource P n = []"
  shows "\<exists>s'. findContractAndRoot P name s = (Inr None, s')"
  by (simp add: findContractAndRoot_def assms findFallback_nothing bindE_apply thenE_def eff_simps printLine_def)

lemma verifyLine_nothing:
  assumes "\<And>n. findSource P n = []" "verifyLine P chain raw s = (Inr r, s')"
  shows "isl r"
proof (cases "matchCommand raw")
  case None
  thus ?thesis using assms(2) by (auto simp: verifyLine_def thenE_Inr_iff eff_simps)
next
  case (Some m)
  obtain addr name rest where m: "m = (addr, name, rest)" by (cases m)
  obtain s1 where "findContractAndRoot P name s = (Inr None, s1)" using findContract_nothing [OF assms(1)] by blast
  thus ?thesis using assms(2) Some m by (auto simp: verifyLine_def thenE_Inr_iff bindE_apply eff_simps split: if_splits)
qed

lemma verifyLines_nothing:
  assumes "\<And>n. findSource P n = []"
  shows "mapE (verifyLine P chain) raws s = (Inr outcomes, s') \<Longrightarrow> list_all isl outcomes \<and> length outcomes = length raws"
proof (induction raws arbitrary: s outcomes)
  case (Cons a raws)
  then obtain r t rs where "verifyLine P chain a s = (Inr r, t)" "mapE (verifyLine P chain) raws t = (Inr rs, s')" "outcomes = r # rs"
    by (auto simp: bindE_Inr_iff eff_simps)
  thus ?case using Cons.IH verifyLine_nothing [OF assms] by simp
qed (simp add: eff_simps)

lemma verify_without_da:
  assumes "\<And>args. p_root P @ ''/da-contracts'' \<in> set args \<Longrightarrow> p_find P args = None"
    and "p_log P logFile = Some content" "raw \<in> set (splitOn CHR 0x0A content)" "includesText ''forge verify-contract'' raw"
  shows "verifyContracts P logFile chainOption s \<noteq> (Inr (), s')"
proof
  assume run: "verifyContracts P logFile chainOption s = (Inr (), s')"
  let ?chain = "map lowerChar (if truthyStr chainOption then toStr chainOption else ''stage'')"
  let ?lines = "filter (includesText ''forge verify-contract'') (splitOn CHR 0x0A content)"
  obtain outcomes s1 where o: "mapE (verifyLine P ?chain) ?lines s = (Inr outcomes, s1)" "skippedNames outcomes = []"
    using run assms(2) by (auto simp: verifyContracts_def Let_def bindE_Inr_iff thenE_Inr_iff exitOne_def throwE_def split: if_splits)
  have "?lines \<noteq> []" using assms(3,4) by (auto simp: filter_empty_conv)
  thus False using verifyLines_nothing [OF findSource_without_da [OF assms(1)] o(1)] o(2)
    by (cases outcomes) (auto simp: skippedNames_def)
qed

text \<open>Polling ends after at most 501 queries, and succeeds exactly when a success is reported by then.\<close>

lemma polling_from:
  "m \<le> 501 \<Longrightarrow> snd (waitForVerificationResult answers m) \<le> 501 \<and> (fst (waitForVerificationResult answers m) = Inr () \<longleftrightarrow>
     (\<exists>k\<ge>m. k \<le> 500 \<and> answers k = Inr Successful \<and> (\<forall>j. m \<le> j \<and> j < k \<longrightarrow> answers j = Inr Pending)))"
proof (induction answers m rule: waitForVerificationResult.induct)
  case (1 answers m)
  show ?case
  proof (cases "m = 501")
    case True
    thus ?thesis by (subst (1 2) waitForVerificationResult.simps) simp
  next
    case False
    hence m: "m \<le> 500" using 1(2) by simp
    show ?thesis
    proof (cases "answers m = Inr Pending")
      case True
      have step: "waitForVerificationResult answers m = waitForVerificationResult answers (Suc m)"
        using m True by (subst waitForVerificationResult.simps) simp
      have "(\<exists>k\<ge>m. k \<le> 500 \<and> answers k = Inr Successful \<and> (\<forall>j. m \<le> j \<and> j < k \<longrightarrow> answers j = Inr Pending)) \<longleftrightarrow>
          (\<exists>k\<ge>Suc m. k \<le> 500 \<and> answers k = Inr Successful \<and> (\<forall>j. Suc m \<le> j \<and> j < k \<longrightarrow> answers j = Inr Pending))"
        using True by (metis Suc_leD Suc_leI nle_le le_neq_implies_less status.distinct(3) sum.inject(2))
      thus ?thesis using 1(1) m True step by simp
    next
      case False
      have "(\<exists>k\<ge>m. k \<le> 500 \<and> answers k = Inr Successful \<and> (\<forall>j. m \<le> j \<and> j < k \<longrightarrow> answers j = Inr Pending)) \<longleftrightarrow> answers m = Inr Successful" (is "?l = ?r")
      proof
        assume ?l
        then obtain k where k: "k \<ge> m" "answers k = Inr Successful" "\<And>j. m \<le> j \<Longrightarrow> j < k \<Longrightarrow> answers j = Inr Pending" by blast
        have "k = m" using k(1) k(3) [of m] False by (cases "k = m") auto
        thus ?r using k(2) by simp
      next
        assume ?r
        thus ?l using m by (intro exI [of _ m]) auto
      qed
      moreover have "snd (waitForVerificationResult answers m) \<le> 501 \<and> (fst (waitForVerificationResult answers m) = Inr () \<longleftrightarrow> answers m = Inr Successful)"
        using m False by (subst (1 2) waitForVerificationResult.simps) (auto split: sum.splits status.splits)
      ultimately show ?thesis by simp
    qed
  qed
qed

lemma polling_ends:
  "snd (waitForVerificationResult answers 0) \<le> 501 \<and> (fst (waitForVerificationResult answers 0) = Inr () \<longleftrightarrow>
     (\<exists>k\<le>500. answers k = Inr Successful \<and> (\<forall>j<k. answers j = Inr Pending)))"
  using polling_from [of 0 answers] by simp

section \<open>An example\<close>

definition exampleAddr :: string where
  "exampleAddr = ''0x'' @ replicate 40 CHR ''a''"

definition exampleLine :: string where
  "exampleLine = ''forge verify-contract '' @ exampleAddr @ '' Foo --verifier zksync''"

definition examplePrograms :: programs where
  "examplePrograms = \<lparr>
     p_find = (\<lambda>args. Some (if last args = ''Foo.sol'' then ''/r/l1-contracts/contracts/Foo.sol'' @ [CHR 0x0A] else [])),
     p_exists = (\<lambda>f. f = ''/r/l1-contracts/foundry.toml''),
     p_shell = (\<lambda>_ _ _. True),
     p_env = (\<lambda>n. if n = ''ETHERSCAN_API_KEY'' then Some ''secret'' else None),
     p_root = ''/r'',
     p_log = (\<lambda>f. if f = ''log'' then Some (''Deploying'' @ [CHR 0x0A] @ exampleLine) else None) \<rparr>"

definition exampleStart :: verifyState where
  "exampleStart = \<lparr> printed = [], commands = [] \<rparr>"

lemma example_find: "findSource examplePrograms name = (if name = ''Foo'' then ''/r/l1-contracts/contracts/Foo.sol'' else [])"
proof (cases "name = ''Foo''")
  case False
  hence "name @ ''.sol'' \<noteq> ''Foo'' @ ''.sol''" by (subst append_same_eq)
  thus ?thesis using False by (simp add: findSource_def examplePrograms_def trimText_def)
qed (simp add: findSource_def examplePrograms_def trimText_def isSpace_def)

lemma example_documented: "findDocumented examplePrograms"
proof -
  have root: "p_root examplePrograms = ''/r''" by (simp add: examplePrograms_def)
  have "findSource examplePrograms ''Foo'' = ''/r/l1-contracts'' @ below [''contracts'', ''Foo.sol'']" by (simp add: example_find below_def)
  moreover have "list_all component [''contracts'', ''Foo.sol'']" by (simp add: component_def)
  ultimately have "\<exists>start cs. start \<in> {''/r/l1-contracts'', ''/r/da-contracts''} \<and> cs \<noteq> [] \<and> list_all component cs \<and>
      findSource examplePrograms ''Foo'' = start @ below cs" by blast
  thus ?thesis unfolding findDocumented_def root by (simp add: example_find)
qed


theorem api_key_hidden_witness:
  "\<exists>ok s'. tryVerify examplePrograms ''mainnet'' exampleAddr ''Foo'' [] ''/r'' False exampleStart = (Inr ok, s') \<and>
     printed s' = [''(cd /r && forge verify-contract '' @ exampleAddr @ '' Foo  --etherscan-api-key [REDACTED] --chain mainnet --watch)'']"
proof -
  have "\<not> includesText API_KEY_FLAG (verifyPrefix exampleAddr ''Foo'' [])"
    by (simp add: API_KEY_FLAG_def verifyPrefix_def exampleAddr_def numeral_eq_Suc)
  thus ?thesis using api_key_hidden [of examplePrograms "''secret''" exampleAddr "''Foo''" "[]" "''mainnet''" "''/r''" exampleStart]
    by (auto simp: examplePrograms_def exampleStart_def verifyPrefix_def)
qed

lemma example_match: "matchCommand exampleLine = Some (exampleAddr, ''Foo'', '' --verifier zksync'')"
proof -
  have a: "takeWhile (\<lambda>c. \<not> isSpace c) (exampleAddr @ CHR '' '' # t) = exampleAddr" "dropWhile (\<lambda>c. \<not> isSpace c) (exampleAddr @ CHR '' '' # t) = CHR '' '' # t"
    for t by (simp_all add: exampleAddr_def isSpace_def numeral_eq_Suc)
  have "dropWhile isSpace (CHR '' '' # exampleAddr @ t) = exampleAddr @ t" for t by (simp add: exampleAddr_def isSpace_def)
  hence "matchHere exampleLine = Some (exampleAddr, ''Foo'', '' --verifier zksync'')"
    using a by (simp add: matchHere_def afterWord_def exampleLine_def isSpace_def Let_def) (simp add: exampleAddr_def)
  thus ?thesis by (simp add: exampleLine_def)
qed

lemma example_line:
  "\<exists>s'. verifyLine examplePrograms ''stage'' exampleLine s = (Inr (Inr ''Foo''), s')"
proof -
  let ?sol = "''/r/l1-contracts/contracts/Foo.sol''"
  have root: "p_root examplePrograms = ''/r''" by (simp add: examplePrograms_def)
  have sol: "?sol = ''/r/l1-contracts'' @ below [''contracts'', ''Foo.sol'']" by (simp add: below_def)
  have "\<exists>dir. projectRoot examplePrograms (''/r/l1-contracts'' @ below [''contracts'', ''Foo.sol'']) = Some (Inr dir)"
    using projectRoot_below [of "''/r/l1-contracts''" examplePrograms "''/l1-contracts''" "[''contracts'', ''Foo.sol'']"]
    by (auto simp: root component_def)
  then obtain dir where dir: "projectRoot examplePrograms ?sol = Some (Inr dir)" unfolding sol by blast
  have f: "findContractAndRoot examplePrograms ''Foo'' s = (Inr (Some (?sol, dir, ''Foo'')), s)"
    by (simp add: findContractAndRoot_def example_find dir bindE_apply eff_simps)
  have hex: "matchesHex 40 exampleAddr" by (simp add: exampleAddr_def matchesHex_def isHexDigit_def digitVal_def list_all_iff)
  obtain url where url: "ZKSYNC_VERIFIER_URLS ''stage'' = Some url" by (simp add: ZKSYNC_VERIFIER_URLS_def)
  have shell: "p_shell examplePrograms i d c" for i d c by (simp add: examplePrograms_def)
  have zk: "includesText ''--verifier zksync'' '' --verifier zksync''" by simp
  have "\<exists>s'. attempts examplePrograms ''stage'' exampleAddr ''Foo'' ''Foo'' '' --verifier zksync'' dir True
      (s\<lparr> printed := printed s @ [''Foo found: '' @ ?sol @ '' (project root: '' @ dir @ '')''] \<rparr>) = (Inr True, s')"
    by (simp add: attempts_def tryVerify_def url runCommand_def execSync_def shell thenE_def bindE_apply eff_simps printLine_def)
  then obtain s' where att: "attempts examplePrograms ''stage'' exampleAddr ''Foo'' ''Foo'' '' --verifier zksync'' dir True
      (s\<lparr> printed := printed s @ [''Foo found: '' @ ?sol @ '' (project root: '' @ dir @ '')''] \<rparr>) = (Inr True, s')" by blast
  have "verifyLine examplePrograms ''stage'' exampleLine s = (Inr (Inr ''Foo''), s')"
    using att by (simp add: verifyLine_def example_match hex bindE_apply f thenE_def eff_simps printLine_def del: includesText.simps add: zk)
  thus ?thesis by blast
qed

lemma example_run: "\<exists>s'. verifyContracts examplePrograms ''log'' None exampleStart = (Inr (), s')"
proof -
  have "includesText ''forge verify-contract'' exampleLine" "\<not> includesText ''forge verify-contract'' ''Deploying''"
    by (simp_all add: exampleLine_def)
  moreover have "splitOn CHR 0x0A (''Deploying'' @ [CHR 0x0A] @ exampleLine) = [''Deploying'', exampleLine]"
    by (simp add: exampleLine_def exampleAddr_def numeral_eq_Suc)
  moreover have "p_log examplePrograms ''log'' = Some (''Deploying'' @ [CHR 0x0A] @ exampleLine)" by (simp add: examplePrograms_def)
  moreover obtain s1 where "verifyLine examplePrograms ''stage'' exampleLine exampleStart = (Inr (Inr ''Foo''), s1)"
    using example_line by blast
  moreover have "map lowerChar ''stage'' = ''stage''" by (simp add: lowerChar_def)
  ultimately show ?thesis
    by (simp add: verifyContracts_def truthyStr_def Let_def bindE_apply thenE_def eff_simps printLine_def verifiedNames_def skippedNames_def
        del: includesText.simps splitOn.simps)
qed

theorem verify_contracts_exit_zero_witness:
  "\<exists>s' n. verifyContracts examplePrograms ''log'' None exampleStart = (Inr (), s') \<and>
     n \<in> {PROXY_NAME, ''Foo''} \<and> verified examplePrograms 0 s' exampleAddr n '' --verifier zksync''"
proof -
  obtain s' where run: "verifyContracts examplePrograms ''log'' None exampleStart = (Inr (), s')" using example_run by blast
  have log: "p_log examplePrograms ''log'' = Some (''Deploying'' @ [CHR 0x0A] @ exampleLine)" by (simp add: examplePrograms_def)
  have "exampleLine \<in> set (splitOn CHR 0x0A (''Deploying'' @ [CHR 0x0A] @ exampleLine))" "includesText ''forge verify-contract'' exampleLine"
    by (simp_all add: exampleLine_def exampleAddr_def numeral_eq_Suc)
  hence "lineVerified examplePrograms (length (commands exampleStart)) s' exampleLine"
    using verify_contracts_exit_zero [OF run] unfolding log option.inject by blast
  thus ?thesis using run by (auto simp: lineVerified_def example_match exampleStart_def fallbackFor_def)
qed

end
